(* ===== verification/Prelude.thy ===== *)
theory Prelude
  imports
    Complex_Main
    "HOL-Library.List_Lexorder"
    "HOL-Library.Char_ord"
    "HOL-Library.Product_Lexorder"
    "HOL-Library.Option_ord"
    "HOL-Library.Sublist"
begin

text \<open>
  Shared vocabulary of the development: Python results and text, JSON values, and the
  fragment of SQL that the repositories of \<^verbatim>\<open>capslock/storage\<close> use.

  A Python call that may raise returns \<open>py_error + 'a\<close>; \<open>Inl\<close> is the exception.  The
  message of a \<open>ValueError\<close> is the source's text.  Text is a \<open>char list\<close>, one
  \<open>char\<close> per code point, so the model covers the code points below 256.  A table is the
  list of its rows in row-id order.  \<open>INSERT\<close> appends after the table's constraints hold,
  \<open>UPDATE\<close> rewrites the rows that match, and a statement that breaks a constraint is
  \<open>IntegrityError\<close>.  A transaction that raises is rolled back, which is why the operations
  return no database together with an error.
\<close>

named_theorems sql \<open>facts on tables used by every repository\<close>
named_theorems frame \<open>what an operation leaves unchanged\<close>
named_theorems keeps \<open>invariants kept by an operation\<close>

section \<open>Results\<close>

datatype py_error =
    ValueError string
  | IntegrityError
  | RuntimeError string
  | AssertionError
  | KeyError
  | TypeError
  | AttributeError
  | ProgrammingError
  | CancelledError
  | Raised string string

text \<open>\<open>Raised n t\<close> is an exception of any other class \<open>n\<close> with the text \<open>t\<close>.\<close>

type_synonym 'a res = "py_error + 'a"

definition rbind :: "'a res \<Rightarrow> ('a \<Rightarrow> 'b res) \<Rightarrow> 'b res" where
  "rbind r f = (case r of Inl e \<Rightarrow> Inl e | Inr x \<Rightarrow> f x)"

definition check :: "bool \<Rightarrow> string \<Rightarrow> unit res" where
  "check ok message = (if ok then Inr () else Inl (ValueError message))"

definition is_ok :: "'a res \<Rightarrow> bool" where
  "is_ok r = (case r of Inl _ \<Rightarrow> False | Inr _ \<Rightarrow> True)"

lemma rbind_simps [simp]: "rbind (Inl e) f = Inl e" "rbind (Inr x) f = f x"
  by (simp_all add: rbind_def)

lemma rbind_Inr_iff: "rbind r f = Inr y \<longleftrightarrow> (\<exists>x. r = Inr x \<and> f x = Inr y)"
  by (cases r) auto

lemma rbind_InrE:
  assumes "rbind r f = Inr y"
  obtains x where "r = Inr x" and "f x = Inr y"
  using assms by (auto simp: rbind_Inr_iff)

lemma rbind_Inl_iff: "rbind r f = Inl e \<longleftrightarrow> r = Inl e \<or> (\<exists>x. r = Inr x \<and> f x = Inl e)"
  by (cases r) auto

lemma rbind_assoc: "rbind (rbind r f) g = rbind r (\<lambda>x. rbind (f x) g)"
  by (cases r) auto

lemma check_Inr_iff [simp]: "check ok m = Inr u \<longleftrightarrow> ok"
  by (simp add: check_def)

lemma check_Inl_iff [simp]: "check ok m = Inl e \<longleftrightarrow> \<not> ok \<and> e = ValueError m"
  by (auto simp: check_def)

lemma is_ok_iff: "is_ok r \<longleftrightarrow> (\<exists>x. r = Inr x)"
  by (cases r) (auto simp: is_ok_def)

lemma is_ok_simps [simp]: "is_ok (Inr x)" "\<not> is_ok (Inl e)"
  by (simp_all add: is_ok_def)

section \<open>Python text\<close>

text \<open>\<open>str.isspace\<close> on code points below 256.\<close>

definition py_space :: "char \<Rightarrow> bool" where
  "py_space c = (let n = of_char c :: nat
     in (9 \<le> n \<and> n \<le> 13) \<or> (28 \<le> n \<and> n \<le> 32) \<or> n = 133 \<or> n = 160)"

definition lstrip :: "string \<Rightarrow> string" where
  "lstrip s = dropWhile py_space s"

definition rstrip :: "string \<Rightarrow> string" where
  "rstrip s = rev (dropWhile py_space (rev s))"

definition strip :: "string \<Rightarrow> string" where
  "strip s = rstrip (lstrip s)"

text \<open>\<open>str.split()\<close>: maximal runs of non-space characters.  The accumulator is the word
  being read, reversed.\<close>

fun split_words :: "string \<Rightarrow> string \<Rightarrow> string list" where
  "split_words w [] = (if w = [] then [] else [rev w])"
| "split_words w (c # cs) =
     (if py_space c then (if w = [] then split_words [] cs else rev w # split_words [] cs)
      else split_words (c # w) cs)"

definition py_split :: "string \<Rightarrow> string list" where
  "py_split s = split_words [] s"

text \<open>\<open>s.split(c)\<close>.\<close>

fun split_on :: "char \<Rightarrow> string \<Rightarrow> string \<Rightarrow> string list" where
  "split_on c w [] = [rev w]"
| "split_on c w (x # xs) = (if x = c then rev w # split_on c [] xs else split_on c (x # w) xs)"

fun py_join :: "string \<Rightarrow> string list \<Rightarrow> string" where
  "py_join sep [] = []"
| "py_join sep [w] = w"
| "py_join sep (w # ws) = w @ sep @ py_join sep ws"

definition startswith :: "string \<Rightarrow> string \<Rightarrow> bool" where
  "startswith s p = (take (length p) s = p)"

definition endswith :: "string \<Rightarrow> string \<Rightarrow> bool" where
  "endswith s p = (length p \<le> length s \<and> drop (length s - length p) s = p)"

text \<open>\<open>p in s\<close>.\<close>

fun contains_text :: "string \<Rightarrow> string \<Rightarrow> bool" where
  "contains_text p [] = (p = [])"
| "contains_text p (c # cs) = (startswith (c # cs) p \<or> contains_text p cs)"

text \<open>\<open>x or dflt\<close> on optional text: the empty string is falsy.\<close>

definition or_text :: "string option \<Rightarrow> string \<Rightarrow> string" where
  "or_text x dflt = (case x of None \<Rightarrow> dflt | Some s \<Rightarrow> if s = [] then dflt else s)"

text \<open>SQL \<open>coalesce\<close> of two values.\<close>

definition coalesce :: "'a option \<Rightarrow> 'a option \<Rightarrow> 'a option" where
  "coalesce x y = (case x of None \<Rightarrow> y | Some v \<Rightarrow> Some v)"

lemma coalesce_simps [simp]: "coalesce None y = y" "coalesce (Some v) y = Some v"
  by (simp_all add: coalesce_def)

lemma py_space_blank [simp]: "py_space (CHR '' '')"
  by (simp add: py_space_def)

lemma py_space_dot [simp]: "\<not> py_space (CHR ''.'')"
  by (simp add: py_space_def)

lemma startswith_append [simp]: "startswith (p @ s) p"
  by (simp add: startswith_def)

lemma startswith_iff: "startswith s p \<longleftrightarrow> (\<exists>r. s = p @ r)"
  unfolding startswith_def by (metis append_eq_conv_conj append_take_drop_id)

lemma rstrip_prefix: "\<exists>r. s = rstrip s @ r \<and> (\<forall>c \<in> set r. py_space c)"
proof -
  have "rev s = takeWhile py_space (rev s) @ dropWhile py_space (rev s)" by simp
  then have "s = rstrip s @ rev (takeWhile py_space (rev s))"
    unfolding rstrip_def by (metis rev_append rev_rev_ident)
  then show ?thesis by (metis set_rev set_takeWhileD)
qed

lemma rstrip_last: "rstrip s \<noteq> [] \<Longrightarrow> \<not> py_space (last (rstrip s))"
  unfolding rstrip_def by (metis Nil_is_rev_conv hd_dropWhile last_rev)

lemma rstrip_length: "length (rstrip s) \<le> length s"
  unfolding rstrip_def by (metis length_dropWhile_le length_rev)

text \<open>SQLite's \<open>LIKE\<close>: \<open>%\<close> stands for any text, \<open>_\<close> for any character, ASCII letters match in
  both cases.\<close>

definition ascii_lower :: "char \<Rightarrow> char" where
  "ascii_lower c = (let n = of_char c :: nat in if 65 \<le> n \<and> n \<le> 90 then char_of (n + 32) else c)"

fun sql_like :: "string \<Rightarrow> string \<Rightarrow> bool" where
  "sql_like [] s = (s = [])"
| "sql_like (p # ps) s =
     (if p = CHR ''%'' then list_ex (sql_like ps) (suffixes s)
      else case s of [] \<Rightarrow> False
        | c # cs \<Rightarrow> (p = CHR ''_'' \<or> ascii_lower p = ascii_lower c) \<and> sql_like ps cs)"

section \<open>JSON values\<close>

text \<open>The Python values that cross a \<open>json.dumps\<close>/\<open>json.loads\<close> boundary.  A JSON
  column holds the value itself.  A float is carried as the text \<open>float.__repr__\<close> gives
  it; a dictionary lists its items in insertion order, with distinct keys.\<close>

datatype json =
    JNull
  | JBool bool
  | JInt int
  | JFloat string
  | JStr string
  | JList "json list"
  | JObj "(string \<times> json) list"

fun nat_digits :: "nat \<Rightarrow> string" where
  "nat_digits n = (if n < 10 then [char_of (48 + n)] else nat_digits (n div 10) @ [char_of (48 + n mod 10)])"

definition py_int_str :: "int \<Rightarrow> string" where
  "py_int_str i = (if i < 0 then CHR ''-'' # nat_digits (nat (- i)) else nat_digits (nat i))"

definition hex_digit :: "nat \<Rightarrow> char" where
  "hex_digit n = char_of (if n < 10 then 48 + n else 87 + n)"

definition hex_byte :: "char \<Rightarrow> string" where
  "hex_byte c = [hex_digit (of_char c div 16), hex_digit (of_char c mod 16)]"

text \<open>String escapes of \<open>json.dumps(..., ensure_ascii=False)\<close>.\<close>

definition json_escape_char :: "char \<Rightarrow> string" where
  "json_escape_char c = (let n = of_char c :: nat in
     if n = 34 then [char_of (92::nat), c]
     else if n = 92 then [c, c]
     else if n = 10 then [char_of (92::nat), CHR ''n'']
     else if n = 13 then [char_of (92::nat), CHR ''r'']
     else if n = 9 then [char_of (92::nat), CHR ''t'']
     else if n = 12 then [char_of (92::nat), CHR ''f'']
     else if n = 8 then [char_of (92::nat), CHR ''b'']
     else if n < 32 then char_of (92::nat) # ''u00'' @ hex_byte c
     else [c])"

definition json_string :: "string \<Rightarrow> string" where
  "json_string s = [char_of (34::nat)] @ concat (map json_escape_char s) @ [char_of (34::nat)]"

fun json_dumps :: "json \<Rightarrow> string" where
  "json_dumps JNull = ''null''"
| "json_dumps (JBool b) = (if b then ''true'' else ''false'')"
| "json_dumps (JInt i) = py_int_str i"
| "json_dumps (JFloat t) = t"
| "json_dumps (JStr s) = json_string s"
| "json_dumps (JList vs) = ''['' @ py_join '', '' (map json_dumps vs) @ '']''"
| "json_dumps (JObj kvs) =
     ''{'' @ py_join '', '' (map (\<lambda>kv. json_string (fst kv) @ '': '' @ json_dumps (snd kv)) kvs) @ ''}''"

text \<open>\<open>repr\<close> and \<open>str\<close> of such a value.\<close>

definition py_repr_char :: "char \<Rightarrow> char \<Rightarrow> string" where
  "py_repr_char quote c = (let n = of_char c :: nat in
     if c = quote \<or> n = 92 then [char_of (92::nat), c]
     else if n = 10 then [char_of (92::nat), CHR ''n'']
     else if n = 13 then [char_of (92::nat), CHR ''r'']
     else if n = 9 then [char_of (92::nat), CHR ''t'']
     else if n < 32 \<or> (127 \<le> n \<and> n \<le> 160) \<or> n = 173
     then char_of (92::nat) # CHR ''x'' # hex_byte c
     else [c])"

definition py_repr_str :: "string \<Rightarrow> string" where
  "py_repr_str s = (let single = char_of (39::nat); double = char_of (34::nat);
       quote = (if single \<in> set s \<and> double \<notin> set s then double else single)
     in [quote] @ concat (map (py_repr_char quote) s) @ [quote])"

fun py_repr :: "json \<Rightarrow> string" where
  "py_repr JNull = ''None''"
| "py_repr (JBool b) = (if b then ''True'' else ''False'')"
| "py_repr (JInt i) = py_int_str i"
| "py_repr (JFloat t) = t"
| "py_repr (JStr s) = py_repr_str s"
| "py_repr (JList vs) = ''['' @ py_join '', '' (map py_repr vs) @ '']''"
| "py_repr (JObj kvs) =
     ''{'' @ py_join '', '' (map (\<lambda>kv. py_repr_str (fst kv) @ '': '' @ py_repr (snd kv)) kvs) @ ''}''"

fun py_str :: "json \<Rightarrow> string" where
  "py_str (JStr s) = s"
| "py_str v = py_repr v"

text \<open>\<open>str\<close> of a nullable text column.\<close>

definition py_str_opt :: "string option \<Rightarrow> string" where
  "py_str_opt x = (case x of None \<Rightarrow> ''None'' | Some s \<Rightarrow> s)"

text \<open>\<open>bool\<close> of such a value.\<close>

fun py_truthy :: "json \<Rightarrow> bool" where
  "py_truthy JNull = False"
| "py_truthy (JBool b) = b"
| "py_truthy (JInt i) = (i \<noteq> 0)"
| "py_truthy (JFloat t) = (t \<notin> {''0.0'', ''-0.0''})"
| "py_truthy (JStr s) = (s \<noteq> [])"
| "py_truthy (JList vs) = (vs \<noteq> [])"
| "py_truthy (JObj kvs) = (kvs \<noteq> [])"

text \<open>\<open>list(v)\<close>.\<close>

fun py_list :: "json \<Rightarrow> json list res" where
  "py_list (JList vs) = Inr vs"
| "py_list (JObj kvs) = Inr (map (\<lambda>kv. JStr (fst kv)) kvs)"
| "py_list (JStr s) = Inr (map (\<lambda>c. JStr [c]) s)"
| "py_list _ = Inl TypeError"

text \<open>Binding a value to a nullable \<open>TEXT\<close> column of a \<open>STRICT\<close> table: numbers take the
  text affinity, a list or a dictionary cannot be bound.\<close>

fun sql_text :: "json \<Rightarrow> string option res" where
  "sql_text JNull = Inr None"
| "sql_text (JBool b) = Inr (Some (if b then ''1'' else ''0''))"
| "sql_text (JInt i) = Inr (Some (py_int_str i))"
| "sql_text (JFloat t) = Inr (Some t)"
| "sql_text (JStr s) = Inr (Some s)"
| "sql_text _ = Inl ProgrammingError"

fun is_dict :: "json \<Rightarrow> bool" where
  "is_dict (JObj _) = True"
| "is_dict _ = False"

fun is_list :: "json \<Rightarrow> bool" where
  "is_list (JList _) = True"
| "is_list _ = False"

fun is_str :: "json \<Rightarrow> bool" where
  "is_str (JStr _) = True"
| "is_str _ = False"

fun hashable :: "json \<Rightarrow> bool" where
  "hashable (JList _) = False"
| "hashable (JObj _) = False"
| "hashable _ = True"

fun jget :: "json \<Rightarrow> string \<Rightarrow> json option" where
  "jget (JObj fields) k = map_of fields k"
| "jget _ k = None"

definition jfield :: "json \<Rightarrow> string \<Rightarrow> json" where
  "jfield v k = (case jget v k of None \<Rightarrow> JNull | Some x \<Rightarrow> x)"

definition jopt :: "string option \<Rightarrow> json" where
  "jopt x = (case x of None \<Rightarrow> JNull | Some s \<Rightarrow> JStr s)"

lemma jopt_simps [simp]: "jopt None = JNull" "jopt (Some s) = JStr s"
  by (simp_all add: jopt_def)

text \<open>\<open>json_set(v, '$.k', x)\<close>: replace the field or append it; no effect on a value that is
  not an object.\<close>

fun set_field :: "string \<Rightarrow> 'v \<Rightarrow> (string \<times> 'v) list \<Rightarrow> (string \<times> 'v) list" where
  "set_field k x [] = [(k, x)]"
| "set_field k x ((k', y) # kvs) = (if k' = k then (k, x) # kvs else (k', y) # set_field k x kvs)"

fun json_set :: "string \<Rightarrow> json \<Rightarrow> json \<Rightarrow> json" where
  "json_set k x (JObj kvs) = JObj (set_field k x kvs)"
| "json_set k x v = v"

lemma map_of_set_field: "map_of (set_field k x kvs) = (map_of kvs)(k \<mapsto> x)"
  by (induction k x kvs rule: set_field.induct) auto

section \<open>Tables\<close>
definition sql_update :: "('r \<Rightarrow> bool) \<Rightarrow> ('r \<Rightarrow> 'r) \<Rightarrow> 'r list \<Rightarrow> 'r list" where
  "sql_update p f t = map (\<lambda>r. if p r then f r else r) t"

definition rowcount :: "('r \<Rightarrow> bool) \<Rightarrow> 'r list \<Rightarrow> nat" where
  "rowcount p t = length (filter p t)"

definition sql_delete :: "('r \<Rightarrow> bool) \<Rightarrow> 'r list \<Rightarrow> 'r list" where
  "sql_delete p t = filter (\<lambda>r. \<not> p r) t"

definition exists_row :: "('r \<Rightarrow> bool) \<Rightarrow> 'r list \<Rightarrow> bool" where
  "exists_row p t = list_ex p t"

text \<open>\<open>SELECT ... WHERE p\<close> followed by \<open>fetchone\<close>.\<close>

definition fetch_one :: "('r \<Rightarrow> bool) \<Rightarrow> 'r list \<Rightarrow> 'r option" where
  "fetch_one p t = find p t"

text \<open>\<open>SELECT ... WHERE p ORDER BY k LIMIT 1\<close>, ascending and descending.\<close>

definition first_by :: "('r \<Rightarrow> 'k::linorder) \<Rightarrow> ('r \<Rightarrow> bool) \<Rightarrow> 'r list \<Rightarrow> 'r option" where
  "first_by k p t = (case sort_key k (filter p t) of [] \<Rightarrow> None | r # _ \<Rightarrow> Some r)"

definition last_by :: "('r \<Rightarrow> 'k::linorder) \<Rightarrow> ('r \<Rightarrow> bool) \<Rightarrow> 'r list \<Rightarrow> 'r option" where
  "last_by k p t = (case rev (sort_key k (filter p t)) of [] \<Rightarrow> None | r # _ \<Rightarrow> Some r)"

text \<open>\<open>coalesce(max(k), b)\<close> over the rows that match.\<close>

definition max_or :: "int \<Rightarrow> ('r \<Rightarrow> int) \<Rightarrow> ('r \<Rightarrow> bool) \<Rightarrow> 'r list \<Rightarrow> int" where
  "max_or b k p t = (case filter p t of [] \<Rightarrow> b | r # rs \<Rightarrow> fold (\<lambda>x m. max (k x) m) rs (k r))"

text \<open>\<open>INSERT\<close>: \<open>ok\<close> is the row's \<open>CHECK\<close> and \<open>REFERENCES\<close> constraints,
  \<open>clash\<close> says that two rows share a primary or unique key.\<close>

definition sql_insert ::
  "('r \<Rightarrow> bool) \<Rightarrow> ('r \<Rightarrow> 'r \<Rightarrow> bool) \<Rightarrow> 'r \<Rightarrow> 'r list \<Rightarrow> 'r list res" where
  "sql_insert ok clash r t =
     (if ok r \<and> \<not> list_ex (clash r) t then Inr (t @ [r]) else Inl IntegrityError)"

text \<open>Shapes of \<open>CHECK\<close> clauses on nullable columns.\<close>

definition optional_in :: "'a list \<Rightarrow> 'a option \<Rightarrow> bool" where
  "optional_in xs v = (case v of None \<Rightarrow> True | Some x \<Rightarrow> x \<in> set xs)"

definition optional_nonneg :: "int option \<Rightarrow> bool" where
  "optional_nonneg v = (case v of None \<Rightarrow> True | Some n \<Rightarrow> 0 \<le> n)"

text \<open>An \<open>UPDATE\<close> whose new rows must pass the table's \<open>CHECK\<close> clauses.\<close>

definition sql_set :: "('r \<Rightarrow> bool) \<Rightarrow> ('r \<Rightarrow> bool) \<Rightarrow> ('r \<Rightarrow> 'r) \<Rightarrow> 'r list \<Rightarrow> 'r list res" where
  "sql_set ok p f t =
     (if list_all (\<lambda>r. p r \<longrightarrow> ok (f r)) t then Inr (sql_update p f t) else Inl IntegrityError)"

lemma sql_set_Inr [sql]:
  "sql_set ok p f t = Inr t' \<longleftrightarrow> (\<forall>r \<in> set t. p r \<longrightarrow> ok (f r)) \<and> t' = sql_update p f t"
  by (auto simp: sql_set_def list_all_iff)

lemma exists_row_iff [simp]: "exists_row p t \<longleftrightarrow> (\<exists>r \<in> set t. p r)"
  by (simp add: exists_row_def list_ex_iff)

lemma rowcount_0_iff [simp]: "rowcount p t = 0 \<longleftrightarrow> (\<forall>r \<in> set t. \<not> p r)"
  by (auto simp: rowcount_def filter_empty_conv)

lemma set_sql_update [sql]: "set (sql_update p f t) = (\<lambda>r. if p r then f r else r) ` set t"
  by (auto simp: sql_update_def)

lemma sql_updateE:
  assumes "r \<in> set (sql_update p f t)"
  obtains x where "x \<in> set t" and "p x" and "r = f x" | "r \<in> set t" and "\<not> p r"
  using assms by (auto simp: sql_update_def split: if_splits)

lemma sql_update_hit: "x \<in> set t \<Longrightarrow> p x \<Longrightarrow> f x \<in> set (sql_update p f t)"
  by (force simp: sql_update_def)

lemma sql_update_miss: "x \<in> set t \<Longrightarrow> \<not> p x \<Longrightarrow> x \<in> set (sql_update p f t)"
  by (force simp: sql_update_def)

lemma sql_update_clears: "(\<And>x. \<not> p (f x)) \<Longrightarrow> r \<in> set (sql_update p f t) \<Longrightarrow> \<not> p r"
  by (erule sql_updateE) simp_all

lemma map_sql_update:
  "(\<And>r. p r \<Longrightarrow> k (f r) = k r) \<Longrightarrow> map k (sql_update p f t) = map k t"
  by (auto simp: sql_update_def)

lemma sql_update_none: "(\<And>r. r \<in> set t \<Longrightarrow> \<not> p r) \<Longrightarrow> sql_update p f t = t"
  by (simp add: sql_update_def map_idI)

lemma length_sql_update [simp]: "length (sql_update p f t) = length t"
  by (simp add: sql_update_def)

lemma fetch_one_Some: "fetch_one p t = Some r \<Longrightarrow> r \<in> set t \<and> p r"
  by (auto simp: fetch_one_def find_Some_iff)

lemma fetch_one_None [sql]: "fetch_one p t = None \<longleftrightarrow> (\<forall>r \<in> set t. \<not> p r)"
  by (auto simp: fetch_one_def find_None_iff)

lemma fetch_one_simps [simp]:
  "fetch_one p [] = None" "fetch_one p (r # t) = (if p r then Some r else fetch_one p t)"
  by (simp_all add: fetch_one_def)

lemma fetch_one_append:
  "fetch_one p (t @ u) = (case fetch_one p t of None \<Rightarrow> fetch_one p u | Some r \<Rightarrow> Some r)"
  by (induction t) (auto simp: fetch_one_def)

lemma fetch_one_key:
  assumes "distinct (map k t)" and "r \<in> set t"
  shows "fetch_one (\<lambda>x. k x = k r) t = Some r"
  using assms by (induction t) (auto simp: fetch_one_def image_iff)

lemma sql_insert_Inr [sql]:
  "sql_insert ok clash r t = Inr t' \<longleftrightarrow> ok r \<and> (\<forall>x \<in> set t. \<not> clash r x) \<and> t' = t @ [r]"
  by (auto simp: sql_insert_def list_ex_iff)

lemma first_by_Some:
  assumes "first_by k p t = Some r"
  shows "r \<in> set t \<and> p r \<and> (\<forall>x \<in> set t. p x \<longrightarrow> k r \<le> k x)"
proof -
  obtain rs where eq: "sort_key k (filter p t) = r # rs"
    using assms by (auto simp: first_by_def split: list.splits)
  then have "sorted (map k (r # rs))" by (metis sorted_sort_key)
  moreover have "set (r # rs) = {x \<in> set t. p x}"
    using eq by (metis set_filter set_sort)
  ultimately show ?thesis by auto
qed

lemma first_by_None: "first_by k p t = None \<longleftrightarrow> (\<forall>r \<in> set t. \<not> p r)"
proof -
  have "first_by k p t = None \<longleftrightarrow> sort_key k (filter p t) = []"
    by (simp add: first_by_def split: list.splits)
  also have "\<dots> \<longleftrightarrow> filter p t = []" by (metis length_0_conv length_sort)
  finally show ?thesis by (simp add: filter_empty_conv)
qed

lemma last_by_Some:
  assumes "last_by k p t = Some r"
  shows "r \<in> set t \<and> p r \<and> (\<forall>x \<in> set t. p x \<longrightarrow> k x \<le> k r)"
proof -
  obtain rs where "rev (sort_key k (filter p t)) = r # rs"
    using assms by (auto simp: last_by_def split: list.splits)
  then have eq: "sort_key k (filter p t) = rev rs @ [r]" by (simp add: rev_eq_Cons_iff)
  then have "sorted (map k (rev rs @ [r]))" by (metis sorted_sort_key)
  moreover have "set (rev rs @ [r]) = {x \<in> set t. p x}"
    using eq by (metis set_filter set_sort)
  ultimately show ?thesis by (auto simp: sorted_append)
qed

lemma last_by_None: "last_by k p t = None \<longleftrightarrow> (\<forall>r \<in> set t. \<not> p r)"
proof -
  have "last_by k p t = None \<longleftrightarrow> sort_key k (filter p t) = []"
    by (simp add: last_by_def split: list.splits)
  also have "\<dots> \<longleftrightarrow> filter p t = []" by (metis length_0_conv length_sort)
  finally show ?thesis by (simp add: filter_empty_conv)
qed

lemma fold_max_ge:
  "m \<le> fold (\<lambda>x m. max (k x) m) rs (m::int) \<and>
   (\<forall>x \<in> set rs. k x \<le> fold (\<lambda>x m. max (k x) m) rs m)"
proof (induction rs arbitrary: m)
  case (Cons r rs)
  have "max (k r) m \<le> fold (\<lambda>x m. max (k x) m) rs (max (k r) m)"
    using Cons.IH by blast
  with Cons.IH[of "max (k r) m"] show ?case by auto
qed simp

lemma fold_max_in:
  "fold (\<lambda>x m. max (k x) m) rs (m::int) = m \<or>
   (\<exists>x \<in> set rs. fold (\<lambda>x m. max (k x) m) rs m = k x)"
proof (induction rs arbitrary: m)
  case (Cons r rs)
  from Cons.IH[of "max (k r) m"] show ?case by (auto simp: max_def split: if_splits)
qed simp

lemma max_or_ge: "x \<in> set t \<Longrightarrow> p x \<Longrightarrow> k x \<le> max_or b k p t"
proof -
  assume "x \<in> set t" "p x"
  then have x: "x \<in> set (filter p t)" by simp
  then show ?thesis
    unfolding max_or_def using fold_max_ge[of _ k] by (cases "filter p t") auto
qed

lemma max_or_in:
  "(\<exists>x \<in> set t. p x \<and> max_or b k p t = k x) \<or> ((\<forall>x \<in> set t. \<not> p x) \<and> max_or b k p t = b)"
proof (cases "filter p t")
  case Nil
  then show ?thesis by (auto simp: max_or_def filter_empty_conv)
next
  case (Cons r rs)
  then have sub: "set (r # rs) = {x \<in> set t. p x}" by (metis set_filter)
  show ?thesis using fold_max_in[of k rs "k r"] sub Cons by (auto simp: max_or_def)
qed

text \<open>The row with a given key (\<open>SELECT ... WHERE id=?\<close>), and a table without duplicate
  keys (\<open>PRIMARY KEY\<close>).\<close>

definition row_by :: "('r \<Rightarrow> 'k) \<Rightarrow> 'k \<Rightarrow> 'r list \<Rightarrow> 'r option" where
  "row_by key i t = fetch_one (\<lambda>r. key r = i) t"

definition unique_by :: "('r \<Rightarrow> 'k) \<Rightarrow> 'r list \<Rightarrow> bool" where
  "unique_by key t = distinct (map key t)"

lemma row_by_Some: "row_by key i t = Some r \<Longrightarrow> r \<in> set t \<and> key r = i"
  by (auto simp: row_by_def dest: fetch_one_Some)

lemma row_by_None: "row_by key i t = None \<longleftrightarrow> (\<forall>r \<in> set t. key r \<noteq> i)"
  by (auto simp: row_by_def fetch_one_None)

lemma row_by_member: "unique_by key t \<Longrightarrow> r \<in> set t \<Longrightarrow> row_by key (key r) t = Some r"
  by (simp add: unique_by_def row_by_def fetch_one_key)

lemma row_by_Some_iff: "unique_by key t \<Longrightarrow> row_by key i t = Some r \<longleftrightarrow> r \<in> set t \<and> key r = i"
  using row_by_member row_by_Some by fastforce

lemma unique_by_eq: "unique_by key t \<Longrightarrow> x \<in> set t \<Longrightarrow> y \<in> set t \<Longrightarrow> key x = key y \<Longrightarrow> x = y"
  by (auto simp: unique_by_def distinct_map inj_on_def)

lemma unique_by_update: "unique_by key t \<Longrightarrow> (\<And>r. p r \<Longrightarrow> key (f r) = key r) \<Longrightarrow> unique_by key (sql_update p f t)"
  by (simp add: unique_by_def map_sql_update)

lemma unique_by_insert [simp]:
  "unique_by key (t @ [r]) \<longleftrightarrow> unique_by key t \<and> (\<forall>x \<in> set t. key x \<noteq> key r)"
  by (auto simp: unique_by_def image_iff)

lemma unique_by_Nil [simp]: "unique_by key []"
  by (simp add: unique_by_def)

lemma unique_by_delete: "unique_by key t \<Longrightarrow> unique_by key (sql_delete p t)"
  by (simp add: unique_by_def sql_delete_def distinct_map_filter)

lemma row_by_update:
  assumes "\<And>r. p r \<Longrightarrow> key (f r) = key r"
  shows "row_by key i (sql_update p f t) = map_option (\<lambda>r. if p r then f r else r) (row_by key i t)"
  using assms by (induction t) (auto simp: row_by_def fetch_one_def sql_update_def)

lemma row_by_insert:
  "row_by key i (t @ [r]) = (case row_by key i t of None \<Rightarrow> if key r = i then Some r else None | Some x \<Rightarrow> Some x)"
  by (simp add: row_by_def fetch_one_append) (simp add: fetch_one_def split: option.splits)

end
