(* ===== verification/Lifecycle.thy ===== *)
theory Lifecycle
  imports Prelude
begin

text \<open>
  Contracts of the state machines that the program keeps in tables of allowed transitions
  (\<open>WORK_ITEM_TRANSITIONS\<close>, \<open>ACTION_TRANSITIONS\<close>, \<open>ALLOWED_STATE_TRANSITIONS\<close> and the
  implicit machines of plans and permission requests).  A \<open>lifecycle\<close> has final states
  that no transition leaves, and a \<open>ranked_lifecycle\<close> has in addition a measure that every
  transition lowers, so that its histories are bounded.
\<close>

locale lifecycle =
  fixes allowed :: "'s \<Rightarrow> 's list"
    and final :: "'s \<Rightarrow> bool"
  assumes final_stuck: "final s \<Longrightarrow> allowed s = []"
begin

primrec history :: "'s \<Rightarrow> 's list \<Rightarrow> bool" where
  "history s [] = True"
| "history s (t # ts) = (t \<in> set (allowed s) \<and> history t ts)"

lemma history_final: "final s \<Longrightarrow> history s ts \<longleftrightarrow> ts = []"
  by (cases ts) (auto simp: final_stuck)

lemma history_append: "history s (ts @ us) \<longleftrightarrow> history s ts \<and> history (last (s # ts)) us"
  by (induction ts arbitrary: s) auto

lemma final_only_last:
  assumes "history s (ts @ t # us)" and "final t"
  shows "us = []"
  using assms by (auto simp: history_append history_final)

end

locale ranked_lifecycle = lifecycle allowed final
  for allowed :: "'s \<Rightarrow> 's list" and final :: "'s \<Rightarrow> bool" +
  fixes rank :: "'s \<Rightarrow> nat"
  assumes rank_lowers: "t \<in> set (allowed s) \<Longrightarrow> rank t < rank s"
begin

lemma history_bounded: "history s ts \<Longrightarrow> length ts \<le> rank s"
proof (induction ts arbitrary: s)
  case (Cons t ts)
  then have "length ts \<le> rank t" and "rank t < rank s" by (auto dest: rank_lowers)
  then show ?case by simp
qed simp

lemma history_descends: "history s ts \<Longrightarrow> sorted_wrt (\<lambda>x y. rank y < rank x) (s # ts)"
proof (induction ts arbitrary: s)
  case (Cons t ts)
  then have "rank t < rank s" and "sorted_wrt (\<lambda>x y. rank y < rank x) (t # ts)"
    by (auto dest: rank_lowers)
  then show ?case by fastforce
qed simp

lemma history_distinct: "history s ts \<Longrightarrow> distinct (s # ts)"
proof (induction ts arbitrary: s)
  case (Cons t ts)
  then have "sorted_wrt (\<lambda>x y. rank y < rank x) (s # t # ts)" by (blast dest: history_descends)
  with Cons show ?case by auto
qed simp

end

end
