(* ===== verification/Workflow_Domain.thy ===== *)
theory Workflow_Domain
  imports Lifecycle
begin

text \<open>
  The workflow's domain types and rules: \<^verbatim>\<open>capslock/domain/workflow.py\<close> (statuses, the work
  item transition table, the classification of final statuses and the outcome of an
  approval), \<^verbatim>\<open>capslock/domain/sessions.py\<close> (title rules), and the enumerations of
  \<^verbatim>\<open>capslock/domain/actions.py\<close> and \<^verbatim>\<open>capslock/domain/plans.py\<close>.  A \<open>StrEnum\<close> is a
  datatype with a \<open>..._value\<close> function for its text.
\<close>

section \<open>Statuses and kinds\<close>

datatype WorkItemStatus =
    WI_QUEUED | WI_RUNNING | WI_WAITING_APPROVAL | WI_WAITING_INPUT | WI_COMPLETED
  | WI_FAILED | WI_CANCELLED | WI_INTERRUPTED | WI_STOPPED

fun work_item_value :: "WorkItemStatus \<Rightarrow> string" where
  "work_item_value WI_QUEUED = ''queued''"
| "work_item_value WI_RUNNING = ''running''"
| "work_item_value WI_WAITING_APPROVAL = ''waiting_approval''"
| "work_item_value WI_WAITING_INPUT = ''waiting_input''"
| "work_item_value WI_COMPLETED = ''completed''"
| "work_item_value WI_FAILED = ''failed''"
| "work_item_value WI_CANCELLED = ''cancelled''"
| "work_item_value WI_INTERRUPTED = ''interrupted''"
| "work_item_value WI_STOPPED = ''stopped''"

datatype RunKind = RK_AGENT | RK_INIT | RK_LOCAL_COMMAND | RK_SIDE_QUESTION | RK_SESSION_SEED

fun run_kind_value :: "RunKind \<Rightarrow> string" where
  "run_kind_value RK_AGENT = ''agent''"
| "run_kind_value RK_INIT = ''init''"
| "run_kind_value RK_LOCAL_COMMAND = ''local_command''"
| "run_kind_value RK_SIDE_QUESTION = ''side_question''"
| "run_kind_value RK_SESSION_SEED = ''session_seed''"

datatype RunStepKind = SK_MODEL | SK_TOOL | SK_APPROVAL | SK_MAILBOX

fun step_kind_value :: "RunStepKind \<Rightarrow> string" where
  "step_kind_value SK_MODEL = ''model''"
| "step_kind_value SK_TOOL = ''tool''"
| "step_kind_value SK_APPROVAL = ''approval''"
| "step_kind_value SK_MAILBOX = ''mailbox''"

datatype RunStepStatus =
  ST_RUNNING | ST_WAITING_APPROVAL | ST_WAITING_INPUT | ST_COMPLETED | ST_FAILED | ST_CANCELLED

fun step_status_value :: "RunStepStatus \<Rightarrow> string" where
  "step_status_value ST_RUNNING = ''running''"
| "step_status_value ST_WAITING_APPROVAL = ''waiting_approval''"
| "step_status_value ST_WAITING_INPUT = ''waiting_input''"
| "step_status_value ST_COMPLETED = ''completed''"
| "step_status_value ST_FAILED = ''failed''"
| "step_status_value ST_CANCELLED = ''cancelled''"

datatype AgentEventKind =
    EV_QUEUED | EV_THINKING | EV_TEXT_DELTA | EV_TOOL_QUEUED | EV_TOOL_RUNNING
  | EV_TOOL_PROGRESS | EV_TOOL_PERMISSION | EV_TOOL_COMPLETED | EV_TOOL_CANCELLED
  | EV_CONTEXT_UPDATED | EV_BUDGET_UPDATED | EV_LIMIT_REACHED | EV_BUDGET_EXTENDED
  | EV_WAITING_APPROVAL | EV_WAITING_INPUT | EV_COMPLETED | EV_FAILED | EV_CANCELLED | EV_STOPPED

fun terminal_event :: "AgentEventKind \<Rightarrow> bool" where
  "terminal_event EV_WAITING_APPROVAL = True"
| "terminal_event EV_WAITING_INPUT = True"
| "terminal_event EV_COMPLETED = True"
| "terminal_event EV_FAILED = True"
| "terminal_event EV_CANCELLED = True"
| "terminal_event EV_STOPPED = True"
| "terminal_event _ = False"

section \<open>Work item transitions\<close>

fun WORK_ITEM_TRANSITIONS :: "WorkItemStatus \<Rightarrow> WorkItemStatus list" where
  "WORK_ITEM_TRANSITIONS WI_QUEUED = [WI_RUNNING, WI_CANCELLED]"
| "WORK_ITEM_TRANSITIONS WI_RUNNING =
     [WI_WAITING_APPROVAL, WI_WAITING_INPUT, WI_COMPLETED, WI_FAILED, WI_CANCELLED,
      WI_INTERRUPTED, WI_STOPPED]"
| "WORK_ITEM_TRANSITIONS WI_WAITING_APPROVAL = [WI_COMPLETED, WI_FAILED, WI_CANCELLED]"
| "WORK_ITEM_TRANSITIONS WI_WAITING_INPUT = [WI_RUNNING, WI_FAILED, WI_CANCELLED]"
| "WORK_ITEM_TRANSITIONS _ = []"

definition FINALIZABLE_WORK_ITEM_STATUSES :: "WorkItemStatus list" where
  "FINALIZABLE_WORK_ITEM_STATUSES =
     [WI_WAITING_APPROVAL, WI_WAITING_INPUT, WI_COMPLETED, WI_FAILED, WI_CANCELLED,
      WI_INTERRUPTED, WI_STOPPED]"

definition validate_work_item_transition ::
  "WorkItemStatus \<Rightarrow> WorkItemStatus \<Rightarrow> unit res" where
  "validate_work_item_transition current target =
     (if target = current then Inr ()
      else if target \<notin> set (WORK_ITEM_TRANSITIONS current)
      then Inl (ValueError (''invalid work item transition: '' @ work_item_value current
                            @ '' -> '' @ work_item_value target))
      else Inr ())"

definition validate_final_status :: "WorkItemStatus \<Rightarrow> unit res" where
  "validate_final_status status =
     (if status \<notin> set FINALIZABLE_WORK_ITEM_STATUSES
      then Inl (ValueError (''unsupported workflow final status: '' @ work_item_value status))
      else Inr ())"

fun interrupted_step_status :: "WorkItemStatus \<Rightarrow> RunStepStatus option" where
  "interrupted_step_status WI_CANCELLED = Some ST_CANCELLED"
| "interrupted_step_status WI_FAILED = Some ST_FAILED"
| "interrupted_step_status WI_INTERRUPTED = Some ST_FAILED"
| "interrupted_step_status WI_STOPPED = Some ST_FAILED"
| "interrupted_step_status _ = None"

record ApprovalOutcome =
  ao_status :: WorkItemStatus
  ao_event_kind :: AgentEventKind
  ao_error_code :: "string option"
  ao_error_message :: "string option"

definition approval_outcome ::
  "string option \<Rightarrow> string option \<Rightarrow> string option \<Rightarrow> ApprovalOutcome" where
  "approval_outcome failed_status error_code error_message = (case failed_status of
      None \<Rightarrow> \<lparr>ao_status = WI_COMPLETED, ao_event_kind = EV_COMPLETED,
               ao_error_code = None, ao_error_message = None\<rparr>
    | Some failed \<Rightarrow>
        (let cancelled = (failed = ''cancelled'');
             status = (if cancelled then WI_CANCELLED else WI_FAILED);
             kind = (if cancelled then EV_CANCELLED else EV_FAILED)
         in \<lparr>ao_status = status, ao_event_kind = kind,
             ao_error_code = Some (or_text error_code (work_item_value status)),
             ao_error_message =
               Some (or_text error_message (''action '' @ work_item_value status))\<rparr>))"

text \<open>The statuses no transition leaves.\<close>

definition work_item_final :: "WorkItemStatus \<Rightarrow> bool" where
  "work_item_final s \<longleftrightarrow> s \<in> {WI_COMPLETED, WI_FAILED, WI_CANCELLED, WI_INTERRUPTED, WI_STOPPED}"

definition work_item_active :: "WorkItemStatus \<Rightarrow> bool" where
  "work_item_active s \<longleftrightarrow> s \<in> {WI_RUNNING, WI_WAITING_APPROVAL, WI_WAITING_INPUT}"

interpretation wi: lifecycle WORK_ITEM_TRANSITIONS work_item_final
  by unfold_locales (auto simp: work_item_final_def)

lemma validate_work_item_transition_ok:
  "validate_work_item_transition c t = Inr () \<longleftrightarrow> t = c \<or> t \<in> set (WORK_ITEM_TRANSITIONS c)"
  by (simp add: validate_work_item_transition_def)

lemma validate_final_status_ok:
  "validate_final_status s = Inr () \<longleftrightarrow> s \<noteq> WI_QUEUED \<and> s \<noteq> WI_RUNNING"
  by (cases s) (simp_all add: validate_final_status_def FINALIZABLE_WORK_ITEM_STATUSES_def)

lemma final_not_active: "work_item_final s \<Longrightarrow> \<not> work_item_active s"
  by (auto simp: work_item_final_def work_item_active_def)

lemma status_cases: "s = WI_QUEUED \<or> work_item_active s \<or> work_item_final s"
  by (cases s) (auto simp: work_item_final_def work_item_active_def)

lemma work_item_value_inj: "work_item_value s = work_item_value t \<longleftrightarrow> s = t"
  by (cases s; cases t) simp_all

section \<open>Session titles\<close>

datatype SessionTitleSource = TS_PENDING | TS_FIRST_QUESTION | TS_MANUAL

definition MAX_SESSION_TITLE_LENGTH :: nat where
  "MAX_SESSION_TITLE_LENGTH = 80"

definition normalize_session_title :: "string \<Rightarrow> bool \<Rightarrow> string res" where
  "normalize_session_title value truncated =
     (let title = py_join '' '' (py_split value) in
      if title = [] then Inl (ValueError ''session title cannot be empty'')
      else if length title \<le> MAX_SESSION_TITLE_LENGTH then Inr title
      else if truncated then Inr (rstrip (take (MAX_SESSION_TITLE_LENGTH - 3) title) @ ''...'')
      else Inl (ValueError ''session title cannot exceed 80 characters''))"

definition pending_session_title :: "string \<Rightarrow> string" where
  "pending_session_title created_at =
     ''New session - '' @ map (\<lambda>c. if c = CHR ''T'' then CHR '' '' else c) (take 16 created_at)"

section \<open>Actions and plans\<close>

datatype ActionType =
    AT_FILE_EDIT | AT_FILE_CREATE | AT_NOTEBOOK_EDIT | AT_WORKTREE_CREATE | AT_WORKTREE_EXIT
  | AT_COMMAND | AT_WEB_SEARCH | AT_WEB_FETCH | AT_MCP_CONNECT | AT_MCP_CALL
  | AT_CREDENTIAL_ACCESS | AT_SESSION_REWIND

datatype ActionStatus =
  AS_PENDING | AS_APPROVED | AS_RUNNING | AS_COMPLETED | AS_FAILED | AS_REJECTED | AS_CANCELLED

fun action_status_value :: "ActionStatus \<Rightarrow> string" where
  "action_status_value AS_PENDING = ''pending''"
| "action_status_value AS_APPROVED = ''approved''"
| "action_status_value AS_RUNNING = ''running''"
| "action_status_value AS_COMPLETED = ''completed''"
| "action_status_value AS_FAILED = ''failed''"
| "action_status_value AS_REJECTED = ''rejected''"
| "action_status_value AS_CANCELLED = ''cancelled''"

datatype ApprovalDecision = AD_APPROVE | AD_REJECT

datatype ApprovalChoice = AC_APPROVE_ONCE | AC_APPROVE_SESSION | AC_APPROVE_LOCAL | AC_REJECT

datatype ActionResultKind =
    AR_APPLIED | AR_UNDONE | AR_EXIT_ZERO | AR_NONZERO_EXIT | AR_TIMEOUT | AR_EXECUTION_ERROR
  | AR_USER_CANCELLED | AR_SUCCESS

datatype PlanStatus =
    PS_DRAFT | PS_AWAITING_APPROVAL | PS_APPROVED | PS_IMPLEMENTING | PS_IMPLEMENTED
  | PS_IMPLEMENTATION_FAILED | PS_REJECTED | PS_CANCELLED

fun plan_status_value :: "PlanStatus \<Rightarrow> string" where
  "plan_status_value PS_DRAFT = ''draft''"
| "plan_status_value PS_AWAITING_APPROVAL = ''awaiting_approval''"
| "plan_status_value PS_APPROVED = ''approved''"
| "plan_status_value PS_IMPLEMENTING = ''implementing''"
| "plan_status_value PS_IMPLEMENTED = ''implemented''"
| "plan_status_value PS_IMPLEMENTATION_FAILED = ''implementation_failed''"
| "plan_status_value PS_REJECTED = ''rejected''"
| "plan_status_value PS_CANCELLED = ''cancelled''"

datatype PlanRequestKind = PK_ENTER | PK_SUBMIT

datatype PlanRequestStatus = PR_PENDING | PR_APPROVED | PR_FEEDBACK | PR_REJECTED | PR_CANCELLED

datatype PlanApprovalChoice = PC_ENTER | PC_IMPLEMENT | PC_FEEDBACK | PC_REJECT

text \<open>\<open>PlanRecord.active\<close>.\<close>

definition plan_active :: "PlanStatus \<Rightarrow> bool" where
  "plan_active s \<longleftrightarrow> s \<in> {PS_DRAFT, PS_AWAITING_APPROVAL}"

end
