(* ===== verification/Schema_Workflow.thy ===== *)
theory Schema_Workflow
  imports Workflow_Domain
begin

text \<open>
  Rows of the workspace tables that carry the workflow, from \<open>WORKSPACE_SCHEMA\<close> in
  \<^verbatim>\<open>capslock/storage/schema.py\<close>: one record per table, a column per field, and the
  \<open>CHECK\<close> clauses as a predicate on the row.  Time stamps are ISO texts.  A run's status
  column has the work item's statuses without \<open>queued\<close>.
\<close>

record session_row =
  s_id :: string
  s_model :: string
  s_model_profile :: "string option"
  s_created_at :: string
  s_updated_at :: string
  s_summary :: string
  s_title :: string
  s_title_source :: SessionTitleSource
  s_title_updated_at :: "string option"
  s_archived_at :: "string option"
  s_deletion_state :: "string option"

definition session_check :: "session_row \<Rightarrow> bool" where
  "session_check r \<longleftrightarrow> s_deletion_state r \<in> {None, Some ''deleting''}"

record work_item_row =
  wi_id :: string
  wi_session :: string
  wi_question :: string
  wi_kind :: RunKind
  wi_status :: WorkItemStatus
  wi_position :: int
  wi_parent :: "string option"
  wi_error :: "string option"
  wi_created_at :: string
  wi_updated_at :: string

definition work_item_check :: "work_item_row \<Rightarrow> bool" where
  "work_item_check r \<longleftrightarrow> 0 \<le> wi_position r"

record run_row =
  r_id :: string
  r_session :: string
  r_work_item :: string
  r_question :: string
  r_kind :: RunKind
  r_status :: WorkItemStatus
  r_started_at :: string
  r_finished_at :: "string option"
  r_duration_ms :: "int option"
  r_input_tokens :: int
  r_output_tokens :: int
  r_cost :: rat
  r_error_code :: "string option"
  r_error_message :: "string option"
  r_parent :: "string option"
  r_resume_from :: "string option"
  r_stop_reason :: "string option"

definition stop_reasons :: "string list" where
  "stop_reasons = [''max_tool_rounds'', ''max_tool_calls'', ''max_duration'', ''max_tokens'',
                   ''max_budget_usd'', ''repeated_tool_call'']"

definition run_check :: "run_row \<Rightarrow> bool" where
  "run_check r \<longleftrightarrow> r_status r \<noteq> WI_QUEUED \<and> optional_nonneg (r_duration_ms r)
     \<and> 0 \<le> r_input_tokens r \<and> 0 \<le> r_output_tokens r \<and> 0 \<le> r_cost r
     \<and> optional_in stop_reasons (r_stop_reason r)"

record step_row =
  st_id :: string
  st_run :: string
  st_ordinal :: int
  st_kind :: RunStepKind
  st_status :: RunStepStatus
  st_checkpoint :: "json option"
  st_started_at :: string
  st_finished_at :: "string option"
  st_error :: "string option"
  st_mailbox_ids :: "string list option"
  st_mailbox_pending :: "json option"
  st_mailbox_pending_sha256 :: "string option"

definition step_check :: "step_row \<Rightarrow> bool" where
  "step_check r \<longleftrightarrow> 0 \<le> st_ordinal r"

record event_row =
  e_run :: string
  e_sequence :: int
  e_id :: string
  e_trace :: string
  e_kind :: AgentEventKind
  e_payload :: json
  e_created_at :: string

definition event_check :: "event_row \<Rightarrow> bool" where
  "event_check r \<longleftrightarrow> 1 \<le> e_sequence r \<and> e_kind r \<noteq> EV_CONTEXT_UPDATED"

record message_row =
  m_session :: string
  m_run :: string
  m_role :: string
  m_content :: string
  m_created_at :: string

definition message_check :: "message_row \<Rightarrow> bool" where
  "message_check r \<longleftrightarrow> m_role r \<in> {''user'', ''assistant''}"

end
