(* ===== verification/Schema_Tools.thy ===== *)
theory Schema_Tools
  imports Workflow_Domain
begin

text \<open>
  Rows of the tables for actions, tool invocations, user-input requests and permissions, from
  \<open>WORKSPACE_SCHEMA\<close> in \<^verbatim>\<open>capslock/storage/schema.py\<close>.  Columns that the repositories take
  as plain text (\<open>status\<close>, \<open>choice\<close>, \<open>behavior\<close>) stay text and are bounded by their
  \<open>CHECK\<close> clause.
\<close>

record action_row =
  a_id :: string
  a_session :: string
  a_run :: string
  a_type :: ActionType
  a_status :: ActionStatus
  a_result_kind :: "ActionResultKind option"
  a_summary :: string
  a_request :: json
  a_result :: "json option"
  a_risk_level :: "string option"
  a_risk_reason :: "string option"
  a_rollback :: "string option"
  a_error_code :: "string option"
  a_error_message :: "string option"
  a_created_at :: string
  a_approved_at :: "string option"
  a_started_at :: "string option"
  a_finished_at :: "string option"
  a_reversed_at :: "string option"
  a_decided_at :: "string option"
  a_historical_only :: bool
  a_requires_reapproval :: bool

record tool_call_row =
  tc_run :: string
  tc_name :: string
  tc_arguments :: json
  tc_ok :: bool
  tc_summary :: string
  tc_duration_ms :: int
  tc_invocation :: "string option"

definition tool_call_check :: "tool_call_row \<Rightarrow> bool" where
  "tool_call_check r \<longleftrightarrow> 0 \<le> tc_duration_ms r"

record invocation_row =
  i_id :: string
  i_run :: string
  i_session :: string
  i_sequence :: int
  i_call :: string
  i_name :: string
  i_spec :: json
  i_capabilities :: json
  i_policy :: json
  i_arguments :: json
  i_status :: string
  i_execution :: "string option"
  i_delivery :: "string option"
  i_timings :: json
  i_preview :: "string option"
  i_artifact :: "string option"
  i_error_code :: "string option"
  i_pause_kind :: "string option"
  i_pause_request :: "string option"
  i_continuation :: "json option"
  i_started_at :: string
  i_finished_at :: "string option"
  i_duration_ms :: "int option"
  i_delivered :: "json option"

definition invocation_statuses :: "string list" where
  "invocation_statuses =
     [''received'', ''validating'', ''authorizing'', ''queued'', ''running'',
      ''waiting_approval'', ''waiting_input'', ''completed'', ''failed'', ''cancelled'']"

definition invocation_check :: "invocation_row \<Rightarrow> bool" where
  "invocation_check r \<longleftrightarrow> 1 \<le> i_sequence r \<and> i_status r \<in> set invocation_statuses
     \<and> optional_in [''succeeded'', ''failed'', ''denied'', ''cancelled''] (i_execution r)
     \<and> optional_in [''inline'', ''artifact'', ''truncated'', ''delivery_failed''] (i_delivery r)
     \<and> optional_in [''approval'', ''user_input''] (i_pause_kind r)
     \<and> optional_nonneg (i_duration_ms r)"

record input_request_row =
  q_id :: string
  q_session :: string
  q_run :: string
  q_invocation :: string
  q_status :: string
  q_questions :: json
  q_answers :: "json option"
  q_resume_data :: json
  q_created_at :: string
  q_answered_at :: "string option"

definition input_request_check :: "input_request_row \<Rightarrow> bool" where
  "input_request_check r \<longleftrightarrow> q_status r \<in> {''pending'', ''answered'', ''cancelled''}"

record decision_row =
  pd_id :: string
  pd_invocation :: string
  pd_behavior :: string
  pd_source :: string
  pd_reason :: string
  pd_reason_code :: string
  pd_mode :: string
  pd_arguments_sha256 :: string
  pd_rule :: "json option"
  pd_classifier :: "json option"
  pd_suggestions :: "json list"
  pd_decided_by :: "string option"
  pd_created_at :: string

definition decision_check :: "decision_row \<Rightarrow> bool" where
  "decision_check r \<longleftrightarrow> pd_behavior r \<in> {''allow'', ''ask'', ''deny''}
     \<and> pd_mode r \<in> {''full_access'', ''approve_for_me'', ''ask_for_approval''}"

record rule_row =
  pu_id :: string
  pu_session :: string
  pu_behavior :: string
  pu_tool :: string
  pu_constraints :: json
  pu_matcher_version :: int
  pu_created_at :: string

definition rule_check :: "rule_row \<Rightarrow> bool" where
  "rule_check r \<longleftrightarrow> pu_behavior r \<in> {''allow'', ''ask'', ''deny''} \<and> pu_matcher_version r \<in> {1, 2}"

record permission_row =
  pr_id :: string
  pr_session :: string
  pr_run :: string
  pr_invocation :: string
  pr_tool :: string
  pr_arguments_sha256 :: string
  pr_reason :: string
  pr_suggestions :: "json list"
  pr_status :: string
  pr_choice :: "string option"
  pr_selected_update :: "json option"
  pr_feedback :: "string option"
  pr_result :: "json option"
  pr_created_at :: string
  pr_decided_at :: "string option"

definition permission_check :: "permission_row \<Rightarrow> bool" where
  "permission_check r \<longleftrightarrow> pr_status r \<in> {''pending'', ''approved'', ''rejected'', ''cancelled''}
     \<and> optional_in [''approve_once'', ''approve_session'', ''approve_local'', ''reject''] (pr_choice r)"

record grant_row =
  g_id :: string
  g_request :: string
  g_session :: string
  g_run :: string
  g_invocation :: string
  g_tool :: string
  g_arguments_sha256 :: string
  g_consumed_at :: "string option"
  g_created_at :: string

record discovery_row =
  td_session :: string
  td_tool :: string
  td_generation :: int
  td_created_at :: string

definition discovery_check :: "discovery_row \<Rightarrow> bool" where
  "discovery_check r \<longleftrightarrow> 1 \<le> td_generation r"

text \<open>A setting holds a JSON value; a text that was not written by \<open>json.dumps\<close> is a
  \<open>JStr\<close>.\<close>

record setting_row =
  ws_key :: string
  ws_value :: json

end
