(* ===== verification/Schema_Plans.thy ===== *)
theory Schema_Plans
  imports Workflow_Domain
begin

text \<open>
  Rows of the tables for session plans, from \<open>WORKSPACE_SCHEMA\<close> in
  \<^verbatim>\<open>capslock/storage/schema.py\<close>.
\<close>

record plan_row =
  p_id :: string
  p_session :: string
  p_objective :: string
  p_status :: PlanStatus
  p_entry_source :: string
  p_base_mode :: string
  p_current_revision :: "string option"
  p_parent :: "string option"
  p_mirror :: string
  p_created_at :: string
  p_updated_at :: string

definition plan_check :: "plan_row \<Rightarrow> bool" where
  "plan_check r \<longleftrightarrow> p_entry_source r \<in> {''slash'', ''model'', ''resume'', ''branch'', ''rewind''}
     \<and> p_base_mode r \<in> {''full_access'', ''approve_for_me'', ''ask_for_approval''}"

record revision_row =
  v_id :: string
  v_plan :: string
  v_ordinal :: int
  v_content :: string
  v_sha256 :: string
  v_source :: string
  v_run :: "string option"
  v_created_at :: string

definition revision_check :: "revision_row \<Rightarrow> bool" where
  "revision_check r \<longleftrightarrow> 1 \<le> v_ordinal r
     \<and> v_source r \<in> {''initial'', ''model'', ''editor'', ''branch'', ''migration''}"

record plan_request_row =
  pq_id :: string
  pq_session :: string
  pq_plan :: "string option"
  pq_revision :: "string option"
  pq_kind :: PlanRequestKind
  pq_status :: PlanRequestStatus
  pq_run :: "string option"
  pq_invocation :: "string option"
  pq_objective :: "string option"
  pq_choice :: "PlanApprovalChoice option"
  pq_feedback :: "string option"
  pq_created_at :: string
  pq_decided_at :: "string option"

definition plan_request_check :: "plan_request_row \<Rightarrow> bool" where
  "plan_request_check r \<longleftrightarrow>
     (pq_kind r = PK_ENTER \<and> pq_revision r = None)
     \<or> (pq_kind r = PK_SUBMIT \<and> pq_plan r \<noteq> None \<and> pq_revision r \<noteq> None)"

record implementation_row =
  pi_plan :: string
  pi_revision :: string
  pi_request :: string
  pi_work_item :: string
  pi_run :: "string option"
  pi_status :: string
  pi_created_at :: string
  pi_updated_at :: string

definition implementation_check :: "implementation_row \<Rightarrow> bool" where
  "implementation_check r \<longleftrightarrow>
     pi_status r \<in> {''queued'', ''running'', ''completed'', ''failed'', ''cancelled''}"

end
