(* ===== verification/Schema.thy ===== *)
theory Schema
  imports Schema_Workflow Schema_Tools Schema_Plans
begin

text \<open>
  The workspace database: one field per table of \<open>WORKSPACE_SCHEMA\<close>
  (\<^verbatim>\<open>capslock/storage/schema.py\<close>) that the modelled repositories use, and one insert per
  table with the table's keys, \<open>CHECK\<close> clauses and foreign keys
  (\<open>PRAGMA foreign_keys=ON\<close>, \<^verbatim>\<open>capslock/storage/async_database.py\<close>).  The full-text
  triggers fill search indexes that no modelled operation reads, so they are left out.
\<close>

record db =
  d_sessions :: "session_row list"
  d_work_items :: "work_item_row list"
  d_runs :: "run_row list"
  d_steps :: "step_row list"
  d_events :: "event_row list"
  d_actions :: "action_row list"
  d_tool_calls :: "tool_call_row list"
  d_invocations :: "invocation_row list"
  d_inputs :: "input_request_row list"
  d_decisions :: "decision_row list"
  d_rules :: "rule_row list"
  d_permissions :: "permission_row list"
  d_grants :: "grant_row list"
  d_discoveries :: "discovery_row list"
  d_settings :: "setting_row list"
  d_plans :: "plan_row list"
  d_revisions :: "revision_row list"
  d_plan_requests :: "plan_request_row list"
  d_implementations :: "implementation_row list"

definition empty_db :: db where
  "empty_db = \<lparr>d_sessions = [], d_work_items = [], d_runs = [], d_steps = [], d_events = [],
     d_actions = [], d_tool_calls = [], d_invocations = [], d_inputs = [], d_decisions = [],
     d_rules = [], d_permissions = [], d_grants = [], d_discoveries = [], d_settings = [],
     d_plans = [], d_revisions = [], d_plan_requests = [], d_implementations = []\<rparr>"

section \<open>Foreign keys\<close>

definition has_session :: "db \<Rightarrow> string \<Rightarrow> bool" where
  "has_session d i = exists_row (\<lambda>r. s_id r = i) (d_sessions d)"

definition has_work_item :: "db \<Rightarrow> string \<Rightarrow> bool" where
  "has_work_item d i = exists_row (\<lambda>r. wi_id r = i) (d_work_items d)"

definition has_run :: "db \<Rightarrow> string \<Rightarrow> bool" where
  "has_run d i = exists_row (\<lambda>r. r_id r = i) (d_runs d)"

definition has_invocation :: "db \<Rightarrow> string \<Rightarrow> bool" where
  "has_invocation d i = exists_row (\<lambda>r. i_id r = i) (d_invocations d)"

definition has_permission :: "db \<Rightarrow> string \<Rightarrow> bool" where
  "has_permission d i = exists_row (\<lambda>r. pr_id r = i) (d_permissions d)"

definition has_plan :: "db \<Rightarrow> string \<Rightarrow> bool" where
  "has_plan d i = exists_row (\<lambda>r. p_id r = i) (d_plans d)"

definition has_revision :: "db \<Rightarrow> string \<Rightarrow> bool" where
  "has_revision d i = exists_row (\<lambda>r. v_id r = i) (d_revisions d)"

definition has_plan_request :: "db \<Rightarrow> string \<Rightarrow> bool" where
  "has_plan_request d i = exists_row (\<lambda>r. pq_id r = i) (d_plan_requests d)"

definition optional_ref :: "(string \<Rightarrow> bool) \<Rightarrow> string option \<Rightarrow> bool" where
  "optional_ref has v = (case v of None \<Rightarrow> True | Some i \<Rightarrow> has i)"

text \<open>Two rows clash on a nullable unique column when both hold the same value.\<close>

definition same_some :: "string option \<Rightarrow> string option \<Rightarrow> bool" where
  "same_some x y = (x \<noteq> None \<and> x = y)"

section \<open>Inserts\<close>

definition insert_session :: "session_row \<Rightarrow> db \<Rightarrow> db res" where
  "insert_session r d = rbind
     (sql_insert session_check (\<lambda>r x. s_id r = s_id x) r (d_sessions d))
     (\<lambda>t. Inr (d\<lparr>d_sessions := t\<rparr>))"

definition insert_work_item :: "work_item_row \<Rightarrow> db \<Rightarrow> db res" where
  "insert_work_item r d = rbind
     (sql_insert (\<lambda>r. work_item_check r \<and> has_session d (wi_session r)
          \<and> optional_ref (\<lambda>i. i = wi_id r \<or> has_work_item d i) (wi_parent r))
        (\<lambda>r x. wi_id r = wi_id x) r (d_work_items d))
     (\<lambda>t. Inr (d\<lparr>d_work_items := t\<rparr>))"

definition insert_run :: "run_row \<Rightarrow> db \<Rightarrow> db res" where
  "insert_run r d = rbind
     (sql_insert (\<lambda>r. run_check r \<and> has_session d (r_session r) \<and> has_work_item d (r_work_item r)
          \<and> optional_ref (\<lambda>i. i = r_id r \<or> has_run d i) (r_parent r))
        (\<lambda>r x. r_id r = r_id x) r (d_runs d))
     (\<lambda>t. Inr (d\<lparr>d_runs := t\<rparr>))"

definition insert_step :: "step_row \<Rightarrow> db \<Rightarrow> db res" where
  "insert_step r d = rbind
     (sql_insert (\<lambda>r. step_check r \<and> has_run d (st_run r))
        (\<lambda>r x. st_id r = st_id x \<or> (st_run r = st_run x \<and> st_ordinal r = st_ordinal x))
        r (d_steps d))
     (\<lambda>t. Inr (d\<lparr>d_steps := t\<rparr>))"

definition insert_event :: "event_row \<Rightarrow> db \<Rightarrow> db res" where
  "insert_event r d = rbind
     (sql_insert (\<lambda>r. event_check r \<and> has_run d (e_run r))
        (\<lambda>r x. e_id r = e_id x \<or> (e_run r = e_run x \<and> e_sequence r = e_sequence x))
        r (d_events d))
     (\<lambda>t. Inr (d\<lparr>d_events := t\<rparr>))"

definition insert_action :: "action_row \<Rightarrow> db \<Rightarrow> db res" where
  "insert_action r d = rbind
     (sql_insert (\<lambda>r. has_session d (a_session r) \<and> has_run d (a_run r))
        (\<lambda>r x. a_id r = a_id x) r (d_actions d))
     (\<lambda>t. Inr (d\<lparr>d_actions := t\<rparr>))"

definition insert_tool_call :: "tool_call_row \<Rightarrow> db \<Rightarrow> db res" where
  "insert_tool_call r d = rbind
     (sql_insert (\<lambda>r. tool_call_check r \<and> has_run d (tc_run r)
          \<and> optional_ref (has_invocation d) (tc_invocation r))
        (\<lambda>r x. same_some (tc_invocation r) (tc_invocation x)) r (d_tool_calls d))
     (\<lambda>t. Inr (d\<lparr>d_tool_calls := t\<rparr>))"

definition insert_invocation :: "invocation_row \<Rightarrow> db \<Rightarrow> db res" where
  "insert_invocation r d = rbind
     (sql_insert (\<lambda>r. invocation_check r \<and> has_run d (i_run r) \<and> has_session d (i_session r))
        (\<lambda>r x. i_id r = i_id x
           \<or> (i_run r = i_run x \<and> (i_sequence r = i_sequence x \<or> i_call r = i_call x)))
        r (d_invocations d))
     (\<lambda>t. Inr (d\<lparr>d_invocations := t\<rparr>))"

definition insert_input :: "input_request_row \<Rightarrow> db \<Rightarrow> db res" where
  "insert_input r d = rbind
     (sql_insert (\<lambda>r. input_request_check r \<and> has_session d (q_session r) \<and> has_run d (q_run r)
          \<and> has_invocation d (q_invocation r))
        (\<lambda>r x. q_id r = q_id x \<or> q_invocation r = q_invocation x) r (d_inputs d))
     (\<lambda>t. Inr (d\<lparr>d_inputs := t\<rparr>))"

definition insert_decision :: "decision_row \<Rightarrow> db \<Rightarrow> db res" where
  "insert_decision r d = rbind
     (sql_insert (\<lambda>r. decision_check r \<and> has_invocation d (pd_invocation r))
        (\<lambda>r x. pd_id r = pd_id x) r (d_decisions d))
     (\<lambda>t. Inr (d\<lparr>d_decisions := t\<rparr>))"

definition insert_rule :: "rule_row \<Rightarrow> db \<Rightarrow> db res" where
  "insert_rule r d = rbind
     (sql_insert (\<lambda>r. rule_check r \<and> has_session d (pu_session r))
        (\<lambda>r x. pu_id r = pu_id x) r (d_rules d))
     (\<lambda>t. Inr (d\<lparr>d_rules := t\<rparr>))"

definition insert_permission :: "permission_row \<Rightarrow> db \<Rightarrow> db res" where
  "insert_permission r d = rbind
     (sql_insert (\<lambda>r. permission_check r \<and> has_session d (pr_session r) \<and> has_run d (pr_run r)
          \<and> has_invocation d (pr_invocation r))
        (\<lambda>r x. pr_id r = pr_id x \<or> pr_invocation r = pr_invocation x) r (d_permissions d))
     (\<lambda>t. Inr (d\<lparr>d_permissions := t\<rparr>))"

definition insert_grant :: "grant_row \<Rightarrow> db \<Rightarrow> db res" where
  "insert_grant r d = rbind
     (sql_insert (\<lambda>r. has_permission d (g_request r) \<and> has_session d (g_session r)
          \<and> has_run d (g_run r) \<and> has_invocation d (g_invocation r))
        (\<lambda>r x. g_id r = g_id x \<or> g_request r = g_request x \<or> g_invocation r = g_invocation x)
        r (d_grants d))
     (\<lambda>t. Inr (d\<lparr>d_grants := t\<rparr>))"

definition insert_setting :: "setting_row \<Rightarrow> db \<Rightarrow> db res" where
  "insert_setting r d = rbind
     (sql_insert (\<lambda>_. True) (\<lambda>r x. ws_key r = ws_key x) r (d_settings d))
     (\<lambda>t. Inr (d\<lparr>d_settings := t\<rparr>))"

definition insert_plan :: "plan_row \<Rightarrow> db \<Rightarrow> db res" where
  "insert_plan r d = rbind
     (sql_insert (\<lambda>r. plan_check r \<and> has_session d (p_session r)
          \<and> optional_ref (\<lambda>i. i = p_id r \<or> has_plan d i) (p_parent r))
        (\<lambda>r x. p_id r = p_id x) r (d_plans d))
     (\<lambda>t. Inr (d\<lparr>d_plans := t\<rparr>))"

definition insert_revision :: "revision_row \<Rightarrow> db \<Rightarrow> db res" where
  "insert_revision r d = rbind
     (sql_insert (\<lambda>r. revision_check r \<and> has_plan d (v_plan r)
          \<and> optional_ref (has_run d) (v_run r))
        (\<lambda>r x. v_id r = v_id x
           \<or> (v_plan r = v_plan x \<and> (v_ordinal r = v_ordinal x \<or> v_sha256 r = v_sha256 x)))
        r (d_revisions d))
     (\<lambda>t. Inr (d\<lparr>d_revisions := t\<rparr>))"

definition insert_plan_request :: "plan_request_row \<Rightarrow> db \<Rightarrow> db res" where
  "insert_plan_request r d = rbind
     (sql_insert (\<lambda>r. plan_request_check r \<and> has_session d (pq_session r)
          \<and> optional_ref (has_plan d) (pq_plan r) \<and> optional_ref (has_revision d) (pq_revision r)
          \<and> optional_ref (has_run d) (pq_run r)
          \<and> optional_ref (has_invocation d) (pq_invocation r))
        (\<lambda>r x. pq_id r = pq_id x \<or> same_some (pq_invocation r) (pq_invocation x))
        r (d_plan_requests d))
     (\<lambda>t. Inr (d\<lparr>d_plan_requests := t\<rparr>))"

definition insert_implementation :: "implementation_row \<Rightarrow> db \<Rightarrow> db res" where
  "insert_implementation r d = rbind
     (sql_insert (\<lambda>r. implementation_check r \<and> has_plan d (pi_plan r)
          \<and> has_revision d (pi_revision r) \<and> has_plan_request d (pi_request r)
          \<and> has_work_item d (pi_work_item r) \<and> optional_ref (has_run d) (pi_run r))
        (\<lambda>r x. pi_plan r = pi_plan x \<or> pi_request r = pi_request x
           \<or> pi_work_item r = pi_work_item x \<or> same_some (pi_run r) (pi_run x))
        r (d_implementations d))
     (\<lambda>t. Inr (d\<lparr>d_implementations := t\<rparr>))"

lemmas insert_defs = insert_session_def insert_work_item_def insert_run_def insert_step_def
  insert_event_def insert_action_def insert_tool_call_def insert_invocation_def insert_input_def
  insert_decision_def insert_rule_def insert_permission_def insert_grant_def insert_setting_def
  insert_plan_def insert_revision_def insert_plan_request_def insert_implementation_def

section \<open>What a successful insert did\<close>

lemma insert_session_Inr:
  "insert_session r d = Inr d' \<longleftrightarrow> d' = d\<lparr>d_sessions := d_sessions d @ [r]\<rparr>
     \<and> (session_check r)
     \<and> (\<forall>x \<in> set (d_sessions d). \<not> (s_id r = s_id x))"
  unfolding insert_session_def rbind_Inr_iff sql_insert_Inr by blast

lemma insert_work_item_Inr:
  "insert_work_item r d = Inr d' \<longleftrightarrow> d' = d\<lparr>d_work_items := d_work_items d @ [r]\<rparr>
     \<and> (work_item_check r \<and> has_session d (wi_session r) \<and> optional_ref (\<lambda>i. i = wi_id r \<or> has_work_item d i) (wi_parent r))
     \<and> (\<forall>x \<in> set (d_work_items d). \<not> (wi_id r = wi_id x))"
  unfolding insert_work_item_def rbind_Inr_iff sql_insert_Inr by blast

lemma insert_run_Inr:
  "insert_run r d = Inr d' \<longleftrightarrow> d' = d\<lparr>d_runs := d_runs d @ [r]\<rparr>
     \<and> (run_check r \<and> has_session d (r_session r) \<and> has_work_item d (r_work_item r) \<and> optional_ref (\<lambda>i. i = r_id r \<or> has_run d i) (r_parent r))
     \<and> (\<forall>x \<in> set (d_runs d). \<not> (r_id r = r_id x))"
  unfolding insert_run_def rbind_Inr_iff sql_insert_Inr by blast

lemma insert_step_Inr:
  "insert_step r d = Inr d' \<longleftrightarrow> d' = d\<lparr>d_steps := d_steps d @ [r]\<rparr>
     \<and> (step_check r \<and> has_run d (st_run r))
     \<and> (\<forall>x \<in> set (d_steps d). \<not> (st_id r = st_id x \<or> (st_run r = st_run x \<and> st_ordinal r = st_ordinal x)))"
  unfolding insert_step_def rbind_Inr_iff sql_insert_Inr by blast

lemma insert_event_Inr:
  "insert_event r d = Inr d' \<longleftrightarrow> d' = d\<lparr>d_events := d_events d @ [r]\<rparr>
     \<and> (event_check r \<and> has_run d (e_run r))
     \<and> (\<forall>x \<in> set (d_events d). \<not> (e_id r = e_id x \<or> (e_run r = e_run x \<and> e_sequence r = e_sequence x)))"
  unfolding insert_event_def rbind_Inr_iff sql_insert_Inr by blast

lemma insert_action_Inr:
  "insert_action r d = Inr d' \<longleftrightarrow> d' = d\<lparr>d_actions := d_actions d @ [r]\<rparr>
     \<and> (has_session d (a_session r) \<and> has_run d (a_run r))
     \<and> (\<forall>x \<in> set (d_actions d). \<not> (a_id r = a_id x))"
  unfolding insert_action_def rbind_Inr_iff sql_insert_Inr by blast

lemma insert_tool_call_Inr:
  "insert_tool_call r d = Inr d' \<longleftrightarrow> d' = d\<lparr>d_tool_calls := d_tool_calls d @ [r]\<rparr>
     \<and> (tool_call_check r \<and> has_run d (tc_run r) \<and> optional_ref (has_invocation d) (tc_invocation r))
     \<and> (\<forall>x \<in> set (d_tool_calls d). \<not> (same_some (tc_invocation r) (tc_invocation x)))"
  unfolding insert_tool_call_def rbind_Inr_iff sql_insert_Inr by blast

lemma insert_invocation_Inr:
  "insert_invocation r d = Inr d' \<longleftrightarrow> d' = d\<lparr>d_invocations := d_invocations d @ [r]\<rparr>
     \<and> (invocation_check r \<and> has_run d (i_run r) \<and> has_session d (i_session r))
     \<and> (\<forall>x \<in> set (d_invocations d). \<not> (i_id r = i_id x \<or> (i_run r = i_run x \<and> (i_sequence r = i_sequence x \<or> i_call r = i_call x))))"
  unfolding insert_invocation_def rbind_Inr_iff sql_insert_Inr by blast

lemma insert_input_Inr:
  "insert_input r d = Inr d' \<longleftrightarrow> d' = d\<lparr>d_inputs := d_inputs d @ [r]\<rparr>
     \<and> (input_request_check r \<and> has_session d (q_session r) \<and> has_run d (q_run r) \<and> has_invocation d (q_invocation r))
     \<and> (\<forall>x \<in> set (d_inputs d). \<not> (q_id r = q_id x \<or> q_invocation r = q_invocation x))"
  unfolding insert_input_def rbind_Inr_iff sql_insert_Inr by blast

lemma insert_decision_Inr:
  "insert_decision r d = Inr d' \<longleftrightarrow> d' = d\<lparr>d_decisions := d_decisions d @ [r]\<rparr>
     \<and> (decision_check r \<and> has_invocation d (pd_invocation r))
     \<and> (\<forall>x \<in> set (d_decisions d). \<not> (pd_id r = pd_id x))"
  unfolding insert_decision_def rbind_Inr_iff sql_insert_Inr by blast

lemma insert_rule_Inr:
  "insert_rule r d = Inr d' \<longleftrightarrow> d' = d\<lparr>d_rules := d_rules d @ [r]\<rparr>
     \<and> (rule_check r \<and> has_session d (pu_session r))
     \<and> (\<forall>x \<in> set (d_rules d). \<not> (pu_id r = pu_id x))"
  unfolding insert_rule_def rbind_Inr_iff sql_insert_Inr by blast

lemma insert_permission_Inr:
  "insert_permission r d = Inr d' \<longleftrightarrow> d' = d\<lparr>d_permissions := d_permissions d @ [r]\<rparr>
     \<and> (permission_check r \<and> has_session d (pr_session r) \<and> has_run d (pr_run r) \<and> has_invocation d (pr_invocation r))
     \<and> (\<forall>x \<in> set (d_permissions d). \<not> (pr_id r = pr_id x \<or> pr_invocation r = pr_invocation x))"
  unfolding insert_permission_def rbind_Inr_iff sql_insert_Inr by blast

lemma insert_grant_Inr:
  "insert_grant r d = Inr d' \<longleftrightarrow> d' = d\<lparr>d_grants := d_grants d @ [r]\<rparr>
     \<and> (has_permission d (g_request r) \<and> has_session d (g_session r) \<and> has_run d (g_run r) \<and> has_invocation d (g_invocation r))
     \<and> (\<forall>x \<in> set (d_grants d). \<not> (g_id r = g_id x \<or> g_request r = g_request x \<or> g_invocation r = g_invocation x))"
  unfolding insert_grant_def rbind_Inr_iff sql_insert_Inr by blast

lemma insert_setting_Inr:
  "insert_setting r d = Inr d' \<longleftrightarrow> d' = d\<lparr>d_settings := d_settings d @ [r]\<rparr>
     \<and> (True)
     \<and> (\<forall>x \<in> set (d_settings d). \<not> (ws_key r = ws_key x))"
  unfolding insert_setting_def rbind_Inr_iff sql_insert_Inr by blast

lemma insert_plan_Inr:
  "insert_plan r d = Inr d' \<longleftrightarrow> d' = d\<lparr>d_plans := d_plans d @ [r]\<rparr>
     \<and> (plan_check r \<and> has_session d (p_session r) \<and> optional_ref (\<lambda>i. i = p_id r \<or> has_plan d i) (p_parent r))
     \<and> (\<forall>x \<in> set (d_plans d). \<not> (p_id r = p_id x))"
  unfolding insert_plan_def rbind_Inr_iff sql_insert_Inr by blast

lemma insert_revision_Inr:
  "insert_revision r d = Inr d' \<longleftrightarrow> d' = d\<lparr>d_revisions := d_revisions d @ [r]\<rparr>
     \<and> (revision_check r \<and> has_plan d (v_plan r) \<and> optional_ref (has_run d) (v_run r))
     \<and> (\<forall>x \<in> set (d_revisions d). \<not> (v_id r = v_id x \<or> (v_plan r = v_plan x \<and> (v_ordinal r = v_ordinal x \<or> v_sha256 r = v_sha256 x))))"
  unfolding insert_revision_def rbind_Inr_iff sql_insert_Inr by blast

lemma insert_plan_request_Inr:
  "insert_plan_request r d = Inr d' \<longleftrightarrow> d' = d\<lparr>d_plan_requests := d_plan_requests d @ [r]\<rparr>
     \<and> (plan_request_check r \<and> has_session d (pq_session r) \<and> optional_ref (has_plan d) (pq_plan r) \<and> optional_ref (has_revision d) (pq_revision r) \<and> optional_ref (has_run d) (pq_run r) \<and> optional_ref (has_invocation d) (pq_invocation r))
     \<and> (\<forall>x \<in> set (d_plan_requests d). \<not> (pq_id r = pq_id x \<or> same_some (pq_invocation r) (pq_invocation x)))"
  unfolding insert_plan_request_def rbind_Inr_iff sql_insert_Inr by blast

lemma insert_implementation_Inr:
  "insert_implementation r d = Inr d' \<longleftrightarrow> d' = d\<lparr>d_implementations := d_implementations d @ [r]\<rparr>
     \<and> (implementation_check r \<and> has_plan d (pi_plan r) \<and> has_revision d (pi_revision r) \<and> has_plan_request d (pi_request r) \<and> has_work_item d (pi_work_item r) \<and> optional_ref (has_run d) (pi_run r))
     \<and> (\<forall>x \<in> set (d_implementations d). \<not> (pi_plan r = pi_plan x \<or> pi_request r = pi_request x \<or> pi_work_item r = pi_work_item x \<or> same_some (pi_run r) (pi_run x)))"
  unfolding insert_implementation_def rbind_Inr_iff sql_insert_Inr by blast

section \<open>A small database\<close>

text \<open>One session with a running agent run, its work item, three steps and two events, on
  which the hypotheses of theorems about databases are shown to hold.\<close>

definition sample_session :: session_row where
  "sample_session = \<lparr>s_id = ''s1'', s_model = ''m'', s_model_profile = None,
     s_created_at = ''t0'', s_updated_at = ''t0'', s_summary = [], s_title = ''New session'',
     s_title_source = TS_PENDING, s_title_updated_at = None, s_archived_at = None,
     s_deletion_state = None\<rparr>"

definition sample_item :: "string \<Rightarrow> WorkItemStatus \<Rightarrow> work_item_row" where
  "sample_item i st = \<lparr>wi_id = i, wi_session = ''s1'', wi_question = ''why'', wi_kind = RK_AGENT,
     wi_status = st, wi_position = 0, wi_parent = None, wi_error = None,
     wi_created_at = ''t0'', wi_updated_at = ''t0''\<rparr>"

definition sample_run :: "string \<Rightarrow> string \<Rightarrow> WorkItemStatus \<Rightarrow> run_row" where
  "sample_run i w st = \<lparr>r_id = i, r_session = ''s1'', r_work_item = w, r_question = ''why'',
     r_kind = RK_AGENT, r_status = st, r_started_at = ''t1'', r_finished_at = None,
     r_duration_ms = None, r_input_tokens = 0, r_output_tokens = 0, r_cost = 0,
     r_error_code = None, r_error_message = None, r_parent = None, r_resume_from = None,
     r_stop_reason = None\<rparr>"

definition sample_step :: "string \<Rightarrow> int \<Rightarrow> RunStepStatus \<Rightarrow> json option \<Rightarrow> step_row" where
  "sample_step i n st c = \<lparr>st_id = i, st_run = ''r1'', st_ordinal = n, st_kind = SK_MODEL,
     st_status = st, st_checkpoint = c, st_started_at = ''t1'', st_finished_at = None,
     st_error = None, st_mailbox_ids = None, st_mailbox_pending = None,
     st_mailbox_pending_sha256 = None\<rparr>"

definition sample_event :: "string \<Rightarrow> int \<Rightarrow> AgentEventKind \<Rightarrow> event_row" where
  "sample_event i n k = \<lparr>e_run = ''r1'', e_sequence = n, e_id = i, e_trace = ''trace_a'',
     e_kind = k, e_payload = JObj [], e_created_at = ''t1''\<rparr>"

definition sample_invocation :: "string \<Rightarrow> int \<Rightarrow> string \<Rightarrow> invocation_row" where
  "sample_invocation i n st = \<lparr>i_id = i, i_run = ''r1'', i_session = ''s1'', i_sequence = n,
     i_call = i, i_name = ''write_file'', i_spec = JObj [], i_capabilities = JObj [],
     i_policy = JObj [], i_arguments = JObj [], i_status = st, i_execution = None,
     i_delivery = None, i_timings = JObj [], i_preview = None, i_artifact = None,
     i_error_code = None, i_pause_kind = None, i_pause_request = None, i_continuation = None,
     i_started_at = ''t1'', i_finished_at = None, i_duration_ms = None, i_delivered = None\<rparr>"

definition sample_db :: db where
  "sample_db = empty_db\<lparr>d_sessions := [sample_session],
     d_invocations := [sample_invocation ''inv_1'' 1 ''running''],
     d_work_items := [sample_item ''w1'' WI_RUNNING, sample_item ''w2'' WI_QUEUED],
     d_runs := [sample_run ''r1'' ''w1'' WI_RUNNING],
     d_steps := [sample_step ''p0'' 0 ST_COMPLETED (Some (JObj [])),
                 sample_step ''p1'' 1 ST_COMPLETED (Some (JObj [])),
                 sample_step ''p2'' 2 ST_RUNNING None],
     d_events := [sample_event ''evt_1'' 1 EV_THINKING, sample_event ''evt_2'' 4 EV_TOOL_RUNNING]\<rparr>"

end
