(* ===== verification/Journal_Events.thy ===== *)
theory Journal_Events
  imports Schema
begin

text \<open>
  \<^verbatim>\<open>capslock/storage/repositories/journal/events.py\<close>: the steps of a run with their
  checkpoints, and the run's durable event log.  Identifiers from \<open>uuid4().hex\<close> and the
  results of \<open>now()\<close> are arguments.  The locale \<open>event_log\<close> is what the writers of the log
  (workflow unit of work, event bus) rely on.
\<close>

section \<open>The event log's contract\<close>

locale event_log =
  fixes log :: "'s \<Rightarrow> 'r \<Rightarrow> 'e list"
    and append :: "'r \<Rightarrow> 'x \<Rightarrow> 's \<Rightarrow> 's res"
    and seq :: "'e \<Rightarrow> int"
    and good :: "'s \<Rightarrow> bool"
  assumes append_good: "good s \<Longrightarrow> append r x s = Inr s' \<Longrightarrow> good s'"
    and append_own: "good s \<Longrightarrow> append r x s = Inr s' \<Longrightarrow>
          \<exists>e. log s' r = log s r @ [e] \<and> (\<forall>o' \<in> set (log s r). seq o' < seq e)"
    and append_other: "append r x s = Inr s' \<Longrightarrow> q \<noteq> r \<Longrightarrow> log s' q = log s q"
begin

fun append_all :: "('r \<times> 'x) list \<Rightarrow> 's \<Rightarrow> 's res" where
  "append_all [] s = Inr s"
| "append_all ((r, x) # xs) s = rbind (append r x s) (append_all xs)"

lemma append_all_good: "good s \<Longrightarrow> append_all xs s = Inr s' \<Longrightarrow> good s'"
  by (induction xs s rule: append_all.induct) (auto elim!: rbind_InrE dest: append_good)

lemma append_all_extends:
  "good s \<Longrightarrow> append_all xs s = Inr s' \<Longrightarrow>
   \<exists>es. log s' q = log s q @ es \<and> length es = length (filter (\<lambda>x. fst x = q) xs)"
proof (induction xs s rule: append_all.induct)
  case (2 r x xs s)
  then obtain t where t: "append r x s = Inr t" "append_all xs t = Inr s'"
    by (auto elim!: rbind_InrE)
  with 2 obtain es where es: "log s' q = log t q @ es"
      "length es = length (filter (\<lambda>x. fst x = q) xs)"
    by (meson append_good)
  show ?case
  proof (cases "q = r")
    case True
    with t 2 obtain e where "log t q = log s q @ [e]" by (meson append_own)
    with es True show ?thesis by (intro exI[of _ "e # es"]) simp
  next
    case False
    with t have "log t q = log s q" by (meson append_other)
    with es False show ?thesis by auto
  qed
qed simp

lemma append_increasing:
  assumes "good s" "sorted_wrt (<) (map seq (log s r))" "append r x s = Inr s'"
  shows "sorted_wrt (<) (map seq (log s' r))"
proof -
  obtain e where "log s' r = log s r @ [e]" "\<forall>o' \<in> set (log s r). seq o' < seq e"
    using append_own[OF assms(1,3)] by blast
  with assms(2) show ?thesis by (auto simp: sorted_wrt_append)
qed

end

section \<open>Run steps\<close>

definition require_step :: "string \<Rightarrow> db \<Rightarrow> step_row res" where
  "require_step step_id d = (case row_by st_id step_id (d_steps d) of
      None \<Rightarrow> Inl (ValueError (''run step does not exist: '' @ step_id))
    | Some r \<Rightarrow> Inr r)"

definition create_step ::
  "string \<Rightarrow> RunStepKind \<Rightarrow> string \<Rightarrow> string \<Rightarrow> db \<Rightarrow> (step_row \<times> db) res" where
  "create_step run_id kind identifier timestamp d =
     (let ordinal = max_or (- 1) st_ordinal (\<lambda>r. st_run r = run_id) (d_steps d) + 1 in
      rbind (insert_step
          \<lparr>st_id = identifier, st_run = run_id, st_ordinal = ordinal, st_kind = kind,
           st_status = ST_RUNNING, st_checkpoint = None, st_started_at = timestamp,
           st_finished_at = None, st_error = None, st_mailbox_ids = None,
           st_mailbox_pending = None, st_mailbox_pending_sha256 = None\<rparr> d)
        (\<lambda>d'. rbind (require_step identifier d') (\<lambda>s. Inr (s, d'))))"

definition step_waiting :: "step_row \<Rightarrow> bool" where
  "step_waiting r \<longleftrightarrow> st_status r \<in> {ST_WAITING_APPROVAL, ST_WAITING_INPUT}"

text \<open>The rows whose checkpoint the pruning \<open>UPDATE\<close> clears, and that \<open>UPDATE\<close>.\<close>

definition prunable :: "db \<Rightarrow> string \<Rightarrow> string \<Rightarrow> int \<Rightarrow> step_row \<Rightarrow> bool" where
  "prunable d run_id step_id ordinal r \<longleftrightarrow>
     st_run r = run_id \<and> st_id r \<noteq> step_id \<and> st_checkpoint r \<noteq> None \<and> \<not> step_waiting r
     \<and> \<not> exists_row (\<lambda>x. r_resume_from x = Some (st_id r)) (d_runs d)
     \<and> st_ordinal r < ordinal"

definition prune_checkpoints :: "string \<Rightarrow> string \<Rightarrow> int \<Rightarrow> db \<Rightarrow> db" where
  "prune_checkpoints run_id step_id ordinal d =
     d\<lparr>d_steps := sql_update (prunable d run_id step_id ordinal)
        (\<lambda>r. r\<lparr>st_checkpoint := None\<rparr>) (d_steps d)\<rparr>"

text \<open>The same with the run and the ordinal read from the step (a missing step gives
  \<open>NULL\<close>s, which match nothing).\<close>

definition prune_before_step :: "string \<Rightarrow> db \<Rightarrow> db" where
  "prune_before_step step_id d = (case row_by st_id step_id (d_steps d) of
      None \<Rightarrow> d
    | Some s \<Rightarrow> prune_checkpoints (st_run s) step_id (st_ordinal s) d)"

definition finish_step ::
  "string \<Rightarrow> RunStepStatus \<Rightarrow> json option \<Rightarrow> string option \<Rightarrow> string \<Rightarrow> db \<Rightarrow> (step_row \<times> db) res" where
  "finish_step step_id status checkpoint error timestamp d =
     (let p = (\<lambda>r. st_id r = step_id \<and> st_status r = ST_RUNNING);
          d1 = d\<lparr>d_steps := sql_update p (\<lambda>r. r\<lparr>st_status := status, st_checkpoint := checkpoint,
                  st_finished_at := Some timestamp, st_error := error\<rparr>) (d_steps d)\<rparr>;
          d2 = (if checkpoint \<noteq> None \<and> status = ST_COMPLETED then prune_before_step step_id d1
                else d1)
      in if rowcount p (d_steps d) = 0 then Inl (ValueError ''run step is not running'')
         else rbind (require_step step_id d2) (\<lambda>s. Inr (s, d2)))"

definition last_stable_step :: "string \<Rightarrow> db \<Rightarrow> step_row option" where
  "last_stable_step run_id d = last_by st_ordinal
     (\<lambda>r. st_run r = run_id \<and> st_status r = ST_COMPLETED \<and> st_checkpoint r \<noteq> None) (d_steps d)"

lemma require_step_get: "require_step i d = Inr s \<longleftrightarrow> row_by st_id i (d_steps d) = Some s"
  by (simp add: require_step_def split: option.splits)

lemma create_step_effect:
  assumes "create_step run_id kind i now d = Inr (s, d')"
  shows "\<exists>r. d' = d\<lparr>d_steps := d_steps d @ [r]\<rparr> \<and> st_id r = i \<and> st_run r = run_id
      \<and> st_status r = ST_RUNNING \<and> st_checkpoint r = None \<and> st_kind r = kind
      \<and> (\<forall>x \<in> set (d_steps d). st_id x \<noteq> i \<and> (st_run x = run_id \<longrightarrow> st_ordinal x < st_ordinal r))"
proof -
  let ?n = "max_or (- 1) st_ordinal (\<lambda>r. st_run r = run_id) (d_steps d) + 1"
  have lt: "st_ordinal x < ?n" if "x \<in> set (d_steps d)" "st_run x = run_id" for x
    using max_or_ge[of x "d_steps d" "\<lambda>r. st_run r = run_id" st_ordinal "- 1"] that by simp
  from assms show ?thesis
    unfolding create_step_def Let_def insert_step_def
    apply (elim rbind_InrE)
    subgoal for d1 s1
      using lt by (auto simp: sql intro!: exI[of _ "\<lparr>st_id = i, st_run = run_id, st_ordinal = ?n,
        st_kind = kind, st_status = ST_RUNNING, st_checkpoint = None, st_started_at = now,
        st_finished_at = None, st_error = None, st_mailbox_ids = None,
        st_mailbox_pending = None, st_mailbox_pending_sha256 = None\<rparr>"] elim!: rbind_InrE)
    done
qed

lemma step_update_key [simp]:
  "st_id (if p r then r\<lparr>st_checkpoint := c\<rparr> else r) = st_id r"
  "st_run (if p r then r\<lparr>st_checkpoint := c\<rparr> else r) = st_run r"
  "st_ordinal (if p r then r\<lparr>st_checkpoint := c\<rparr> else r) = st_ordinal r"
  by simp_all

lemma prune_runs [frame]: "d_runs (prune_checkpoints run i n d) = d_runs d"
  by (simp add: prune_checkpoints_def)

lemma get_prune:
  "row_by st_id j (d_steps (prune_checkpoints run i n d)) =
   map_option (\<lambda>r. if prunable d run i n r then r\<lparr>st_checkpoint := None\<rparr> else r) (row_by st_id j (d_steps d))"
  by (simp add: prune_checkpoints_def row_by_update)



section \<open>Run events\<close>

record AgentEvent =
  ev_sequence :: int
  ev_timestamp :: string
  ev_session :: string
  ev_run :: string
  ev_work_item :: string
  ev_kind :: AgentEventKind
  ev_data :: json
  ev_id :: string
  ev_trace :: string

text \<open>The row \<open>append_in\<close> writes: the next sequence number, and the trace id of the run's
  first event, or a fresh one.\<close>

definition next_event ::
  "string \<Rightarrow> AgentEventKind \<Rightarrow> json \<Rightarrow> string \<Rightarrow> string \<Rightarrow> string \<Rightarrow> db \<Rightarrow> event_row" where
  "next_event run_id kind payload event_uuid trace_uuid timestamp d =
     \<lparr>e_run = run_id,
      e_sequence = max_or 0 e_sequence (\<lambda>e. e_run e = run_id) (d_events d) + 1,
      e_id = ''evt_'' @ event_uuid,
      e_trace = (case first_by e_sequence (\<lambda>e. e_run e = run_id) (d_events d) of
          None \<Rightarrow> ''trace_'' @ trace_uuid
        | Some e \<Rightarrow> if e_trace e = [] then ''trace_'' @ trace_uuid else e_trace e),
      e_kind = kind, e_payload = payload, e_created_at = timestamp\<rparr>"

definition event_info :: "event_row \<Rightarrow> run_row \<Rightarrow> AgentEvent" where
  "event_info e r =
     \<lparr>ev_sequence = e_sequence e, ev_timestamp = e_created_at e, ev_session = r_session r,
      ev_run = e_run e, ev_work_item = r_work_item r, ev_kind = e_kind e,
      ev_data = e_payload e, ev_id = e_id e, ev_trace = e_trace e\<rparr>"

definition append_in ::
  "string \<Rightarrow> AgentEventKind \<Rightarrow> json \<Rightarrow> string \<Rightarrow> string \<Rightarrow> string \<Rightarrow> db \<Rightarrow> (AgentEvent \<times> db) res" where
  "append_in run_id kind payload event_uuid trace_uuid timestamp d =
     (let e = next_event run_id kind payload event_uuid trace_uuid timestamp d
      in rbind (insert_event e d)
          (\<lambda>d'. case row_by r_id run_id (d_runs d') of
              None \<Rightarrow> Inl (ValueError (''run does not exist: '' @ run_id))
            | Some r \<Rightarrow> Inr (event_info e r, d')))"

text \<open>\<open>append_event\<close> is \<open>append_in\<close> in a transaction of its own; \<open>events\<close> reads a run's
  log in sequence order.\<close>

definition events :: "string \<Rightarrow> db \<Rightarrow> AgentEvent list" where
  "events run_id d = concat (map (\<lambda>e. map (event_info e) (filter (\<lambda>r. r_id r = e_run e) (d_runs d)))
     (sort_key e_sequence (filter (\<lambda>e. e_run e = run_id) (d_events d))))"

section \<open>The log's invariant\<close>

definition run_log :: "db \<Rightarrow> string \<Rightarrow> event_row list" where
  "run_log d run_id = filter (\<lambda>e. e_run e = run_id) (d_events d)"

definition log_ok :: "event_row list \<Rightarrow> bool" where
  "log_ok es \<longleftrightarrow> sorted_wrt (<) (map e_sequence es) \<and> list_all (\<lambda>e. 1 \<le> e_sequence e) es
     \<and> list_all (\<lambda>e. e_trace e = e_trace (hd es) \<and> e_trace e \<noteq> []) es"

definition journal_ok :: "db \<Rightarrow> bool" where
  "journal_ok d \<longleftrightarrow> list_all (\<lambda>e. log_ok (run_log d (e_run e))) (d_events d)"


lemma log_ok_Nil [simp]: "log_ok []"
  by (simp add: log_ok_def)

lemma log_ok_snoc:
  assumes "log_ok es" and "\<forall>e \<in> set es. e_sequence e < e_sequence r" and "1 \<le> e_sequence r"
    and "e_trace r \<noteq> []" and "es \<noteq> [] \<Longrightarrow> e_trace r = e_trace (hd es)"
  shows "log_ok (es @ [r])"
  using assms by (cases es) (auto simp: log_ok_def sorted_wrt_append list_all_iff)

lemma log_ok_trace: "log_ok es \<Longrightarrow> e \<in> set es \<Longrightarrow> e_trace e = e_trace (hd es) \<and> e_trace e \<noteq> []"
  unfolding log_ok_def list_all_iff by blast

lemma run_log_empty: "run_log d run_id = [] \<longleftrightarrow> (\<forall>e \<in> set (d_events d). e_run e \<noteq> run_id)"
  by (auto simp: run_log_def filter_empty_conv)

lemma journal_ok_iff: "journal_ok d \<longleftrightarrow> (\<forall>run_id. log_ok (run_log d run_id))"
proof
  assume ok: "journal_ok d"
  show "\<forall>run_id. log_ok (run_log d run_id)"
  proof
    fix run_id
    show "log_ok (run_log d run_id)"
    proof (cases "run_log d run_id = []")
      case False
      then obtain e where "e \<in> set (d_events d)" "e_run e = run_id" by (auto simp: run_log_empty)
      with ok show ?thesis by (auto simp: journal_ok_def list_all_iff)
    qed simp
  qed
qed (simp add: journal_ok_def list_all_iff)

lemma run_log_snoc [simp]:
  "run_log (d\<lparr>d_events := d_events d @ [r]\<rparr>) q = run_log d q @ (if e_run r = q then [r] else [])"
  by (simp add: run_log_def)

text \<open>What a successful \<open>append_in\<close> did.\<close>

lemma append_in_effect:
  assumes "append_in run_id kind payload eu tu now d = Inr (ev, d')"
  shows "d' = d\<lparr>d_events := d_events d @ [next_event run_id kind payload eu tu now d]\<rparr>
      \<and> has_run d run_id
      \<and> (\<exists>r \<in> set (d_runs d). r_id r = run_id \<and> ev = event_info (next_event run_id kind payload eu tu now d) r)"
proof -
  obtain d1 where d1: "insert_event (next_event run_id kind payload eu tu now d) d = Inr d1"
    "(case row_by r_id run_id (d_runs d1) of
              None \<Rightarrow> Inl (ValueError (''run does not exist: '' @ run_id))
            | Some r \<Rightarrow> Inr (event_info (next_event run_id kind payload eu tu now d) r, d1)) = Inr (ev, d')"
    using assms unfolding append_in_def Let_def by (elim rbind_InrE)
  then have "d1 = d\<lparr>d_events := d_events d @ [next_event run_id kind payload eu tu now d]\<rparr>"
    "has_run d run_id"
    by (auto simp: insert_event_def sql next_event_def elim!: rbind_InrE)
  with d1(2) show ?thesis by (auto split: option.splits dest: row_by_Some)
qed

lemma next_event_simps [simp]:
  "e_run (next_event run_id kind payload eu tu now d) = run_id"
  "e_kind (next_event run_id kind payload eu tu now d) = kind"
  "e_payload (next_event run_id kind payload eu tu now d) = payload"
  by (simp_all add: next_event_def)

lemma event_info_simps [simp]:
  "ev_sequence (event_info e r) = e_sequence e" "ev_trace (event_info e r) = e_trace e"
  "ev_run (event_info e r) = e_run e" "ev_kind (event_info e r) = e_kind e"
  "ev_data (event_info e r) = e_payload e" "ev_id (event_info e r) = e_id e"
  by (simp_all add: event_info_def)

lemma next_event_seq:
  "\<forall>e \<in> set (run_log d run_id). e_sequence e < e_sequence (next_event run_id kind payload eu tu now d)"
proof
  fix e assume "e \<in> set (run_log d run_id)"
  then have "e_sequence e \<le> max_or 0 e_sequence (\<lambda>e. e_run e = run_id) (d_events d)"
    by (intro max_or_ge) (auto simp: run_log_def)
  then show "e_sequence e < e_sequence (next_event run_id kind payload eu tu now d)"
    by (simp add: next_event_def)
qed

lemma next_event_log_ok:
  assumes own: "log_ok (run_log d run_id)"
  shows "log_ok (run_log d run_id @ [next_event run_id kind payload eu tu now d])"
proof (rule log_ok_snoc[OF own next_event_seq])
  show "1 \<le> e_sequence (next_event run_id kind payload eu tu now d)"
    using max_or_in[of "d_events d" "\<lambda>e. e_run e = run_id" 0 e_sequence] own
    by (auto simp: next_event_def log_ok_def list_all_iff run_log_def)
  have "e_trace (next_event run_id kind payload eu tu now d) \<noteq> [] \<and> (run_log d run_id \<noteq> [] \<longrightarrow>
    e_trace (next_event run_id kind payload eu tu now d) = e_trace (hd (run_log d run_id)))"
  proof (cases "first_by e_sequence (\<lambda>e. e_run e = run_id) (d_events d)")
    case None
    then have "run_log d run_id = []" by (simp add: first_by_None run_log_empty)
    with None show ?thesis by (simp add: next_event_def)
  next
    case (Some e)
    then have "e \<in> set (run_log d run_id)" by (auto dest: first_by_Some simp: run_log_def)
    from log_ok_trace[OF own this] Some show ?thesis by (auto simp: next_event_def)
  qed
  then show "e_trace (next_event run_id kind payload eu tu now d) \<noteq> []"
    "run_log d run_id \<noteq> [] \<Longrightarrow>
      e_trace (next_event run_id kind payload eu tu now d) = e_trace (hd (run_log d run_id))" by auto
qed

lemma append_in_journal [keeps]:
  assumes "journal_ok d" and "append_in run_id kind payload eu tu now d = Inr (ev, d')"
  shows "journal_ok d'"
  using assms(1) append_in_effect[OF assms(2)] next_event_log_ok
  by (auto simp: journal_ok_iff)

definition append_event_db ::
  "string \<Rightarrow> AgentEventKind \<times> json \<times> string \<times> string \<times> string \<Rightarrow> db \<Rightarrow> db res" where
  "append_event_db run_id x d = (case x of (kind, payload, eu, tu, now) \<Rightarrow>
     rbind (append_in run_id kind payload eu tu now d) (\<lambda>p. Inr (snd p)))"

lemma append_event_dbE:
  assumes "append_event_db r x s = Inr s'"
  obtains kind payload eu tu now ev where "append_in r kind payload eu tu now s = Inr (ev, s')"
  using assms by (auto simp: append_event_db_def split: prod.splits elim!: rbind_InrE)

interpretation elog: event_log run_log append_event_db e_sequence journal_ok
proof
  fix s s' r x
  assume "journal_ok s" "append_event_db r x s = Inr s'"
  then show "journal_ok s'" by (auto elim!: append_event_dbE intro: append_in_journal)
next
  fix s s' r x
  assume "append_event_db r x s = Inr s'"
  then show "\<exists>e. run_log s' r = run_log s r @ [e] \<and> (\<forall>o' \<in> set (run_log s r). e_sequence o' < e_sequence e)"
    by (elim append_event_dbE) (drule append_in_effect, auto simp: next_event_seq)
next
  fix s s' r x q
  assume "append_event_db r x s = Inr s'" "q \<noteq> r"
  then show "run_log s' q = run_log s q"
    by (elim append_event_dbE) (drule append_in_effect, auto)
qed

text \<open>Appending an event to a run's journal (\<open>append_in\<close>) puts exactly one row at the end
  of that run's log and changes no other run's log; the returned event carries the row's
  sequence number, which is larger than every number already there, and the run's trace id;
  the journal's invariant (strictly increasing sequence numbers from 1, one non-empty trace id
  per run) is kept.\<close>

lemma append_in_extends_log:
  assumes "journal_ok d" and "append_in run_id kind payload eu tu now d = Inr (ev, d')"
  shows "journal_ok d' \<and> (\<exists>r. run_log d' run_id = run_log d run_id @ [r]
           \<and> e_sequence r = ev_sequence ev \<and> e_trace r = ev_trace ev \<and> e_kind r = kind
           \<and> e_payload r = payload)
       \<and> (\<forall>e \<in> set (run_log d run_id). e_sequence e < ev_sequence ev \<and> e_trace e = ev_trace ev)
       \<and> (\<forall>q. q \<noteq> run_id \<longrightarrow> run_log d' q = run_log d q)"
proof -
  let ?e = "next_event run_id kind payload eu tu now d"
  obtain r where d': "d' = d\<lparr>d_events := d_events d @ [?e]\<rparr>" and ev: "ev = event_info ?e r"
    using append_in_effect[OF assms(2)] by blast
  have ok: "log_ok (run_log d run_id @ [?e])"
    using assms(1) by (simp add: journal_ok_iff next_event_log_ok)
  have "e_trace e = e_trace ?e" if "e \<in> set (run_log d run_id)" for e
    using log_ok_trace[OF ok, of e] log_ok_trace[OF ok, of ?e] that by simp
  with append_in_journal[OF assms] d' ev next_event_seq show ?thesis by simp
qed

theorem append_in_extends_log_witness:
  "\<exists>ev d'. append_in ''r1'' EV_COMPLETED (JObj []) ''3'' ''b'' ''t2'' sample_db = Inr (ev, d')
     \<and> journal_ok d' \<and> ev_trace ev = ''trace_a''"
proof -
  have "is_ok (append_in ''r1'' EV_COMPLETED (JObj []) ''3'' ''b'' ''t2'' sample_db)" by code_simp
  then obtain ev d' where eq: "append_in ''r1'' EV_COMPLETED (JObj []) ''3'' ''b'' ''t2'' sample_db = Inr (ev, d')"
    by (auto simp: is_ok_iff)
  have ok: "journal_ok sample_db" and mem: "sample_event ''evt_1'' 1 EV_THINKING \<in> set (run_log sample_db ''r1'')"
    by code_simp+
  from append_in_extends_log[OF ok eq] mem have "journal_ok d' \<and> ev_trace ev = ''trace_a''"
    by (auto simp: sample_event_def)
  with eq show ?thesis by blast
qed

end
