(* ===== verification/Journal_Invocations.thy ===== *)
theory Journal_Invocations
  imports Journal_Events
begin

text \<open>
  \<^verbatim>\<open>capslock/storage/repositories/journal/tool_invocations.py\<close> and \<open>interrupt_active\<close> of
  \<^verbatim>\<open>journal/repository.py\<close>: the life of a tool invocation from \<open>received\<close> to a terminal or
  waiting status, the delivery of its result, and the pausing of the step it runs in.  The
  full-text index that \<open>finish_tool_invocation\<close> feeds is not part of the model.
\<close>

section \<open>Lookup and discoveries\<close>

definition tool_invocation :: "string \<Rightarrow> db \<Rightarrow> invocation_row option" where
  "tool_invocation identifier d = row_by i_id identifier (d_invocations d)"

definition tool_invocation_for_call :: "string \<Rightarrow> string \<Rightarrow> db \<Rightarrow> invocation_row option" where
  "tool_invocation_for_call run_id tool_call_id d =
     (case fetch_one (\<lambda>r. i_run r = run_id \<and> i_call r = tool_call_id) (d_invocations d) of
        None \<Rightarrow> None | Some r \<Rightarrow> tool_invocation (i_id r) d)"

text \<open>\<open>INSERT ... ON CONFLICT(session_id,tool_name) DO UPDATE\<close>, once per name.\<close>

definition upsert_discovery :: "discovery_row \<Rightarrow> db \<Rightarrow> db res" where
  "upsert_discovery r d =
     (let same = (\<lambda>x. td_session x = td_session r \<and> td_tool x = td_tool r) in
      if \<not> discovery_check r \<or> \<not> has_session d (td_session r) then Inl IntegrityError
      else if exists_row same (d_discoveries d)
      then Inr (d\<lparr>d_discoveries :=
             sql_update same (\<lambda>x. x\<lparr>td_generation := td_generation r\<rparr>) (d_discoveries d)\<rparr>)
      else Inr (d\<lparr>d_discoveries := d_discoveries d @ [r]\<rparr>))"

fun record_tool_discoveries :: "string \<Rightarrow> string list \<Rightarrow> int \<Rightarrow> string \<Rightarrow> db \<Rightarrow> db res" where
  "record_tool_discoveries session_id [] generation now d = Inr d"
| "record_tool_discoveries session_id (name # names) generation now d =
     rbind (upsert_discovery \<lparr>td_session = session_id, td_tool = name,
              td_generation = generation, td_created_at = now\<rparr> d)
       (record_tool_discoveries session_id names generation now)"

definition tool_discoveries :: "string \<Rightarrow> db \<Rightarrow> string list" where
  "tool_discoveries session_id d =
     sort (map td_tool (filter (\<lambda>r. td_session r = session_id) (d_discoveries d)))"

section \<open>Delivery\<close>

definition store_result_replacement ::
  "string \<Rightarrow> string \<Rightarrow> string \<Rightarrow> json \<Rightarrow> db \<Rightarrow> db res" where
  "store_result_replacement tool_call_id session_id invocation_id replacement d =
     (let p = (\<lambda>r. i_id r = invocation_id \<and> i_session r = session_id \<and> i_call r = tool_call_id) in
      if rowcount p (d_invocations d) = 0
      then Inl (ValueError ''tool result delivery has no matching invocation'')
      else Inr (d\<lparr>d_invocations :=
             sql_update p (\<lambda>r. r\<lparr>i_delivered := Some replacement\<rparr>) (d_invocations d)\<rparr>))"

definition replace_tool_delivery ::
  "string \<Rightarrow> string \<Rightarrow> string \<Rightarrow> string option \<Rightarrow> db \<Rightarrow> db res" where
  "replace_tool_delivery identifier delivery_status result_preview artifact_id d = rbind
     (sql_set invocation_check (\<lambda>r. i_id r = identifier)
        (\<lambda>r. r\<lparr>i_delivery := Some delivery_status, i_preview := Some (take 4096 result_preview),
              i_artifact := artifact_id\<rparr>) (d_invocations d))
     (\<lambda>t. Inr (d\<lparr>d_invocations := t\<rparr>))"

section \<open>Events prepared in memory\<close>

definition event_state :: "string \<Rightarrow> db \<Rightarrow> (int \<times> string \<times> string \<times> string) res" where
  "event_state run_id d = (case row_by r_id run_id (d_runs d) of
      None \<Rightarrow> Inl (ValueError (''run does not exist: '' @ run_id))
    | Some r \<Rightarrow> Inr (max_or 0 e_sequence (\<lambda>e. e_run e = run_id) (d_events d),
        r_session r, r_work_item r,
        fold max (map e_trace (filter (\<lambda>e. e_run e = run_id) (d_events d))) []))"

definition prepared_row :: "AgentEvent \<Rightarrow> event_row" where
  "prepared_row ev = \<lparr>e_run = ev_run ev, e_sequence = ev_sequence ev, e_id = ev_id ev,
     e_trace = ev_trace ev, e_kind = ev_kind ev, e_payload = ev_data ev,
     e_created_at = ev_timestamp ev\<rparr>"

fun append_prepared_events :: "AgentEvent list \<Rightarrow> db \<Rightarrow> db res" where
  "append_prepared_events [] d = Inr d"
| "append_prepared_events (ev # evs) d =
     rbind (insert_event (prepared_row ev) d) (append_prepared_events evs)"

section \<open>Life of an invocation\<close>

definition invocation_open :: "string list" where
  "invocation_open = [''received'', ''validating'', ''authorizing'', ''queued'', ''running'']"

definition start_tool_invocation ::
  "string \<Rightarrow> string \<Rightarrow> string \<Rightarrow> string \<Rightarrow> json \<Rightarrow> json \<Rightarrow> json \<Rightarrow> string \<Rightarrow> string \<Rightarrow> string \<Rightarrow> db
   \<Rightarrow> (string \<times> db) res" where
  "start_tool_invocation run_id session_id tool_call_id name spec capabilities arguments status uuid now d =
     (let identifier = ''inv_'' @ uuid;
          sequence = max_or 0 i_sequence (\<lambda>r. i_run r = run_id) (d_invocations d) + 1
      in rbind (insert_invocation
          \<lparr>i_id = identifier, i_run = run_id, i_session = session_id, i_sequence = sequence,
           i_call = tool_call_id, i_name = name, i_spec = spec, i_capabilities = capabilities,
           i_policy = JObj [], i_arguments = arguments, i_status = status, i_execution = None,
           i_delivery = None, i_timings = JObj [], i_preview = None, i_artifact = None,
           i_error_code = None, i_pause_kind = None, i_pause_request = None,
           i_continuation = None, i_started_at = now, i_finished_at = None,
           i_duration_ms = None, i_delivered = None\<rparr> d)
        (\<lambda>d'. Inr (identifier, d')))"

definition finish_tool_invocation ::
  "string \<Rightarrow> string \<Rightarrow> string \<Rightarrow> string \<Rightarrow> string \<Rightarrow> int \<Rightarrow> string option \<Rightarrow> string option \<Rightarrow> string
   \<Rightarrow> db \<Rightarrow> db res" where
  "finish_tool_invocation identifier status execution_status delivery_status result_preview
       duration_ms artifact_id error_code now d = rbind
     (sql_set invocation_check
        (\<lambda>r. i_id r = identifier \<and> i_status r \<in> set invocation_open)
        (\<lambda>r. r\<lparr>i_status := status, i_execution := Some execution_status,
              i_delivery := Some delivery_status, i_preview := Some (take 4096 result_preview),
              i_artifact := artifact_id, i_error_code := error_code,
              i_finished_at := Some now, i_duration_ms := Some duration_ms\<rparr>) (d_invocations d))
     (\<lambda>t. Inr (d\<lparr>d_invocations := t\<rparr>))"

text \<open>The assignments are collected from the arguments that are not \<open>None\<close>; without any, no
  statement runs.\<close>

definition update_tool_invocation ::
  "string \<Rightarrow> string option \<Rightarrow> json option \<Rightarrow> json option \<Rightarrow> db \<Rightarrow> db res" where
  "update_tool_invocation identifier status policy timings d =
     (if status = None \<and> policy = None \<and> timings = None then Inr d
      else rbind
        (sql_set invocation_check (\<lambda>r. i_id r = identifier)
          (\<lambda>r. r\<lparr>i_status := (case status of None \<Rightarrow> i_status r | Some s \<Rightarrow> s),
                i_policy := (case policy of None \<Rightarrow> i_policy r | Some p \<Rightarrow> p),
                i_capabilities := (case policy of None \<Rightarrow> i_capabilities r | Some p \<Rightarrow> p),
                i_timings := (case timings of None \<Rightarrow> i_timings r | Some t \<Rightarrow> t)\<rparr>)
          (d_invocations d))
        (\<lambda>t. Inr (d\<lparr>d_invocations := t\<rparr>)))"

definition pause_tool_invocation ::
  "string \<Rightarrow> string \<Rightarrow> string \<Rightarrow> json \<Rightarrow> db \<Rightarrow> db res" where
  "pause_tool_invocation identifier kind request_id continuation d =
     (let status = (if kind = ''approval'' then ''waiting_approval'' else ''waiting_input'');
          p = (\<lambda>r. i_id r = identifier \<and> i_status r \<in> set invocation_open)
      in if kind \<notin> {''approval'', ''user_input''} then Inl (ValueError ''invalid tool pause kind'')
         else if rowcount p (d_invocations d) = 0
         then Inl (ValueError ''tool invocation is not pausable'')
         else Inr (d\<lparr>d_invocations := sql_update p
                (\<lambda>r. r\<lparr>i_status := status, i_pause_kind := Some kind,
                      i_pause_request := Some request_id,
                      i_continuation := Some continuation\<rparr>) (d_invocations d)\<rparr>))"

definition pause_step :: "string \<Rightarrow> string \<Rightarrow> json \<Rightarrow> db \<Rightarrow> db res" where
  "pause_step identifier kind checkpoint d =
     (let status = (if kind = ''approval'' then ST_WAITING_APPROVAL else ST_WAITING_INPUT);
          p = (\<lambda>r. st_id r = identifier \<and> st_status r = ST_RUNNING);
          d1 = d\<lparr>d_steps := sql_update p
                 (\<lambda>r. r\<lparr>st_status := status, st_checkpoint := Some checkpoint\<rparr>) (d_steps d)\<rparr>
      in if rowcount p (d_steps d) = 0 then Inl (ValueError ''run step is not pausable'')
         else Inr (prune_before_step identifier d1))"

definition update_step_checkpoint :: "string \<Rightarrow> json \<Rightarrow> db \<Rightarrow> db res" where
  "update_step_checkpoint identifier checkpoint d =
     (let p = (\<lambda>r. st_id r = identifier \<and> step_waiting r) in
      if rowcount p (d_steps d) = 0 then Inl (ValueError ''paused run step does not exist'')
      else Inr (d\<lparr>d_steps := sql_update p (\<lambda>r. r\<lparr>st_checkpoint := Some checkpoint\<rparr>) (d_steps d)\<rparr>))"

definition record_tool_call ::
  "string \<Rightarrow> string \<Rightarrow> json \<Rightarrow> bool \<Rightarrow> string \<Rightarrow> int \<Rightarrow> string \<Rightarrow> db \<Rightarrow> db res" where
  "record_tool_call run_id name arguments ok summary duration_ms invocation_id d =
     insert_tool_call \<lparr>tc_run = run_id, tc_name = name, tc_arguments = arguments, tc_ok = ok,
       tc_summary = take 1000 summary, tc_duration_ms = duration_ms,
       tc_invocation = Some invocation_id\<rparr> d"

section \<open>Recovery after a crash\<close>

definition interrupt_preview :: string where
  "interrupt_preview = json_dumps (JObj
     [(''status'', JStr ''cancelled''), (''ok'', JBool False), (''executed'', JBool False),
      (''delivery_status'', JStr ''inline''), (''data'', JObj []), (''content'', JList []),
      (''error'', JStr ''workspace process ended during tool execution''),
      (''error_code'', JStr ''process_interrupted'')])"

definition interrupt_active :: "string \<Rightarrow> db \<Rightarrow> db" where
  "interrupt_active timestamp d = d\<lparr>
     d_invocations := sql_update (\<lambda>r. i_status r \<in> set invocation_open)
       (\<lambda>r. r\<lparr>i_status := ''cancelled'', i_execution := Some ''cancelled'',
             i_delivery := Some ''inline'', i_preview := Some interrupt_preview,
             i_error_code := Some ''process_interrupted'', i_finished_at := Some timestamp,
             i_duration_ms := coalesce (i_duration_ms r) (Some 0)\<rparr>) (d_invocations d),
     d_steps := sql_update (\<lambda>r. st_status r = ST_RUNNING)
       (\<lambda>r. r\<lparr>st_status := ST_CANCELLED, st_finished_at := Some timestamp,
             st_error := coalesce (st_error r) (Some ''workspace process interrupted'')\<rparr>)
       (d_steps d)\<rparr>"

section \<open>Properties\<close>

lemma interrupt_rows:
  "d_invocations (interrupt_active t d) = sql_update (\<lambda>r. i_status r \<in> set invocation_open)
       (\<lambda>r. r\<lparr>i_status := ''cancelled'', i_execution := Some ''cancelled'',
             i_delivery := Some ''inline'', i_preview := Some interrupt_preview,
             i_error_code := Some ''process_interrupted'', i_finished_at := Some t,
             i_duration_ms := coalesce (i_duration_ms r) (Some 0)\<rparr>) (d_invocations d)"
  "d_steps (interrupt_active t d) = sql_update (\<lambda>r. st_status r = ST_RUNNING)
       (\<lambda>r. r\<lparr>st_status := ST_CANCELLED, st_finished_at := Some t,
             st_error := coalesce (st_error r) (Some ''workspace process interrupted'')\<rparr>) (d_steps d)"
  by (simp_all add: interrupt_active_def)

lemma interrupt_none_open: "r \<in> set (d_invocations (interrupt_active t d)) \<Longrightarrow> i_status r \<notin> set invocation_open"
  unfolding interrupt_rows set_sql_update by (auto simp: invocation_open_def)

lemma interrupt_none_running: "r \<in> set (d_steps (interrupt_active t d)) \<Longrightarrow> st_status r \<noteq> ST_RUNNING"
  unfolding interrupt_rows set_sql_update by auto

text \<open>Opening a workspace after a crash (\<open>interrupt_active\<close>) leaves no tool invocation
  before its end and no step running; an invocation or step that is waiting for an approval or
  an answer, or has ended, keeps its row, and a second recovery changes nothing.\<close>

lemma interrupt_active_quiesces:
  "(\<forall>r \<in> set (d_invocations (interrupt_active t d)). i_status r \<notin> set invocation_open)
   \<and> (\<forall>r \<in> set (d_steps (interrupt_active t d)). st_status r \<noteq> ST_RUNNING)
   \<and> (\<forall>r \<in> set (d_invocations d). i_status r \<notin> set invocation_open \<longrightarrow>
        r \<in> set (d_invocations (interrupt_active t d)))
   \<and> (\<forall>r \<in> set (d_steps d). st_status r \<noteq> ST_RUNNING \<longrightarrow> r \<in> set (d_steps (interrupt_active t d)))
   \<and> interrupt_active t' (interrupt_active t d) = interrupt_active t d"
proof -
  have "d_invocations (interrupt_active t' (interrupt_active t d)) = d_invocations (interrupt_active t d)"
    unfolding interrupt_rows(1)[of t'] by (rule sql_update_none) (rule interrupt_none_open)
  moreover have "d_steps (interrupt_active t' (interrupt_active t d)) = d_steps (interrupt_active t d)"
    unfolding interrupt_rows(2)[of t'] by (rule sql_update_none) (rule interrupt_none_running)
  ultimately have "interrupt_active t' (interrupt_active t d) = interrupt_active t d"
    by (simp add: interrupt_active_def)
  moreover have "r \<in> set (d_invocations (interrupt_active t d))"
    if "r \<in> set (d_invocations d)" "i_status r \<notin> set invocation_open" for r
    using that unfolding interrupt_rows set_sql_update by (intro image_eqI[of _ _ r]) simp_all
  moreover have "r \<in> set (d_steps (interrupt_active t d))"
    if "r \<in> set (d_steps d)" "st_status r \<noteq> ST_RUNNING" for r
    using that unfolding interrupt_rows set_sql_update by (intro image_eqI[of _ _ r]) simp_all
  ultimately show ?thesis using interrupt_none_open interrupt_none_running by blast
qed

theorem interrupt_active_quiesces_witness:
  "sample_step ''p2'' 2 ST_RUNNING None \<in> set (d_steps sample_db)
   \<and> interrupt_active ''t8'' (interrupt_active ''t9'' sample_db) = interrupt_active ''t9'' sample_db
   \<and> sample_step ''p1'' 1 ST_COMPLETED (Some (JObj [])) \<in> set (d_steps (interrupt_active ''t9'' sample_db))"
proof -
  have "sample_step ''p1'' 1 ST_COMPLETED (Some (JObj [])) \<in> set (d_steps sample_db)"
    "sample_step ''p2'' 2 ST_RUNNING None \<in> set (d_steps sample_db)" by (simp_all add: sample_db_def)
  with interrupt_active_quiesces[of "''t9''" sample_db "''t8''"] show ?thesis
    by (auto simp: sample_step_def)
qed

text \<open>What a call that finishes or pauses an invocation does to it.\<close>

lemma finish_effect:
  assumes "finish_tool_invocation i st ex dl pv ms art ec now d = Inr d'"
  shows "d' = d\<lparr>d_invocations := sql_update (\<lambda>r. i_id r = i \<and> i_status r \<in> set invocation_open)
        (\<lambda>r. r\<lparr>i_status := st, i_execution := Some ex, i_delivery := Some dl,
              i_preview := Some (take 4096 pv), i_artifact := art, i_error_code := ec,
              i_finished_at := Some now, i_duration_ms := Some ms\<rparr>) (d_invocations d)\<rparr>"
  using assms unfolding finish_tool_invocation_def by (auto simp: sql elim!: rbind_InrE)

lemma not_open_kept:
  assumes "\<forall>r \<in> set (d_invocations d). i_id r = i \<longrightarrow> i_status r \<notin> set invocation_open"
  shows "finish_tool_invocation i st ex dl pv ms art ec now d = Inr d"
    and "pause_tool_invocation i k q c d =
      Inl (ValueError (if k \<notin> {''approval'', ''user_input''} then ''invalid tool pause kind''
                       else ''tool invocation is not pausable''))"
proof -
  have "sql_update (\<lambda>r. i_id r = i \<and> i_status r \<in> set invocation_open) f (d_invocations d)
      = d_invocations d" for f
    using assms by (intro sql_update_none) auto
  moreover have "sql_set invocation_check (\<lambda>r. i_id r = i \<and> i_status r \<in> set invocation_open) f
      (d_invocations d) = Inr (sql_update (\<lambda>r. i_id r = i \<and> i_status r \<in> set invocation_open) f
      (d_invocations d))" for f
    using assms by (auto simp: sql_set_def list_all_iff)
  ultimately show "finish_tool_invocation i st ex dl pv ms art ec now d = Inr d"
    by (simp add: finish_tool_invocation_def)
  show "pause_tool_invocation i k q c d =
      Inl (ValueError (if k \<notin> {''approval'', ''user_input''} then ''invalid tool pause kind''
                       else ''tool invocation is not pausable''))"
    using assms by (simp add: pause_tool_invocation_def)
qed

text \<open>The first end of a tool invocation stands.  After \<open>finish_tool_invocation\<close> has
  recorded an end (any status outside \<open>received\<close> .. \<open>running\<close>), a second finish with other
  results changes nothing and the invocation can no longer be paused.\<close>

lemma invocation_finishes_once:
  assumes "finish_tool_invocation i st ex dl pv ms art ec now d = Inr d'"
    and "st \<notin> set invocation_open"
  shows "finish_tool_invocation i st2 ex2 dl2 pv2 ms2 art2 ec2 now2 d' = Inr d'
     \<and> (\<forall>k q c. \<not> is_ok (pause_tool_invocation i k q c d'))"
proof -
  have "\<forall>r \<in> set (d_invocations d'). i_id r = i \<longrightarrow> i_status r \<notin> set invocation_open"
  proof (intro ballI impI)
    fix r assume "r \<in> set (d_invocations d')" "i_id r = i"
    from this(1) have "r \<in> set (sql_update (\<lambda>r. i_id r = i \<and> i_status r \<in> set invocation_open)
      (\<lambda>r. r\<lparr>i_status := st, i_execution := Some ex, i_delivery := Some dl,
              i_preview := Some (take 4096 pv), i_artifact := art, i_error_code := ec,
              i_finished_at := Some now, i_duration_ms := Some ms\<rparr>) (d_invocations d))"
      using finish_effect[OF assms(1)] by simp
    then show "i_status r \<notin> set invocation_open"
    proof (rule sql_updateE)
      fix x assume "r = x\<lparr>i_status := st, i_execution := Some ex, i_delivery := Some dl,
              i_preview := Some (take 4096 pv), i_artifact := art, i_error_code := ec,
              i_finished_at := Some now, i_duration_ms := Some ms\<rparr>"
      with assms(2) show ?thesis by simp
    next
      assume "\<not> (i_id r = i \<and> i_status r \<in> set invocation_open)"
      with \<open>i_id r = i\<close> show ?thesis by simp
    qed
  qed
  from not_open_kept[OF this] show ?thesis by simp
qed

theorem invocation_finishes_once_witness:
  "\<exists>d'. finish_tool_invocation ''inv_1'' ''completed'' ''succeeded'' ''inline'' ''ok'' 5 None None ''t2''
       sample_db = Inr d'
     \<and> finish_tool_invocation ''inv_1'' ''failed'' ''failed'' ''inline'' ''no'' 6 None None ''t3'' d' = Inr d'"
proof -
  let ?c = "finish_tool_invocation ''inv_1'' ''completed'' ''succeeded'' ''inline'' ''ok'' 5 None None ''t2'' sample_db"
  have "is_ok ?c" by code_simp
  then obtain d' where c: "?c = Inr d'" by (auto simp: is_ok_iff)
  have "''completed'' \<notin> set invocation_open" by (simp add: invocation_open_def)
  from invocation_finishes_once[OF c this] c show ?thesis by simp
qed

section \<open>Sequence numbers\<close>

text \<open>The invocations of a run are numbered 1, 2, ... in the order they start.\<close>

definition run_invocations :: "db \<Rightarrow> string \<Rightarrow> invocation_row list" where
  "run_invocations d run_id = filter (\<lambda>r. i_run r = run_id) (d_invocations d)"

definition numbered :: "invocation_row list \<Rightarrow> bool" where
  "numbered rs \<longleftrightarrow> map i_sequence rs = map (\<lambda>n. int n + 1) [0..<length rs]"

lemma numbered_snoc:
  "numbered rs \<Longrightarrow> i_sequence r = int (length rs) + 1 \<Longrightarrow> numbered (rs @ [r])"
  by (simp add: numbered_def)

lemma numbered_max:
  assumes "numbered (run_invocations d run_id)"
  shows "max_or 0 i_sequence (\<lambda>r. i_run r = run_id) (d_invocations d)
    = int (length (run_invocations d run_id))"
proof -
  let ?rs = "run_invocations d run_id"
  have seq: "i_sequence (?rs ! k) = int k + 1" if "k < length ?rs" for k
    using assms that unfolding numbered_def by (metis (mono_tags, lifting) add_0 length_map nth_map nth_upt)
  have mem: "set ?rs = {r \<in> set (d_invocations d). i_run r = run_id}" by (auto simp: run_invocations_def)
  show ?thesis
  proof (cases "?rs = []")
    case True
    then have "\<forall>r \<in> set (d_invocations d). i_run r \<noteq> run_id" using mem by auto
    then show ?thesis using True max_or_in[of "d_invocations d" "\<lambda>r. i_run r = run_id" 0 i_sequence] by auto
  next
    case False
    then have last: "i_sequence (last ?rs) = int (length ?rs)"
      using seq[of "length ?rs - 1"] by (simp add: last_conv_nth of_nat_diff Suc_le_eq)
    have "last ?rs \<in> {r \<in> set (d_invocations d). i_run r = run_id}" using False mem by (metis last_in_set)
    then have "int (length ?rs) \<le> max_or 0 i_sequence (\<lambda>r. i_run r = run_id) (d_invocations d)"
      using max_or_ge[of "last ?rs" "d_invocations d" "\<lambda>r. i_run r = run_id" i_sequence 0] last by simp
    moreover have "max_or 0 i_sequence (\<lambda>r. i_run r = run_id) (d_invocations d) \<le> int (length ?rs)"
    proof -
      obtain r where r: "r \<in> set ?rs" "max_or 0 i_sequence (\<lambda>r. i_run r = run_id) (d_invocations d) = i_sequence r"
        using max_or_in[of "d_invocations d" "\<lambda>r. i_run r = run_id" 0 i_sequence] False mem
        by (metis (mono_tags, lifting) hd_in_set mem_Collect_eq)
      then obtain k where "k < length ?rs" "r = ?rs ! k" by (metis in_set_conv_nth)
      with seq r(2) show ?thesis by simp
    qed
    ultimately show ?thesis by simp
  qed
qed

definition invocations_ok :: "db \<Rightarrow> bool" where
  "invocations_ok d \<longleftrightarrow> list_all (\<lambda>r. numbered (run_invocations d (i_run r))) (d_invocations d)"

lemma invocations_ok_iff: "invocations_ok d \<longleftrightarrow> (\<forall>run_id. numbered (run_invocations d run_id))"
proof
  assume ok: "invocations_ok d"
  show "\<forall>run_id. numbered (run_invocations d run_id)"
  proof
    fix run_id
    show "numbered (run_invocations d run_id)"
    proof (cases "\<exists>r \<in> set (d_invocations d). i_run r = run_id")
      case True
      with ok show ?thesis by (auto simp: invocations_ok_def list_all_iff)
    next
      case False
      then have "run_invocations d run_id = []" by (simp add: run_invocations_def filter_empty_conv)
      then show ?thesis by (simp add: numbered_def)
    qed
  qed
qed (simp add: invocations_ok_def list_all_iff)

lemma start_effect:
  assumes "start_tool_invocation run_id session_id call name spec caps args status uuid now d = Inr (i, d')"
  shows "\<exists>r. d' = d\<lparr>d_invocations := d_invocations d @ [r]\<rparr> \<and> i_id r = i \<and> i_run r = run_id
     \<and> i_call r = call \<and> i_status r = status \<and> i_name r = name \<and> i_arguments r = args
     \<and> i_sequence r = max_or 0 i_sequence (\<lambda>r. i_run r = run_id) (d_invocations d) + 1
     \<and> (\<forall>x \<in> set (d_invocations d). i_id x \<noteq> i \<and> \<not> (i_run x = run_id \<and> i_call x = call))"
proof -
  let ?r = "\<lparr>i_id = ''inv_'' @ uuid, i_run = run_id, i_session = session_id,
     i_sequence = max_or 0 i_sequence (\<lambda>r. i_run r = run_id) (d_invocations d) + 1,
           i_call = call, i_name = name, i_spec = spec, i_capabilities = caps,
           i_policy = JObj [], i_arguments = args, i_status = status, i_execution = None,
           i_delivery = None, i_timings = JObj [], i_preview = None, i_artifact = None,
           i_error_code = None, i_pause_kind = None, i_pause_request = None,
           i_continuation = None, i_started_at = now, i_finished_at = None,
           i_duration_ms = None, i_delivered = None\<rparr>"
  from assms have i: "i = ''inv_'' @ uuid" and ins: "insert_invocation ?r d = Inr d'"
    unfolding start_tool_invocation_def Let_def rbind_Inr_iff by auto
  from ins have "d' = d\<lparr>d_invocations := d_invocations d @ [?r]\<rparr>"
    and "\<forall>x \<in> set (d_invocations d). i_id x \<noteq> i_id ?r \<and> \<not> (i_run x = run_id \<and> i_call x = call)"
    unfolding insert_invocation_Inr by auto
  then show ?thesis using i by (intro exI[of _ ?r]) simp
qed

text \<open>Starting a tool invocation adds one row, numbered next after the invocations of its
  run (so a run's invocations stay numbered 1, 2, ... in starting order), and the new row is
  what \<open>tool_invocation_for_call\<close> then finds for the run and the model's tool-call id.\<close>

lemma start_tool_invocation_numbers:
  assumes "invocations_ok d"
    and "start_tool_invocation run_id session_id call name spec caps args status uuid now d = Inr (i, d')"
  shows "invocations_ok d' \<and> (\<exists>r. tool_invocation_for_call run_id call d' = Some r
       \<and> run_invocations d' run_id = run_invocations d run_id @ [r]
       \<and> i_id r = i \<and> i_status r = status \<and> i_name r = name \<and> i_arguments r = args
       \<and> i_sequence r = int (length (run_invocations d run_id)) + 1)"
proof -
  obtain r where r: "d' = d\<lparr>d_invocations := d_invocations d @ [r]\<rparr>" "i_id r = i" "i_run r = run_id"
     "i_call r = call" "i_status r = status" "i_name r = name" "i_arguments r = args"
     "i_sequence r = max_or 0 i_sequence (\<lambda>r. i_run r = run_id) (d_invocations d) + 1"
     "\<forall>x \<in> set (d_invocations d). i_id x \<noteq> i \<and> \<not> (i_run x = run_id \<and> i_call x = call)"
    using start_effect[OF assms(2)] by blast
  have own: "numbered (run_invocations d run_id)" using assms(1) by (simp add: invocations_ok_iff)
  have seq: "i_sequence r = int (length (run_invocations d run_id)) + 1"
    using r(8) numbered_max[OF own] by simp
  have log: "run_invocations d' q = run_invocations d q @ (if q = run_id then [r] else [])" for q
    using r(1,3) by (simp add: run_invocations_def)
  have "invocations_ok d'"
    using assms(1) numbered_snoc[OF own seq] by (simp add: invocations_ok_iff log)
  moreover have "fetch_one (\<lambda>x. i_run x = run_id \<and> i_call x = call) (d_invocations d) = None"
    "row_by i_id i (d_invocations d) = None"
    using r(9) by (auto simp: fetch_one_None row_by_None)
  then have "tool_invocation_for_call run_id call d' = Some r"
    using r(1,2,3,4)
    by (simp add: tool_invocation_for_call_def tool_invocation_def fetch_one_append row_by_insert)
  ultimately show ?thesis using r seq log by auto
qed

theorem start_tool_invocation_numbers_witness:
  "\<exists>i d' r. start_tool_invocation ''r1'' ''s1'' ''c2'' ''grep'' (JObj []) (JObj []) (JObj []) ''running'' ''x''
       ''t2'' sample_db = Inr (i, d')
     \<and> tool_invocation_for_call ''r1'' ''c2'' d' = Some r \<and> i_sequence r = 2"
proof -
  let ?c = "start_tool_invocation ''r1'' ''s1'' ''c2'' ''grep'' (JObj []) (JObj []) (JObj []) ''running''
    ''x'' ''t2'' sample_db"
  have "is_ok ?c" by code_simp
  then obtain i d' where c: "?c = Inr (i, d')" by (auto simp: is_ok_iff)
  have ok: "invocations_ok sample_db" and n: "length (run_invocations sample_db ''r1'') = 1" by code_simp+
  from start_tool_invocation_numbers[OF ok c] c n show ?thesis by auto
qed

end
