(* ===== verification/Journal_Permissions.thy ===== *)
theory Journal_Permissions
  imports Schema
begin

text \<open>
  \<^verbatim>\<open>capslock/storage/repositories/journal/permissions.py\<close>: recorded permission decisions,
  session rules, workspace settings, approval requests and the one-shot grants that an
  approved request leaves for its invocation.  The invariant \<open>grants_ok\<close> says that a grant
  exists only for a request that was approved, for the same invocation, tool and arguments.
\<close>

section \<open>Decisions, rules and settings\<close>

definition record_permission_decision ::
  "string \<Rightarrow> string \<Rightarrow> string \<Rightarrow> string \<Rightarrow> string \<Rightarrow> string \<Rightarrow> string \<Rightarrow> json option \<Rightarrow> json option
   \<Rightarrow> string option \<Rightarrow> json list option \<Rightarrow> string \<Rightarrow> string \<Rightarrow> db \<Rightarrow> (string \<times> db) res" where
  "record_permission_decision invocation_id behavior source reason reason_code mode
       arguments_sha256 rule classifier decided_by suggestions uuid now d =
     (let identifier = ''perm_'' @ uuid in rbind (insert_decision
        \<lparr>pd_id = identifier, pd_invocation = invocation_id, pd_behavior = behavior,
         pd_source = source, pd_reason = reason, pd_reason_code = reason_code, pd_mode = mode,
         pd_arguments_sha256 = arguments_sha256, pd_rule = rule, pd_classifier = classifier,
         pd_suggestions = (case suggestions of None \<Rightarrow> [] | Some xs \<Rightarrow> xs),
         pd_decided_by = decided_by, pd_created_at = now\<rparr> d)
        (\<lambda>d'. Inr (identifier, d')))"

text \<open>Newest first, at most \<open>max(1, min(limit, 200))\<close> of them, each with its tool's name.\<close>

definition recent_permission_decisions ::
  "string \<Rightarrow> int \<Rightarrow> db \<Rightarrow> (decision_row \<times> string) list" where
  "recent_permission_decisions session_id limit d =
     take (nat (max 1 (min limit 200)))
       (rev (sort_key (\<lambda>p. pd_created_at (fst p))
         (concat (map (\<lambda>r. map (\<lambda>i. (r, i_name i))
             (filter (\<lambda>i. i_id i = pd_invocation r \<and> i_session i = session_id) (d_invocations d)))
           (d_decisions d)))))"

definition session_permission_rules :: "string \<Rightarrow> db \<Rightarrow> rule_row list" where
  "session_permission_rules session_id d =
     sort_key (\<lambda>r. (pu_created_at r, pu_id r)) (filter (\<lambda>r. pu_session r = session_id) (d_rules d))"

definition add_session_permission_rule ::
  "string \<Rightarrow> string \<Rightarrow> string \<Rightarrow> json \<Rightarrow> int \<Rightarrow> string \<Rightarrow> string \<Rightarrow> db \<Rightarrow> (string \<times> db) res" where
  "add_session_permission_rule session_id behavior tool constraints matcher_version uuid now d =
     (let identifier = ''rule_'' @ uuid in rbind (insert_rule
        \<lparr>pu_id = identifier, pu_session = session_id, pu_behavior = behavior, pu_tool = tool,
         pu_constraints = constraints, pu_matcher_version = matcher_version,
         pu_created_at = now\<rparr> d)
        (\<lambda>d'. Inr (identifier, d')))"

definition remove_session_permission_rule :: "string \<Rightarrow> string \<Rightarrow> db \<Rightarrow> db res" where
  "remove_session_permission_rule session_id identifier d =
     (let p = (\<lambda>r. pu_id r = identifier \<and> pu_session r = session_id) in
      if rowcount p (d_rules d) = 0
      then Inl (ValueError ''session permission rule does not exist'')
      else Inr (d\<lparr>d_rules := sql_delete p (d_rules d)\<rparr>))"

fun setting_text :: "json \<Rightarrow> string" where
  "setting_text (JStr s) = s"
| "setting_text v = json_dumps v"

definition permission_setting :: "string \<Rightarrow> db \<Rightarrow> string option" where
  "permission_setting key d =
     map_option (\<lambda>r. setting_text (ws_value r)) (row_by ws_key key (d_settings d))"

definition set_permission_setting :: "string \<Rightarrow> string \<Rightarrow> db \<Rightarrow> db" where
  "set_permission_setting key value d =
     (if exists_row (\<lambda>r. ws_key r = key) (d_settings d)
      then d\<lparr>d_settings := sql_update (\<lambda>r. ws_key r = key) (\<lambda>r. r\<lparr>ws_value := JStr value\<rparr>) (d_settings d)\<rparr>
      else d\<lparr>d_settings := d_settings d @ [\<lparr>ws_key = key, ws_value = JStr value\<rparr>]\<rparr>)"

section \<open>Approval requests\<close>

definition create_permission_request ::
  "string \<Rightarrow> string \<Rightarrow> string \<Rightarrow> string \<Rightarrow> string \<Rightarrow> string \<Rightarrow> json list \<Rightarrow> string \<Rightarrow> string \<Rightarrow> db
   \<Rightarrow> (string \<times> db) res" where
  "create_permission_request session_id run_id invocation_id tool arguments_sha256 reason
       suggestions uuid now d =
     (let identifier = ''permission_'' @ uuid in rbind (insert_permission
        \<lparr>pr_id = identifier, pr_session = session_id, pr_run = run_id,
         pr_invocation = invocation_id, pr_tool = tool, pr_arguments_sha256 = arguments_sha256,
         pr_reason = reason, pr_suggestions = suggestions, pr_status = ''pending'',
         pr_choice = None, pr_selected_update = None, pr_feedback = None, pr_result = None,
         pr_created_at = now, pr_decided_at = None\<rparr> d)
        (\<lambda>d'. Inr (identifier, d')))"

definition permission_request :: "string \<Rightarrow> string option \<Rightarrow> db \<Rightarrow> permission_row option" where
  "permission_request identifier session_id d =
     fetch_one (\<lambda>r. pr_id r = identifier \<and> (session_id = None \<or> session_id = Some (pr_session r)))
       (d_permissions d)"

definition list_permission_requests :: "string \<Rightarrow> string option \<Rightarrow> db \<Rightarrow> permission_row list" where
  "list_permission_requests session_id status d =
     List.map_filter (\<lambda>r. permission_request (pr_id r) (Some session_id) d)
       (sort_key pr_created_at (filter
         (\<lambda>r. pr_session r = session_id \<and> (status = None \<or> status = Some (pr_status r)))
         (d_permissions d)))"

text \<open>The request is read before the transaction (\<open>seen\<close>) and decided in it (\<open>d\<close>):
  \<open>settle_permission_request\<close> is the transaction.\<close>

definition settle_permission_request ::
  "permission_row \<Rightarrow> string \<Rightarrow> string \<Rightarrow> string \<Rightarrow> json option \<Rightarrow> string option \<Rightarrow> string \<Rightarrow> string
   \<Rightarrow> string \<Rightarrow> db \<Rightarrow> db res" where
  "settle_permission_request request identifier session_id choice selected_update feedback
       now grant_uuid grant_now d =
     (let target = (if choice = ''reject'' then ''rejected'' else ''approved'');
          p = (\<lambda>r. pr_id r = identifier \<and> pr_session r = session_id \<and> pr_status r = ''pending'');
          d1 = d\<lparr>d_permissions := sql_update p
                 (\<lambda>r. r\<lparr>pr_status := target, pr_choice := Some choice,
                       pr_selected_update := selected_update, pr_feedback := feedback,
                       pr_decided_at := Some now\<rparr>) (d_permissions d)\<rparr>
      in if rowcount p (d_permissions d) = 0
         then Inl (ValueError ''permission request changed concurrently'')
         else if target = ''approved''
         then insert_grant \<lparr>g_id = ''grant_'' @ grant_uuid, g_request = identifier,
                g_session = session_id, g_run = pr_run request,
                g_invocation = pr_invocation request, g_tool = pr_tool request,
                g_arguments_sha256 = pr_arguments_sha256 request,
                g_consumed_at = None, g_created_at = grant_now\<rparr> d1
         else Inr d1)"

definition decide_permission_request ::
  "string \<Rightarrow> string \<Rightarrow> string \<Rightarrow> json option \<Rightarrow> string option \<Rightarrow> string \<Rightarrow> string \<Rightarrow> string
   \<Rightarrow> db \<Rightarrow> db \<Rightarrow> (permission_row \<times> db) res" where
  "decide_permission_request identifier session_id choice selected_update feedback
       now grant_uuid grant_now seen d =
     (if choice \<notin> {''approve_once'', ''approve_session'', ''approve_local'', ''reject''}
      then Inl (ValueError ''invalid permission approval choice'')
      else case permission_request identifier (Some session_id) seen of
        None \<Rightarrow> Inl (ValueError ''permission request is not pending'')
      | Some request \<Rightarrow>
        if pr_status request \<noteq> ''pending''
        then Inl (ValueError ''permission request is not pending'')
        else rbind (settle_permission_request request identifier session_id choice
                      selected_update feedback now grant_uuid grant_now d)
               (\<lambda>d2. case permission_request identifier (Some session_id) d2 of
                   None \<Rightarrow> Inl AssertionError
                 | Some decided \<Rightarrow> Inr (decided, d2)))"

definition complete_permission_request :: "string \<Rightarrow> string \<Rightarrow> json \<Rightarrow> db \<Rightarrow> db res" where
  "complete_permission_request identifier session_id result d =
     (let p = (\<lambda>r. pr_id r = identifier \<and> pr_session r = session_id
                 \<and> pr_status r \<in> {''approved'', ''rejected'', ''cancelled''}) in
      if rowcount p (d_permissions d) = 0
      then Inl (ValueError ''decided permission request does not exist'')
      else Inr (d\<lparr>d_permissions :=
             sql_update p (\<lambda>r. r\<lparr>pr_result := Some result\<rparr>) (d_permissions d)\<rparr>))"

text \<open>The row a grant must match to cover a call.\<close>

definition grant_covers ::
  "string \<Rightarrow> string \<Rightarrow> string \<Rightarrow> string \<Rightarrow> string \<Rightarrow> grant_row \<Rightarrow> bool" where
  "grant_covers session_id run_id invocation_id tool arguments_sha256 r \<longleftrightarrow>
     g_session r = session_id \<and> g_run r = run_id \<and> g_invocation r = invocation_id
     \<and> g_tool r = tool \<and> g_arguments_sha256 r = arguments_sha256 \<and> g_consumed_at r = None"

definition consume_permission_grant ::
  "string \<Rightarrow> string \<Rightarrow> string \<Rightarrow> string \<Rightarrow> string \<Rightarrow> string \<Rightarrow> db \<Rightarrow> bool \<times> db" where
  "consume_permission_grant session_id run_id invocation_id tool arguments_sha256 now d =
     (case fetch_one (grant_covers session_id run_id invocation_id tool arguments_sha256) (d_grants d) of
        None \<Rightarrow> (False, d)
      | Some row \<Rightarrow>
          (let p = (\<lambda>r. g_id r = g_id row \<and> g_consumed_at r = None)
           in (rowcount p (d_grants d) \<noteq> 0,
               d\<lparr>d_grants := sql_update p (\<lambda>r. r\<lparr>g_consumed_at := Some now\<rparr>) (d_grants d)\<rparr>)))"

section \<open>Grants come from approvals\<close>

definition grant_backed :: "db \<Rightarrow> grant_row \<Rightarrow> bool" where
  "grant_backed d g \<longleftrightarrow> (case row_by pr_id (g_request g) (d_permissions d) of
      None \<Rightarrow> False
    | Some r \<Rightarrow> pr_status r = ''approved'' \<and> pr_session r = g_session g \<and> pr_run r = g_run g
        \<and> pr_invocation r = g_invocation g \<and> pr_tool r = g_tool g
        \<and> pr_arguments_sha256 r = g_arguments_sha256 g)"

definition grants_ok :: "db \<Rightarrow> bool" where
  "grants_ok d \<longleftrightarrow> unique_by pr_id (d_permissions d) \<and> unique_by g_id (d_grants d)
     \<and> unique_by g_invocation (d_grants d) \<and> list_all (grant_backed d) (d_grants d)"

text \<open>What never changes about a request, the requests that are no longer pending, and the
  invocations whose grant is used up.\<close>

definition request_key :: "permission_row \<Rightarrow> string \<times> string \<times> string \<times> string \<times> string \<times> string" where
  "request_key r = (pr_id r, pr_session r, pr_run r, pr_invocation r, pr_tool r, pr_arguments_sha256 r)"

definition decided_requests :: "db \<Rightarrow> string set" where
  "decided_requests d = pr_id ` {r \<in> set (d_permissions d). pr_status r \<noteq> ''pending''}"

definition spent_invocations :: "db \<Rightarrow> string set" where
  "spent_invocations d = g_invocation ` {g \<in> set (d_grants d). g_consumed_at g \<noteq> None}"

definition later_than :: "db \<Rightarrow> db \<Rightarrow> bool" where
  "later_than s d \<longleftrightarrow> request_key ` set (d_permissions s) \<subseteq> request_key ` set (d_permissions d)
     \<and> decided_requests s \<subseteq> decided_requests d \<and> spent_invocations s \<subseteq> spent_invocations d"

lemma decidedI: "r \<in> set (d_permissions d) \<Longrightarrow> pr_status r \<noteq> ''pending'' \<Longrightarrow> pr_id r = i \<Longrightarrow> i \<in> decided_requests d"
  by (auto simp: decided_requests_def)

lemma decidedE:
  assumes "i \<in> decided_requests d"
  obtains r where "r \<in> set (d_permissions d)" "pr_status r \<noteq> ''pending''" "pr_id r = i"
  using assms by (auto simp: decided_requests_def)

lemma spentI: "g \<in> set (d_grants d) \<Longrightarrow> g_consumed_at g \<noteq> None \<Longrightarrow> g_invocation g = i \<Longrightarrow> i \<in> spent_invocations d"
  by (auto simp: spent_invocations_def)

lemma spentE:
  assumes "i \<in> spent_invocations d"
  obtains g where "g \<in> set (d_grants d)" "g_consumed_at g \<noteq> None" "g_invocation g = i"
  using assms by (auto simp: spent_invocations_def)

lemma later_refl [simp]: "later_than d d"
  by (simp add: later_than_def)

lemma later_trans: "later_than s d \<Longrightarrow> later_than d e \<Longrightarrow> later_than s e"
  unfolding later_than_def by (meson subset_trans)

lemma grant_backed_iff:
  assumes "unique_by pr_id (d_permissions d)"
  shows "grant_backed d g \<longleftrightarrow> (\<exists>r \<in> set (d_permissions d). pr_status r = ''approved''
     \<and> request_key r = (g_request g, g_session g, g_run g, g_invocation g, g_tool g, g_arguments_sha256 g))"
proof -
  have "grant_backed d g \<longleftrightarrow> (\<exists>r. row_by pr_id (g_request g) (d_permissions d) = Some r
     \<and> pr_status r = ''approved'' \<and> pr_session r = g_session g \<and> pr_run r = g_run g
        \<and> pr_invocation r = g_invocation g \<and> pr_tool r = g_tool g
        \<and> pr_arguments_sha256 r = g_arguments_sha256 g)"
    by (cases "row_by pr_id (g_request g) (d_permissions d)") (simp_all add: grant_backed_def)
  then show ?thesis unfolding row_by_Some_iff[OF assms] request_key_def prod.inject by blast
qed

text \<open>An update of requests that leaves every key and every decided row's status alone, and an
  update of grants that only marks grants as consumed.\<close>

lemma update_requests:
  assumes ok: "grants_ok d" and f: "\<And>r. p r \<Longrightarrow> request_key (f r) = request_key r"
    and st: "\<And>r. p r \<Longrightarrow> pr_status r \<noteq> ''pending'' \<Longrightarrow> pr_status (f r) = pr_status r"
    and d': "d' = d\<lparr>d_permissions := sql_update p f (d_permissions d)\<rparr>"
  shows "grants_ok d' \<and> later_than d d'"
proof
  have id: "\<And>r. p r \<Longrightarrow> pr_id (f r) = pr_id r" using f by (simp add: request_key_def)
  have keys: "request_key ` set (d_permissions d') = request_key ` set (d_permissions d)"
    unfolding d' using f by (simp add: map_sql_update flip: set_map)
  have u: "unique_by pr_id (d_permissions d)" and u': "unique_by pr_id (d_permissions d')"
    using ok by (simp_all add: grants_ok_def d' unique_by_update id)
  have "grant_backed d' g" if "grant_backed d g" for g
  proof -
    from that obtain r where r: "r \<in> set (d_permissions d)" "pr_status r = ''approved''"
      "request_key r = (g_request g, g_session g, g_run g, g_invocation g, g_tool g, g_arguments_sha256 g)"
      by (auto simp: grant_backed_iff[OF u])
    then have "(if p r then f r else r) \<in> set (d_permissions d')" by (auto simp: d' sql)
    moreover have "pr_status (if p r then f r else r) = ''approved''" using st[of r] r by simp
    moreover have "request_key (if p r then f r else r) = request_key r" using f by simp
    ultimately show ?thesis using r(3) unfolding grant_backed_iff[OF u'] by metis
  qed
  moreover have "d_grants d' = d_grants d" by (simp add: d')
  ultimately show "grants_ok d'" using ok u' by (auto simp: grants_ok_def list_all_iff)
  have "decided_requests d \<subseteq> decided_requests d'"
  proof
    fix i assume "i \<in> decided_requests d"
    then obtain r where r: "r \<in> set (d_permissions d)" "pr_status r \<noteq> ''pending''" "pr_id r = i"
      by (rule decidedE)
    then have "(if p r then f r else r) \<in> set (d_permissions d')" by (auto simp: d' sql)
    moreover have "pr_status (if p r then f r else r) \<noteq> ''pending''" using st[of r] r by simp
    moreover have "pr_id (if p r then f r else r) = i" using id r by simp
    ultimately show "i \<in> decided_requests d'" by (rule decidedI)
  qed
  then show "later_than d d'" unfolding later_than_def keys by (simp add: spent_invocations_def d')
qed

lemma consume_keeps:
  assumes ok: "grants_ok d" and d': "d' = d\<lparr>d_grants := sql_update p
      (\<lambda>r. r\<lparr>g_consumed_at := Some now\<rparr>) (d_grants d)\<rparr>"
  shows "grants_ok d' \<and> later_than d d'"
proof -
  have "grant_backed d' (g\<lparr>g_consumed_at := x\<rparr>) = grant_backed d g" for g x
    by (simp add: grant_backed_def d' split: option.splits)
  moreover have "grant_backed d' g = grant_backed d g" for g
    by (simp add: grant_backed_def d')
  moreover have "spent_invocations d \<subseteq> spent_invocations d'"
  proof
    fix i assume "i \<in> spent_invocations d"
    then obtain g where g: "g \<in> set (d_grants d)" "g_consumed_at g \<noteq> None" "g_invocation g = i"
      by (rule spentE)
    let ?g = "if p g then g\<lparr>g_consumed_at := Some now\<rparr> else g"
    have "?g \<in> set (d_grants d')" "g_consumed_at ?g \<noteq> None" "g_invocation ?g = i"
      using g by (auto simp: d' sql)
    then show "i \<in> spent_invocations d'" by (rule spentI)
  qed
  ultimately show ?thesis using ok
    by (auto simp: grants_ok_def list_all_iff d' sql unique_by_update later_than_def
      decided_requests_def)
qed

text \<open>The life of the permission tables: the newest database first.  A decision may have read
  any earlier database; \<open>others\<close> is any other writer, of which only the cancellation of
  pending requests touches these tables.\<close>

inductive perm_history :: "db list \<Rightarrow> bool" where
  init: "grants_ok d \<Longrightarrow> perm_history [d]"
| create: "perm_history (d # h) \<Longrightarrow>
    create_permission_request s r i tool sha reason suggestions uuid now d = Inr (x, d') \<Longrightarrow>
    perm_history (d' # d # h)"
| decide: "perm_history (d # h) \<Longrightarrow> seen \<in> set (d # h) \<Longrightarrow>
    decide_permission_request q s choice update feedback now gu gn seen d = Inr (x, d') \<Longrightarrow>
    perm_history (d' # d # h)"
| complete: "perm_history (d # h) \<Longrightarrow> complete_permission_request q s result d = Inr d' \<Longrightarrow>
    perm_history (d' # d # h)"
| consume: "perm_history (d # h) \<Longrightarrow> consume_permission_grant s r i tool sha now d = (b, d') \<Longrightarrow>
    perm_history (d' # d # h)"
| others: "perm_history (d # h) \<Longrightarrow> d_grants d' = d_grants d \<Longrightarrow>
    d_permissions d' = sql_update (\<lambda>r. p r \<and> pr_status r = ''pending'')
      (\<lambda>r. r\<lparr>pr_status := ''cancelled'', pr_decided_at := Some now\<rparr>) (d_permissions d) \<Longrightarrow>
    perm_history (d' # d # h)"

inductive_cases perm_historyE: "perm_history (d # h)"

lemma insert_permission_keeps:
  assumes ok: "grants_ok d" and eq: "insert_permission q d = Inr d'"
  shows "grants_ok d' \<and> later_than d d'"
proof -
  from eq have d': "d' = d\<lparr>d_permissions := d_permissions d @ [q]\<rparr>"
      and fresh: "\<forall>y \<in> set (d_permissions d). pr_id q \<noteq> pr_id y"
    by (auto simp: insert_permission_Inr)
  have u: "unique_by pr_id (d_permissions d)" and u': "unique_by pr_id (d_permissions d')"
    using ok fresh by (auto simp: grants_ok_def d')
  have "grant_backed d' g" if "grant_backed d g" for g
    using that unfolding grant_backed_iff[OF u] grant_backed_iff[OF u'] by (auto simp: d')
  then show ?thesis using ok u'
    by (auto simp: grants_ok_def list_all_iff d' later_than_def decided_requests_def spent_invocations_def)
qed

lemma create_keeps:
  assumes "grants_ok d"
    and "create_permission_request s r i tool sha reason suggestions uuid now d = Inr (x, d')"
  shows "grants_ok d' \<and> later_than d d'"
proof -
  from assms(2) obtain q where "insert_permission q d = Inr d'"
    unfolding create_permission_request_def Let_def by (elim rbind_InrE) auto
  with assms(1) show ?thesis by (rule insert_permission_keeps)
qed

lemma decide_effect:
  assumes "decide_permission_request q s choice update feedback now gu gn seen d = Inr (x, d')"
  shows "\<exists>request \<in> set (d_permissions seen). pr_id request = q \<and> pr_session request = s
     \<and> pr_status request = ''pending''
     \<and> settle_permission_request request q s choice update feedback now gu gn d = Inr d'
     \<and> permission_request q (Some s) d' = Some x"
proof -
  from assms obtain request where req: "permission_request q (Some s) seen = Some request"
      "pr_status request = ''pending''"
      "rbind (settle_permission_request request q s choice update feedback now gu gn d)
         (\<lambda>d2. case permission_request q (Some s) d2 of
                   None \<Rightarrow> Inl AssertionError
                 | Some decided \<Rightarrow> Inr (decided, d2)) = Inr (x, d')"
    unfolding decide_permission_request_def by (auto split: if_splits option.splits)
  have "request \<in> set (d_permissions seen) \<and> pr_id request = q \<and> pr_session request = s"
    using fetch_one_Some[OF req(1)[unfolded permission_request_def]] by simp
  with req(2,3) show ?thesis by (auto elim!: rbind_InrE split: option.splits)
qed

lemma settle_keeps:
  assumes ok: "grants_ok d"
    and eq: "settle_permission_request request q s choice update feedback now gu gn d = Inr d'"
    and req: "request_key request \<in> request_key ` set (d_permissions d)"
      "pr_id request = q" "pr_session request = s"
  shows "grants_ok d' \<and> later_than d d' \<and> q \<in> decided_requests d'"
proof -
  let ?t = "if choice = ''reject'' then ''rejected'' else ''approved''"
  let ?p = "\<lambda>r. pr_id r = q \<and> pr_session r = s \<and> pr_status r = ''pending''"
  let ?f = "\<lambda>r. r\<lparr>pr_status := ?t, pr_choice := Some choice, pr_selected_update := update,
    pr_feedback := feedback, pr_decided_at := Some now\<rparr>"
  let ?d1 = "d\<lparr>d_permissions := sql_update ?p ?f (d_permissions d)\<rparr>"
  have d1: "grants_ok ?d1 \<and> later_than d ?d1"
    using ok by (rule update_requests) (auto simp: request_key_def)
  from eq obtain r where r: "r \<in> set (d_permissions d)" "?p r"
    unfolding settle_permission_request_def Let_def by (auto split: if_splits)
  then have fr: "?f r \<in> set (d_permissions ?d1)" by (auto simp: sql)
  moreover have "pr_id (?f r) = q" "pr_status (?f r) \<noteq> ''pending''" using r by simp_all
  ultimately have dec: "q \<in> decided_requests ?d1" by (intro decidedI[of "?f r"]) simp_all
  show ?thesis
  proof (cases "choice = ''reject''")
    case True
    with eq have "d' = ?d1"
      unfolding settle_permission_request_def Let_def by (simp split: if_splits)
    with d1 dec show ?thesis by simp
  next
    case False
    let ?g = "\<lparr>g_id = ''grant_'' @ gu, g_request = q, g_session = s, g_run = pr_run request,
      g_invocation = pr_invocation request, g_tool = pr_tool request,
      g_arguments_sha256 = pr_arguments_sha256 request, g_consumed_at = None, g_created_at = gn\<rparr>"
    from eq False have "insert_grant ?g ?d1 = Inr d'"
      unfolding settle_permission_request_def Let_def by (simp split: if_splits)
    then have d': "d' = ?d1\<lparr>d_grants := d_grants d @ [?g]\<rparr>"
      and fresh: "\<forall>x \<in> set (d_grants d). g_id ?g \<noteq> g_id x \<and> g_invocation ?g \<noteq> g_invocation x"
      unfolding insert_grant_Inr by simp_all
    have u: "unique_by pr_id (d_permissions d)" and u1: "unique_by pr_id (d_permissions ?d1)"
      using ok d1 by (simp_all add: grants_ok_def)
    from req(1) obtain r' where r': "r' \<in> set (d_permissions d)" "request_key r' = request_key request"
      by force
    then have "r' = r" using req(2) r unique_by_eq[OF u r'(1) r(1)] by (simp add: request_key_def)
    with r'(2) have same: "request_key r = request_key request" by simp
    have "request_key (?f r) = request_key request"
      using req(2,3) r(2) same by (simp add: request_key_def)
    also have "\<dots> = (g_request ?g, g_session ?g, g_run ?g, g_invocation ?g, g_tool ?g, g_arguments_sha256 ?g)"
      using req(2,3) by (simp add: request_key_def)
    finally have "grant_backed ?d1 ?g"
      unfolding grant_backed_iff[OF u1] using fr False by (intro bexI[of _ "?f r"]) simp_all
    moreover have "grant_backed d' x = grant_backed ?d1 x" for x
      by (simp add: grant_backed_def d')
    ultimately have "grants_ok d'"
      using d1 fresh by (auto simp: grants_ok_def list_all_iff d')
    moreover have "later_than ?d1 d'"
      by (auto simp: later_than_def decided_requests_def spent_invocations_def d')
    moreover have "q \<in> decided_requests d'" using dec by (simp add: decided_requests_def d')
    ultimately show ?thesis using d1 later_trans by blast
  qed
qed

lemma complete_keeps:
  assumes "grants_ok d" and "complete_permission_request q s result d = Inr d'"
  shows "grants_ok d' \<and> later_than d d'"
  using assms(1)
proof (rule update_requests)
  show "d' = d\<lparr>d_permissions := sql_update (\<lambda>r. pr_id r = q \<and> pr_session r = s
     \<and> pr_status r \<in> {''approved'', ''rejected'', ''cancelled''})
     (\<lambda>r. r\<lparr>pr_result := Some result\<rparr>) (d_permissions d)\<rparr>"
    using assms(2) unfolding complete_permission_request_def Let_def by (simp split: if_splits)
qed (simp_all add: request_key_def)

lemma consume_keeps_grants:
  assumes "grants_ok d" and "consume_permission_grant s r i tool sha now d = (b, d')"
  shows "grants_ok d' \<and> later_than d d'"
  using assms consume_keeps[OF assms(1)]
  unfolding consume_permission_grant_def Let_def by (auto split: option.splits)

lemma others_keep:
  assumes ok: "grants_ok d" and g: "d_grants d' = d_grants d"
    and p: "d_permissions d' = sql_update (\<lambda>r. p r \<and> pr_status r = ''pending'')
      (\<lambda>r. r\<lparr>pr_status := ''cancelled'', pr_decided_at := Some now\<rparr>) (d_permissions d)"
  shows "grants_ok d' \<and> later_than d d'"
proof -
  let ?e = "d\<lparr>d_permissions := d_permissions d'\<rparr>"
  have e: "grants_ok ?e \<and> later_than d ?e"
    unfolding p using ok by (rule update_requests) (auto simp: request_key_def)
  have "grant_backed d' x = grant_backed ?e x" for x by (simp add: grant_backed_def)
  with e show ?thesis
    by (simp add: grants_ok_def g list_all_iff later_than_def decided_requests_def spent_invocations_def)
qed

lemma perm_history_ok: "perm_history h \<Longrightarrow> h \<noteq> [] \<and> grants_ok (hd h) \<and> (\<forall>s \<in> set h. later_than s (hd h))"
proof (induction rule: perm_history.induct)
  case (decide d h seen q s choice update feedback now gu gn x d')
  then obtain request where req: "request \<in> set (d_permissions seen)" "pr_id request = q"
      "pr_session request = s"
      "settle_permission_request request q s choice update feedback now gu gn d = Inr d'"
    using decide_effect by blast
  have "later_than seen d" using decide by auto
  with req(1) have key: "request_key request \<in> request_key ` set (d_permissions d)"
    unfolding later_than_def by blast
  have "grants_ok d" using decide by simp
  from settle_keeps[OF this req(4) key req(2,3)] have "grants_ok d' \<and> later_than d d'" by simp
  with decide show ?case by (auto intro: later_trans)
next
  case (create d h s r i tool sha reason suggestions uuid now x d')
  then have "grants_ok d' \<and> later_than d d'" by (intro create_keeps[OF _ create.hyps(2)]) simp
  with create show ?case by (auto intro: later_trans)
next
  case (complete d h q s result d')
  then have "grants_ok d' \<and> later_than d d'" by (intro complete_keeps[OF _ complete.hyps(2)]) simp
  with complete show ?case by (auto intro: later_trans)
next
  case (consume d h s r i tool sha now b d')
  then have "grants_ok d' \<and> later_than d d'" by (intro consume_keeps_grants[OF _ consume.hyps(2)]) simp
  with consume show ?case by (auto intro: later_trans)
next
  case (others d h d' p now)
  then have "grants_ok d' \<and> later_than d d'" by (intro others_keep[where p = p and now = now]) simp_all
  with others show ?case by (auto intro: later_trans)
qed simp

section \<open>Properties\<close>

lemma consume_true:
  assumes "consume_permission_grant s r i tool sha now d = (True, d')"
  shows "\<exists>g \<in> set (d_grants d). grant_covers s r i tool sha g \<and> i \<in> spent_invocations d'"
proof -
  from assms obtain g where g: "fetch_one (grant_covers s r i tool sha) (d_grants d) = Some g"
    and d': "d' = d\<lparr>d_grants := sql_update (\<lambda>r. g_id r = g_id g \<and> g_consumed_at r = None)
               (\<lambda>r. r\<lparr>g_consumed_at := Some now\<rparr>) (d_grants d)\<rparr>"
    unfolding consume_permission_grant_def Let_def by (auto split: option.splits)
  then have c: "g \<in> set (d_grants d)" "grant_covers s r i tool sha g"
    using fetch_one_Some by fastforce+
  then have "g\<lparr>g_consumed_at := Some now\<rparr> \<in> set (d_grants d')"
    by (force simp: d' sql grant_covers_def)
  moreover have "g_invocation (g\<lparr>g_consumed_at := Some now\<rparr>) = i"
    using c by (simp add: grant_covers_def)
  ultimately have "i \<in> spent_invocations d'" 
    by (intro spentI[of "g\<lparr>g_consumed_at := Some now\<rparr>"]) simp_all
  with c show ?thesis by blast
qed

lemma spent_not_consumed:
  assumes "grants_ok e" and "i \<in> spent_invocations e"
  shows "consume_permission_grant s r i tool sha now e = (False, e)"
proof -
  have "\<not> grant_covers s r i tool sha g" if g: "g \<in> set (d_grants e)" for g
  proof
    assume c: "grant_covers s r i tool sha g"
    obtain x where x: "x \<in> set (d_grants e)" "g_consumed_at x \<noteq> None" "g_invocation x = i"
      using assms(2) by (auto simp: spent_invocations_def)
    then have "x = g" using g c assms(1) unique_by_eq[of g_invocation "d_grants e" x g]
      by (simp add: grants_ok_def grant_covers_def)
    with x c show False by (simp add: grant_covers_def)
  qed
  then have "fetch_one (grant_covers s r i tool sha) (d_grants e) = None"
    by (simp add: fetch_one_None)
  then show ?thesis by (simp add: consume_permission_grant_def)
qed

text \<open>C8: A tool call that needs approval runs on a grant that is used once.  Whatever
  requests, decisions (also ones taken on a stale read), completions, consumptions and
  cancellations came before, \<open>consume_permission_grant\<close> answers true only if the request for
  exactly this session, run, invocation, tool and argument digest was approved; and from then
  on every later attempt for the invocation is answered false, whatever it asks for.\<close>

theorem permission_grant_single_use:
  assumes "perm_history (d # h)" and "consume_permission_grant s r i tool sha now d = (True, d')"
  shows "(\<exists>q \<in> set (d_permissions d). pr_status q = ''approved'' \<and> pr_session q = s \<and> pr_run q = r
            \<and> pr_invocation q = i \<and> pr_tool q = tool \<and> pr_arguments_sha256 q = sha)
       \<and> (\<forall>e h' s2 r2 tool2 sha2 now2. perm_history (e # h') \<longrightarrow> d' \<in> set (e # h') \<longrightarrow>
            consume_permission_grant s2 r2 i tool2 sha2 now2 e = (False, e))"
proof -
  have ok: "grants_ok d" using perm_history_ok[OF assms(1)] by simp
  obtain g where g: "g \<in> set (d_grants d)" "grant_covers s r i tool sha g" "i \<in> spent_invocations d'"
    using consume_true[OF assms(2)] by blast
  have u: "unique_by pr_id (d_permissions d)" using ok by (simp add: grants_ok_def)
  have "grant_backed d g" using ok g(1) by (simp add: grants_ok_def list_all_iff)
  then obtain q where "q \<in> set (d_permissions d)" "pr_status q = ''approved''" "request_key q =
      (g_request g, g_session g, g_run g, g_invocation g, g_tool g, g_arguments_sha256 g)"
    unfolding grant_backed_iff[OF u] by blast
  then have "\<exists>q \<in> set (d_permissions d). pr_status q = ''approved'' \<and> pr_session q = s \<and> pr_run q = r
      \<and> pr_invocation q = i \<and> pr_tool q = tool \<and> pr_arguments_sha256 q = sha"
    using g(2) by (intro bexI[of _ q]) (simp_all add: request_key_def grant_covers_def)
  moreover have "consume_permission_grant s2 r2 i tool2 sha2 now2 e = (False, e)"
    if "perm_history (e # h')" "d' \<in> set (e # h')" for e h' s2 r2 tool2 sha2 now2
  proof -
    have "grants_ok e" "later_than d' e" using perm_history_ok[OF that(1)] that(2) by auto
    with g(3) show ?thesis by (intro spent_not_consumed) (auto simp: later_than_def)
  qed
  ultimately show ?thesis by blast
qed

text \<open>A permission request is decided at most once.  The deciding call returns the
  request with the status its choice stands for, and after it every further
  \<open>decide_permission_request\<close> for the request raises, whatever database it read before.\<close>

lemma permission_decided_once:
  assumes hist: "perm_history (d # h)" and seen: "seen \<in> set (d # h)"
    and eq: "decide_permission_request q s choice update feedback now gu gn seen d = Inr (x, d')"
  shows "pr_id x = q \<and> pr_choice x = Some choice
       \<and> pr_status x = (if choice = ''reject'' then ''rejected'' else ''approved'')
       \<and> (\<forall>e h' seen' s2 choice2 update2 feedback2 now2 gu2 gn2.
            perm_history (e # h') \<longrightarrow> d' \<in> set (e # h') \<longrightarrow>
            \<not> is_ok (decide_permission_request q s2 choice2 update2 feedback2 now2 gu2 gn2 seen' e))"
proof -
  have ok: "grants_ok d" and later: "later_than seen d" using perm_history_ok[OF hist] seen by auto
  from decide_effect[OF eq] obtain request where req: "request \<in> set (d_permissions seen)"
      "pr_id request = q" "pr_session request = s"
      "settle_permission_request request q s choice update feedback now gu gn d = Inr d'"
      "permission_request q (Some s) d' = Some x" by blast
  have key: "request_key request \<in> request_key ` set (d_permissions d)"
    using later req(1) unfolding later_than_def by blast
  have settled: "grants_ok d'" "q \<in> decided_requests d'"
    using settle_keeps[OF ok req(4) key req(2,3)] by simp_all
  have x: "x \<in> set (d_permissions d')" "pr_id x = q"
    using fetch_one_Some[OF req(5)[unfolded permission_request_def]] by simp_all
  let ?f = "\<lambda>r. r\<lparr>pr_status := if choice = ''reject'' then ''rejected'' else ''approved'',
    pr_choice := Some choice, pr_selected_update := update, pr_feedback := feedback,
    pr_decided_at := Some now\<rparr>"
  obtain r where r: "r \<in> set (d_permissions d)" "pr_id r = q" "pr_session r = s" "pr_status r = ''pending''"
    using req(4) unfolding settle_permission_request_def Let_def by (auto split: if_splits)
  have "d_permissions d' = sql_update (\<lambda>r. pr_id r = q \<and> pr_session r = s \<and> pr_status r = ''pending'')
      ?f (d_permissions d)"
    using req(4) unfolding settle_permission_request_def Let_def
    by (auto simp: insert_grant_Inr split: if_splits)
  then have "?f r \<in> set (d_permissions d')" using r by (auto simp: sql)
  then have "x = ?f r" using x r(2) settled(1) unique_by_eq[of pr_id "d_permissions d'" x "?f r"]
    by (simp add: grants_ok_def)
  moreover have "\<not> is_ok (decide_permission_request q s2 choice2 update2 feedback2 now2 gu2 gn2 seen' e)"
    if "perm_history (e # h')" "d' \<in> set (e # h')" for e h' seen' s2 choice2 update2 feedback2 now2 gu2 gn2
  proof
    assume "is_ok (decide_permission_request q s2 choice2 update2 feedback2 now2 gu2 gn2 seen' e)"
    then obtain request2 d2 where
      "settle_permission_request request2 q s2 choice2 update2 feedback2 now2 gu2 gn2 e = Inr d2"
      by (auto simp: is_ok_iff dest!: decide_effect)
    then obtain r2 where r2: "r2 \<in> set (d_permissions e)" "pr_id r2 = q" "pr_status r2 = ''pending''"
      unfolding settle_permission_request_def Let_def by (auto split: if_splits)
    have e: "grants_ok e" "later_than d' e" using perm_history_ok[OF that(1)] that(2) by auto
    then have "q \<in> decided_requests e" using settled(2) unfolding later_than_def by blast
    then obtain r3 where "r3 \<in> set (d_permissions e)" "pr_id r3 = q" "pr_status r3 \<noteq> ''pending''"
      by (rule decidedE)
    with r2 e(1) unique_by_eq[of pr_id "d_permissions e" r2 r3] show False
      by (simp add: grants_ok_def)
  qed
  ultimately show ?thesis using r by simp
qed

text \<open>An approved and a pending request, and the grant of the first.\<close>

definition sample_permission :: "string \<Rightarrow> string \<Rightarrow> string \<Rightarrow> permission_row" where
  "sample_permission q i st = \<lparr>pr_id = q, pr_session = ''s1'', pr_run = ''r1'', pr_invocation = i,
     pr_tool = ''write_file'', pr_arguments_sha256 = ''ab'', pr_reason = ''r'', pr_suggestions = [],
     pr_status = st, pr_choice = None, pr_selected_update = None, pr_feedback = None,
     pr_result = None, pr_created_at = ''t1'', pr_decided_at = None\<rparr>"

definition sample_perm_db :: db where
  "sample_perm_db = sample_db\<lparr>
     d_permissions := [sample_permission ''q0'' ''inv_0'' ''approved'',
                       sample_permission ''q1'' ''inv_1'' ''pending''],
     d_grants := [\<lparr>g_id = ''g0'', g_request = ''q0'', g_session = ''s1'', g_run = ''r1'',
       g_invocation = ''inv_0'', g_tool = ''write_file'', g_arguments_sha256 = ''ab'',
       g_consumed_at = None, g_created_at = ''t1''\<rparr>]\<rparr>"

lemma sample_perm_history: "perm_history [sample_perm_db]"
  by (rule perm_history.init) code_simp

theorem permission_grant_single_use_witness:
  "\<exists>d'. consume_permission_grant ''s1'' ''r1'' ''inv_0'' ''write_file'' ''ab'' ''t2'' sample_perm_db = (True, d')
     \<and> consume_permission_grant ''s1'' ''r1'' ''inv_0'' ''write_file'' ''ab'' ''t3'' d' = (False, d')"
proof -
  let ?c = "consume_permission_grant ''s1'' ''r1'' ''inv_0'' ''write_file'' ''ab'' ''t2'' sample_perm_db"
  have "fst ?c" by code_simp
  then obtain d' where c: "?c = (True, d')" by (cases ?c) auto
  have "perm_history [d', sample_perm_db]"
    by (rule perm_history.consume[OF sample_perm_history c])
  with permission_grant_single_use[OF sample_perm_history c] c show ?thesis by auto
qed

theorem permission_decided_once_witness:
  "\<exists>x d'. decide_permission_request ''q1'' ''s1'' ''approve_once'' None None ''t2'' ''u'' ''t2''
       sample_perm_db sample_perm_db = Inr (x, d') \<and> pr_status x = ''approved''
     \<and> \<not> is_ok (decide_permission_request ''q1'' ''s1'' ''reject'' None None ''t3'' ''v'' ''t3''
          sample_perm_db d')"
proof -
  let ?c = "decide_permission_request ''q1'' ''s1'' ''approve_once'' None None ''t2'' ''u'' ''t2''
       sample_perm_db sample_perm_db"
  have "is_ok ?c" by code_simp
  then obtain x d' where c: "?c = Inr (x, d')" by (auto simp: is_ok_iff)
  have seen: "sample_perm_db \<in> set [sample_perm_db]" by simp
  have "perm_history [d', sample_perm_db]"
    by (rule perm_history.decide[OF sample_perm_history seen c])
  with permission_decided_once[OF sample_perm_history seen c] c show ?thesis by auto
qed

end
