(* ===== verification/Journal_Inputs.thy ===== *)
theory Journal_Inputs
  imports Schema
begin

text \<open>
  \<^verbatim>\<open>capslock/storage/repositories/journal/input_requests.py\<close>: questions a tool asks the user,
  the validation of the answers, and the request's life (\<open>pending\<close>, then \<open>answered\<close> or
  \<open>cancelled\<close>).
\<close>

section \<open>Validation of answers\<close>

text \<open>\<open>expected\<close>: the questions that are dictionaries with a text id, by id; a later
  question replaces an earlier one with the same id.\<close>

fun question_entry :: "json \<Rightarrow> (string \<times> json) list" where
  "question_entry q = (case jget q ''id'' of Some (JStr i) \<Rightarrow> [(i, q)] | _ \<Rightarrow> [])"

definition expected_questions :: "json list \<Rightarrow> (string \<times> json) list" where
  "expected_questions questions = rev (concat (map question_entry questions))"

definition with_default :: "json option \<Rightarrow> json \<Rightarrow> json" where
  "with_default x v = (case x of None \<Rightarrow> v | Some y \<Rightarrow> y)"

definition option_values :: "json list \<Rightarrow> string list" where
  "option_values options = map (\<lambda>option. py_str (with_default (jget option ''value'')
     (with_default (jget option ''label'') JNull))) (filter is_dict options)"

definition answer_values :: "json \<Rightarrow> json list" where
  "answer_values answer = (case answer of JList vs \<Rightarrow> vs | v \<Rightarrow> [v])"

fun text_of :: "json \<Rightarrow> string" where
  "text_of (JStr s) = s"
| "text_of _ = []"

definition answer_text :: "json \<Rightarrow> bool" where
  "answer_text v \<longleftrightarrow> is_str v \<and> strip (text_of v) \<noteq> []"

definition validate_answer :: "json \<Rightarrow> string \<Rightarrow> json \<Rightarrow> unit res" where
  "validate_answer question identifier answer =
     (let multiple = py_truthy (with_default (jget question ''multiple'') (JBool False));
          values = answer_values answer
      in if multiple \<noteq> is_list answer \<or> values = []
         then Inl (ValueError (''invalid answer shape for question '' @ identifier))
         else if \<not> list_all answer_text values
         then Inl (ValueError (''answers for question '' @ identifier @ '' must be text''))
         else rbind (py_list (with_default (jget question ''options'') (JList [])))
           (\<lambda>options. if \<not> py_truthy (with_default (jget question ''allow_free_text'') (JBool True))
               \<and> list_ex (\<lambda>v. text_of v \<notin> set (option_values options)) values
             then Inl (ValueError (''answer is not an allowed option for question '' @ identifier))
             else Inr ()))"

fun validate_answers :: "(string \<times> json) list \<Rightarrow> (string \<times> json) list \<Rightarrow> unit res" where
  "validate_answers expected [] = Inr ()"
| "validate_answers expected ((i, answer) # rest) = (case map_of expected i of
      None \<Rightarrow> Inl KeyError
    | Some question \<Rightarrow> rbind (validate_answer question i answer)
        (\<lambda>_. validate_answers expected rest))"

definition validate_input_answers :: "json \<Rightarrow> json \<Rightarrow> unit res" where
  "validate_input_answers questions answers = (case (questions, answers) of
      (JList qs, JObj entries) \<Rightarrow>
        (let expected = expected_questions qs in
         if set (map fst entries) \<noteq> set (map fst expected)
         then Inl (ValueError ''answers must contain exactly one entry per question'')
         else validate_answers expected entries)
    | _ \<Rightarrow> Inl (ValueError ''answers must be an object keyed by question id''))"

section \<open>Requests\<close>

definition create_input_request ::
  "string \<Rightarrow> string \<Rightarrow> string \<Rightarrow> string \<Rightarrow> json \<Rightarrow> json \<Rightarrow> string \<Rightarrow> db \<Rightarrow> db res" where
  "create_input_request request_id session_id run_id invocation_id questions resume_data now d =
     insert_input \<lparr>q_id = request_id, q_session = session_id, q_run = run_id,
       q_invocation = invocation_id, q_status = ''pending'', q_questions = questions,
       q_answers = None, q_resume_data = resume_data, q_created_at = now,
       q_answered_at = None\<rparr> d"

definition list_input_requests :: "string \<Rightarrow> string option \<Rightarrow> db \<Rightarrow> input_request_row list" where
  "list_input_requests session_id status d =
     sort_key (\<lambda>r. (q_created_at r, q_id r))
       (filter (\<lambda>r. q_session r = session_id \<and> (status = None \<or> status = Some (q_status r)))
         (d_inputs d))"

record input_answer =
  ia_id :: string
  ia_status :: string
  ia_answers :: json
  ia_run :: string
  ia_invocation :: string

text \<open>The request is read first (\<open>seen\<close>) and updated in a later transaction (\<open>d\<close>), so
  another writer may come between.\<close>

definition answer_input_request ::
  "string \<Rightarrow> string \<Rightarrow> json \<Rightarrow> string \<Rightarrow> db \<Rightarrow> db \<Rightarrow> (input_answer \<times> db) res" where
  "answer_input_request request_id session_id answers now seen d =
     (case fetch_one (\<lambda>r. q_id r = request_id \<and> q_session r = session_id) (d_inputs seen) of
        None \<Rightarrow> Inl (ValueError ''input request does not exist in this session'')
      | Some row \<Rightarrow>
          if q_status row \<noteq> ''pending''
          then Inl (ValueError ''input request has already been resolved'')
          else rbind (validate_input_answers (q_questions row) answers)
            (\<lambda>_. Inr (\<lparr>ia_id = request_id, ia_status = ''answered'', ia_answers = answers,
                       ia_run = q_run row, ia_invocation = q_invocation row\<rparr>,
               d\<lparr>d_inputs := sql_update
                 (\<lambda>r. q_id r = request_id \<and> q_session r = session_id \<and> q_status r = ''pending'')
                 (\<lambda>r. r\<lparr>q_status := ''answered'', q_answers := Some answers,
                       q_answered_at := Some now\<rparr>) (d_inputs d)\<rparr>)))"

definition cancel_input_request :: "string \<Rightarrow> string \<Rightarrow> string \<Rightarrow> db \<Rightarrow> db res" where
  "cancel_input_request request_id session_id now d =
     (let p = (\<lambda>r. q_id r = request_id \<and> q_session r = session_id \<and> q_status r = ''pending'') in
      if rowcount p (d_inputs d) = 0
      then Inl (ValueError ''pending input request does not exist in this session'')
      else Inr (d\<lparr>d_inputs := sql_update p
             (\<lambda>r. r\<lparr>q_status := ''cancelled'', q_answered_at := Some now\<rparr>) (d_inputs d)\<rparr>))"

section \<open>Properties\<close>

text \<open>One answer fits its question: text, one value or several as the question asks, and
  one of the options where free text is not allowed.\<close>

definition answer_fits :: "json \<Rightarrow> json \<Rightarrow> bool" where
  "answer_fits question answer \<longleftrightarrow>
     answer_values answer \<noteq> [] \<and> list_all answer_text (answer_values answer)
     \<and> is_list answer = py_truthy (with_default (jget question ''multiple'') (JBool False))
     \<and> (case py_list (with_default (jget question ''options'') (JList [])) of
          Inl _ \<Rightarrow> False
        | Inr options \<Rightarrow> py_truthy (with_default (jget question ''allow_free_text'') (JBool True))
            \<or> list_all (\<lambda>v. text_of v \<in> set (option_values options)) (answer_values answer))"

lemma validate_answer_Inr: "validate_answer question i answer = Inr u \<longleftrightarrow> answer_fits question answer"
  unfolding validate_answer_def answer_fits_def Let_def
  by (cases "py_list (with_default (jget question ''options'') (JList []))")
    (auto simp: list_all_iff list_ex_iff)

lemma validate_answers_Inr:
  "validate_answers expected entries = Inr u \<longleftrightarrow>
   (\<forall>(i, answer) \<in> set entries. \<exists>question. map_of expected i = Some question \<and> answer_fits question answer)"
proof (induction expected entries rule: validate_answers.induct)
  case (2 expected i answer rest)
  then show ?case
    by (cases "map_of expected i") (auto simp: rbind_Inr_iff validate_answer_Inr)
qed simp

lemma validate_input_answers_Inr:
  "validate_input_answers (JList qs) (JObj entries) = Inr u \<longleftrightarrow>
     set (map fst entries) = set (map fst (expected_questions qs))
     \<and> (\<forall>(i, answer) \<in> set entries. \<exists>question. map_of (expected_questions qs) i = Some question
           \<and> answer_fits question answer)"
  by (simp add: validate_input_answers_def Let_def validate_answers_Inr)

lemma expected_ids:
  "set (map fst (expected_questions qs)) = {i. \<exists>q \<in> set qs. jget q ''id'' = Some (JStr i)}"
  by (force simp: expected_questions_def split: option.splits json.splits)

lemma expected_member:
  assumes "map_of (expected_questions qs) i = Some question"
  shows "question \<in> set qs \<and> jget question ''id'' = Some (JStr i)"
  using map_of_SomeD[OF assms] by (force simp: expected_questions_def split: option.splits json.splits)

text \<open>What a successful answer did.\<close>

lemma answer_effect:
  assumes "answer_input_request q s answers now seen d = Inr (ia, d')"
  shows "\<exists>row \<in> set (d_inputs seen). q_id row = q \<and> q_session row = s \<and> q_status row = ''pending''
     \<and> validate_input_answers (q_questions row) answers = Inr ()
     \<and> ia = \<lparr>ia_id = q, ia_status = ''answered'', ia_answers = answers, ia_run = q_run row,
             ia_invocation = q_invocation row\<rparr>
     \<and> d' = d\<lparr>d_inputs := sql_update (\<lambda>r. q_id r = q \<and> q_session r = s \<and> q_status r = ''pending'')
                 (\<lambda>r. r\<lparr>q_status := ''answered'', q_answers := Some answers,
                       q_answered_at := Some now\<rparr>) (d_inputs d)\<rparr>"
proof -
  from assms obtain row where row: "fetch_one (\<lambda>r. q_id r = q \<and> q_session r = s) (d_inputs seen) = Some row"
    and rest: "q_status row = ''pending''" "rbind (validate_input_answers (q_questions row) answers)
            (\<lambda>_. Inr (\<lparr>ia_id = q, ia_status = ''answered'', ia_answers = answers,
                       ia_run = q_run row, ia_invocation = q_invocation row\<rparr>,
               d\<lparr>d_inputs := sql_update (\<lambda>r. q_id r = q \<and> q_session r = s \<and> q_status r = ''pending'')
                 (\<lambda>r. r\<lparr>q_status := ''answered'', q_answers := Some answers,
                       q_answered_at := Some now\<rparr>) (d_inputs d)\<rparr>)) = Inr (ia, d')"
    unfolding answer_input_request_def by (auto split: option.splits if_splits)
  from fetch_one_Some[OF row] rest show ?thesis
    by (intro bexI[of _ row]) (auto elim!: rbind_InrE)
qed

text \<open>An answer the user gives to a tool's questions is stored only when it is complete and
  valid: the request was pending in the caller's session, there is exactly one entry per
  question, and every entry fits a question with its id (text, the shape asked for, an offered
  option where free text is not allowed).  Requests that are not that pending one keep their
  rows.\<close>

lemma answer_input_request_sound:
  assumes "answer_input_request q s answers now seen d = Inr (ia, d')"
  shows "\<exists>row \<in> set (d_inputs seen). \<exists>qs entries. q_id row = q \<and> q_session row = s
       \<and> q_status row = ''pending'' \<and> q_questions row = JList qs \<and> answers = JObj entries
       \<and> set (map fst entries) = {i. \<exists>question \<in> set qs. jget question ''id'' = Some (JStr i)}
       \<and> (\<forall>(i, answer) \<in> set entries. \<exists>question \<in> set qs.
            jget question ''id'' = Some (JStr i) \<and> answer_fits question answer)
       \<and> (\<forall>r \<in> set (d_inputs d). q_id r \<noteq> q \<or> q_session r \<noteq> s \<or> q_status r \<noteq> ''pending'' \<longrightarrow>
            r \<in> set (d_inputs d'))"
proof -
  obtain row where row: "row \<in> set (d_inputs seen)" "q_id row = q" "q_session row = s"
      "q_status row = ''pending''" "validate_input_answers (q_questions row) answers = Inr ()"
    and d': "d' = d\<lparr>d_inputs := sql_update (\<lambda>r. q_id r = q \<and> q_session r = s \<and> q_status r = ''pending'')
                 (\<lambda>r. r\<lparr>q_status := ''answered'', q_answers := Some answers,
                       q_answered_at := Some now\<rparr>) (d_inputs d)\<rparr>"
    using answer_effect[OF assms] by blast
  obtain qs entries where shape: "q_questions row = JList qs" "answers = JObj entries"
    using row(5) by (auto simp: validate_input_answers_def split: json.splits)
  have valid: "set (map fst entries) = set (map fst (expected_questions qs))"
    "\<forall>(i, answer) \<in> set entries. \<exists>question. map_of (expected_questions qs) i = Some question
           \<and> answer_fits question answer"
    using row(5) unfolding shape validate_input_answers_Inr by blast+
  have "\<forall>(i, answer) \<in> set entries. \<exists>question \<in> set qs.
      jget question ''id'' = Some (JStr i) \<and> answer_fits question answer"
    using valid(2) expected_member by blast
  moreover have "r \<in> set (d_inputs d')"
    if "r \<in> set (d_inputs d)" "q_id r \<noteq> q \<or> q_session r \<noteq> s \<or> q_status r \<noteq> ''pending''" for r
    using that unfolding d' by (auto intro: sql_update_miss)
  ultimately show ?thesis using row(1-4) shape valid(1) unfolding expected_ids by blast
qed

definition sample_input :: input_request_row where
  "sample_input = \<lparr>q_id = ''q1'', q_session = ''s1'', q_run = ''r1'', q_invocation = ''inv_1'',
     q_status = ''pending'', q_questions = JList [JObj [(''id'', JStr ''color''),
       (''options'', JList [JObj [(''value'', JStr ''red'')]]), (''allow_free_text'', JBool False)]],
     q_answers = None, q_resume_data = JObj [], q_created_at = ''t1'', q_answered_at = None\<rparr>"

definition sample_input_db :: db where
  "sample_input_db = sample_db\<lparr>d_inputs := [sample_input]\<rparr>"

definition sample_answers :: json where
  "sample_answers = JObj [(''color'', JStr ''red'')]"

theorem answer_input_request_sound_witness:
  "\<exists>ia d' row. answer_input_request ''q1'' ''s1'' sample_answers ''t2'' sample_input_db sample_input_db
      = Inr (ia, d') \<and> row \<in> set (d_inputs sample_input_db) \<and> q_status row = ''pending''"
proof -
  let ?c = "answer_input_request ''q1'' ''s1'' sample_answers ''t2'' sample_input_db sample_input_db"
  have "is_ok ?c" by code_simp
  then obtain ia d' where c: "?c = Inr (ia, d')" by (auto simp: is_ok_iff)
  from answer_input_request_sound[OF c] c show ?thesis by blast
qed

text \<open>An answer can be lost without an error.  \<open>answer_input_request\<close> reads the request,
  validates, and then updates \<open>WHERE status='pending'\<close> without looking at the row count: when
  the request was cancelled or answered in between, nothing is written, and the caller is
  still told \<open>answered\<close> with its own answers.\<close>

lemma answer_input_request_lost_update:
  assumes "answer_input_request q s answers now seen d = Inr (ia, d')"
    and "list_all (\<lambda>r. q_id r = q \<longrightarrow> q_status r \<noteq> ''pending'') (d_inputs d)"
  shows "d' = d \<and> ia_status ia = ''answered'' \<and> ia_answers ia = answers"
proof -
  have "sql_update (\<lambda>r. q_id r = q \<and> q_session r = s \<and> q_status r = ''pending'') f (d_inputs d) = d_inputs d" for f
    using assms(2) by (intro sql_update_none) (auto simp: list_all_iff)
  with answer_effect[OF assms(1)] show ?thesis by auto
qed

theorem answer_input_request_lost_update_witness:
  "\<exists>d ia. cancel_input_request ''q1'' ''s1'' ''t2'' sample_input_db = Inr d
     \<and> answer_input_request ''q1'' ''s1'' sample_answers ''t3'' sample_input_db d = Inr (ia, d)
     \<and> ia_status ia = ''answered''"
proof -
  let ?cancel = "cancel_input_request ''q1'' ''s1'' ''t2'' sample_input_db"
  have "case ?cancel of Inl _ \<Rightarrow> False | Inr d \<Rightarrow>
      list_all (\<lambda>r. q_id r = ''q1'' \<longrightarrow> q_status r \<noteq> ''pending'') (d_inputs d)
      \<and> is_ok (answer_input_request ''q1'' ''s1'' sample_answers ''t3'' sample_input_db d)" by code_simp
  then obtain d ia d' where d: "?cancel = Inr d"
      "list_all (\<lambda>r. q_id r = ''q1'' \<longrightarrow> q_status r \<noteq> ''pending'') (d_inputs d)"
      "answer_input_request ''q1'' ''s1'' sample_answers ''t3'' sample_input_db d = Inr (ia, d')"
    by (auto simp: is_ok_iff split: sum.splits)
  with answer_input_request_lost_update[OF d(3,2)] show ?thesis by auto
qed

end
