(* ===== verification/Work_Items.thy ===== *)
theory Work_Items
  imports Schema
begin

text \<open>
  \<^verbatim>\<open>capslock/storage/repositories/work_items.py\<close>: the foreground queue.  A new item goes
  behind the queued items of its session; \<open>reserve_request\<close> deduplicates client requests by a
  durable key; \<open>update\<close> reads an item, checks the transition and updates with the status it
  read as the guard.  The SHA-256 of a text is the argument \<open>sha256\<close>, used as a function only.
\<close>

section \<open>Reading\<close>

text \<open>The run that started last belongs to the item's info as \<open>current_run_id\<close>.\<close>

definition current_run_id :: "string \<Rightarrow> db \<Rightarrow> string option" where
  "current_run_id item_id d =
     map_option r_id (last_by r_started_at (\<lambda>r. r_work_item r = item_id) (d_runs d))"

definition get_item :: "string \<Rightarrow> db \<Rightarrow> (work_item_row \<times> string option) option" where
  "get_item item_id d = map_option (\<lambda>w. (w, current_run_id (wi_id w) d))
     (row_by wi_id item_id (d_work_items d))"

definition require_item :: "string \<Rightarrow> db \<Rightarrow> (work_item_row \<times> string option) res" where
  "require_item item_id d = (case get_item item_id d of
      None \<Rightarrow> Inl (ValueError (''work item does not exist: '' @ item_id))
    | Some w \<Rightarrow> Inr w)"

definition list_items :: "string \<Rightarrow> bool \<Rightarrow> db \<Rightarrow> (work_item_row \<times> string option) list" where
  "list_items session_id active_only d = map (\<lambda>w. (w, current_run_id (wi_id w) d))
     (sort_key (\<lambda>w. (wi_position w, wi_created_at w))
       (filter (\<lambda>w. wi_session w = session_id \<and>
            (active_only \<longrightarrow> wi_status w \<in> {WI_QUEUED, WI_RUNNING, WI_WAITING_APPROVAL, WI_WAITING_INPUT}))
         (d_work_items d)))"

section \<open>Queueing\<close>

definition queue_position :: "string \<Rightarrow> db \<Rightarrow> int" where
  "queue_position session_id d =
     max_or (- 1) wi_position (\<lambda>w. wi_session w = session_id \<and> wi_status w = WI_QUEUED) (d_work_items d) + 1"

definition insert_queued ::
  "string \<Rightarrow> string \<Rightarrow> string \<Rightarrow> RunKind \<Rightarrow> string option \<Rightarrow> string \<Rightarrow> db \<Rightarrow> db res" where
  "insert_queued identifier session_id question kind parent timestamp d =
     insert_work_item \<lparr>wi_id = identifier, wi_session = session_id, wi_question = question,
       wi_kind = kind, wi_status = WI_QUEUED, wi_position = queue_position session_id d,
       wi_parent = parent, wi_error = None, wi_created_at = timestamp,
       wi_updated_at = timestamp\<rparr> d"

definition enqueue ::
  "string \<Rightarrow> string \<Rightarrow> string option \<Rightarrow> RunKind \<Rightarrow> string \<Rightarrow> string \<Rightarrow> db
   \<Rightarrow> ((work_item_row \<times> string option) \<times> db) res" where
  "enqueue session_id question parent kind identifier now d =
     rbind (insert_queued identifier session_id question kind parent now d)
       (\<lambda>d'. rbind (require_item identifier d') (\<lambda>w. Inr (w, d')))"

text \<open>The stored reservation: \<open>previous["question_sha256"]\<close> and \<open>previous["work_item_id"]\<close>.\<close>

definition dict_text :: "json \<Rightarrow> string \<Rightarrow> string res" where
  "dict_text v k = (case v of JObj kvs \<Rightarrow>
        (case map_of kvs k of None \<Rightarrow> Inl KeyError
         | Some (JStr s) \<Rightarrow> Inr s | Some _ \<Rightarrow> Inl TypeError)
      | _ \<Rightarrow> Inl TypeError)"

definition request_setting_key :: "(string \<Rightarrow> string) \<Rightarrow> string \<Rightarrow> string \<Rightarrow> string" where
  "request_setting_key sha256 session_id request_id =
     ''app_server.request.'' @ sha256 (session_id @ '':'' @ request_id)"

definition reserve_request ::
  "(string \<Rightarrow> string) \<Rightarrow> string \<Rightarrow> string \<Rightarrow> string \<Rightarrow> string \<Rightarrow> string \<Rightarrow> db
   \<Rightarrow> (((work_item_row \<times> string option) \<times> bool) \<times> db) res" where
  "reserve_request sha256 session_id request_id question uuid now d =
     (let key = request_setting_key sha256 session_id request_id; digest = sha256 question in
      case row_by ws_key key (d_settings d) of
        Some row \<Rightarrow>
          rbind (dict_text (ws_value row) ''question_sha256'') (\<lambda>previous.
            if previous \<noteq> digest
            then Inl (ValueError ''request_id already belongs to a different question'')
            else rbind (dict_text (ws_value row) ''work_item_id'') (\<lambda>identifier.
              rbind (require_item identifier d) (\<lambda>w. Inr ((w, False), d))))
      | None \<Rightarrow>
          rbind (insert_queued uuid session_id question RK_AGENT None now d) (\<lambda>d1.
            rbind (insert_setting \<lparr>ws_key = key, ws_value = JObj
                [(''work_item_id'', JStr uuid), (''question_sha256'', JStr digest)]\<rparr> d1) (\<lambda>d2.
              rbind (require_item uuid d2) (\<lambda>w. Inr ((w, True), d2)))))"

section \<open>Transitions\<close>

text \<open>\<open>seen\<close> is the database the item is read from, \<open>d\<close> the one the guarded \<open>UPDATE\<close> finds.\<close>

definition update_item ::
  "string \<Rightarrow> WorkItemStatus \<Rightarrow> string option \<Rightarrow> string \<Rightarrow> db \<Rightarrow> db
   \<Rightarrow> ((work_item_row \<times> string option) \<times> db) res" where
  "update_item item_id status error now seen d =
     rbind (require_item item_id seen) (\<lambda>(current, _).
       rbind (validate_work_item_transition (wi_status current) status) (\<lambda>_.
         let p = (\<lambda>w. wi_id w = item_id \<and> wi_status w = wi_status current);
             d' = d\<lparr>d_work_items := sql_update p (\<lambda>w. w\<lparr>wi_status := status, wi_error := error,
                    wi_updated_at := now\<rparr>) (d_work_items d)\<rparr>
         in if rowcount p (d_work_items d) = 0
            then Inl (ValueError ''work item changed concurrently'')
            else rbind (require_item item_id d') (\<lambda>w. Inr (w, d'))))"

definition reorder ::
  "string \<Rightarrow> int \<Rightarrow> string \<Rightarrow> db \<Rightarrow> db \<Rightarrow> ((work_item_row \<times> string option) \<times> db) res" where
  "reorder item_id position now seen d =
     rbind (require_item item_id seen) (\<lambda>(item, _).
       if wi_status item \<noteq> WI_QUEUED
       then Inl (ValueError ''only queued work items can be reordered'')
       else let d' = d\<lparr>d_work_items := sql_update (\<lambda>w. wi_id w = item_id)
                    (\<lambda>w. w\<lparr>wi_position := max 0 position, wi_updated_at := now\<rparr>) (d_work_items d)\<rparr>
            in rbind (require_item item_id d') (\<lambda>w. Inr (w, d')))"

section \<open>Properties\<close>

lemma require_item_Inr:
  "require_item i d = Inr (w, c) \<longleftrightarrow> row_by wi_id i (d_work_items d) = Some w \<and> c = current_run_id i d"
  by (auto simp: require_item_def get_item_def dest: row_by_Some split: option.splits)

text \<open>A work item moves only along the transition table, and never over a concurrent
  change.  When \<open>update\<close> succeeds, the item the call wrote still had the status it had read,
  the new status is that one or one the table allows from it, and no other item changed.\<close>

lemma update_item_follows_table:
  assumes wf: "unique_by wi_id (d_work_items d)"
    and eq: "update_item i status err now seen d = Inr ((w, c), d')"
  shows "\<exists>old s. row_by wi_id i (d_work_items seen) = Some s \<and> row_by wi_id i (d_work_items d) = Some old
       \<and> wi_status old = wi_status s
       \<and> (status = wi_status old \<or> status \<in> set (WORK_ITEM_TRANSITIONS (wi_status old)))
       \<and> w = old\<lparr>wi_status := status, wi_error := err, wi_updated_at := now\<rparr>
       \<and> row_by wi_id i (d_work_items d') = Some w
       \<and> (\<forall>j. j \<noteq> i \<longrightarrow> row_by wi_id j (d_work_items d') = row_by wi_id j (d_work_items d))"
proof -
  from eq obtain s cs where s: "row_by wi_id i (d_work_items seen) = Some s"
    and t: "validate_work_item_transition (wi_status s) status = Inr ()"
    and rest: "(let p = (\<lambda>w. wi_id w = i \<and> wi_status w = wi_status s);
             d' = d\<lparr>d_work_items := sql_update p (\<lambda>w. w\<lparr>wi_status := status, wi_error := err,
                    wi_updated_at := now\<rparr>) (d_work_items d)\<rparr>
         in if rowcount p (d_work_items d) = 0
            then Inl (ValueError ''work item changed concurrently'')
            else rbind (require_item i d') (\<lambda>w. Inr (w, d'))) = Inr ((w, c), d')"
    unfolding update_item_def
    by (auto simp: require_item_Inr elim!: rbind_InrE split: prod.splits)
  let ?p = "\<lambda>w. wi_id w = i \<and> wi_status w = wi_status s"
  let ?f = "\<lambda>w. w\<lparr>wi_status := status, wi_error := err, wi_updated_at := now\<rparr>"
  from rest have d': "d' = d\<lparr>d_work_items := sql_update ?p ?f (d_work_items d)\<rparr>"
    and req: "require_item i d' = Inr (w, c)" and cnt: "rowcount ?p (d_work_items d) \<noteq> 0"
    unfolding Let_def by (auto simp del: rowcount_0_iff split: if_splits elim!: rbind_InrE)
  from cnt obtain old where old: "old \<in> set (d_work_items d)" "?p old" by auto
  then have row: "row_by wi_id i (d_work_items d) = Some old" using row_by_member[OF wf old(1)] by simp
  have get: "row_by wi_id j (d_work_items d') = map_option (\<lambda>w. if ?p w then ?f w else w)
      (row_by wi_id j (d_work_items d))" for j
    unfolding d' by (simp add: row_by_update)
  from req have w: "row_by wi_id i (d_work_items d') = Some w" by (simp add: require_item_Inr)
  moreover have "w = ?f old" using w get[of i] row old(2) by simp
  moreover have "row_by wi_id j (d_work_items d') = row_by wi_id j (d_work_items d)" if "j \<noteq> i" for j
    using that get[of j] by (cases "row_by wi_id j (d_work_items d)") (auto dest: row_by_Some)
  ultimately show ?thesis
    using s row old(2) t by (simp add: validate_work_item_transition_ok)
qed

theorem update_item_follows_table_witness:
  "\<exists>w c d'. update_item ''w2'' WI_RUNNING None ''t2'' sample_db sample_db = Inr ((w, c), d')
     \<and> wi_status w = WI_RUNNING
     \<and> row_by wi_id ''w1'' (d_work_items d') = row_by wi_id ''w1'' (d_work_items sample_db)"
proof -
  let ?c = "update_item ''w2'' WI_RUNNING None ''t2'' sample_db sample_db"
  have "is_ok ?c" by code_simp
  then obtain w c d' where c: "?c = Inr ((w, c), d')" by (auto simp: is_ok_iff)
  have wf: "unique_by wi_id (d_work_items sample_db)" by code_simp
  from update_item_follows_table[OF wf c] c show ?thesis by force
qed

text \<open>The foreground queue is first in, first out.  A newly queued item is the only new
  row, has status \<open>queued\<close>, and its position is behind every item queued in its session.\<close>

lemma enqueue_goes_last:
  assumes "enqueue s question parent kind i now d = Inr ((w, c), d')"
  shows "d' = d\<lparr>d_work_items := d_work_items d @ [w]\<rparr> \<and> wi_id w = i \<and> wi_status w = WI_QUEUED
       \<and> wi_session w = s \<and> wi_question w = question
       \<and> (\<forall>x \<in> set (d_work_items d). wi_session x = s \<and> wi_status x = WI_QUEUED \<longrightarrow>
            wi_position x < wi_position w)"
proof -
  let ?w = "\<lparr>wi_id = i, wi_session = s, wi_question = question,
       wi_kind = kind, wi_status = WI_QUEUED, wi_position = queue_position s d,
       wi_parent = parent, wi_error = None, wi_created_at = now, wi_updated_at = now\<rparr>"
  from assms have ins: "insert_work_item ?w d = Inr d'" and req: "require_item i d' = Inr (w, c)"
    unfolding enqueue_def insert_queued_def by (auto simp: rbind_Inr_iff)
  from ins have d': "d' = d\<lparr>d_work_items := d_work_items d @ [?w]\<rparr>"
    and fresh: "\<forall>x \<in> set (d_work_items d). i \<noteq> wi_id x"
    unfolding insert_work_item_Inr by simp_all
  have "row_by wi_id i (d_work_items d) = None" using fresh by (auto simp: row_by_None)
  then have w: "w = ?w" using req by (simp add: require_item_Inr d' row_by_insert)
  have "wi_position x < queue_position s d"
    if "x \<in> set (d_work_items d)" "wi_session x = s" "wi_status x = WI_QUEUED" for x
    using max_or_ge[of x "d_work_items d" "\<lambda>w. wi_session w = s \<and> wi_status w = WI_QUEUED" wi_position "- 1"] that
    by (simp add: queue_position_def)
  then show ?thesis by (simp add: w d')
qed

theorem enqueue_goes_last_witness:
  "\<exists>w c d'. enqueue ''s1'' ''next'' None RK_AGENT ''w3'' ''t2'' sample_db = Inr ((w, c), d')
     \<and> wi_status w = WI_QUEUED \<and> 0 < wi_position w"
proof -
  let ?c = "enqueue ''s1'' ''next'' None RK_AGENT ''w3'' ''t2'' sample_db"
  have "is_ok ?c" by code_simp
  then obtain w c d' where c: "?c = Inr ((w, c), d')" by (auto simp: is_ok_iff)
  have "sample_item ''w2'' WI_QUEUED \<in> set (d_work_items sample_db)" by (simp add: sample_db_def)
  with enqueue_goes_last[OF c] c show ?thesis by (force simp: sample_item_def)
qed

text \<open>A client request makes one work item.  Once \<open>reserve_request\<close> has answered a
  request, repeating it (a retry after a lost reply) returns the same item as not created and
  changes nothing, and reusing the request id for a text with another digest is refused.\<close>

lemma reserve_request_once:
  assumes "reserve_request sha256 s request_id question uuid now d = Inr ((w, created), d')"
  shows "reserve_request sha256 s request_id question uuid2 now2 d' = Inr ((w, False), d')
     \<and> (\<forall>other. sha256 other \<noteq> sha256 question \<longrightarrow>
          reserve_request sha256 s request_id other uuid2 now2 d' =
            Inl (ValueError ''request_id already belongs to a different question''))"
proof -
  let ?key = "request_setting_key sha256 s request_id"
  have "\<exists>row. row_by ws_key ?key (d_settings d') = Some row
      \<and> dict_text (ws_value row) ''question_sha256'' = Inr (sha256 question)
      \<and> (\<exists>i. dict_text (ws_value row) ''work_item_id'' = Inr i \<and> require_item i d' = Inr w)"
  proof (cases "row_by ws_key ?key (d_settings d)")
    case (Some row)
    with assms show ?thesis
      unfolding reserve_request_def Let_def
      by (auto elim!: rbind_InrE split: if_splits)
  next
    case None
    let ?set = "\<lparr>ws_key = ?key, ws_value = JObj
                [(''work_item_id'', JStr uuid), (''question_sha256'', JStr (sha256 question))]\<rparr>"
    from None assms obtain d1 where d1: "insert_queued uuid s question RK_AGENT None now d = Inr d1"
      "insert_setting ?set d1 = Inr d'" "require_item uuid d' = Inr w"
      unfolding reserve_request_def Let_def by (auto elim!: rbind_InrE)
    have "d_settings d1 = d_settings d"
      using d1(1) by (simp add: insert_queued_def insert_work_item_Inr)
    then have "row_by ws_key ?key (d_settings d') = Some ?set"
      using d1(2) None by (simp add: insert_setting_Inr row_by_insert)
    with d1(3) show ?thesis by (simp add: dict_text_def)
  qed
  then show ?thesis by (auto simp: reserve_request_def Let_def)
qed

theorem reserve_request_once_witness:
  "\<exists>w d'. reserve_request rev ''s1'' ''req'' ''hi'' ''w3'' ''t2'' sample_db = Inr ((w, True), d')
     \<and> reserve_request rev ''s1'' ''req'' ''hi'' ''w4'' ''t3'' d' = Inr ((w, False), d')
     \<and> reserve_request rev ''s1'' ''req'' ''yo'' ''w5'' ''t3'' d' =
         Inl (ValueError ''request_id already belongs to a different question'')"
proof -
  let ?c = "reserve_request rev ''s1'' ''req'' ''hi'' ''w3'' ''t2'' sample_db"
  have "case ?c of Inl _ \<Rightarrow> False | Inr ((w, created), d') \<Rightarrow> created" by code_simp
  then obtain w d' where c: "?c = Inr ((w, True), d')" by (auto split: sum.splits)
  from reserve_request_once[OF c] c show ?thesis by simp
qed

end
