(* ===== verification/Runs.thy ===== *)
theory Runs
  imports Journal_Events
begin

text \<open>
  \<^verbatim>\<open>capslock/storage/repositories/runs.py\<close>: run lookup, the run a retry resumes, usage sums
  and the hidden runs of non-agent work.  \<open>create_hidden\<close> and \<open>finish_hidden\<close> are two
  transactions each; an error in the second leaves the first committed, so they return the
  database next to the result.
\<close>

definition get_run :: "string \<Rightarrow> string option \<Rightarrow> db \<Rightarrow> run_row option" where
  "get_run run_id session_id d =
     fetch_one (\<lambda>r. r_id r = run_id \<and> (session_id = None \<or> session_id = Some (r_session r))) (d_runs d)"

definition require_run :: "string \<Rightarrow> string option \<Rightarrow> db \<Rightarrow> run_row res" where
  "require_run run_id session_id d = (case get_run run_id session_id d of
      None \<Rightarrow> Inl (ValueError (''run does not exist: '' @ run_id))
    | Some r \<Rightarrow> Inr r)"

text \<open>The candidates of a retry, newest first; the query asks for two to see an ambiguous
  prefix.\<close>

definition retry_candidates :: "string \<Rightarrow> string \<Rightarrow> db \<Rightarrow> run_row list" where
  "retry_candidates session_id pre d = take 2 (rev (sort_key r_started_at (filter
     (\<lambda>r. r_session r = session_id \<and> take (length pre) (r_id r) = pre
        \<and> r_status r \<in> {WI_FAILED, WI_CANCELLED, WI_INTERRUPTED, WI_STOPPED}) (d_runs d))))"

definition retryable :: "string \<Rightarrow> string \<Rightarrow> db \<Rightarrow> run_row res" where
  "retryable session_id pre d = (case retry_candidates session_id pre d of
      [] \<Rightarrow> Inl (ValueError ''retryable run does not exist in this session'')
    | [r] \<Rightarrow> (case last_stable_step (r_id r) d of
          None \<Rightarrow> Inl (ValueError ''run has no stable checkpoint'')
        | Some _ \<Rightarrow> Inr r)
    | _ \<Rightarrow> Inl (ValueError ''run id prefix is ambiguous''))"

definition run_completed :: "string \<Rightarrow> db \<Rightarrow> bool" where
  "run_completed run_id d = (case row_by r_id run_id (d_runs d) of
      None \<Rightarrow> False | Some r \<Rightarrow> r_status r = WI_COMPLETED)"

definition session_cost :: "string \<Rightarrow> db \<Rightarrow> int \<times> int \<times> rat" where
  "session_cost session_id d =
     (let rs = filter (\<lambda>r. r_session r = session_id \<and> r_kind r \<in> {RK_AGENT, RK_INIT, RK_SESSION_SEED})
                 (d_runs d)
      in (sum_list (map r_input_tokens rs), sum_list (map r_output_tokens rs), sum_list (map r_cost rs)))"

definition create_hidden ::
  "string \<Rightarrow> RunKind \<Rightarrow> string \<Rightarrow> WorkItemStatus \<Rightarrow> int \<Rightarrow> int \<Rightarrow> rat \<Rightarrow> string option
   \<Rightarrow> string \<Rightarrow> string \<Rightarrow> string \<Rightarrow> db \<Rightarrow> run_row res \<times> db" where
  "create_hidden session_id kind question status input_tokens output_tokens cost error_message
       work_item_id run_id timestamp d =
     (if kind = RK_AGENT
      then (Inl (ValueError ''agent runs must use the foreground workflow''), d)
      else case insert_work_item \<lparr>wi_id = work_item_id, wi_session = session_id,
             wi_question = question, wi_kind = kind, wi_status = status, wi_position = 0,
             wi_parent = None, wi_error = error_message, wi_created_at = timestamp,
             wi_updated_at = timestamp\<rparr> d of
          Inl e \<Rightarrow> (Inl e, d)
        | Inr d1 \<Rightarrow>
          (case insert_run \<lparr>r_id = run_id, r_session = session_id, r_work_item = work_item_id,
               r_question = question, r_kind = kind, r_status = status,
               r_started_at = timestamp,
               r_finished_at = (if status = WI_RUNNING then None else Some timestamp),
               r_duration_ms = (if status = WI_RUNNING then None else Some 0),
               r_input_tokens = input_tokens, r_output_tokens = output_tokens, r_cost = cost,
               r_error_code = None, r_error_message = error_message, r_parent = None,
               r_resume_from = None, r_stop_reason = None\<rparr> d1 of
             Inl e \<Rightarrow> (Inl e, d1)
           | Inr d2 \<Rightarrow> (require_run run_id None d2, d2)))"

definition finish_hidden ::
  "string \<Rightarrow> WorkItemStatus \<Rightarrow> int \<Rightarrow> int \<Rightarrow> rat \<Rightarrow> string option \<Rightarrow> string \<Rightarrow> db
   \<Rightarrow> run_row res \<times> db" where
  "finish_hidden run_id status input_tokens output_tokens cost error_message timestamp d =
     (if status \<notin> {WI_COMPLETED, WI_FAILED, WI_CANCELLED}
      then (Inl (ValueError ''invalid hidden run status''), d)
      else case require_run run_id None d of
        Inl e \<Rightarrow> (Inl e, d)
      | Inr run \<Rightarrow>
        (case sql_set run_check (\<lambda>r. r_id r = run_id \<and> r_kind r \<noteq> RK_AGENT)
             (\<lambda>r. r\<lparr>r_status := status, r_finished_at := Some timestamp, r_duration_ms := Some 0,
                   r_input_tokens := input_tokens, r_output_tokens := output_tokens,
                   r_cost := cost, r_error_message := error_message\<rparr>) (d_runs d) of
           Inl e \<Rightarrow> (Inl e, d)
         | Inr rs \<Rightarrow>
           (let d2 = d\<lparr>d_runs := rs, d_work_items := sql_update (\<lambda>w. wi_id w = r_work_item run)
                  (\<lambda>w. w\<lparr>wi_status := status, wi_error := error_message,
                        wi_updated_at := timestamp\<rparr>) (d_work_items d)\<rparr>
            in (require_run run_id None d2, d2))))"

record usage_row =
  u_kind :: RunKind
  u_count :: nat
  u_input_tokens :: int
  u_output_tokens :: int
  u_cost :: rat
  u_duration_ms :: int

text \<open>\<open>GROUP BY kind ORDER BY kind\<close>: the kinds in the order of their text.\<close>

definition usage_breakdown :: "string option \<Rightarrow> db \<Rightarrow> usage_row list" where
  "usage_breakdown session_id d =
     concat (map (\<lambda>kind.
       (let rs = filter (\<lambda>r. r_kind r = kind \<and> (session_id = None \<or> session_id = Some (r_session r))) (d_runs d)
        in if rs = [] then [] else
           [\<lparr>u_kind = kind, u_count = length rs, u_input_tokens = sum_list (map r_input_tokens rs),
             u_output_tokens = sum_list (map r_output_tokens rs), u_cost = sum_list (map r_cost rs),
             u_duration_ms = sum_list (map (\<lambda>r. case r_duration_ms r of None \<Rightarrow> 0 | Some n \<Rightarrow> n) rs)\<rparr>]))
     [RK_AGENT, RK_INIT, RK_LOCAL_COMMAND, RK_SESSION_SEED, RK_SIDE_QUESTION])"

section \<open>Properties\<close>

lemma take2_singleton: "take 2 xs = [x] \<Longrightarrow> xs = [x]"
  by (cases xs; cases "tl xs") auto

lemma sort_key_singleton:
  assumes "sort_key k xs = [x]"
  shows "xs = [x]"
proof -
  have "length xs = 1" using arg_cong[OF assms, of length] by simp
  moreover have "set xs = {x}" using arg_cong[OF assms, of set] by simp
  ultimately show ?thesis by (cases xs) auto
qed

text \<open>A retry resumes a unique, resumable run.  \<open>retryable\<close> returns a run only if it is the
  session's one and only failed, cancelled, interrupted or stopped run whose id has the given
  prefix, and it has a completed step with a checkpoint to resume from; no later step of the
  run that also has one is passed over by \<open>last_stable_step\<close>.\<close>

lemma retryable_unique_and_resumable:
  assumes "retryable session_id pre d = Inr r"
  shows "filter (\<lambda>x. r_session x = session_id \<and> take (length pre) (r_id x) = pre
        \<and> r_status x \<in> {WI_FAILED, WI_CANCELLED, WI_INTERRUPTED, WI_STOPPED}) (d_runs d) = [r]
     \<and> (\<exists>s. last_stable_step (r_id r) d = Some s \<and> s \<in> set (d_steps d) \<and> st_run s = r_id r
          \<and> st_status s = ST_COMPLETED \<and> st_checkpoint s \<noteq> None
          \<and> (\<forall>x \<in> set (d_steps d). st_run x = r_id r \<and> st_status x = ST_COMPLETED
               \<and> st_checkpoint x \<noteq> None \<longrightarrow> st_ordinal x \<le> st_ordinal s))"
proof -
  let ?c = "filter (\<lambda>x. r_session x = session_id \<and> take (length pre) (r_id x) = pre
        \<and> r_status x \<in> {WI_FAILED, WI_CANCELLED, WI_INTERRUPTED, WI_STOPPED}) (d_runs d)"
  from assms obtain s where cand: "retry_candidates session_id pre d = [r]"
    and s: "last_stable_step (r_id r) d = Some s"
    unfolding retryable_def by (auto split: list.splits option.splits)
  from cand have "rev (sort_key r_started_at ?c) = [r]"
    unfolding retry_candidates_def by (rule take2_singleton)
  then have "sort_key r_started_at ?c = [r]" by (simp add: rev_eq_Cons_iff)
  then have "?c = [r]" by (rule sort_key_singleton)
  moreover have "s \<in> set (d_steps d) \<and> st_run s = r_id r \<and> st_status s = ST_COMPLETED
      \<and> st_checkpoint s \<noteq> None \<and> (\<forall>x \<in> set (d_steps d). st_run x = r_id r
         \<and> st_status x = ST_COMPLETED \<and> st_checkpoint x \<noteq> None \<longrightarrow> st_ordinal x \<le> st_ordinal s)"
    using last_by_Some[OF s[unfolded last_stable_step_def]] by simp
  ultimately show ?thesis using s by blast
qed

definition sample_retry_db :: db where
  "sample_retry_db = sample_db\<lparr>d_runs := [sample_run ''r1'' ''w1'' WI_FAILED]\<rparr>"

theorem retryable_unique_and_resumable_witness:
  "\<exists>r s. retryable ''s1'' ''r'' sample_retry_db = Inr r \<and> last_stable_step (r_id r) sample_retry_db = Some s
     \<and> st_status s = ST_COMPLETED"
proof -
  have "is_ok (retryable ''s1'' ''r'' sample_retry_db)" by code_simp
  then obtain r where r: "retryable ''s1'' ''r'' sample_retry_db = Inr r" by (auto simp: is_ok_iff)
  from retryable_unique_and_resumable[OF r] r show ?thesis by blast
qed

text \<open>\<open>finish_hidden\<close> can leave a work item and its run out of step.  The run's update is
  guarded by \<open>kind!='agent'\<close>, the work item's is not: called for a running agent run it
  returns that run still running, while the run's work item has been moved to the given final
  status.\<close>

lemma finish_hidden_desyncs_agent_run:
  assumes "row_by r_id run_id (d_runs d) = Some r" and "r_kind r = RK_AGENT"
    and "unique_by r_id (d_runs d)" and "row_by wi_id (r_work_item r) (d_work_items d) = Some w"
    and "status \<in> {WI_COMPLETED, WI_FAILED, WI_CANCELLED}"
  shows "\<exists>d'. finish_hidden run_id status it ot c err now d = (Inr r, d')
     \<and> row_by r_id run_id (d_runs d') = Some r
     \<and> map_option wi_status (row_by wi_id (r_work_item r) (d_work_items d')) = Some status"
proof -
  have none: "\<not> (r_id x = run_id \<and> r_kind x \<noteq> RK_AGENT)" if "x \<in> set (d_runs d)" for x
    using that assms(1-3) row_by_Some_iff[OF assms(3), of run_id x] by auto
  then have "sql_set run_check (\<lambda>r. r_id r = run_id \<and> r_kind r \<noteq> RK_AGENT) f (d_runs d) = Inr (d_runs d)" for f
    by (auto simp: sql_set_def list_all_iff sql_update_none)
  moreover have "require_run run_id None e = Inr r" if "d_runs e = d_runs d" for e
    using assms(1) that by (simp add: require_run_def get_run_def row_by_def)
  ultimately show ?thesis using assms(1,4,5) row_by_Some[OF assms(4)]
    by (simp add: finish_hidden_def Let_def row_by_update)
qed

theorem finish_hidden_desyncs_agent_run_witness:
  "\<exists>d'. finish_hidden ''r1'' WI_FAILED 0 0 0 None ''t2'' sample_db = (Inr (sample_run ''r1'' ''w1'' WI_RUNNING), d')
     \<and> map_option wi_status (row_by wi_id ''w1'' (d_work_items d')) = Some WI_FAILED"
proof -
  let ?r = "sample_run ''r1'' ''w1'' WI_RUNNING"
  have r: "row_by r_id ''r1'' (d_runs sample_db) = Some ?r" and k: "r_kind ?r = RK_AGENT"
    and u: "unique_by r_id (d_runs sample_db)" by code_simp+
  have w: "row_by wi_id (r_work_item ?r) (d_work_items sample_db) = Some (sample_item ''w1'' WI_RUNNING)"
    by code_simp
  have s: "WI_FAILED \<in> {WI_COMPLETED, WI_FAILED, WI_CANCELLED}" by simp
  have "r_work_item ?r = ''w1''" by (simp add: sample_run_def)
  with finish_hidden_desyncs_agent_run[OF r k u w s] show ?thesis by metis
qed

end
