(* ===== verification/Unit_Of_Work.thy ===== *)
theory Unit_Of_Work
  imports Journal_Invocations Journal_Permissions Journal_Inputs Work_Items Runs
begin

text \<open>
  \<^verbatim>\<open>capslock/storage/repositories/workflow_uow.py\<close>: the transactions that move a run, its
  work item, its steps, actions, invocations and requests together.  Each operation is a
  function on the database; an error returns no database, because the transaction is rolled
  back.  A \<open>stamp\<close> holds the times and identifiers an operation draws.
\<close>

record stamp =
  t_now :: string
  t_event_uuid :: string
  t_trace_uuid :: string
  t_event_now :: string

definition append_stamped ::
  "string \<Rightarrow> AgentEventKind \<Rightarrow> json \<Rightarrow> stamp \<Rightarrow> db \<Rightarrow> (AgentEvent \<times> db) res" where
  "append_stamped run_id kind payload z d =
     append_in run_id kind payload (t_event_uuid z) (t_trace_uuid z) (t_event_now z) d"

section \<open>Starting\<close>

definition run_title :: "string \<Rightarrow> string option" where
  "run_title question = (case normalize_session_title question True of
      Inl _ \<Rightarrow> None | Inr t \<Rightarrow> Some t)"

text \<open>The first question names a session that has no title yet.\<close>

definition name_session :: "string \<Rightarrow> string option \<Rightarrow> string \<Rightarrow> db \<Rightarrow> db" where
  "name_session session_id title started d = (case title of
      None \<Rightarrow> d
    | Some t \<Rightarrow> if t = [] then d else d\<lparr>d_sessions := sql_update
        (\<lambda>s. s_id s = session_id \<and> s_title_source s = TS_PENDING)
        (\<lambda>s. s\<lparr>s_title := t, s_title_source := TS_FIRST_QUESTION,
              s_title_updated_at := Some started, s_updated_at := started\<rparr>) (d_sessions d)\<rparr>)"

definition start_run ::
  "string \<Rightarrow> string \<Rightarrow> string \<Rightarrow> string option \<Rightarrow> string option \<Rightarrow> string \<Rightarrow> string \<Rightarrow> db
   \<Rightarrow> (run_row \<times> db) res" where
  "start_run session_id work_item_id question parent_run_id resume_from_step_id identifier started d =
     (let p = (\<lambda>w. wi_id w = work_item_id \<and> wi_session w = session_id \<and> wi_status w = WI_QUEUED);
          d1 = d\<lparr>d_work_items := sql_update p (\<lambda>w. w\<lparr>wi_status := WI_RUNNING, wi_error := None,
                 wi_updated_at := started\<rparr>) (d_work_items d)\<rparr>
      in if rowcount p (d_work_items d) = 0
         then Inl (ValueError ''work item is not queued or does not belong to the session'')
         else case row_by wi_id work_item_id (d_work_items d1) of
           None \<Rightarrow> Inl IntegrityError
         | Some item \<Rightarrow>
             rbind (insert_run \<lparr>r_id = identifier, r_session = session_id,
                 r_work_item = work_item_id, r_question = question, r_kind = wi_kind item,
                 r_status = WI_RUNNING, r_started_at = started, r_finished_at = None,
                 r_duration_ms = None, r_input_tokens = 0, r_output_tokens = 0, r_cost = 0,
                 r_error_code = None, r_error_message = None, r_parent = parent_run_id,
                 r_resume_from = resume_from_step_id, r_stop_reason = None\<rparr> d1)
               (\<lambda>d2. let d3 = name_session session_id (run_title question) started d2
                     in rbind (require_run identifier None d3) (\<lambda>r. Inr (r, d3))))"

section \<open>Finishing\<close>

text \<open>The run and its work item, when both are running.\<close>

definition finish_steps ::
  "string \<Rightarrow> WorkItemStatus \<Rightarrow> string option \<Rightarrow> string \<Rightarrow> db \<Rightarrow> db" where
  "finish_steps run_id status error_message timestamp d = (case interrupted_step_status status of
      None \<Rightarrow> d
    | Some st \<Rightarrow> d\<lparr>d_steps := sql_update (\<lambda>s. st_run s = run_id \<and> st_status s = ST_RUNNING)
        (\<lambda>s. s\<lparr>st_status := st, st_finished_at := Some timestamp,
              st_error := coalesce (st_error s) error_message\<rparr>) (d_steps d)\<rparr>)"

definition action_open :: "action_row \<Rightarrow> bool" where
  "action_open a \<longleftrightarrow> a_status a \<in> {AS_PENDING, AS_APPROVED, AS_RUNNING}"

definition finish_actions ::
  "string \<Rightarrow> WorkItemStatus \<Rightarrow> string option \<Rightarrow> string option \<Rightarrow> string \<Rightarrow> db \<Rightarrow> db" where
  "finish_actions run_id status error_code error_message timestamp d =
     (if status \<in> {WI_CANCELLED, WI_FAILED, WI_INTERRUPTED, WI_STOPPED}
      then d\<lparr>d_actions := sql_update (\<lambda>a. a_run a = run_id \<and> action_open a)
        (\<lambda>a. a\<lparr>a_status := (if status = WI_CANCELLED then AS_CANCELLED else AS_FAILED),
              a_result_kind := Some (if status = WI_CANCELLED then AR_USER_CANCELLED
                                     else AR_EXECUTION_ERROR),
              a_finished_at := Some timestamp, a_error_code := error_code,
              a_error_message := error_message\<rparr>) (d_actions d)\<rparr>
      else d)"

definition finalize ::
  "string \<Rightarrow> WorkItemStatus \<Rightarrow> AgentEventKind \<Rightarrow> json \<Rightarrow> int \<Rightarrow> string option \<Rightarrow> string option
   \<Rightarrow> int \<Rightarrow> int \<Rightarrow> rat \<Rightarrow> string option \<Rightarrow> stamp \<Rightarrow> db \<Rightarrow> (AgentEvent \<times> db) res" where
  "finalize run_id status event_kind payload duration_ms error_code error_message
       input_tokens output_tokens cost stop_reason z d =
     rbind (validate_final_status status) (\<lambda>_.
       case fetch_one (\<lambda>r. r_id r = run_id \<and> r_status r = WI_RUNNING) (d_runs d) of
         None \<Rightarrow> Inl (ValueError ''run is not running'')
       | Some row \<Rightarrow>
         rbind (sql_set run_check (\<lambda>r. r_id r = run_id \<and> r_status r = WI_RUNNING)
             (\<lambda>r. r\<lparr>r_status := status, r_finished_at := Some (t_now z),
                   r_duration_ms := Some duration_ms, r_error_code := error_code,
                   r_error_message := error_message, r_input_tokens := input_tokens,
                   r_output_tokens := output_tokens, r_cost := cost,
                   r_stop_reason := stop_reason\<rparr>) (d_runs d))
           (\<lambda>rs. let p = (\<lambda>w. wi_id w = r_work_item row \<and> wi_status w = WI_RUNNING);
                d2 = d\<lparr>d_runs := rs, d_work_items := sql_update p
                  (\<lambda>w. w\<lparr>wi_status := status, wi_error := error_message,
                        wi_updated_at := t_now z\<rparr>) (d_work_items d)\<rparr>
             in if rowcount p (d_work_items d) = 0
                then Inl (ValueError ''work item is not running'')
                else append_stamped run_id event_kind payload z
                  (finish_actions run_id status error_code error_message (t_now z)
                    (finish_steps run_id status error_message (t_now z) d2))))"

section \<open>Pausing\<close>

definition pause_status :: "string \<Rightarrow> WorkItemStatus" where
  "pause_status kind = (if kind = ''approval'' then WI_WAITING_APPROVAL else WI_WAITING_INPUT)"

definition pause_event :: "string \<Rightarrow> AgentEventKind" where
  "pause_event kind = (if kind = ''approval'' then EV_WAITING_APPROVAL else EV_WAITING_INPUT)"

definition pause :: "string \<Rightarrow> string \<Rightarrow> json \<Rightarrow> stamp \<Rightarrow> db \<Rightarrow> (AgentEvent \<times> db) res" where
  "pause run_id kind payload z d =
     (if kind \<notin> {''approval'', ''user_input''}
      then Inl (ValueError ''unsupported run pause kind'')
      else case fetch_one (\<lambda>r. r_id r = run_id \<and> r_status r = WI_RUNNING) (d_runs d) of
        None \<Rightarrow> Inl (ValueError ''run is not running'')
      | Some row \<Rightarrow>
        (let p = (\<lambda>w. wi_id w = r_work_item row \<and> wi_status w = WI_RUNNING);
             d2 = d\<lparr>d_runs := sql_update (\<lambda>r. r_id r = run_id \<and> r_status r = WI_RUNNING)
                      (\<lambda>r. r\<lparr>r_status := pause_status kind\<rparr>) (d_runs d),
                    d_work_items := sql_update p (\<lambda>w. w\<lparr>wi_status := pause_status kind,
                      wi_updated_at := t_now z\<rparr>) (d_work_items d)\<rparr>
         in if rowcount p (d_work_items d) = 0
            then Inl (ValueError ''work item is not running'')
            else append_stamped run_id (pause_event kind) payload z d2))"

section \<open>Settling an approval\<close>

definition settled_payload :: "WorkItemStatus \<Rightarrow> bool \<Rightarrow> string option \<Rightarrow> string option \<Rightarrow> json" where
  "settled_payload status failed error_code error_message =
     JObj ([(''approval_settled'', JBool True), (''status'', JStr (work_item_value status))]
       @ (if failed then [(''error'', JObj [(''code'', jopt error_code), (''message'', jopt error_message)])]
          else []))"

text \<open>What still holds the approval open: an unfinished action, an undecided permission
  request, or an invocation that a resume will continue.\<close>

definition approval_open :: "string \<Rightarrow> db \<Rightarrow> bool" where
  "approval_open run_id d \<longleftrightarrow>
     exists_row (\<lambda>a. a_run a = run_id \<and> action_open a) (d_actions d)
     \<or> exists_row (\<lambda>q. pr_run q = run_id \<and> pr_status q = ''pending'') (d_permissions d)
     \<or> exists_row (\<lambda>i. i_run i = run_id \<and> i_status i = ''waiting_approval'') (d_invocations d)"

definition settle_outcome :: "string \<Rightarrow> db \<Rightarrow> ApprovalOutcome" where
  "settle_outcome run_id d =
     (case first_by a_finished_at (\<lambda>a. a_run a = run_id \<and> a_status a \<in> {AS_FAILED, AS_CANCELLED})
             (d_actions d) of
        None \<Rightarrow> approval_outcome None None None
      | Some a \<Rightarrow> approval_outcome (Some (action_status_value (a_status a)))
          (a_error_code a) (a_error_message a))"

definition settle_approval ::
  "string \<Rightarrow> string \<Rightarrow> stamp \<Rightarrow> db \<Rightarrow> (AgentEvent option \<times> db) res" where
  "settle_approval session_id run_id z d =
     (case fetch_one (\<lambda>r. r_id r = run_id \<and> r_session r = session_id) (d_runs d) of
        None \<Rightarrow> Inl (ValueError ''run does not belong to this session'')
      | Some row \<Rightarrow>
        if r_status row \<in> {WI_COMPLETED, WI_FAILED, WI_CANCELLED} then Inr (None, d)
        else if r_status row \<noteq> WI_WAITING_APPROVAL
        then Inl (ValueError ''run is not waiting for approval'')
        else if approval_open run_id d then Inr (None, d)
        else
          let o' = settle_outcome run_id d;
              failed = (ao_error_code o' \<noteq> None);
              p = (\<lambda>w. wi_id w = r_work_item row \<and> wi_status w = WI_WAITING_APPROVAL);
              d1 = d\<lparr>d_runs := sql_update (\<lambda>r. r_id r = run_id \<and> r_status r = WI_WAITING_APPROVAL)
                     (\<lambda>r. r\<lparr>r_status := ao_status o',
                           r_finished_at := coalesce (r_finished_at r) (Some (t_now z)),
                           r_error_code := ao_error_code o',
                           r_error_message := ao_error_message o'\<rparr>) (d_runs d),
                     d_work_items := sql_update p (\<lambda>w. w\<lparr>wi_status := ao_status o',
                           wi_error := ao_error_message o', wi_updated_at := t_now z\<rparr>) (d_work_items d)\<rparr>
          in if rowcount p (d_work_items d) = 0
             then Inl (ValueError ''work item is not waiting for approval'')
             else rbind (append_stamped run_id (ao_event_kind o')
                    (settled_payload (ao_status o') failed (ao_error_code o') (ao_error_message o')) z d1)
                  (\<lambda>(ev, d2). Inr (Some ev, d2)))"

section \<open>Cancelling a paused run\<close>

definition cancelled_payload :: "string \<Rightarrow> json" where
  "cancelled_payload message = JObj [(''status'', JStr ''cancelled''),
     (''error'', JObj [(''code'', JStr ''cancelled''), (''message'', JStr message)])]"

definition run_waiting :: "run_row \<Rightarrow> bool" where
  "run_waiting r \<longleftrightarrow> r_status r \<in> {WI_WAITING_APPROVAL, WI_WAITING_INPUT}"

text \<open>The statements of \<open>cancel_waiting\<close> on the run and its work item, on what the run was
  doing, and on the requests that are waiting for the user.\<close>

definition cancel_run_rows :: "string \<Rightarrow> string \<Rightarrow> string \<Rightarrow> string \<Rightarrow> db \<Rightarrow> db" where
  "cancel_run_rows run_id item message now d = d\<lparr>
     d_runs := sql_update (\<lambda>r. r_id r = run_id)
       (\<lambda>r. r\<lparr>r_status := WI_CANCELLED, r_finished_at := Some now,
             r_error_code := Some ''cancelled'', r_error_message := Some message\<rparr>) (d_runs d),
     d_work_items := sql_update (\<lambda>w. wi_id w = item)
       (\<lambda>w. w\<lparr>wi_status := WI_CANCELLED, wi_updated_at := now, wi_error := Some message\<rparr>)
       (d_work_items d)\<rparr>"

definition cancel_activity :: "string \<Rightarrow> string \<Rightarrow> string \<Rightarrow> db \<Rightarrow> db" where
  "cancel_activity run_id message now d = d\<lparr>
     d_steps := sql_update (\<lambda>s. st_run s = run_id
          \<and> st_status s \<in> {ST_RUNNING, ST_WAITING_APPROVAL, ST_WAITING_INPUT})
       (\<lambda>s. s\<lparr>st_status := ST_CANCELLED, st_finished_at := Some now, st_error := Some message\<rparr>)
       (d_steps d),
     d_invocations := sql_update (\<lambda>i. i_run i = run_id
          \<and> i_status i \<in> {''waiting_approval'', ''waiting_input''})
       (\<lambda>i. i\<lparr>i_status := ''cancelled'', i_execution := Some ''cancelled'',
             i_finished_at := Some now\<rparr>) (d_invocations d),
     d_actions := sql_update (\<lambda>a. a_run a = run_id \<and> action_open a)
       (\<lambda>a. a\<lparr>a_status := AS_CANCELLED, a_result_kind := Some AR_USER_CANCELLED,
             a_finished_at := Some now, a_error_code := Some ''cancelled'',
             a_error_message := Some message\<rparr>) (d_actions d)\<rparr>"

definition cancel_requests :: "string \<Rightarrow> string \<Rightarrow> db \<Rightarrow> db" where
  "cancel_requests run_id now d = d\<lparr>
     d_inputs := sql_update (\<lambda>q. q_run q = run_id \<and> q_status q = ''pending'')
       (\<lambda>q. q\<lparr>q_status := ''cancelled''\<rparr>) (d_inputs d),
     d_plans := sql_update (\<lambda>p. p_status p = PS_AWAITING_APPROVAL \<and> exists_row
          (\<lambda>q. pq_plan q = Some (p_id p) \<and> pq_run q = Some run_id \<and> pq_kind q = PK_SUBMIT
             \<and> pq_status q = PR_PENDING) (d_plan_requests d))
       (\<lambda>p. p\<lparr>p_status := PS_DRAFT, p_updated_at := now\<rparr>) (d_plans d),
     d_permissions := sql_update (\<lambda>q. pr_run q = run_id \<and> pr_status q = ''pending'')
       (\<lambda>q. q\<lparr>pr_status := ''cancelled'', pr_decided_at := Some now\<rparr>) (d_permissions d),
     d_plan_requests := sql_update (\<lambda>q. pq_run q = Some run_id \<and> pq_status q = PR_PENDING)
       (\<lambda>q. q\<lparr>pq_status := PR_CANCELLED, pq_decided_at := Some now\<rparr>) (d_plan_requests d)\<rparr>"

definition cancel_waiting ::
  "string \<Rightarrow> string \<Rightarrow> stamp \<Rightarrow> db \<Rightarrow> (AgentEvent \<times> db) res" where
  "cancel_waiting session_id run_id z d =
     (case fetch_one (\<lambda>r. r_id r = run_id \<and> r_session r = session_id \<and> run_waiting r) (d_runs d) of
        None \<Rightarrow> Inl (ValueError ''run is not waiting for resumable input'')
      | Some row \<Rightarrow>
          (let message = ''cancelled before resume'' in
           append_stamped run_id EV_CANCELLED (cancelled_payload message) z
             (cancel_requests run_id (t_now z)
               (cancel_activity run_id message (t_now z)
                 (cancel_run_rows run_id (r_work_item row) message (t_now z) d)))))"

text \<open>\<open>cancel_waiting_action\<close>: one approved or running action is cancelled by the user, and
  with it the run's other pending and approved actions, the run and its work item.\<close>

definition cancel_action_row :: "string \<Rightarrow> string \<Rightarrow> action_row \<Rightarrow> action_row" where
  "cancel_action_row message now a = a\<lparr>a_status := AS_CANCELLED,
     a_result_kind := Some AR_USER_CANCELLED, a_finished_at := Some now,
     a_decided_at := coalesce (a_decided_at a) (Some now), a_error_code := Some ''cancelled'',
     a_error_message := Some message\<rparr>"

definition cancel_waiting_action ::
  "string \<Rightarrow> string \<Rightarrow> string \<Rightarrow> string \<Rightarrow> stamp \<Rightarrow> db \<Rightarrow> (AgentEvent \<times> db) res" where
  "cancel_waiting_action session_id run_id action_id message z d =
     (case fetch_one (\<lambda>r. r_id r = run_id \<and> r_session r = session_id
              \<and> r_status r = WI_WAITING_APPROVAL) (d_runs d) of
        None \<Rightarrow> Inl (ValueError ''run is not waiting for approval'')
      | Some row \<Rightarrow>
        (let now = t_now z;
             p = (\<lambda>a. a_id a = action_id \<and> a_run a = run_id \<and> a_status a \<in> {AS_APPROVED, AS_RUNNING});
             as1 = sql_update p (cancel_action_row message now) (d_actions d);
             as2 = sql_update (\<lambda>a. a_run a = run_id \<and> a_status a \<in> {AS_PENDING, AS_APPROVED})
                     (cancel_action_row message now) as1;
             d2 = d\<lparr>d_actions := as2,
               d_runs := sql_update (\<lambda>r. r_id r = run_id)
                 (\<lambda>r. r\<lparr>r_status := WI_CANCELLED, r_error_code := Some ''cancelled'',
                       r_error_message := Some message,
                       r_finished_at := coalesce (r_finished_at r) (Some now)\<rparr>) (d_runs d),
               d_work_items := sql_update
                 (\<lambda>w. wi_id w = r_work_item row \<and> wi_status w = WI_WAITING_APPROVAL)
                 (\<lambda>w. w\<lparr>wi_status := WI_CANCELLED, wi_error := Some message,
                       wi_updated_at := now\<rparr>) (d_work_items d)\<rparr>
         in if rowcount p (d_actions d) = 0
            then Inl (ValueError ''action is not approved or running'')
            else append_stamped run_id EV_CANCELLED (cancelled_payload message) z d2))"

end
