(* ===== verification/Resume.thy ===== *)
theory Resume
  imports Unit_Of_Work
begin

text \<open>
  \<open>WorkflowUnitOfWork.resume_paused\<close> (\<^verbatim>\<open>capslock/storage/repositories/workflow_uow.py\<close>): turn
  the decided request a run is waiting for into the tool message of the paused call, put it
  into the step's checkpoint before the results of later calls of the same assistant turn,
  and set the run going again.
\<close>

section \<open>The result of the paused call\<close>

text \<open>\<open>status\<close>, \<open>error\<close>, \<open>error_code\<close> and the text of the tool message.\<close>

record resume_result =
  rr_status :: string
  rr_error :: json
  rr_error_code :: json
  rr_content :: string

definition result_object ::
  "string \<Rightarrow> bool \<Rightarrow> bool \<Rightarrow> json \<Rightarrow> json \<Rightarrow> json \<Rightarrow> json" where
  "result_object status succeeded executed data error error_code =
     JObj [(''status'', JStr status), (''ok'', JBool succeeded), (''executed'', JBool executed),
           (''delivery_status'', JStr ''inline''), (''data'', data), (''content'', JList []),
           (''error'', error), (''error_code'', error_code)]"

definition plain_result :: "string \<Rightarrow> bool \<Rightarrow> json \<Rightarrow> json \<Rightarrow> json \<Rightarrow> resume_result" where
  "plain_result status executed data error error_code =
     \<lparr>rr_status = status, rr_error = error, rr_error_code = error_code,
      rr_content = json_dumps (result_object status (status = ''succeeded'') executed data error error_code)\<rparr>"

definition input_result :: "string \<Rightarrow> invocation_row \<Rightarrow> db \<Rightarrow> resume_result res" where
  "input_result request_id call d =
     (case fetch_one (\<lambda>q. q_id q = request_id \<and> q_invocation q = i_id call) (d_inputs d) of
        None \<Rightarrow> Inl (ValueError ''user input request has not been answered'')
      | Some q \<Rightarrow>
        if q_status q = ''pending''
        then Inl (ValueError ''user input request has not been answered'')
        else if q_status q = ''cancelled''
        then Inr (plain_result ''cancelled'' False (JObj [])
               (JStr ''user cancelled the input request'') (JStr ''input_cancelled''))
        else (case q_answers q of
            None \<Rightarrow> Inl TypeError
          | Some answers \<Rightarrow> Inr (plain_result ''succeeded'' True (JObj [(''answers'', answers)]) JNull JNull)))"

fun plan_choice_value :: "PlanApprovalChoice \<Rightarrow> string" where
  "plan_choice_value PC_ENTER = ''enter''"
| "plan_choice_value PC_IMPLEMENT = ''implement''"
| "plan_choice_value PC_FEEDBACK = ''feedback''"
| "plan_choice_value PC_REJECT = ''reject''"

definition plan_result :: "plan_request_row \<Rightarrow> resume_result res" where
  "plan_result q =
     (if pq_status q = PR_PENDING then Inl (ValueError ''plan request has not been decided'')
      else let choice = (case pq_choice q of None \<Rightarrow> PC_REJECT | Some c \<Rightarrow> c);
               succeeded = (choice \<noteq> PC_REJECT);
               status = (if succeeded then ''succeeded'' else ''denied'');
               error = (if succeeded then JNull else JStr ''plan request was rejected'');
               error_code = (if succeeded then JNull else JStr ''plan_request_rejected'')
           in Inr \<lparr>rr_status = status, rr_error = error, rr_error_code = error_code,
                rr_content = json_dumps (result_object status succeeded succeeded
                  (JObj [(''choice'', JStr (plan_choice_value choice)), (''plan_id'', jopt (pq_plan q)),
                         (''feedback'', jopt (pq_feedback q))]) error error_code)\<rparr>)"

definition permission_result :: "permission_row option \<Rightarrow> resume_result res" where
  "permission_result request =
     (case request of
        None \<Rightarrow> Inl (ValueError ''permission approval has not been executed to a terminal result'')
      | Some q \<Rightarrow> (case pr_result q of
            None \<Rightarrow> Inl (ValueError ''permission approval has not been executed to a terminal result'')
          | Some stored \<Rightarrow>
            if pr_status q = ''pending''
            then Inl (ValueError ''permission approval has not been executed to a terminal result'')
            else if \<not> is_dict stored then Inl (ValueError ''permission result is invalid'')
            else Inr \<lparr>rr_status = py_str (with_default (jget stored ''status'') (JStr ''failed'')),
                   rr_error = jfield stored ''error'', rr_error_code = jfield stored ''error_code'',
                   rr_content = json_dumps stored\<rparr>))"

fun action_type_value :: "ActionType \<Rightarrow> string" where
  "action_type_value AT_FILE_EDIT = ''file_edit''"
| "action_type_value AT_FILE_CREATE = ''file_create''"
| "action_type_value AT_NOTEBOOK_EDIT = ''notebook_edit''"
| "action_type_value AT_WORKTREE_CREATE = ''worktree_create''"
| "action_type_value AT_WORKTREE_EXIT = ''worktree_exit''"
| "action_type_value AT_COMMAND = ''command''"
| "action_type_value AT_WEB_SEARCH = ''web_search''"
| "action_type_value AT_WEB_FETCH = ''web_fetch''"
| "action_type_value AT_MCP_CONNECT = ''mcp_connect''"
| "action_type_value AT_MCP_CALL = ''mcp_call''"
| "action_type_value AT_CREDENTIAL_ACCESS = ''credential_access''"
| "action_type_value AT_SESSION_REWIND = ''session_rewind''"

fun result_kind_value :: "ActionResultKind \<Rightarrow> string" where
  "result_kind_value AR_APPLIED = ''applied''"
| "result_kind_value AR_UNDONE = ''undone''"
| "result_kind_value AR_EXIT_ZERO = ''exit_zero''"
| "result_kind_value AR_NONZERO_EXIT = ''nonzero_exit''"
| "result_kind_value AR_TIMEOUT = ''timeout''"
| "result_kind_value AR_EXECUTION_ERROR = ''execution_error''"
| "result_kind_value AR_USER_CANCELLED = ''user_cancelled''"
| "result_kind_value AR_SUCCESS = ''success''"

definition action_data :: "action_row \<Rightarrow> json" where
  "action_data a = JObj
     [(''action_id'', JStr (a_id a)), (''kind'', JStr (action_type_value (a_type a))),
      (''summary'', JStr (a_summary a)), (''status'', JStr (action_status_value (a_status a))),
      (''result_kind'', jopt (map_option result_kind_value (a_result_kind a))),
      (''request'', a_request a),
      (''result'', case a_result a of None \<Rightarrow> JNull | Some r \<Rightarrow> r),
      (''error'', jopt (a_error_message a))]"

definition action_result :: "action_row \<Rightarrow> resume_result res" where
  "action_result a =
     (let text = (\<lambda>dflt. JStr (or_text (a_error_message a) dflt)) in
      case a_status a of
        AS_REJECTED \<Rightarrow> Inr (plain_result ''denied'' False (action_data a)
           (text ''action was rejected'') (JStr ''action_rejected''))
      | AS_CANCELLED \<Rightarrow> Inr (plain_result ''cancelled'' False (action_data a)
           (text ''action was cancelled'') (JStr ''action_cancelled''))
      | AS_FAILED \<Rightarrow> Inr (plain_result ''failed'' True (action_data a)
           (text ''action failed'') (JStr (or_text (a_error_code a) ''action_failed'')))
      | AS_COMPLETED \<Rightarrow> Inr (plain_result ''succeeded'' True (action_data a) JNull JNull)
      | _ \<Rightarrow> Inl (ValueError ''action approval has not reached a terminal state''))"

definition paused_result :: "string \<Rightarrow> invocation_row \<Rightarrow> db \<Rightarrow> resume_result res" where
  "paused_result run_id call d =
     (let request_id = py_str_opt (i_pause_request call) in
      if py_str_opt (i_pause_kind call) = ''user_input'' then input_result request_id call d
      else case fetch_one (\<lambda>a. a_id a = request_id \<and> a_run a = run_id) (d_actions d) of
          Some a \<Rightarrow> action_result a
        | None \<Rightarrow>
          (case fetch_one (\<lambda>q. pq_id q = request_id \<and> pq_run q = Some run_id
                     \<and> pq_invocation q = Some (i_id call)) (d_plan_requests d) of
             Some q \<Rightarrow> plan_result q
           | None \<Rightarrow> permission_result (fetch_one (\<lambda>q. pr_id q = request_id \<and> pr_run q = run_id
                     \<and> pr_invocation q = i_id call) (d_permissions d))))"

section \<open>The checkpoint's messages\<close>

definition checkpoint_messages :: "json option \<Rightarrow> json list res" where
  "checkpoint_messages checkpoint =
     (let c = (case checkpoint of None \<Rightarrow> JObj [] | Some v \<Rightarrow> v) in
      if \<not> is_dict c then Inl AttributeError
      else py_list (with_default (jget c ''messages'') (JList [])))"

definition tool_message :: "string \<Rightarrow> string \<Rightarrow> json" where
  "tool_message call_id content =
     JObj [(''role'', JStr ''tool''), (''tool_call_id'', JStr call_id), (''content'', JStr content)]"

text \<open>\<open>next(... for item in reversed(messages) ...)\<close>: the calls of the last assistant
  message that has a list of them.\<close>

definition assistant_with_calls :: "json \<Rightarrow> bool" where
  "assistant_with_calls m \<longleftrightarrow> is_dict m \<and> jget m ''role'' = Some (JStr ''assistant'')
     \<and> (case jget m ''tool_calls'' of None \<Rightarrow> False | Some v \<Rightarrow> is_list v)"

definition assistant_calls :: "json list \<Rightarrow> json list" where
  "assistant_calls messages = (case find assistant_with_calls (rev messages) of
      None \<Rightarrow> []
    | Some m \<Rightarrow> (case jget m ''tool_calls'' of Some (JList calls) \<Rightarrow> calls | _ \<Rightarrow> []))"

definition ordered_ids :: "json list \<Rightarrow> string list" where
  "ordered_ids calls = map (\<lambda>c. py_str (jfield c ''id'')) (filter is_dict calls)"

definition later_ids :: "string \<Rightarrow> string list \<Rightarrow> string list" where
  "later_ids paused ids =
     (if paused \<in> set ids then tl (dropWhile (\<lambda>x. x \<noteq> paused) ids) else [])"

definition is_tool_message :: "json \<Rightarrow> bool" where
  "is_tool_message m \<longleftrightarrow> is_dict m \<and> jget m ''role'' = Some (JStr ''tool'')"

text \<open>Membership of a value in a set of texts; an unhashable value raises.\<close>

definition in_text_set :: "json \<Rightarrow> string list \<Rightarrow> bool res" where
  "in_text_set v ids = (if hashable v then Inr (is_str v \<and> text_of v \<in> set ids) else Inl TypeError)"

fun insertion_index :: "string list \<Rightarrow> json list \<Rightarrow> nat res" where
  "insertion_index later [] = Inr 0"
| "insertion_index later (m # ms) =
     (if is_tool_message m
      then rbind (in_text_set (jfield m ''tool_call_id'') later)
        (\<lambda>hit. if hit then Inr 0 else rbind (insertion_index later ms) (\<lambda>n. Inr (Suc n)))
      else rbind (insertion_index later ms) (\<lambda>n. Inr (Suc n)))"

definition insert_tool_message :: "string \<Rightarrow> string \<Rightarrow> json list \<Rightarrow> json list res" where
  "insert_tool_message call_id content messages =
     (let later = later_ids call_id (ordered_ids (assistant_calls messages)) in
      rbind (insertion_index later messages)
        (\<lambda>n. Inr (take n messages @ [tool_message call_id content] @ drop n messages)))"

section \<open>Resuming\<close>

definition terminal_invocation_status :: "string \<Rightarrow> string" where
  "terminal_invocation_status status =
     (if status = ''succeeded'' then ''completed''
      else if status = ''cancelled'' then ''cancelled'' else ''failed'')"

definition finish_paused_invocation ::
  "invocation_row \<Rightarrow> resume_result \<Rightarrow> string option \<Rightarrow> string \<Rightarrow> db \<Rightarrow> db res" where
  "finish_paused_invocation call rr error_code timestamp d = rbind
     (sql_set invocation_check (\<lambda>i. i_id i = i_id call)
        (\<lambda>i. i\<lparr>i_status := terminal_invocation_status (rr_status rr),
              i_execution := Some (rr_status rr), i_delivery := Some ''inline'',
              i_preview := Some (rr_content rr), i_error_code := error_code,
              i_finished_at := Some timestamp,
              i_duration_ms := coalesce (i_duration_ms i) (Some 0)\<rparr>) (d_invocations d))
     (\<lambda>t. Inr (d\<lparr>d_invocations := t\<rparr>))"

definition finish_paused_step ::
  "step_row \<Rightarrow> json list \<Rightarrow> string option \<Rightarrow> string \<Rightarrow> db \<Rightarrow> db" where
  "finish_paused_step step messages error timestamp d =
     d\<lparr>d_steps := sql_update (\<lambda>s. st_id s = st_id step)
        (\<lambda>s. s\<lparr>st_status := ST_COMPLETED,
              st_checkpoint := Some (JObj [(''messages'', JList messages)]),
              st_finished_at := Some timestamp, st_error := error\<rparr>) (d_steps d)\<rparr>"

definition set_running :: "string \<Rightarrow> string \<Rightarrow> string \<Rightarrow> db \<Rightarrow> db" where
  "set_running run_id item timestamp d =
     d\<lparr>d_runs := sql_update (\<lambda>r. r_id r = run_id)
          (\<lambda>r. r\<lparr>r_status := WI_RUNNING, r_finished_at := None\<rparr>) (d_runs d),
       d_work_items := sql_update (\<lambda>w. wi_id w = item)
          (\<lambda>w. w\<lparr>wi_status := WI_RUNNING, wi_updated_at := timestamp\<rparr>) (d_work_items d)\<rparr>"

definition resume_paused :: "string \<Rightarrow> string \<Rightarrow> string \<Rightarrow> db \<Rightarrow> db res" where
  "resume_paused session_id run_id timestamp d =
     (case fetch_one (\<lambda>r. r_id r = run_id \<and> r_session r = session_id \<and> run_waiting r) (d_runs d) of
        None \<Rightarrow> Inl (ValueError ''run is not waiting for resumable input'')
      | Some run_row' \<Rightarrow>
        (case (last_by i_sequence (\<lambda>i. i_run i = run_id
                  \<and> i_status i \<in> {''waiting_approval'', ''waiting_input''}) (d_invocations d),
               last_by st_ordinal (\<lambda>s. st_run s = run_id \<and> step_waiting s) (d_steps d)) of
           (Some call, Some step) \<Rightarrow>
             rbind (paused_result run_id call d) (\<lambda>rr.
             rbind (checkpoint_messages (st_checkpoint step)) (\<lambda>messages.
             rbind (insert_tool_message (i_call call) (rr_content rr) messages) (\<lambda>messages'.
             rbind (sql_text (rr_error_code rr)) (\<lambda>error_code.
             rbind (finish_paused_invocation call rr error_code timestamp d) (\<lambda>d1.
             rbind (sql_text (rr_error rr)) (\<lambda>error.
               Inr (set_running run_id (r_work_item run_row') timestamp
                 (prune_checkpoints run_id (st_id step) (st_ordinal step)
                   (finish_paused_step step messages' error timestamp d1)))))))))
         | _ \<Rightarrow> Inl (ValueError ''paused run continuation is incomplete'')))"

end
