(* ===== verification/Workflow_Machine.thy ===== *)
theory Workflow_Machine
  imports Resume
begin

text \<open>
  The workflow as a state machine over the database: every transaction of the work queue, the
  run repository and the unit of work is a step.  The invariant \<open>workflow_ok\<close> ties the two
  tables that no constraint of the schema ties: a run always has the status of its work item,
  a work item has at most one run, and an agent item that has left the queue other than by
  cancellation has one.
\<close>

section \<open>Invariant\<close>

definition run_in_step :: "db \<Rightarrow> run_row \<Rightarrow> bool" where
  "run_in_step d r \<longleftrightarrow> r_status r \<noteq> WI_QUEUED \<and>
     (case row_by wi_id (r_work_item r) (d_work_items d) of
        None \<Rightarrow> False
      | Some w \<Rightarrow> wi_session w = r_session r \<and> wi_kind w = r_kind r \<and> wi_status w = r_status r)"

definition item_has_run :: "db \<Rightarrow> work_item_row \<Rightarrow> bool" where
  "item_has_run d w \<longleftrightarrow> wi_kind w = RK_AGENT \<and> wi_status w \<notin> {WI_QUEUED, WI_CANCELLED} \<longrightarrow>
     list_ex (\<lambda>r. r_work_item r = wi_id w) (d_runs d)"

definition workflow_ok :: "db \<Rightarrow> bool" where
  "workflow_ok d \<longleftrightarrow> unique_by wi_id (d_work_items d) \<and> unique_by r_id (d_runs d)
     \<and> unique_by r_work_item (d_runs d) \<and> list_all (run_in_step d) (d_runs d)
     \<and> list_all (item_has_run d) (d_work_items d)"

lemma item_has_run_iff:
  "item_has_run d w \<longleftrightarrow> (wi_kind w = RK_AGENT \<and> wi_status w \<notin> {WI_QUEUED, WI_CANCELLED} \<longrightarrow>
     wi_id w \<in> r_work_item ` set (d_runs d))"
  by (force simp: item_has_run_def list_ex_iff)

lemma workflow_ok_cong:
  "d_runs d' = d_runs d \<Longrightarrow> d_work_items d' = d_work_items d \<Longrightarrow> workflow_ok d' = workflow_ok d"
  by (simp add: workflow_ok_def list_all_iff run_in_step_def item_has_run_def)

lemma journal_ok_frame: "journal_ok d \<Longrightarrow> d_events d' = d_events d \<Longrightarrow> journal_ok d'"
  by (simp add: journal_ok_def run_log_def)

lemma run_in_stepE:
  assumes "workflow_ok d" and "r \<in> set (d_runs d)"
  obtains w where "row_by wi_id (r_work_item r) (d_work_items d) = Some w" and "w \<in> set (d_work_items d)"
    and "wi_id w = r_work_item r" and "wi_session w = r_session r" and "wi_kind w = r_kind r"
    and "wi_status w = r_status r" and "r_status r \<noteq> WI_QUEUED"
proof -
  from assms have "run_in_step d r" by (simp add: workflow_ok_def list_all_iff)
  then show ?thesis using that row_by_Some by (fastforce simp: run_in_step_def split: option.splits)
qed

text \<open>The status of every item after the item \<open>i\<close> moved to \<open>t\<close>.\<close>

definition item_status :: "db \<Rightarrow> string \<Rightarrow> (RunKind \<times> WorkItemStatus) option" where
  "item_status d i = map_option (\<lambda>w. (wi_kind w, wi_status w)) (row_by wi_id i (d_work_items d))"

definition moved :: "db \<Rightarrow> db \<Rightarrow> string \<Rightarrow> WorkItemStatus \<Rightarrow> bool" where
  "moved d d' i t \<longleftrightarrow> (\<forall>j. item_status d' j =
     (if j = i then map_option (\<lambda>(k, _). (k, t)) (item_status d j) else item_status d j))"

text \<open>A transaction that sets one run and its work item to the same status keeps the
  invariant.\<close>

lemma set_status_ok:
  assumes ok: "workflow_ok d" and r0: "r0 \<in> set (d_runs d)"
    and w0: "row_by wi_id (r_work_item r0) (d_work_items d) = Some w0"
    and runs: "d_runs d' = sql_update p f (d_runs d)"
    and items: "d_work_items d' = sql_update q g (d_work_items d)"
    and p: "\<And>r. r \<in> set (d_runs d) \<Longrightarrow> p r \<longleftrightarrow> r_id r = r_id r0"
    and q: "\<And>w. w \<in> set (d_work_items d) \<Longrightarrow> q w \<longleftrightarrow> wi_id w = r_work_item r0"
    and f: "\<And>r. r_id (f r) = r_id r \<and> r_work_item (f r) = r_work_item r \<and> r_session (f r) = r_session r
              \<and> r_kind (f r) = r_kind r \<and> r_status (f r) = t"
    and g: "\<And>w. wi_id (g w) = wi_id w \<and> wi_session (g w) = wi_session w \<and> wi_kind (g w) = wi_kind w
              \<and> wi_status (g w) = t"
    and t: "t \<noteq> WI_QUEUED"
  shows "workflow_ok d' \<and> moved d d' (r_work_item r0) t"
proof
  have ur: "unique_by r_id (d_runs d)" and uw: "unique_by r_work_item (d_runs d)"
    and ui: "unique_by wi_id (d_work_items d)" using ok by (simp_all add: workflow_ok_def)
  have getw: "row_by wi_id j (d_work_items d') = map_option (\<lambda>w. if wi_id w = r_work_item r0 then g w else w)
      (row_by wi_id j (d_work_items d))" for j
  proof -
    have "row_by wi_id j (d_work_items d') = map_option (\<lambda>w. if q w then g w else w) (row_by wi_id j (d_work_items d))"
      unfolding items using g by (simp add: row_by_update)
    then show ?thesis by (cases "row_by wi_id j (d_work_items d)") (use q row_by_Some in fastforce)+
  qed
  show moved: "moved d d' (r_work_item r0) t"
    unfolding moved_def item_status_def getw
  proof
    fix j
    show "map_option (\<lambda>w. (wi_kind w, wi_status w)) (map_option (\<lambda>w. if wi_id w = r_work_item r0 then g w else w)
        (row_by wi_id j (d_work_items d))) = (if j = r_work_item r0
        then map_option (\<lambda>(k, _). (k, t)) (map_option (\<lambda>w. (wi_kind w, wi_status w)) (row_by wi_id j (d_work_items d)))
        else map_option (\<lambda>w. (wi_kind w, wi_status w)) (row_by wi_id j (d_work_items d)))"
      using g by (cases "row_by wi_id j (d_work_items d)") (auto dest: row_by_Some)
  qed
  have "run_in_step d' r'" if r': "r' \<in> set (d_runs d')" for r'
    using r' unfolding runs
  proof (rule sql_updateE)
    fix x assume x: "x \<in> set (d_runs d)" "p x" "r' = f x"
    then have "x = r0" using p unique_by_eq[OF ur x(1) r0] by simp
    then have "row_by wi_id (r_work_item r') (d_work_items d') = Some (g w0)"
      using x(3) f getw w0 row_by_Some[OF w0] by simp
    moreover have "wi_session w0 = r_session r0" "wi_kind w0 = r_kind r0"
      using run_in_stepE[OF ok r0] w0 by (metis option.inject)+
    ultimately show ?thesis using t f g x(3) \<open>x = r0\<close> by (simp add: run_in_step_def)
  next
    assume x: "r' \<in> set (d_runs d)" "\<not> p r'"
    then have "r_work_item r' \<noteq> r_work_item r0"
      using p unique_by_eq[OF uw x(1) r0] by auto
    moreover obtain w where "row_by wi_id (r_work_item r') (d_work_items d) = Some w" "wi_id w = r_work_item r'"
      "wi_session w = r_session r'" "wi_kind w = r_kind r'" "wi_status w = r_status r'" "r_status r' \<noteq> WI_QUEUED"
      using run_in_stepE[OF ok x(1)] by metis
    ultimately show ?thesis by (simp add: run_in_step_def getw)
  qed
  moreover have "item_has_run d' w'" if w': "w' \<in> set (d_work_items d')" for w'
  proof -
    have ids: "r_work_item ` set (d_runs d') = r_work_item ` set (d_runs d)"
      unfolding runs using f by (simp add: map_sql_update flip: set_map)
    from w' obtain w where w: "w \<in> set (d_work_items d)" "wi_id w' = wi_id w" "wi_kind w' = wi_kind w"
      "wi_status w' = wi_status w \<or> wi_id w = r_work_item r0"
      unfolding items by (rule sql_updateE) (use q g in auto)
    have "item_has_run d w" using ok w(1) by (simp add: workflow_ok_def list_all_iff)
    then have "r_work_item r0 = wi_id w \<or> (wi_kind w = RK_AGENT \<and> wi_status w \<notin> {WI_QUEUED, WI_CANCELLED}
        \<longrightarrow> wi_id w \<in> r_work_item ` set (d_runs d)) \<and> wi_status w' = wi_status w"
      using w(4) unfolding item_has_run_iff by auto
    then show ?thesis
      using w(2,3) imageI[OF r0, of r_work_item] ids unfolding item_has_run_iff by auto
  qed
  moreover have "unique_by wi_id (d_work_items d')" "unique_by r_id (d_runs d')" "unique_by r_work_item (d_runs d')"
    unfolding runs items using ui ur uw f g by (auto intro!: unique_by_update)
  ultimately show "workflow_ok d'" by (simp add: workflow_ok_def list_all_iff)
qed

section \<open>What the transactions of the unit of work do to runs and work items\<close>

lemma append_stamped_frame:
  assumes "append_stamped run_id kind payload z d = Inr (ev, d')"
  shows "d_runs d' = d_runs d \<and> d_work_items d' = d_work_items d
     \<and> (journal_ok d \<longrightarrow> journal_ok d') \<and> ev_kind ev = kind \<and> ev_run ev = run_id"
  using append_in_effect[OF assms[unfolded append_stamped_def]]
    append_in_journal[OF _ assms[unfolded append_stamped_def]] by auto

lemma finish_frame [simp]:
  "d_runs (finish_steps i st m t d) = d_runs d" "d_work_items (finish_steps i st m t d) = d_work_items d"
  "d_events (finish_steps i st m t d) = d_events d"
  "d_runs (finish_actions i st c m t d) = d_runs d" "d_work_items (finish_actions i st c m t d) = d_work_items d"
  "d_events (finish_actions i st c m t d) = d_events d"
  by (simp_all add: finish_steps_def finish_actions_def split: option.splits)

text \<open>One run \<open>r\<close> and its work item move to \<open>t\<close> together: the shape of every compound
  transition.\<close>

definition both_moved :: "db \<Rightarrow> run_row \<Rightarrow> WorkItemStatus \<Rightarrow> db \<Rightarrow> bool" where
  "both_moved d r t d' \<longleftrightarrow> r \<in> set (d_runs d) \<and>
     (workflow_ok d \<longrightarrow> workflow_ok d' \<and> moved d d' (r_work_item r) t)
     \<and> (journal_ok d \<longrightarrow> journal_ok d')"

lemma both_movedI:
  assumes r: "r \<in> set (d_runs d)"
    and runs: "d_runs d' = sql_update (\<lambda>x. r_id x = r_id r \<and> p' x) f (d_runs d)"
    and items: "d_work_items d' = sql_update (\<lambda>w. wi_id w = r_work_item r \<and> q' w) g (d_work_items d)"
    and p: "p' r" and q: "\<And>w. wi_status w = r_status r \<Longrightarrow> q' w"
    and f: "\<And>r. r_id (f r) = r_id r \<and> r_work_item (f r) = r_work_item r \<and> r_session (f r) = r_session r
              \<and> r_kind (f r) = r_kind r \<and> r_status (f r) = t"
    and g: "\<And>w. wi_id (g w) = wi_id w \<and> wi_session (g w) = wi_session w \<and> wi_kind (g w) = wi_kind w
              \<and> wi_status (g w) = t"
    and t: "t \<noteq> WI_QUEUED" and j: "journal_ok d \<Longrightarrow> journal_ok d'"
  shows "both_moved d r t d'"
  unfolding both_moved_def
proof (intro conjI impI)
  assume ok: "workflow_ok d"
  obtain w where w: "row_by wi_id (r_work_item r) (d_work_items d) = Some w" "w \<in> set (d_work_items d)"
    "wi_id w = r_work_item r" "wi_status w = r_status r"
    using run_in_stepE[OF ok r] by metis
  have "p' x" if "x \<in> set (d_runs d)" "r_id x = r_id r" for x
    using that r p unique_by_eq[of r_id "d_runs d" x r] ok by (simp add: workflow_ok_def)
  moreover have "q' x" if "x \<in> set (d_work_items d)" "wi_id x = r_work_item r" for x
    using that w q unique_by_eq[of wi_id "d_work_items d" x w] ok by (simp add: workflow_ok_def)
  ultimately have "workflow_ok d' \<and> moved d d' (r_work_item r) t"
    using set_status_ok[OF ok r w(1) runs items _ _ f g t] by blast
  then show "workflow_ok d'" "moved d d' (r_work_item r) t" by simp_all
qed (use r j in simp_all)

lemma finalize_moves:
  assumes "finalize run_id st k payload ms ec em it ot c sr z d = Inr (ev, d')"
  shows "\<exists>r. r_id r = run_id \<and> r_status r = WI_RUNNING \<and> st \<noteq> WI_QUEUED \<and> st \<noteq> WI_RUNNING
     \<and> both_moved d r st d'"
proof (cases "fetch_one (\<lambda>r. r_id r = run_id \<and> r_status r = WI_RUNNING) (d_runs d)")
  case None
  with assms show ?thesis by (auto simp: finalize_def elim!: rbind_InrE)
next
  case (Some row)
  let ?f = "\<lambda>r. r\<lparr>r_status := st, r_finished_at := Some (t_now z), r_duration_ms := Some ms,
      r_error_code := ec, r_error_message := em, r_input_tokens := it, r_output_tokens := ot,
      r_cost := c, r_stop_reason := sr\<rparr>"
  let ?g = "\<lambda>w. w\<lparr>wi_status := st, wi_error := em, wi_updated_at := t_now z\<rparr>"
  let ?q = "\<lambda>w. wi_id w = r_work_item row \<and> wi_status w = WI_RUNNING"
  have r: "row \<in> set (d_runs d)" "r_id row = run_id" "r_status row = WI_RUNNING"
    using fetch_one_Some[OF Some] by simp_all
  from assms obtain u where u: "validate_final_status st = Inr u"
    unfolding finalize_def by (elim rbind_InrE)
  then have fin: "st \<noteq> WI_QUEUED" "st \<noteq> WI_RUNNING" by (simp_all add: validate_final_status_ok)
  from assms u Some obtain rs where
    rs: "sql_set run_check (\<lambda>r. r_id r = run_id \<and> r_status r = WI_RUNNING) ?f (d_runs d) = Inr rs"
    and rest: "(if rowcount ?q (d_work_items d) = 0 then Inl (ValueError ''work item is not running'')
       else append_stamped run_id k payload z
        (finish_actions run_id st ec em (t_now z) (finish_steps run_id st em (t_now z)
          (d\<lparr>d_runs := rs, d_work_items := sql_update ?q ?g (d_work_items d)\<rparr>)))) = Inr (ev, d')"
    unfolding finalize_def Let_def by (simp only: rbind_simps option.case) (elim rbind_InrE)
  from rest obtain app: "append_stamped run_id k payload z
        (finish_actions run_id st ec em (t_now z) (finish_steps run_id st em (t_now z)
          (d\<lparr>d_runs := rs, d_work_items := sql_update ?q ?g (d_work_items d)\<rparr>))) = Inr (ev, d')"
    by (simp split: if_splits)
  have rs': "rs = sql_update (\<lambda>r. r_id r = run_id \<and> r_status r = WI_RUNNING) ?f (d_runs d)"
    using rs by (simp add: sql_set_Inr)
  have "both_moved d row st d'"
  proof (rule both_movedI[OF r(1)])
    show "d_runs d' = sql_update (\<lambda>x. r_id x = r_id row \<and> r_status x = WI_RUNNING) ?f (d_runs d)"
      using append_stamped_frame[OF app] rs' r by simp
    show "d_work_items d' = sql_update ?q ?g (d_work_items d)"
      using append_stamped_frame[OF app] by simp
    show "journal_ok d'" if "journal_ok d"
      using append_stamped_frame[OF app] journal_ok_frame[OF that] by simp
  qed (use r fin in simp_all)
  with r fin show ?thesis by blast
qed

lemma pause_moves:
  assumes "pause run_id kind payload z d = Inr (ev, d')"
  shows "\<exists>r t. r_id r = run_id \<and> r_status r = WI_RUNNING \<and> t \<in> {WI_WAITING_APPROVAL, WI_WAITING_INPUT}
     \<and> both_moved d r t d'"
proof (cases "fetch_one (\<lambda>r. r_id r = run_id \<and> r_status r = WI_RUNNING) (d_runs d)")
  case None
  with assms show ?thesis by (auto simp: pause_def split: if_splits)
next
  case (Some row)
  let ?g = "\<lambda>w. w\<lparr>wi_status := pause_status kind, wi_updated_at := t_now z\<rparr>"
  let ?q = "\<lambda>w. wi_id w = r_work_item row \<and> wi_status w = WI_RUNNING"
  have r: "row \<in> set (d_runs d)" "r_id row = run_id" "r_status row = WI_RUNNING"
    using fetch_one_Some[OF Some] by simp_all
  have app: "append_stamped run_id (pause_event kind) payload z
      (d\<lparr>d_runs := sql_update (\<lambda>r. r_id r = run_id \<and> r_status r = WI_RUNNING)
                         (\<lambda>r. r\<lparr>r_status := pause_status kind\<rparr>) (d_runs d),
         d_work_items := sql_update ?q ?g (d_work_items d)\<rparr>) = Inr (ev, d')"
    using assms Some unfolding pause_def Let_def by (simp split: if_splits)
  have "both_moved d row (pause_status kind) d'"
  proof (rule both_movedI[OF r(1)])
    show "d_runs d' = sql_update (\<lambda>x. r_id x = r_id row \<and> r_status x = WI_RUNNING)
        (\<lambda>r. r\<lparr>r_status := pause_status kind\<rparr>) (d_runs d)"
      using append_stamped_frame[OF app] r by simp
    show "d_work_items d' = sql_update ?q ?g (d_work_items d)"
      using append_stamped_frame[OF app] by simp
    show "journal_ok d'" if "journal_ok d"
      using append_stamped_frame[OF app] journal_ok_frame[OF that] by simp
  qed (use r in \<open>simp_all add: pause_status_def\<close>)
  with r show ?thesis by (intro exI[of _ row] exI[of _ "pause_status kind"]) (simp add: pause_status_def)
qed

lemma settle_outcome_status: "ao_status (settle_outcome run_id d) \<in> {WI_COMPLETED, WI_FAILED, WI_CANCELLED}"
  by (simp add: settle_outcome_def approval_outcome_def Let_def split: option.splits)

lemma settle_moves:
  assumes "settle_approval s run_id z d = Inr (Some ev, d')"
  shows "\<exists>r t. r_id r = run_id \<and> r_session r = s \<and> r_status r = WI_WAITING_APPROVAL
     \<and> t \<in> {WI_COMPLETED, WI_FAILED, WI_CANCELLED} \<and> both_moved d r t d'"
proof (cases "fetch_one (\<lambda>r. r_id r = run_id \<and> r_session r = s) (d_runs d)")
  case None
  with assms show ?thesis by (simp add: settle_approval_def)
next
  case (Some row)
  let ?o = "settle_outcome run_id d"
  let ?f = "\<lambda>r. r\<lparr>r_status := ao_status ?o, r_finished_at := coalesce (r_finished_at r) (Some (t_now z)),
      r_error_code := ao_error_code ?o, r_error_message := ao_error_message ?o\<rparr>"
  let ?q = "\<lambda>w. wi_id w = r_work_item row \<and> wi_status w = WI_WAITING_APPROVAL"
  let ?g = "\<lambda>w. w\<lparr>wi_status := ao_status ?o, wi_error := ao_error_message ?o, wi_updated_at := t_now z\<rparr>"
  have r: "row \<in> set (d_runs d)" "r_id row = run_id" "r_session row = s"
    using fetch_one_Some[OF Some] by simp_all
  from assms Some have st: "r_status row = WI_WAITING_APPROVAL"
    and rest: "rbind (append_stamped run_id (ao_event_kind ?o)
                    (settled_payload (ao_status ?o) (ao_error_code ?o \<noteq> None) (ao_error_code ?o) (ao_error_message ?o)) z
                    (d\<lparr>d_runs := sql_update (\<lambda>r. r_id r = run_id \<and> r_status r = WI_WAITING_APPROVAL) ?f (d_runs d),
                       d_work_items := sql_update ?q ?g (d_work_items d)\<rparr>))
                  (\<lambda>(ev, d2). Inr (Some ev, d2)) = Inr (Some ev, d')"
    unfolding settle_approval_def Let_def by (simp_all split: if_splits)
  from rest have app: "append_stamped run_id (ao_event_kind ?o)
      (settled_payload (ao_status ?o) (ao_error_code ?o \<noteq> None) (ao_error_code ?o) (ao_error_message ?o)) z
      (d\<lparr>d_runs := sql_update (\<lambda>r. r_id r = run_id \<and> r_status r = WI_WAITING_APPROVAL) ?f (d_runs d),
         d_work_items := sql_update ?q ?g (d_work_items d)\<rparr>) = Inr (ev, d')"
    by (elim rbind_InrE) (simp split: prod.splits)
  have "both_moved d row (ao_status ?o) d'"
  proof (rule both_movedI[OF r(1)])
    show "d_runs d' = sql_update (\<lambda>x. r_id x = r_id row \<and> r_status x = WI_WAITING_APPROVAL) ?f (d_runs d)"
      using append_stamped_frame[OF app] r by simp
    show "d_work_items d' = sql_update ?q ?g (d_work_items d)"
      using append_stamped_frame[OF app] by simp
    show "journal_ok d'" if "journal_ok d"
      using append_stamped_frame[OF app] journal_ok_frame[OF that] by simp
    show "ao_status ?o \<noteq> WI_QUEUED" using settle_outcome_status[of run_id d] by auto
  qed (use st in simp_all)
  with r st settle_outcome_status[of run_id d] show ?thesis by blast
qed

lemma settle_quiet: "settle_approval s run_id z d = Inr (None, d') \<Longrightarrow> d' = d"
  unfolding settle_approval_def Let_def
  by (auto elim!: rbind_InrE split: option.splits if_splits)

lemma cancel_frame [simp]:
  "d_runs (cancel_requests i n d) = d_runs d" "d_work_items (cancel_requests i n d) = d_work_items d"
  "d_events (cancel_requests i n d) = d_events d"
  "d_runs (cancel_activity i m n d) = d_runs d" "d_work_items (cancel_activity i m n d) = d_work_items d"
  "d_events (cancel_activity i m n d) = d_events d"
  "d_events (cancel_run_rows i w m n d) = d_events d"
  by (simp_all add: cancel_requests_def cancel_activity_def cancel_run_rows_def)

lemma cancel_waiting_moves:
  assumes "cancel_waiting s run_id z d = Inr (ev, d')"
  shows "\<exists>r. r_id r = run_id \<and> r_session r = s \<and> run_waiting r \<and> both_moved d r WI_CANCELLED d'"
proof (cases "fetch_one (\<lambda>r. r_id r = run_id \<and> r_session r = s \<and> run_waiting r) (d_runs d)")
  case None
  with assms show ?thesis by (simp add: cancel_waiting_def)
next
  case (Some row)
  have r: "row \<in> set (d_runs d)" "r_id row = run_id" "r_session row = s" "run_waiting row"
    using fetch_one_Some[OF Some] by simp_all
  obtain m where app: "append_stamped run_id EV_CANCELLED (cancelled_payload m) z
      (cancel_requests run_id (t_now z) (cancel_activity run_id m (t_now z)
         (cancel_run_rows run_id (r_work_item row) m (t_now z) d))) = Inr (ev, d')"
    using assms Some unfolding cancel_waiting_def Let_def by simp
  have "both_moved d row WI_CANCELLED d'"
  proof (rule both_movedI[OF r(1)])
    show "d_runs d' = sql_update (\<lambda>x. r_id x = r_id row \<and> True) (\<lambda>r. r\<lparr>r_status := WI_CANCELLED,
        r_finished_at := Some (t_now z), r_error_code := Some ''cancelled'', r_error_message := Some m\<rparr>) (d_runs d)"
      using append_stamped_frame[OF app] r by (simp add: cancel_run_rows_def)
    show "d_work_items d' = sql_update (\<lambda>w. wi_id w = r_work_item row \<and> True) (\<lambda>w. w\<lparr>wi_status := WI_CANCELLED,
        wi_updated_at := t_now z, wi_error := Some m\<rparr>) (d_work_items d)"
      using append_stamped_frame[OF app] by (simp add: cancel_run_rows_def)
    show "journal_ok d'" if "journal_ok d"
      using append_stamped_frame[OF app] journal_ok_frame[OF that] by simp
  qed simp_all
  with r show ?thesis by blast
qed

lemma cancel_waiting_action_moves:
  assumes "cancel_waiting_action s run_id a m z d = Inr (ev, d')"
  shows "\<exists>r. r_id r = run_id \<and> r_session r = s \<and> r_status r = WI_WAITING_APPROVAL
     \<and> both_moved d r WI_CANCELLED d'"
proof (cases "fetch_one (\<lambda>r. r_id r = run_id \<and> r_session r = s \<and> r_status r = WI_WAITING_APPROVAL) (d_runs d)")
  case None
  with assms show ?thesis by (simp add: cancel_waiting_action_def)
next
  case (Some row)
  have r: "row \<in> set (d_runs d)" "r_id row = run_id" "r_session row = s" "r_status row = WI_WAITING_APPROVAL"
    using fetch_one_Some[OF Some] by simp_all
  let ?f = "\<lambda>r. r\<lparr>r_status := WI_CANCELLED, r_error_code := Some ''cancelled'',
      r_error_message := Some m, r_finished_at := coalesce (r_finished_at r) (Some (t_now z))\<rparr>"
  let ?q = "\<lambda>w. wi_id w = r_work_item row \<and> wi_status w = WI_WAITING_APPROVAL"
  let ?g = "\<lambda>w. w\<lparr>wi_status := WI_CANCELLED, wi_error := Some m, wi_updated_at := t_now z\<rparr>"
  obtain as2 where app: "append_stamped run_id EV_CANCELLED (cancelled_payload m) z
      (d\<lparr>d_actions := as2, d_runs := sql_update (\<lambda>r. r_id r = run_id) ?f (d_runs d),
         d_work_items := sql_update ?q ?g (d_work_items d)\<rparr>) = Inr (ev, d')"
    using assms Some unfolding cancel_waiting_action_def Let_def by (simp split: if_splits)
  have "both_moved d row WI_CANCELLED d'"
  proof (rule both_movedI[OF r(1)])
    show "d_runs d' = sql_update (\<lambda>x. r_id x = r_id row \<and> True) ?f (d_runs d)"
      using append_stamped_frame[OF app] r by simp
    show "d_work_items d' = sql_update ?q ?g (d_work_items d)"
      using append_stamped_frame[OF app] by simp
    show "journal_ok d'" if "journal_ok d"
      using append_stamped_frame[OF app] journal_ok_frame[OF that] by simp
  qed (use r in simp_all)
  with r show ?thesis by blast
qed

text \<open>A successful resume, step by step.\<close>

lemma resume_effect:
  assumes "resume_paused s run_id now d = Inr d'"
  shows "\<exists>r call step rr messages messages' error_code error d1.
     r \<in> set (d_runs d) \<and> r_id r = run_id \<and> r_session r = s \<and> run_waiting r
     \<and> last_by i_sequence (\<lambda>i. i_run i = run_id \<and> i_status i \<in> {''waiting_approval'', ''waiting_input''})
         (d_invocations d) = Some call
     \<and> last_by st_ordinal (\<lambda>s. st_run s = run_id \<and> step_waiting s) (d_steps d) = Some step
     \<and> paused_result run_id call d = Inr rr
     \<and> checkpoint_messages (st_checkpoint step) = Inr messages
     \<and> insert_tool_message (i_call call) (rr_content rr) messages = Inr messages'
     \<and> finish_paused_invocation call rr error_code now d = Inr d1
     \<and> d' = set_running run_id (r_work_item r) now (prune_checkpoints run_id (st_id step) (st_ordinal step)
                (finish_paused_step step messages' error now d1))"
proof -
  from assms obtain r where r: "fetch_one (\<lambda>r. r_id r = run_id \<and> r_session r = s \<and> run_waiting r) (d_runs d) = Some r"
    by (cases "fetch_one (\<lambda>r. r_id r = run_id \<and> r_session r = s \<and> run_waiting r) (d_runs d)")
      (simp_all add: resume_paused_def)
  obtain call where call: "last_by i_sequence (\<lambda>i. i_run i = run_id
      \<and> i_status i \<in> {''waiting_approval'', ''waiting_input''}) (d_invocations d) = Some call"
    using assms r by (simp add: resume_paused_def split: option.splits)
  obtain step where step: "last_by st_ordinal (\<lambda>s. st_run s = run_id \<and> step_waiting s) (d_steps d) = Some step"
    using assms r by (simp add: resume_paused_def split: option.splits)
  have "rbind (paused_result run_id call d) (\<lambda>rr.
             rbind (checkpoint_messages (st_checkpoint step)) (\<lambda>messages.
             rbind (insert_tool_message (i_call call) (rr_content rr) messages) (\<lambda>messages'.
             rbind (sql_text (rr_error_code rr)) (\<lambda>error_code.
             rbind (finish_paused_invocation call rr error_code now d) (\<lambda>d1.
             rbind (sql_text (rr_error rr)) (\<lambda>error.
               Inr (set_running run_id (r_work_item r) now
                 (prune_checkpoints run_id (st_id step) (st_ordinal step)
                   (finish_paused_step step messages' error now d1)))))))))
        = Inr d'"
    using assms unfolding resume_paused_def r call step option.case prod.case .
  with fetch_one_Some[OF r] call step show ?thesis
    unfolding rbind_Inr_iff by blast
qed

lemma finish_paused_frame:
  assumes "finish_paused_invocation call rr ec now d = Inr d1"
  shows "d_runs d1 = d_runs d \<and> d_work_items d1 = d_work_items d \<and> d_events d1 = d_events d
     \<and> d_steps d1 = d_steps d"
  using assms by (auto simp: finish_paused_invocation_def elim!: rbind_InrE)

lemma resume_moves:
  assumes "resume_paused s run_id now d = Inr d'"
  shows "\<exists>r. r_id r = run_id \<and> r_session r = s \<and> run_waiting r \<and> both_moved d r WI_RUNNING d'"
proof -
  from resume_effect[OF assms] obtain r step messages' error d1 call rr ec where
    r: "r \<in> set (d_runs d)" "r_id r = run_id" "r_session r = s" "run_waiting r"
    and d1: "finish_paused_invocation call rr ec now d = Inr d1"
    and d': "d' = set_running run_id (r_work_item r) now (prune_checkpoints run_id (st_id step) (st_ordinal step)
                (finish_paused_step step messages' error now d1))"
    by blast
  have "both_moved d r WI_RUNNING d'"
  proof (rule both_movedI[OF r(1)])
    show "d_runs d' = sql_update (\<lambda>x. r_id x = r_id r \<and> True) (\<lambda>r. r\<lparr>r_status := WI_RUNNING,
        r_finished_at := None\<rparr>) (d_runs d)"
      using finish_paused_frame[OF d1] r
      by (simp add: d' set_running_def prune_checkpoints_def finish_paused_step_def)
    show "d_work_items d' = sql_update (\<lambda>w. wi_id w = r_work_item r \<and> True) (\<lambda>w. w\<lparr>wi_status := WI_RUNNING,
        wi_updated_at := now\<rparr>) (d_work_items d)"
      using finish_paused_frame[OF d1]
      by (simp add: d' set_running_def prune_checkpoints_def finish_paused_step_def)
    show "journal_ok d'" if "journal_ok d"
      by (rule journal_ok_frame[OF that]) (use finish_paused_frame[OF d1] in
        \<open>simp add: d' set_running_def prune_checkpoints_def finish_paused_step_def\<close>)
  qed simp_all
  with r show ?thesis by blast
qed

section \<open>New items and runs\<close>

lemma run_in_step_append:
  "run_in_step d r \<Longrightarrow> d_work_items d' = d_work_items d @ ws \<Longrightarrow> run_in_step d' r"
  by (auto simp: run_in_step_def row_by_def fetch_one_append split: option.splits)

text \<open>An item that no run can belong to yet joins the table.\<close>

lemma new_item_ok:
  assumes ok: "workflow_ok d" and ins: "insert_work_item w d = Inr d'"
    and w: "wi_kind w \<noteq> RK_AGENT \<or> wi_status w = WI_QUEUED"
  shows "workflow_ok d' \<and> d_runs d' = d_runs d \<and> d_work_items d' = d_work_items d @ [w]
     \<and> (\<forall>r \<in> set (d_runs d). r_work_item r \<noteq> wi_id w)"
proof -
  have d': "d' = d\<lparr>d_work_items := d_work_items d @ [w]\<rparr>"
    and fresh: "\<forall>x \<in> set (d_work_items d). wi_id w \<noteq> wi_id x"
    using ins by (simp_all add: insert_work_item_Inr)
  have "r_work_item r \<noteq> wi_id w" if "r \<in> set (d_runs d)" for r
    using run_in_stepE[OF ok that] fresh by metis
  moreover have "list_all (run_in_step d') (d_runs d')"
    using ok run_in_step_append[of d _ d' "[w]"] by (simp add: workflow_ok_def list_all_iff d')
  moreover have "item_has_run d' = item_has_run d"
    by (rule ext) (simp add: item_has_run_def d')
  moreover have "item_has_run d w" using w by (auto simp: item_has_run_def)
  ultimately show ?thesis using ok fresh by (auto simp: workflow_ok_def d')
qed

text \<open>A run joins a work item that has none.\<close>

lemma new_run_ok:
  assumes ok: "unique_by wi_id (d_work_items d)" "unique_by r_id (d_runs d)"
      "unique_by r_work_item (d_runs d)" "list_all (run_in_step d) (d_runs d)"
    and items: "\<And>w. w \<in> set (d_work_items d) \<Longrightarrow> wi_id w \<noteq> r_work_item r \<Longrightarrow> item_has_run d w"
    and r: "run_in_step d r" "\<forall>x \<in> set (d_runs d). r_id x \<noteq> r_id r \<and> r_work_item x \<noteq> r_work_item r"
    and d': "d_runs d' = d_runs d @ [r]" "d_work_items d' = d_work_items d"
  shows "workflow_ok d'"
proof -
  have "run_in_step d' x = run_in_step d x" for x by (simp add: run_in_step_def d')
  moreover have "item_has_run d' w" if "w \<in> set (d_work_items d)" for w
    using items[OF that] by (cases "wi_id w = r_work_item r") (auto simp: item_has_run_def d')
  ultimately show ?thesis using ok r by (auto simp: workflow_ok_def d' list_all_iff)
qed

lemma name_session_frame [simp]:
  "d_runs (name_session s t n d) = d_runs d" "d_work_items (name_session s t n d) = d_work_items d"
  "d_events (name_session s t n d) = d_events d"
  by (simp_all add: name_session_def split: option.splits)

lemma start_run_effect:
  assumes "start_run s i q parent from rid now d = Inr (run, d')"
  shows "\<exists>w r. w \<in> set (d_work_items d) \<and> wi_id w = i \<and> wi_session w = s \<and> wi_status w = WI_QUEUED
     \<and> d_work_items d' = sql_update (\<lambda>w. wi_id w = i \<and> wi_session w = s \<and> wi_status w = WI_QUEUED)
          (\<lambda>w. w\<lparr>wi_status := WI_RUNNING, wi_error := None, wi_updated_at := now\<rparr>) (d_work_items d)
     \<and> (\<exists>x. row_by wi_id i (d_work_items d') = Some x \<and> wi_kind x = r_kind r)
     \<and> d_runs d' = d_runs d @ [r] \<and> (\<forall>x \<in> set (d_runs d). r_id x \<noteq> r_id r)
     \<and> r_id r = rid \<and> r_work_item r = i \<and> r_session r = s \<and> r_status r = WI_RUNNING
     \<and> r_parent r = parent \<and> r_resume_from r = from \<and> r_question r = q
     \<and> d_events d' = d_events d"
proof -
  let ?p = "\<lambda>w. wi_id w = i \<and> wi_session w = s \<and> wi_status w = WI_QUEUED"
  let ?d1 = "d\<lparr>d_work_items := sql_update ?p (\<lambda>w. w\<lparr>wi_status := WI_RUNNING, wi_error := None,
                 wi_updated_at := now\<rparr>) (d_work_items d)\<rparr>"
  have cnt: "rowcount ?p (d_work_items d) \<noteq> 0"
  proof
    assume "rowcount ?p (d_work_items d) = 0"
    with assms show False unfolding start_run_def Let_def by simp
  qed
  then obtain w where w: "w \<in> set (d_work_items d)" "?p w" by auto
  obtain x where x: "row_by wi_id i (d_work_items ?d1) = Some x"
    using assms cnt unfolding start_run_def Let_def by (auto split: option.splits if_splits)
  let ?r = "\<lparr>r_id = rid, r_session = s, r_work_item = i, r_question = q, r_kind = wi_kind x,
                 r_status = WI_RUNNING, r_started_at = now, r_finished_at = None,
                 r_duration_ms = None, r_input_tokens = 0, r_output_tokens = 0, r_cost = 0,
                 r_error_code = None, r_error_message = None, r_parent = parent,
                 r_resume_from = from, r_stop_reason = None\<rparr>"
  have "rbind (insert_run ?r ?d1) (\<lambda>d2. rbind (require_run rid None (name_session s (run_title q) now d2))
      (\<lambda>r. Inr (r, name_session s (run_title q) now d2))) = Inr (run, d')"
    using assms cnt x unfolding start_run_def Let_def by (simp del: rowcount_0_iff)
  then obtain d2 where d2: "insert_run ?r ?d1 = Inr d2" "d' = name_session s (run_title q) now d2"
    by (auto simp: rbind_Inr_iff)
  from d2(1) have ins: "d2 = ?d1\<lparr>d_runs := d_runs d @ [?r]\<rparr>" "\<forall>x \<in> set (d_runs d). rid \<noteq> r_id x"
    by (simp_all add: insert_run_Inr)
  show ?thesis
    using w x by (intro exI[of _ w] exI[of _ ?r]) (auto simp: d2(2) ins)
qed

lemma start_run_ok:
  assumes ok: "workflow_ok d" and eq: "start_run s i q parent from rid now d = Inr (run, d')"
  shows "workflow_ok d' \<and> moved d d' i WI_RUNNING \<and> map_option snd (item_status d i) = Some WI_QUEUED
     \<and> d_events d' = d_events d"
proof -
  from start_run_effect[OF eq] obtain w r where
    w: "w \<in> set (d_work_items d)" "wi_id w = i" "wi_session w = s" "wi_status w = WI_QUEUED"
    and items: "d_work_items d' = sql_update (\<lambda>w. wi_id w = i \<and> wi_session w = s \<and> wi_status w = WI_QUEUED)
          (\<lambda>w. w\<lparr>wi_status := WI_RUNNING, wi_error := None, wi_updated_at := now\<rparr>) (d_work_items d)"
    and kind: "\<exists>x. row_by wi_id i (d_work_items d') = Some x \<and> wi_kind x = r_kind r"
    and runs: "d_runs d' = d_runs d @ [r]" "\<forall>x \<in> set (d_runs d). r_id x \<noteq> r_id r"
    and r: "r_id r = rid" "r_work_item r = i" "r_session r = s" "r_status r = WI_RUNNING"
    and ev: "d_events d' = d_events d" by blast
  have ui: "unique_by wi_id (d_work_items d)" using ok by (simp add: workflow_ok_def)
  have roww: "row_by wi_id i (d_work_items d) = Some w" using row_by_member[OF ui w(1)] w(2) by simp
  have norun: "r_work_item x \<noteq> i" if x: "x \<in> set (d_runs d)" for x
  proof
    assume "r_work_item x = i"
    with run_in_stepE[OF ok x] roww w(4) show False by (metis option.inject)
  qed
  have get: "row_by wi_id j (d_work_items d') = (if j = i then Some (w\<lparr>wi_status := WI_RUNNING,
      wi_error := None, wi_updated_at := now\<rparr>) else row_by wi_id j (d_work_items d))" for j
  proof -
    have "row_by wi_id j (d_work_items d') = map_option (\<lambda>w. if wi_id w = i \<and> wi_session w = s \<and> wi_status w = WI_QUEUED
      then w\<lparr>wi_status := WI_RUNNING, wi_error := None, wi_updated_at := now\<rparr> else w) (row_by wi_id j (d_work_items d))"
      unfolding items by (simp add: row_by_update)
    then show ?thesis using roww w
      by (cases "row_by wi_id j (d_work_items d)") (auto dest: row_by_Some)
  qed
  let ?e = "d\<lparr>d_work_items := d_work_items d'\<rparr>"
  have "workflow_ok d'"
  proof (rule new_run_ok[where d = ?e and r = r])
    show "unique_by wi_id (d_work_items ?e)" unfolding items using ui
      by (simp add: unique_by_update)
    show "list_all (run_in_step ?e) (d_runs ?e)"
      unfolding list_all_iff
    proof
      fix x assume "x \<in> set (d_runs ?e)"
      then have x: "x \<in> set (d_runs d)" by simp
      then have "run_in_step d x" using ok by (simp add: workflow_ok_def list_all_iff)
      with norun[OF x] show "run_in_step ?e x" by (simp add: run_in_step_def get)
    qed
    show "run_in_step ?e r" using w r kind by (simp add: run_in_step_def get)
    show "item_has_run ?e y" if y: "y \<in> set (d_work_items ?e)" "wi_id y \<noteq> r_work_item r" for y
    proof -
      from y have "y \<in> set (d_work_items d)" unfolding r(2)
        by (simp add: items) (erule sql_updateE, simp_all)
      then have "item_has_run d y" using ok by (simp add: workflow_ok_def list_all_iff)
      then show ?thesis by (simp add: item_has_run_def)
    qed
    show "\<forall>x\<in>set (d_runs ?e). r_id x \<noteq> r_id r \<and> r_work_item x \<noteq> r_work_item r"
      using runs(2) norun r by simp
  qed (use ok runs in \<open>simp_all add: workflow_ok_def\<close>)
  moreover have "moved d d' i WI_RUNNING"
    unfolding moved_def item_status_def get using roww by simp
  ultimately show ?thesis using ev roww w(4) by (simp add: item_status_def)
qed

section \<open>The machine\<close>

text \<open>One constructor per transaction.  \<open>cancel_queued\<close> is \<open>WorkItemRepository.update\<close> as its
  one caller uses it (\<open>SessionAdministration.cancel_queued_work_item\<close>,
  \<^verbatim>\<open>capslock/runtime/session_services.py\<close>): on an item read as queued, from a database
  that may be older.  \<open>finish_hidden\<close> is called for hidden runs only.  \<open>others\<close> is any
  transaction on the remaining tables.\<close>

inductive wf_step :: "db \<Rightarrow> db \<Rightarrow> bool" where
  enqueue: "enqueue s q parent kind i now d = Inr (w, d') \<Longrightarrow> wf_step d d'"
| reserve: "reserve_request sha s req q i now d = Inr (w, d') \<Longrightarrow> wf_step d d'"
| cancel_queued: "row_by wi_id i (d_work_items seen) = Some x \<Longrightarrow> wi_status x = WI_QUEUED \<Longrightarrow>
    update_item i WI_CANCELLED err now seen d = Inr (w, d') \<Longrightarrow> wf_step d d'"
| reorder: "reorder i n now seen d = Inr (w, d') \<Longrightarrow> wf_step d d'"
| start_run: "start_run s i q parent from rid now d = Inr (run, d') \<Longrightarrow> wf_step d d'"
| finalize: "finalize rid st k payload ms ec em it ot c sr z d = Inr (ev, d') \<Longrightarrow> wf_step d d'"
| pause: "pause rid kind payload z d = Inr (ev, d') \<Longrightarrow> wf_step d d'"
| resume: "resume_paused s rid now d = Inr d' \<Longrightarrow> wf_step d d'"
| settle: "settle_approval s rid z d = Inr (oev, d') \<Longrightarrow> wf_step d d'"
| cancel_waiting: "cancel_waiting s rid z d = Inr (ev, d') \<Longrightarrow> wf_step d d'"
| cancel_action: "cancel_waiting_action s rid a m z d = Inr (ev, d') \<Longrightarrow> wf_step d d'"
| append_event: "append_in rid k payload eu tu now d = Inr (ev, d') \<Longrightarrow> wf_step d d'"
| create_hidden: "create_hidden s kind q st it ot c em i rid now d = (Inr run, d') \<Longrightarrow> wf_step d d'"
| finish_hidden: "row_by r_id rid (d_runs d) = Some r \<Longrightarrow> r_kind r \<noteq> RK_AGENT \<Longrightarrow>
    finish_hidden rid st it ot c em now d = (Inr run, d') \<Longrightarrow> wf_step d d'"
| others: "d_runs d' = d_runs d \<Longrightarrow> d_work_items d' = d_work_items d \<Longrightarrow> d_events d' = d_events d \<Longrightarrow>
    wf_step d d'"

inductive wf_reach :: "db \<Rightarrow> db \<Rightarrow> bool" where
  stay: "wf_reach d d"
| step: "wf_reach d e \<Longrightarrow> wf_step e f \<Longrightarrow> wf_reach d f"

text \<open>How a step may move a work item.\<close>

definition may_move :: "RunKind \<Rightarrow> WorkItemStatus \<Rightarrow> WorkItemStatus \<Rightarrow> bool" where
  "may_move kind s t \<longleftrightarrow> t = s \<or> t \<in> set (WORK_ITEM_TRANSITIONS s)
     \<or> (s = WI_WAITING_APPROVAL \<and> t = WI_RUNNING) \<or> (kind \<noteq> RK_AGENT \<and> t \<noteq> WI_QUEUED)"

definition items_move :: "db \<Rightarrow> db \<Rightarrow> bool" where
  "items_move d d' \<longleftrightarrow> (\<forall>i k s. item_status d i = Some (k, s) \<longrightarrow>
     (\<exists>t. item_status d' i = Some (k, t) \<and> may_move k s t))"

lemma may_move_refl [simp]: "may_move k s s"
  by (simp add: may_move_def)

lemma running_may_move: "t \<noteq> WI_QUEUED \<Longrightarrow> may_move k WI_RUNNING t"
  by (cases t) (simp_all add: may_move_def)

lemma items_moveI:
  assumes "\<And>i w. row_by wi_id i (d_work_items d) = Some w \<Longrightarrow> \<exists>w'. row_by wi_id i (d_work_items d') = Some w'
    \<and> wi_kind w' = wi_kind w \<and> may_move (wi_kind w) (wi_status w) (wi_status w')"
  shows "items_move d d'"
  unfolding items_move_def item_status_def
proof (intro allI impI)
  fix i k s
  assume "map_option (\<lambda>w. (wi_kind w, wi_status w)) (row_by wi_id i (d_work_items d)) = Some (k, s)"
  then obtain w where "row_by wi_id i (d_work_items d) = Some w" "wi_kind w = k" "wi_status w = s"
    by (cases "row_by wi_id i (d_work_items d)") simp_all
  with assms show "\<exists>t. map_option (\<lambda>w. (wi_kind w, wi_status w)) (row_by wi_id i (d_work_items d')) = Some (k, t)
      \<and> may_move k s t"
    by fastforce
qed

lemma items_move_same: "d_work_items d' = d_work_items d \<Longrightarrow> items_move d d'"
  by (rule items_moveI) simp

lemma items_move_append: "d_work_items d' = d_work_items d @ ws \<Longrightarrow> items_move d d'"
  by (rule items_moveI) (simp add: row_by_def fetch_one_append)

lemma items_move_moved:
  assumes "moved d d' i t" and "\<And>k s. item_status d i = Some (k, s) \<Longrightarrow> may_move k s t"
  shows "items_move d d'"
  using assms unfolding moved_def items_move_def
  by (auto simp: may_move_def split: if_splits)

lemma both_moved_step:
  assumes "both_moved d r t d'" and "workflow_ok d" and "may_move (r_kind r) (r_status r) t"
  shows "workflow_ok d' \<and> items_move d d' \<and> (journal_ok d \<longrightarrow> journal_ok d')"
proof -
  from assms have m: "workflow_ok d'" "moved d d' (r_work_item r) t" "journal_ok d \<longrightarrow> journal_ok d'"
    and r: "r \<in> set (d_runs d)" by (simp_all add: both_moved_def)
  obtain w where "row_by wi_id (r_work_item r) (d_work_items d) = Some w" "wi_kind w = r_kind r"
    "wi_status w = r_status r"
    using run_in_stepE[OF assms(2) r] by metis
  then have "item_status d (r_work_item r) = Some (r_kind r, r_status r)"
    by (simp add: item_status_def)
  with assms(3) have "items_move d d'" by (intro items_move_moved[OF m(2)]) simp
  with m show ?thesis by simp
qed

text \<open>What each step does is put together in \<open>wf_step_effect\<close>.\<close>

definition good_step :: "db \<Rightarrow> db \<Rightarrow> bool" where
  "good_step d d' \<longleftrightarrow> (workflow_ok d \<longrightarrow> workflow_ok d' \<and> items_move d d' \<and> (journal_ok d \<longrightarrow> journal_ok d'))"

lemma good_same:
  assumes "d_runs d' = d_runs d" "d_work_items d' = d_work_items d" "journal_ok d \<longrightarrow> journal_ok d'"
  shows "good_step d d'"
  using assms workflow_ok_cong[OF assms(1,2)] items_move_same[OF assms(2)] by (simp add: good_step_def)

lemma good_both: "both_moved d r t d' \<Longrightarrow> may_move (r_kind r) (r_status r) t \<Longrightarrow> good_step d d'"
  using both_moved_step by (simp add: good_step_def)

lemma good_insert_queued:
  assumes "insert_queued i s q k parent now d = Inr d'"
  shows "good_step d d' \<and> d_events d' = d_events d"
proof -
  from assms obtain w where w: "insert_work_item w d = Inr d'" "wi_status w = WI_QUEUED"
    by (simp add: insert_queued_def)
  then have "d_work_items d' = d_work_items d @ [w]" and ev: "d_events d' = d_events d"
    by (simp_all add: insert_work_item_Inr)
  with w new_item_ok[OF _ w(1)] items_move_append show ?thesis
    by (auto simp: good_step_def intro: journal_ok_frame)
qed

lemma good_update_status:
  assumes s: "row_by wi_id i (d_work_items seen) = Some x" "wi_status x = WI_QUEUED"
    and eq: "update_item i WI_CANCELLED err now seen d = Inr ((w, c), d')"
  shows "good_step d d'"
  unfolding good_step_def
proof
  assume ok: "workflow_ok d"
  let ?p = "\<lambda>w. wi_id w = i \<and> wi_status w = WI_QUEUED"
  let ?g = "\<lambda>w. w\<lparr>wi_status := WI_CANCELLED, wi_error := err, wi_updated_at := now\<rparr>"
  have d': "d' = d\<lparr>d_work_items := sql_update ?p ?g (d_work_items d)\<rparr>"
    using eq s unfolding update_item_def Let_def
    by (auto simp: require_item_Inr require_item_def get_item_def elim!: rbind_InrE split: if_splits prod.splits)
  have ui: "unique_by wi_id (d_work_items d)" using ok by (simp add: workflow_ok_def)
  have get: "row_by wi_id j (d_work_items d') = map_option (\<lambda>w. if ?p w then ?g w else w) (row_by wi_id j (d_work_items d))" for j
    unfolding d' by (simp add: row_by_update)
  have "run_in_step d' r" if r: "r \<in> set (d_runs d)" for r
  proof -
    obtain w where w: "row_by wi_id (r_work_item r) (d_work_items d) = Some w" "wi_session w = r_session r"
      "wi_kind w = r_kind r" "wi_status w = r_status r" "r_status r \<noteq> WI_QUEUED"
      using run_in_stepE[OF ok r] by metis
    then show ?thesis by (simp add: run_in_step_def get)
  qed
  moreover have "item_has_run d' y" if y: "y \<in> set (d_work_items d')" for y
  proof -
    from y have "(y \<in> set (d_work_items d)) \<or> wi_status y = WI_CANCELLED"
      unfolding d' by (simp, elim sql_updateE) simp_all
    moreover have "item_has_run d z" if "z \<in> set (d_work_items d)" for z
      using ok that by (simp add: workflow_ok_def list_all_iff)
    ultimately show ?thesis by (auto simp: item_has_run_def d')
  qed
  moreover have "unique_by wi_id (d_work_items d')" unfolding d' using ui by (simp add: unique_by_update)
  ultimately have "workflow_ok d'" using ok by (simp add: workflow_ok_def list_all_iff d')
  moreover have "items_move d d'"
    by (rule items_moveI) (simp add: get may_move_def)
  moreover have "journal_ok d \<longrightarrow> journal_ok d'" by (simp add: journal_ok_frame d')
  ultimately show "workflow_ok d' \<and> items_move d d' \<and> (journal_ok d \<longrightarrow> journal_ok d')" by simp
qed

lemma good_reorder:
  assumes "reorder i n now seen d = Inr (w, d')"
  shows "good_step d d'"
  unfolding good_step_def
proof
  assume ok: "workflow_ok d"
  let ?g = "\<lambda>w. w\<lparr>wi_position := max 0 n, wi_updated_at := now\<rparr>"
  have d': "d' = d\<lparr>d_work_items := sql_update (\<lambda>w. wi_id w = i) ?g (d_work_items d)\<rparr>"
    using assms unfolding reorder_def Let_def
    by (auto elim!: rbind_InrE split: if_splits prod.splits)
  have get: "row_by wi_id j (d_work_items d') = map_option (\<lambda>w. if wi_id w = i then ?g w else w)
      (row_by wi_id j (d_work_items d))" for j
    unfolding d' by (simp add: row_by_update)
  have "run_in_step d' r" if "run_in_step d r" for r
    using that by (auto simp: run_in_step_def get split: option.splits)
  moreover have "item_has_run d' y" if y: "y \<in> set (d_work_items d')" for y
  proof -
    from y obtain x where x: "x \<in> set (d_work_items d)" "wi_id y = wi_id x" "wi_kind y = wi_kind x"
      "wi_status y = wi_status x"
      unfolding d' by (simp, elim sql_updateE) simp_all
    then have "item_has_run d x" using ok by (simp add: workflow_ok_def list_all_iff)
    with x show ?thesis by (simp add: item_has_run_def d')
  qed
  moreover have "unique_by wi_id (d_work_items d')"
    using ok by (simp add: workflow_ok_def d' unique_by_update)
  ultimately have "workflow_ok d'" using ok by (simp add: workflow_ok_def list_all_iff d')
  moreover have "items_move d d'" by (rule items_moveI) (simp add: get)
  moreover have "journal_ok d \<longrightarrow> journal_ok d'" by (simp add: journal_ok_frame d')
  ultimately show "workflow_ok d' \<and> items_move d d' \<and> (journal_ok d \<longrightarrow> journal_ok d')" by simp
qed

lemma good_reserve:
  assumes "reserve_request sha s req q i now d = Inr (w, d')"
  shows "good_step d d'"
proof (cases "row_by ws_key (request_setting_key sha s req) (d_settings d)")
  case None
  from assms None obtain d1 st where d1: "insert_queued i s q RK_AGENT None now d = Inr d1"
    "insert_setting st d1 = Inr d'"
    unfolding reserve_request_def Let_def by (auto elim!: rbind_InrE)
  from d1(2) have d2: "d_runs d' = d_runs d1" "d_work_items d' = d_work_items d1" "d_events d' = d_events d1"
    by (simp_all add: insert_setting_Inr)
  show ?thesis
    using good_insert_queued[OF d1(1)] workflow_ok_cong[OF d2(1,2)] d2
    by (auto simp: good_step_def items_move_def item_status_def intro: journal_ok_frame)
next
  case (Some row)
  with assms have "d' = d" unfolding reserve_request_def Let_def
    by (auto elim!: rbind_InrE split: if_splits)
  then show ?thesis by (simp add: good_same)
qed

lemma good_start: "start_run s i q parent from rid now d = Inr (run, d') \<Longrightarrow> good_step d d'"
  unfolding good_step_def
proof
  assume eq: "start_run s i q parent from rid now d = Inr (run, d')" and ok: "workflow_ok d"
  from start_run_ok[OF ok eq] have s: "workflow_ok d'" "moved d d' i WI_RUNNING"
    "map_option snd (item_status d i) = Some WI_QUEUED" "d_events d' = d_events d" by simp_all
  have "items_move d d'"
    by (rule items_move_moved[OF s(2)]) (use s(3) in \<open>simp add: may_move_def\<close>)
  with s show "workflow_ok d' \<and> items_move d d' \<and> (journal_ok d \<longrightarrow> journal_ok d')"
    by (simp add: journal_ok_frame)
qed

lemma good_create_hidden:
  assumes "create_hidden s k q st it ot c em i rid now d = (Inr run, d')"
  shows "good_step d d'"
  unfolding good_step_def
proof
  assume ok: "workflow_ok d"
  from assms have k: "k \<noteq> RK_AGENT" by (auto simp: create_hidden_def)
  let ?w = "\<lparr>wi_id = i, wi_session = s, wi_question = q, wi_kind = k, wi_status = st, wi_position = 0,
             wi_parent = None, wi_error = em, wi_created_at = now, wi_updated_at = now\<rparr>"
  from assms k obtain d1 where d1: "insert_work_item ?w d = Inr d1"
    unfolding create_hidden_def by (cases "insert_work_item ?w d") simp_all
  from assms k d1 obtain r where r: "insert_run r d1 = Inr d'" "r_session r = s" "r_work_item r = i" "r_kind r = k"
    "r_status r = st"
    unfolding create_hidden_def by (auto split: sum.splits)
  have w: "wi_kind ?w \<noteq> RK_AGENT \<or> wi_status ?w = WI_QUEUED" using k by simp
  from new_item_ok[OF ok d1 w] have ok1: "workflow_ok d1" and i1: "d_runs d1 = d_runs d"
    "d_work_items d1 = d_work_items d @ [?w]" "\<forall>r \<in> set (d_runs d). r_work_item r \<noteq> i" by simp_all
  from r(1) have d': "d' = d1\<lparr>d_runs := d_runs d1 @ [r]\<rparr>" "run_check r" "\<forall>x \<in> set (d_runs d1). r_id r \<noteq> r_id x"
    by (simp_all add: insert_run_Inr)
  have "\<forall>x \<in> set (d_work_items d). wi_id x \<noteq> i" using d1 by (auto simp: insert_work_item_Inr)
  then have "row_by wi_id i (d_work_items d1) = Some ?w"
    by (auto simp: i1(2) row_by_insert row_by_None split: option.splits dest: row_by_Some)
  then have step: "run_in_step d1 r" using r d'(2) by (simp add: run_in_step_def run_check_def)
  have "workflow_ok d'"
  proof (rule new_run_ok[where d = d1 and r = r])
    show "item_has_run d1 x" if "x \<in> set (d_work_items d1)" for x
      using ok1 that by (simp add: workflow_ok_def list_all_iff)
    show "\<forall>x \<in> set (d_runs d1). r_id x \<noteq> r_id r \<and> r_work_item x \<noteq> r_work_item r"
      using d'(3) i1(1,3) r(3) by metis
  qed (use ok1 step d'(1) in \<open>simp_all add: workflow_ok_def\<close>)
  moreover have "items_move d d'" using i1(2) d'(1) by (intro items_move_append) simp
  moreover have "d_events d' = d_events d" using d1 d'(1) by (simp add: insert_work_item_Inr)
  ultimately show "workflow_ok d' \<and> items_move d d' \<and> (journal_ok d \<longrightarrow> journal_ok d')"
    by (simp add: journal_ok_frame)
qed

lemma good_finish_hidden:
  assumes r: "row_by r_id rid (d_runs d) = Some r" "r_kind r \<noteq> RK_AGENT"
    and eq: "finish_hidden rid st it ot c em now d = (Inr run, d')"
  shows "good_step d d'"
proof -
  have req: "require_run rid None d = Inr r"
    using r(1) by (simp add: require_run_def get_run_def row_by_def)
  have rr: "r \<in> set (d_runs d)" "r_id r = rid" using row_by_Some[OF r(1)] by simp_all
  let ?f = "\<lambda>r. r\<lparr>r_status := st, r_finished_at := Some now, r_duration_ms := Some 0,
      r_input_tokens := it, r_output_tokens := ot, r_cost := c, r_error_message := em\<rparr>"
  let ?g = "\<lambda>w. w\<lparr>wi_status := st, wi_error := em, wi_updated_at := now\<rparr>"
  from eq have st: "st \<in> {WI_COMPLETED, WI_FAILED, WI_CANCELLED}"
    unfolding finish_hidden_def by (simp split: if_splits)
  obtain rs where rs: "sql_set run_check (\<lambda>r. r_id r = rid \<and> r_kind r \<noteq> RK_AGENT) ?f (d_runs d) = Inr rs"
    using eq st req unfolding finish_hidden_def
    by (cases "sql_set run_check (\<lambda>r. r_id r = rid \<and> r_kind r \<noteq> RK_AGENT) ?f (d_runs d)") auto
  then have d': "d' = d\<lparr>d_runs := rs, d_work_items := sql_update (\<lambda>w. wi_id w = r_work_item r) ?g (d_work_items d)\<rparr>"
    using eq st req unfolding finish_hidden_def Let_def by auto
  have "both_moved d r st d'"
  proof (rule both_movedI[OF rr(1)])
    show "d_runs d' = sql_update (\<lambda>x. r_id x = r_id r \<and> r_kind x \<noteq> RK_AGENT) ?f (d_runs d)"
      using rs rr by (simp add: d' sql_set_Inr)
    show "d_work_items d' = sql_update (\<lambda>w. wi_id w = r_work_item r \<and> True) ?g (d_work_items d)"
      by (simp add: d')
    show "journal_ok d'" if "journal_ok d" by (rule journal_ok_frame[OF that]) (simp add: d')
  qed (use r st in auto)
  moreover have "may_move (r_kind r) (r_status r) st" using r(2) st by (auto simp: may_move_def)
  ultimately show ?thesis by (rule good_both)
qed

lemma wf_step_good: "wf_step d d' \<Longrightarrow> good_step d d'"
proof (induction rule: wf_step.induct)
  case (enqueue s q parent kind i now d w d')
  then show ?case unfolding enqueue_def
    by (elim rbind_InrE) (auto dest: good_insert_queued)
next
  case (cancel_queued i seen x err now d w d')
  then show ?case by (cases w) (auto intro: good_update_status)
next
  case (finalize rid st k payload ms ec em it ot c sr z d ev d')
  from finalize_moves[OF finalize] obtain r where "r_status r = WI_RUNNING" "st \<noteq> WI_QUEUED"
    "st \<noteq> WI_RUNNING" "both_moved d r st d'" by blast
  with running_may_move show ?case by (metis good_both)
next
  case (pause rid kind payload z d ev d')
  from pause_moves[OF pause] obtain r t where "r_status r = WI_RUNNING"
    "t \<in> {WI_WAITING_APPROVAL, WI_WAITING_INPUT}" "both_moved d r t d'" by blast
  then show ?case by (intro good_both) (auto simp: may_move_def)
next
  case (resume s rid now d d')
  from resume_moves[OF resume] obtain r where "run_waiting r" "both_moved d r WI_RUNNING d'" by blast
  then show ?case by (intro good_both) (auto simp: may_move_def run_waiting_def)
next
  case (settle s rid z d oev d')
  show ?case
  proof (cases oev)
    case None
    with settle settle_quiet have "d' = d" by simp
    then show ?thesis by (simp add: good_same)
  next
    case (Some ev)
    with settle settle_moves obtain r t where "r_status r = WI_WAITING_APPROVAL"
      "t \<in> {WI_COMPLETED, WI_FAILED, WI_CANCELLED}" "both_moved d r t d'" by blast
    then show ?thesis by (intro good_both) (auto simp: may_move_def)
  qed
next
  case (cancel_waiting s rid z d ev d')
  from cancel_waiting_moves[OF cancel_waiting] obtain r where "run_waiting r" "both_moved d r WI_CANCELLED d'"
    by blast
  then show ?case by (intro good_both) (auto simp: may_move_def run_waiting_def)
next
  case (cancel_action s rid a m z d ev d')
  from cancel_waiting_action_moves[OF cancel_action] obtain r where "r_status r = WI_WAITING_APPROVAL"
    "both_moved d r WI_CANCELLED d'" by blast
  then show ?case by (intro good_both) (auto simp: may_move_def)
next
  case (append_event rid k payload eu tu now d ev d')
  then show ?case using append_in_effect[OF append_event] append_in_journal[OF _ append_event]
    by (intro good_same) auto
next
  case (others d' d)
  then show ?case by (intro good_same) (auto intro: journal_ok_frame)
qed (blast intro: good_reserve good_reorder good_start good_create_hidden good_finish_hidden)+

lemma wf_reach_good: "wf_reach d d' \<Longrightarrow> workflow_ok d \<Longrightarrow> workflow_ok d' \<and> (journal_ok d \<longrightarrow> journal_ok d')"
  by (induction rule: wf_reach.induct) (use wf_step_good in \<open>auto simp: good_step_def\<close>)

lemma wf_reach_trans: "wf_reach e f \<Longrightarrow> wf_reach d e \<Longrightarrow> wf_reach d f"
  by (induction rule: wf_reach.induct) (auto intro: wf_reach.step)

text \<open>Along a history an item keeps its kind, stays in a final status (agent items), and does
  not return to the queue.\<close>

lemma wf_reach_item:
  assumes "wf_reach d d'" and "workflow_ok d" and "item_status d i = Some (k, s)"
  shows "\<exists>t. item_status d' i = Some (k, t) \<and> (k = RK_AGENT \<and> work_item_final s \<longrightarrow> t = s)
     \<and> (t = WI_QUEUED \<longrightarrow> s = WI_QUEUED)"
  using assms
proof (induction rule: wf_reach.induct)
  case (step d e f)
  from step.IH[OF step.prems] obtain t where t: "item_status e i = Some (k, t)"
    "k = RK_AGENT \<and> work_item_final s \<longrightarrow> t = s" "t = WI_QUEUED \<longrightarrow> s = WI_QUEUED" by blast
  have "workflow_ok e" using wf_reach_good[OF step.hyps(1) step.prems(1)] by simp
  then have "items_move e f" using wf_step_good[OF step.hyps(2)] by (simp add: good_step_def)
  then obtain u where u: "item_status f i = Some (k, u)" "may_move k t u"
    using t(1) unfolding items_move_def by blast
  have "u = WI_QUEUED \<longrightarrow> t = WI_QUEUED"
    using u(2) by (cases t) (auto simp: may_move_def)
  moreover have "k = RK_AGENT \<and> work_item_final t \<longrightarrow> u = t"
    using u(2) by (auto simp: may_move_def wi.final_stuck work_item_final_def)
  ultimately have "(k = RK_AGENT \<and> work_item_final s \<longrightarrow> u = s) \<and> (u = WI_QUEUED \<longrightarrow> s = WI_QUEUED)"
    using t(2,3) by metis
  with u(1) show ?case by blast
qed auto

inductive_cases wf_reachE: "wf_reach d d'"
inductive_simps wf_reach_iff: "wf_reach d d'"

end
