(* ===== verification/Workflow_Service.thy ===== *)
theory Workflow_Service
  imports Workflow_Machine
begin

text \<open>
  \<^verbatim>\<open>capslock/application/workflow.py\<close> (\<open>WorkflowService\<close>) and the queue commands of
  \<open>SessionAdministration\<close> (\<^verbatim>\<open>capslock/runtime/session_services.py\<close>), with the theorems about
  the workflow as a whole.  A service call is several transactions: what the earlier ones
  wrote stays when a later one fails, so a call returns the database next to its result.  No
  other client writes between the transactions of one call here; what other clients may do
  is the step relation of \<open>Workflow_Machine\<close>.
\<close>

section \<open>Service calls\<close>

type_synonym item_info = "work_item_row \<times> string option"

text \<open>A transaction inside a service call.\<close>

definition commit :: "('a \<times> db) res \<Rightarrow> db \<Rightarrow> 'a res \<times> db" where
  "commit t d = (case t of Inl e \<Rightarrow> (Inl e, d) | Inr (x, d') \<Rightarrow> (Inr x, d'))"

definition and_then :: "'a res \<times> db \<Rightarrow> ('a \<Rightarrow> db \<Rightarrow> 'b res \<times> db) \<Rightarrow> 'b res \<times> db" where
  "and_then c f = (case c of (Inl e, d) \<Rightarrow> (Inl e, d) | (Inr x, d) \<Rightarrow> f x d)"

lemma commit_simps [simp]: "commit (Inl e) d = (Inl e, d)" "commit (Inr (x, d')) d = (Inr x, d')"
  by (simp_all add: commit_def)

lemma and_then_simps [simp]: "and_then (Inl e, d) f = (Inl e, d)" "and_then (Inr x, d) f = f x d"
  by (simp_all add: and_then_def)

text \<open>\<open>i\<close> and \<open>now\<close> are the identifier and the time the insert draws.\<close>

definition service_enqueue ::
  "string \<Rightarrow> string \<Rightarrow> string option \<Rightarrow> RunKind \<Rightarrow> string \<Rightarrow> string \<Rightarrow> db \<Rightarrow> item_info res \<times> db" where
  "service_enqueue session_id question parent kind i now d =
     (let normalized = strip question in
      if normalized = [] then (Inl (ValueError ''question must not be empty''), d)
      else commit (enqueue session_id normalized parent kind i now d) d)"

record prepared =
  pp_item :: item_info
  pp_run :: run_row
  pp_checkpoint :: "step_row option"
  pp_resumed :: bool

text \<open>The branch of \<open>prepare\<close> for a run that waits for the user.\<close>

definition prepare_resumed :: "string \<Rightarrow> run_row \<Rightarrow> string \<Rightarrow> db \<Rightarrow> prepared res \<times> db" where
  "prepare_resumed session_id candidate now d =
     and_then (commit (rbind (resume_paused session_id (r_id candidate) now d) (\<lambda>d'. Inr ((), d'))) d)
       (\<lambda>_ d'. (rbind (require_run (r_id candidate) (Some session_id) d') (\<lambda>resumed_run.
          case last_stable_step (r_id candidate) d' of
            None \<Rightarrow> Inl (ValueError ''paused run has no resumable checkpoint'')
          | Some checkpoint \<Rightarrow>
              rbind (require_item (r_work_item candidate) d') (\<lambda>resumed_item.
                Inr \<lparr>pp_item = resumed_item, pp_run = resumed_run, pp_checkpoint = Some checkpoint,
                     pp_resumed = True\<rparr>)), d'))"

text \<open>The rest of \<open>prepare\<close>: take or queue the work item and start its run.\<close>

definition prepare_start ::
  "string \<Rightarrow> string \<Rightarrow> string option \<Rightarrow> string option \<Rightarrow> step_row option \<Rightarrow> string option \<Rightarrow> RunKind
   \<Rightarrow> string \<Rightarrow> string \<Rightarrow> string \<Rightarrow> string \<Rightarrow> db \<Rightarrow> prepared res \<times> db" where
  "prepare_start session_id question work_item_id resume_from checkpoint parent kind item_uuid run_uuid
       now1 now2 d =
     and_then (case work_item_id of
         None \<Rightarrow> service_enqueue session_id question parent kind item_uuid now1 d
       | Some i \<Rightarrow> (rbind (require_item i d) (\<lambda>w.
             if wi_session (fst w) \<noteq> session_id \<or> wi_status (fst w) \<noteq> WI_QUEUED
             then Inl (ValueError ''work item is not queued in this session'') else Inr w), d))
       (\<lambda>w d1. and_then (commit (start_run session_id (wi_id (fst w)) (wi_question (fst w)) resume_from
              (map_option st_id checkpoint) run_uuid now2 d1) d1)
          (\<lambda>run d2. (Inr \<lparr>pp_item = w, pp_run = run, pp_checkpoint = checkpoint, pp_resumed = False\<rparr>, d2)))"

definition prepare ::
  "string \<Rightarrow> string \<Rightarrow> string option \<Rightarrow> string option \<Rightarrow> string \<Rightarrow> string \<Rightarrow> string \<Rightarrow> string \<Rightarrow> db
   \<Rightarrow> prepared res \<times> db" where
  "prepare session_id question work_item_id resume_from item_uuid run_uuid now1 now2 d =
     (let fresh = prepare_start session_id question work_item_id resume_from in
      case resume_from of
        None \<Rightarrow> fresh None None RK_AGENT item_uuid run_uuid now1 now2 d
      | Some run_id \<Rightarrow>
          (case (case get_run run_id (Some session_id) d of
                   None \<Rightarrow> None | Some c \<Rightarrow> if run_waiting c then Some c else None) of
             Some candidate \<Rightarrow> prepare_resumed session_id candidate now1 d
           | None \<Rightarrow>
               (case retryable session_id run_id d of
                  Inl e \<Rightarrow> (Inl e, d)
                | Inr parent \<Rightarrow>
                    (case last_stable_step (r_id parent) d of
                       None \<Rightarrow> (Inl AssertionError, d)
                     | Some checkpoint \<Rightarrow> fresh (Some checkpoint) (Some (r_work_item parent)) (r_kind parent)
                         item_uuid run_uuid now1 now2 d))))"

text \<open>\<open>SessionAdministration.queued_work_item\<close> and the two commands on a queued item.\<close>

definition queued_work_item :: "string \<Rightarrow> string \<Rightarrow> db \<Rightarrow> item_info res" where
  "queued_work_item session_id pre d = rbind (require_item pre d) (\<lambda>item.
     if wi_session (fst item) \<noteq> session_id
     then Inl (ValueError ''work item does not belong to this session'') else Inr item)"

definition cancel_queued_work_item ::
  "string \<Rightarrow> string \<Rightarrow> stamp \<Rightarrow> db \<Rightarrow> item_info res \<times> db" where
  "cancel_queued_work_item session_id pre z d = and_then (queued_work_item session_id pre d, d)
     (\<lambda>item _.
       if wi_status (fst item) \<in> {WI_WAITING_APPROVAL, WI_WAITING_INPUT}
       then (case snd item of
           None \<Rightarrow> (Inl (ValueError ''run is not waiting for resumable input''), d)
         | Some run_id \<Rightarrow> and_then (commit (cancel_waiting session_id run_id z d) d)
             (\<lambda>_ d'. (require_item (wi_id (fst item)) d', d')))
       else if wi_status (fst item) \<noteq> WI_QUEUED then (Inr item, d)
       else commit (update_item (wi_id (fst item)) WI_CANCELLED (Some ''cancelled before start'') (t_now z) d d) d)"

definition reorder_queued_work_item ::
  "string \<Rightarrow> string \<Rightarrow> int \<Rightarrow> string \<Rightarrow> db \<Rightarrow> item_info res \<times> db" where
  "reorder_queued_work_item session_id pre position now d =
     and_then (queued_work_item session_id pre d, d)
       (\<lambda>item _. commit (reorder (wi_id (fst item)) position now d d) d)"

section \<open>The workflow as a whole\<close>


definition sample_stamp :: stamp where
  "sample_stamp = \<lparr>t_now = ''t5'', t_event_uuid = ''u5'', t_trace_uuid = ''v5'', t_event_now = ''t5''\<rparr>"

definition sample_final :: "db \<Rightarrow> (AgentEvent \<times> db) res" where
  "sample_final = finalize ''r1'' WI_FAILED EV_FAILED (JObj []) 7 None (Some ''boom'') 1 2 0 None sample_stamp"

lemma sample_start: "workflow_ok sample_db" "journal_ok sample_db"
  by code_simp+



definition sample_done_db :: db where
  "sample_done_db = sample_db\<lparr>d_runs := [sample_run ''r1'' ''w1'' WI_FAILED],
     d_work_items := [sample_item ''w1'' WI_FAILED]\<rparr>"


text \<open>C3: A work item is started at most once.  After \<open>start_run\<close> has taken an item off the
  queue, every later attempt to start it, in any database reached from there, is refused.\<close>

theorem started_once:
  assumes "workflow_ok d" and "start_run s i q parent from rid now d = Inr (run, d')"
    and "wf_reach d' d''"
  shows "start_run s2 i q2 parent2 from2 rid2 now2 d'' =
     Inl (ValueError ''work item is not queued or does not belong to the session'')"
proof -
  have ok: "workflow_ok d'" "moved d d' i WI_RUNNING" "map_option snd (item_status d i) = Some WI_QUEUED"
    using start_run_ok[OF assms(1,2)] by simp_all
  then obtain k where "item_status d' i = Some (k, WI_RUNNING)"
    unfolding moved_def by (cases "item_status d i") auto
  with wf_reach_item[OF assms(3) ok(1)] obtain t where
    t: "item_status d'' i = Some (k, t)" "t \<noteq> WI_QUEUED" by blast
  have "unique_by wi_id (d_work_items d'')"
    using wf_reach_good[OF assms(3) ok(1)] by (simp add: workflow_ok_def)
  then have "\<not> (wi_id w = i \<and> wi_session w = s2 \<and> wi_status w = WI_QUEUED)" if "w \<in> set (d_work_items d'')" for w
    using row_by_member[of wi_id "d_work_items d''" w] that t by (auto simp: item_status_def)
  then have "rowcount (\<lambda>w. wi_id w = i \<and> wi_session w = s2 \<and> wi_status w = WI_QUEUED) (d_work_items d'') = 0"
    by simp
  then show ?thesis unfolding start_run_def Let_def by simp
qed

theorem started_once_witness:
  "\<exists>run d'. start_run ''s1'' ''w2'' ''why'' None None ''r2'' ''t6'' sample_db = Inr (run, d')
     \<and> start_run ''s1'' ''w2'' ''why'' None None ''r3'' ''t7'' d' =
       Inl (ValueError ''work item is not queued or does not belong to the session'')"
proof -
  let ?c = "start_run ''s1'' ''w2'' ''why'' None None ''r2'' ''t6'' sample_db"
  have "is_ok ?c" by code_simp
  then obtain run d' where c: "?c = Inr (run, d')" by (auto simp: is_ok_iff)
  from started_once[OF sample_start(1) c wf_reach.stay] c show ?thesis by blast
qed

section \<open>Compound transitions\<close>

lemma append_stamped_effect:
  assumes "append_stamped run_id kind payload z d = Inr (ev, d')"
  shows "\<exists>r. d' = d\<lparr>d_events := d_events d @ [r]\<rparr> \<and> e_run r = run_id \<and> e_kind r = kind
     \<and> ev_kind ev = kind \<and> ev_run ev = run_id \<and> ev_sequence ev = e_sequence r"
  using append_in_effect[OF assms[unfolded append_stamped_def]] by auto

lemma finalize_effect:
  assumes "finalize run_id status kind payload ms ec em it ot c reason z d = Inr (ev, d')"
  obtains row where "fetch_one (\<lambda>r. r_id r = run_id \<and> r_status r = WI_RUNNING) (d_runs d) = Some row"
    and "append_stamped run_id kind payload z (finish_actions run_id status ec em (t_now z)
          (finish_steps run_id status em (t_now z) (d\<lparr>
             d_runs := sql_update (\<lambda>r. r_id r = run_id \<and> r_status r = WI_RUNNING)
               (\<lambda>r. r\<lparr>r_status := status, r_finished_at := Some (t_now z), r_duration_ms := Some ms,
                  r_error_code := ec, r_error_message := em, r_input_tokens := it, r_output_tokens := ot,
                  r_cost := c, r_stop_reason := reason\<rparr>) (d_runs d),
             d_work_items := sql_update (\<lambda>w. wi_id w = r_work_item row \<and> wi_status w = WI_RUNNING)
               (\<lambda>w. w\<lparr>wi_status := status, wi_error := em, wi_updated_at := t_now z\<rparr>) (d_work_items d)\<rparr>)))
         = Inr (ev, d')"
  using assms that unfolding finalize_def Let_def
  by (auto elim!: rbind_InrE simp: sql_set_Inr split: option.splits if_splits)

lemma finish_steps_clears:
  assumes "st \<in> {WI_CANCELLED, WI_FAILED, WI_INTERRUPTED, WI_STOPPED}"
    and x: "x \<in> set (d_steps (finish_steps run_id st em now d))"
  shows "\<not> (st_run x = run_id \<and> st_status x = ST_RUNNING)"
proof -
  obtain s' where "interrupted_step_status st = Some s'" "s' \<noteq> ST_RUNNING"
    using assms(1) by auto
  with x have "x \<in> set (sql_update (\<lambda>s. st_run s = run_id \<and> st_status s = ST_RUNNING)
      (\<lambda>s. s\<lparr>st_status := s', st_finished_at := Some now, st_error := coalesce (st_error s) em\<rparr>) (d_steps d))"
    by (simp add: finish_steps_def)
  then show ?thesis by (rule sql_update_clears[rotated]) (use \<open>s' \<noteq> ST_RUNNING\<close> in simp)
qed

lemma finish_actions_clears:
  assumes "st \<in> {WI_CANCELLED, WI_FAILED, WI_INTERRUPTED, WI_STOPPED}"
    and x: "x \<in> set (d_actions (finish_actions run_id st ec em now d))"
  shows "\<not> (a_run x = run_id \<and> action_open x)"
proof -
  from assms have "x \<in> set (sql_update (\<lambda>a. a_run a = run_id \<and> action_open a)
      (\<lambda>a. a\<lparr>a_status := (if st = WI_CANCELLED then AS_CANCELLED else AS_FAILED),
         a_result_kind := Some (if st = WI_CANCELLED then AR_USER_CANCELLED else AR_EXECUTION_ERROR),
         a_finished_at := Some now, a_error_code := ec, a_error_message := em\<rparr>) (d_actions d))"
    by (simp add: finish_actions_def)
  then show ?thesis by (rule sql_update_clears[rotated]) (simp add: action_open_def)
qed

text \<open>C6: Finishing a run ends everything it was doing.  When \<open>finalize\<close> succeeds, the run was
  running and the new status is none of \<open>queued\<close> and \<open>running\<close>; the event log gained exactly
  the given event; and for a cancelled, failed, interrupted or stopped run no step is left
  running and no action is left pending, approved or running.\<close>

theorem finalize_ends_run:
  assumes "finalize run_id status kind payload ms ec em it ot c reason z d = Inr (ev, d')"
  shows "status \<notin> {WI_QUEUED, WI_RUNNING}
     \<and> exists_row (\<lambda>r. r_id r = run_id \<and> r_status r = WI_RUNNING) (d_runs d)
     \<and> \<not> exists_row (\<lambda>r. r_id r = run_id \<and> r_status r = WI_RUNNING) (d_runs d')
     \<and> (\<exists>e. d_events d' = d_events d @ [e] \<and> e_run e = run_id \<and> e_kind e = kind)
     \<and> (status \<in> {WI_CANCELLED, WI_FAILED, WI_INTERRUPTED, WI_STOPPED} \<longrightarrow>
         \<not> exists_row (\<lambda>s. st_run s = run_id \<and> st_status s = ST_RUNNING) (d_steps d')
         \<and> \<not> exists_row (\<lambda>a. a_run a = run_id \<and> action_open a) (d_actions d'))"
proof -
  from finalize_moves[OF assms] have st: "status \<noteq> WI_QUEUED" "status \<noteq> WI_RUNNING" by blast+
  let ?g = "\<lambda>r. r\<lparr>r_status := status, r_finished_at := Some (t_now z), r_duration_ms := Some ms,
      r_error_code := ec, r_error_message := em, r_input_tokens := it, r_output_tokens := ot,
      r_cost := c, r_stop_reason := reason\<rparr>"
  let ?rs = "sql_update (\<lambda>r. r_id r = run_id \<and> r_status r = WI_RUNNING) ?g (d_runs d)"
  let ?Y = "\<lambda>row. finish_steps run_id status em (t_now z) (d\<lparr>d_runs := ?rs,
             d_work_items := sql_update (\<lambda>w. wi_id w = r_work_item row \<and> wi_status w = WI_RUNNING)
               (\<lambda>w. w\<lparr>wi_status := status, wi_error := em, wi_updated_at := t_now z\<rparr>) (d_work_items d)\<rparr>)"
  let ?X = "\<lambda>row. finish_actions run_id status ec em (t_now z) (?Y row)"
  obtain row where row: "fetch_one (\<lambda>r. r_id r = run_id \<and> r_status r = WI_RUNNING) (d_runs d) = Some row"
    and app: "append_stamped run_id kind payload z (?X row) = Inr (ev, d')"
    by (rule finalize_effect[OF assms])
  obtain e where d': "d' = (?X row)\<lparr>d_events := d_events (?X row) @ [e]\<rparr>" and e: "e_run e = run_id" "e_kind e = kind"
    using append_stamped_effect[OF app] by blast
  have "\<not> (r_id x = run_id \<and> r_status x = WI_RUNNING)" if "x \<in> set ?rs" for x
    using that by (rule sql_updateE) (use st in auto)
  moreover have "\<not> (st_run x = run_id \<and> st_status x = ST_RUNNING)"
    if "status \<in> {WI_CANCELLED, WI_FAILED, WI_INTERRUPTED, WI_STOPPED}"
      "x \<in> set (d_steps (finish_steps run_id status em (t_now z) y))" for x y
    using that by (rule finish_steps_clears)
  moreover have "\<not> (a_run x = run_id \<and> action_open x)"
    if "status \<in> {WI_CANCELLED, WI_FAILED, WI_INTERRUPTED, WI_STOPPED}"
      "x \<in> set (d_actions (finish_actions run_id status ec em (t_now z) e'))" for x e'
    using that by (rule finish_actions_clears)
  moreover have "d_steps (finish_actions run_id status ec em (t_now z) y) = d_steps y" for y
    by (simp add: finish_actions_def)
  ultimately show ?thesis using st e fetch_one_Some[OF row] unfolding d' by simp blast
qed

theorem finalize_ends_run_witness:
  "\<exists>ev d'. sample_final sample_db = Inr (ev, d')
     \<and> \<not> exists_row (\<lambda>s. st_run s = ''r1'' \<and> st_status s = ST_RUNNING) (d_steps d')"
proof -
  have "is_ok (sample_final sample_db)" by code_simp
  then obtain ev d' where eq: "sample_final sample_db = Inr (ev, d')" by (auto simp: is_ok_iff)
  from finalize_ends_run[OF eq[unfolded sample_final_def]] eq show ?thesis by simp
qed

text \<open>An approval is settled once, by what became of the actions.  When \<open>settle_approval\<close>
  returns an event, the run waited for approval and nothing held it open any more; the run is
  completed if no action of it failed or was cancelled, else it ends as failed or cancelled;
  and a second settlement reports nothing and changes nothing.\<close>

lemma settle_approval_once:
  assumes ok: "workflow_ok d" and eq: "settle_approval s run_id z d = Inr (Some ev, d')"
  shows "\<not> approval_open run_id d
     \<and> (\<exists>r. row_by r_id run_id (d_runs d') = Some r \<and> r_status r \<in> {WI_COMPLETED, WI_FAILED, WI_CANCELLED}
          \<and> (r_status r = WI_COMPLETED \<longleftrightarrow>
               \<not> exists_row (\<lambda>a. a_run a = run_id \<and> a_status a \<in> {AS_FAILED, AS_CANCELLED}) (d_actions d)))
     \<and> settle_approval s run_id z' d' = Inr (None, d')"
proof -
  obtain row where row: "fetch_one (\<lambda>r. r_id r = run_id \<and> r_session r = s) (d_runs d) = Some row"
    using eq by (auto simp: settle_approval_def split: option.splits)
  let ?o = "settle_outcome run_id d"
  let ?f = "\<lambda>r. r\<lparr>r_status := ao_status ?o, r_finished_at := coalesce (r_finished_at r) (Some (t_now z)),
      r_error_code := ao_error_code ?o, r_error_message := ao_error_message ?o\<rparr>"
  let ?p = "\<lambda>r. r_id r = run_id \<and> r_status r = WI_WAITING_APPROVAL"
  have r: "row \<in> set (d_runs d)" "r_id row = run_id" "r_session row = s" using fetch_one_Some[OF row] by simp_all
  have st: "r_status row = WI_WAITING_APPROVAL" "\<not> approval_open run_id d"
    using eq row unfolding settle_approval_def Let_def by (simp_all split: if_splits)
  have runs: "d_runs d' = sql_update ?p ?f (d_runs d)"
    using eq row st unfolding settle_approval_def Let_def
    by (auto simp: rbind_Inr_iff split: if_splits prod.splits dest!: append_stamped_frame)
  have "row_by r_id run_id (d_runs d) = Some row"
    using ok r row_by_member[of r_id "d_runs d" row] by (simp add: workflow_ok_def)
  then have get: "row_by r_id run_id (d_runs d') = Some (?f row)"
    unfolding runs using r st by (simp add: row_by_update)
  have "workflow_ok d'" using ok wf_step_good[OF wf_step.settle[OF eq]] by (simp add: good_step_def)
  then have uniq: "unique_by r_id (d_runs d')" by (simp add: workflow_ok_def)
  have final: "r_status (?f row) \<in> {WI_COMPLETED, WI_FAILED, WI_CANCELLED}"
    using settle_outcome_status[of run_id d] by simp
  have "fetch_one (\<lambda>r. r_id r = run_id \<and> r_session r = s) (d_runs d') = Some (?f row)"
  proof (cases "fetch_one (\<lambda>r. r_id r = run_id \<and> r_session r = s) (d_runs d')")
    case None
    then show ?thesis using row_by_Some[OF get] r by (auto simp: fetch_one_None)
  next
    case (Some y)
    then show ?thesis using fetch_one_Some[OF Some] row_by_Some[OF get] unique_by_eq[OF uniq] by fastforce
  qed
  with final have again: "settle_approval s run_id z' d' = Inr (None, d')" by (simp add: settle_approval_def)
  have "ao_status ?o = WI_COMPLETED \<longleftrightarrow>
      first_by a_finished_at (\<lambda>a. a_run a = run_id \<and> a_status a \<in> {AS_FAILED, AS_CANCELLED}) (d_actions d) = None"
    by (simp add: settle_outcome_def approval_outcome_def Let_def split: option.splits)
  with get final st(2) again show ?thesis by (auto simp: first_by_None)
qed

definition sample_waiting_db :: db where
  "sample_waiting_db = sample_db\<lparr>d_runs := [sample_run ''r1'' ''w1'' WI_WAITING_APPROVAL],
     d_work_items := [sample_item ''w1'' WI_WAITING_APPROVAL]\<rparr>"

theorem settle_approval_once_witness:
  "\<exists>ev d'. settle_approval ''s1'' ''r1'' sample_stamp sample_waiting_db = Inr (Some ev, d')
     \<and> settle_approval ''s1'' ''r1'' sample_stamp d' = Inr (None, d')"
proof -
  have ok: "workflow_ok sample_waiting_db" by code_simp
  let ?c = "settle_approval ''s1'' ''r1'' sample_stamp sample_waiting_db"
  have "case ?c of Inl _ \<Rightarrow> False | Inr (e, d') \<Rightarrow> e \<noteq> None" by code_simp
  then obtain ev d' where c: "?c = Inr (Some ev, d')" by (auto split: sum.splits)
  from settle_approval_once[OF ok c] c show ?thesis by blast
qed

text \<open>Nothing of the run is going on or waiting for the user.\<close>

definition run_quiet :: "string \<Rightarrow> db \<Rightarrow> bool" where
  "run_quiet run_id d \<longleftrightarrow>
     \<not> exists_row (\<lambda>s. st_run s = run_id \<and> st_status s \<in> {ST_RUNNING, ST_WAITING_APPROVAL, ST_WAITING_INPUT}) (d_steps d)
     \<and> \<not> exists_row (\<lambda>i. i_run i = run_id \<and> i_status i \<in> {''waiting_approval'', ''waiting_input''}) (d_invocations d)
     \<and> \<not> exists_row (\<lambda>a. a_run a = run_id \<and> action_open a) (d_actions d)
     \<and> \<not> exists_row (\<lambda>q. q_run q = run_id \<and> q_status q = ''pending'') (d_inputs d)
     \<and> \<not> exists_row (\<lambda>q. pr_run q = run_id \<and> pr_status q = ''pending'') (d_permissions d)
     \<and> \<not> exists_row (\<lambda>q. pq_run q = Some run_id \<and> pq_status q = PR_PENDING) (d_plan_requests d)"

lemma no_row_after_update: "(\<And>x. \<not> p (f x)) \<Longrightarrow> \<not> exists_row p (sql_update p f t)"
  by (auto dest: sql_update_clears[rotated])

lemma cancel_quiet: "run_quiet run_id (cancel_requests run_id now (cancel_activity run_id m now d))"
  unfolding run_quiet_def cancel_requests_def cancel_activity_def
  by (simp add: no_row_after_update action_open_def del: exists_row_iff)

lemma run_quiet_cong:
  "d_steps d' = d_steps d \<Longrightarrow> d_invocations d' = d_invocations d \<Longrightarrow> d_actions d' = d_actions d \<Longrightarrow>
   d_inputs d' = d_inputs d \<Longrightarrow> d_permissions d' = d_permissions d \<Longrightarrow>
   d_plan_requests d' = d_plan_requests d \<Longrightarrow> run_quiet r d' = run_quiet r d"
  by (simp add: run_quiet_def)

lemma filter_update_other: "(\<And>r. p r \<Longrightarrow> \<not> q r \<and> \<not> q (f r)) \<Longrightarrow> filter q (sql_update p f t) = filter q t"
  by (induction t) (auto simp: sql_update_def)



text \<open>The action's cancellation, in contrast, ends the run without its steps and invocations.\<close>

text \<open>Cancelling a waiting run through its action leaves the paused call behind.  After
  \<open>cancel_waiting_action\<close> the run is cancelled and has no pending or approved action, but its
  steps and invocations are exactly as before: the step and the invocation that waited for the
  approval still wait, unlike after \<open>cancel_waiting\<close>.\<close>

lemma cancel_waiting_action_leaves_paused_call:
  assumes ok: "workflow_ok d" and eq: "cancel_waiting_action s run_id a m z d = Inr (ev, d')"
  shows "map_option r_status (row_by r_id run_id (d_runs d')) = Some WI_CANCELLED
     \<and> \<not> exists_row (\<lambda>a. a_run a = run_id \<and> a_status a \<in> {AS_PENDING, AS_APPROVED}) (d_actions d')
     \<and> d_steps d' = d_steps d \<and> d_invocations d' = d_invocations d"
proof -
  let ?p = "\<lambda>b. a_id b = a \<and> a_run b = run_id \<and> a_status b \<in> {AS_APPROVED, AS_RUNNING}"
  let ?as = "sql_update (\<lambda>a. a_run a = run_id \<and> a_status a \<in> {AS_PENDING, AS_APPROVED})
      (cancel_action_row m (t_now z)) (sql_update ?p (cancel_action_row m (t_now z)) (d_actions d))"
  let ?f = "\<lambda>r. r\<lparr>r_status := WI_CANCELLED, r_error_code := Some ''cancelled'',
      r_error_message := Some m, r_finished_at := coalesce (r_finished_at r) (Some (t_now z))\<rparr>"
  obtain row where row: "fetch_one (\<lambda>r. r_id r = run_id \<and> r_session r = s
      \<and> r_status r = WI_WAITING_APPROVAL) (d_runs d) = Some row"
    using eq by (auto simp: cancel_waiting_action_def split: option.splits)
  let ?d = "d\<lparr>d_actions := ?as, d_runs := sql_update (\<lambda>r. r_id r = run_id) ?f (d_runs d),
         d_work_items := sql_update (\<lambda>w. wi_id w = r_work_item row \<and> wi_status w = WI_WAITING_APPROVAL)
           (\<lambda>w. w\<lparr>wi_status := WI_CANCELLED, wi_error := Some m, wi_updated_at := t_now z\<rparr>) (d_work_items d)\<rparr>"
  have app: "append_stamped run_id EV_CANCELLED (cancelled_payload m) z ?d = Inr (ev, d')"
    using eq row unfolding cancel_waiting_action_def Let_def by (simp split: if_splits)
  obtain e where d': "d' = ?d\<lparr>d_events := d_events ?d @ [e]\<rparr>"
    using append_stamped_effect[OF app] by blast
  have r: "row \<in> set (d_runs d)" "r_id row = run_id" using fetch_one_Some[OF row] by simp_all
  then have "row_by r_id run_id (d_runs d) = Some row"
    using ok row_by_member[of r_id "d_runs d" row] by (simp add: workflow_ok_def)
  then have "map_option r_status (row_by r_id run_id (d_runs d')) = Some WI_CANCELLED"
    using r by (simp add: d' row_by_update)
  moreover have "\<not> exists_row (\<lambda>a. a_run a = run_id \<and> a_status a \<in> {AS_PENDING, AS_APPROVED}) ?as"
    by (rule no_row_after_update) (simp add: cancel_action_row_def)
  ultimately show ?thesis by (simp add: d' del: exists_row_iff)
qed

definition sample_action :: "string \<Rightarrow> ActionStatus \<Rightarrow> action_row" where
  "sample_action i st = \<lparr>a_id = i, a_session = ''s1'', a_run = ''r1'', a_type = AT_COMMAND,
     a_status = st, a_result_kind = None, a_summary = ''ls'', a_request = JObj [], a_result = None,
     a_risk_level = None, a_risk_reason = None, a_rollback = None, a_error_code = None,
     a_error_message = None, a_created_at = ''t2'', a_approved_at = None, a_started_at = None,
     a_finished_at = None, a_reversed_at = None, a_decided_at = None, a_historical_only = False,
     a_requires_reapproval = False\<rparr>"

text \<open>The run of the sample database, paused for the approval of the action \<open>a1\<close>: the call
  \<open>c1\<close> waits, the later call \<open>c2\<close> has its result.\<close>

definition sample_call :: "string \<Rightarrow> json" where
  "sample_call i = JObj [(''id'', JStr i), (''type'', JStr ''function'')]"

definition sample_messages :: "json list" where
  "sample_messages = [JObj [(''role'', JStr ''user''), (''content'', JStr ''why'')],
     JObj [(''role'', JStr ''assistant''), (''tool_calls'', JList [sample_call ''c1'', sample_call ''c2''])],
     tool_message ''c2'' ''two'']"

definition sample_paused_db :: "ActionStatus \<Rightarrow> db" where
  "sample_paused_db st = sample_waiting_db\<lparr>d_actions := [sample_action ''a1'' st],
     d_invocations := [(sample_invocation ''inv_1'' 1 ''waiting_approval'')\<lparr>i_call := ''c1'',
        i_pause_kind := Some ''approval'', i_pause_request := Some ''a1''\<rparr>],
     d_steps := [sample_step ''p0'' 0 ST_COMPLETED (Some (JObj [])),
        sample_step ''p1'' 1 ST_WAITING_APPROVAL (Some (JObj [(''messages'', JList sample_messages)]))]\<rparr>"

theorem cancel_waiting_action_leaves_paused_call_witness:
  "\<exists>ev d'. cancel_waiting_action ''s1'' ''r1'' ''a1'' ''stop'' sample_stamp (sample_paused_db AS_APPROVED) = Inr (ev, d')
     \<and> exists_row (\<lambda>i. i_status i = ''waiting_approval'') (d_invocations d')"
proof -
  have ok: "workflow_ok (sample_paused_db AS_APPROVED)" by code_simp
  let ?c = "cancel_waiting_action ''s1'' ''r1'' ''a1'' ''stop'' sample_stamp (sample_paused_db AS_APPROVED)"
  have "is_ok ?c" by code_simp
  then obtain ev d' where c: "?c = Inr (ev, d')" by (auto simp: is_ok_iff)
  have w: "exists_row (\<lambda>i. i_status i = ''waiting_approval'') (d_invocations (sample_paused_db AS_APPROVED))" by code_simp
  from cancel_waiting_action_leaves_paused_call[OF ok c] c w show ?thesis by (simp del: exists_row_iff)
qed

section \<open>Resuming\<close>

text \<open>A tool result that answers one of the calls \<open>later\<close>.\<close>

definition answers :: "string list \<Rightarrow> json \<Rightarrow> bool" where
  "answers later m \<longleftrightarrow> is_tool_message m \<and> (\<exists>x \<in> set later. jfield m ''tool_call_id'' = JStr x)"

lemma in_text_set_Inr: "in_text_set v ids = Inr b \<Longrightarrow> b \<longleftrightarrow> (\<exists>x \<in> set ids. v = JStr x)"
  by (cases v) (auto simp: in_text_set_def)

lemma insertion_index_takeWhile:
  "insertion_index later ms = Inr n \<Longrightarrow> n = length (takeWhile (\<lambda>m. \<not> answers later m) ms)"
proof (induction ms arbitrary: n)
  case (Cons m ms)
  show ?case
  proof (cases "is_tool_message m")
    case True
    with Cons.prems obtain hit where hit: "in_text_set (jfield m ''tool_call_id'') later = Inr hit"
      by (auto elim: rbind_InrE)
    with True in_text_set_Inr[OF hit] Cons show ?thesis
      by (cases hit) (auto simp: answers_def elim!: rbind_InrE)
  next
    case False
    with Cons show ?thesis by (auto simp: answers_def elim!: rbind_InrE)
  qed
qed simp

lemma insert_tool_message_split:
  assumes "insert_tool_message call content ms = Inr out"
    and "later = later_ids call (ordered_ids (assistant_calls ms))"
  shows "out = takeWhile (\<lambda>m. \<not> answers later m) ms @ [tool_message call content]
             @ dropWhile (\<lambda>m. \<not> answers later m) ms"
proof -
  obtain n where n: "insertion_index later ms = Inr n"
    and out: "out = take n ms @ [tool_message call content] @ drop n ms"
    using assms unfolding insert_tool_message_def Let_def by (auto elim!: rbind_InrE)
  show ?thesis
    unfolding out insertion_index_takeWhile[OF n] takeWhile_eq_take[symmetric] dropWhile_eq_drop[symmetric] ..
qed

text \<open>An index search that meets no raising message.\<close>

definition tool_id_text :: "json \<Rightarrow> bool" where
  "tool_id_text m \<longleftrightarrow> (is_tool_message m \<longrightarrow> is_str (jfield m ''tool_call_id''))"

lemma insertion_index_defined:
  "\<forall>m \<in> set ms. tool_id_text m \<Longrightarrow> \<exists>n. insertion_index later ms = Inr n"
proof (induction ms)
  case (Cons m ms)
  then obtain n where n: "insertion_index later ms = Inr n" by auto
  from Cons.prems have m: "tool_id_text m" by simp
  then show ?case
    using n by (cases "jfield m ''tool_call_id''") (auto simp: tool_id_text_def in_text_set_def)
qed simp

lemma tool_message_simps [simp]:
  "is_tool_message (tool_message i c)" "jfield (tool_message i c) ''tool_call_id'' = JStr i"
  "\<not> assistant_with_calls (tool_message i c)" "tool_id_text (tool_message i c)"
  "answers later (tool_message i c) \<longleftrightarrow> i \<in> set later"
  by (auto simp: is_tool_message_def tool_message_def jfield_def assistant_with_calls_def tool_id_text_def answers_def)

lemma takeWhile_dropWhile_append:
  assumes "\<And>x. x \<in> set xs \<Longrightarrow> P x" and "takeWhile P ys = []"
  shows "takeWhile P (xs @ ys) = xs \<and> dropWhile P (xs @ ys) = ys"
proof -
  have "dropWhile P ys = ys" using takeWhile_dropWhile_id[of P ys] assms(2) by simp
  with assms show ?thesis by (induction xs) simp_all
qed

lemma later_ids_split: "paused \<notin> set xs \<Longrightarrow> later_ids paused (xs @ paused # ys) = ys"
proof -
  assume "paused \<notin> set xs"
  then have "dropWhile (\<lambda>x. x \<noteq> paused) (xs @ paused # ys) = paused # ys" by (induction xs) auto
  then show ?thesis by (simp add: later_ids_def)
qed

text \<open>C5: A resumed call's result takes its place among the results of the assistant's calls.  The
  provider wants the results of one assistant message in the order of its calls.  If the
  checkpoint ends with an assistant message and the results, in call order, of the calls that
  have one, then inserting the paused call's result gives the same messages with the results,
  still in call order, of those calls and the paused one.\<close>

theorem resumed_result_in_call_order:
  assumes ids: "distinct ids" "paused \<in> set ids" "\<not> done paused"
    and front: "\<forall>m \<in> set front. tool_id_text m \<and> \<not> answers ids m"
    and a: "is_dict a" "jget a ''role'' = Some (JStr ''assistant'')" "jget a ''tool_calls'' = Some (JList calls)"
      "ordered_ids calls = ids"
  shows "insert_tool_message paused content (front @ a # map (\<lambda>x. tool_message x (f x)) (filter done ids)) =
    Inr (front @ a # map (\<lambda>x. tool_message x (if x = paused then content else f x))
           (filter (\<lambda>x. done x \<or> x = paused) ids))"
proof -
  obtain xs ys where split: "ids = xs @ paused # ys" and notin: "paused \<notin> set xs"
    using split_list_first[OF ids(2)] by blast
  with ids have disj: "set xs \<inter> set ys = {}" "paused \<notin> set ys" by auto
  let ?res = "map (\<lambda>x. tool_message x (f x))"
  let ?ms = "front @ a # ?res (filter done ids)"
  have awc: "assistant_with_calls a" using a by (simp add: assistant_with_calls_def)
  have "find assistant_with_calls (rev (?res zs) @ a # rest) = Some a" for zs rest
    by (induction zs rule: rev_induct) (simp_all add: awc)
  from this[of "filter done ids" "rev front"] have "find assistant_with_calls (rev ?ms) = Some a" by simp
  then have calls: "assistant_calls ?ms = calls" using a by (simp add: assistant_calls_def)
  have later: "later_ids paused (ordered_ids (assistant_calls ?ms)) = ys"
  proof -
    have "ordered_ids (assistant_calls ?ms) = ids" by (simp only: calls a(4))
    moreover have "later_ids paused ids = ys" unfolding split by (rule later_ids_split[OF notin])
    ultimately show ?thesis by (simp only:)
  qed
  have tool_a: "tool_id_text a" "\<not> answers ys a"
    using a(1,2) by (simp_all add: tool_id_text_def answers_def is_tool_message_def)
  have nofront: "\<not> answers ys m" if "m \<in> set front" for m
    using front that by (auto simp: answers_def split)
  have res: "?res (filter done ids) = ?res (filter done xs) @ ?res (filter done ys)"
    using ids(3) by (simp add: split)
  let ?P = "\<lambda>m. \<not> answers ys m" and ?pre = "front @ a # ?res (filter done xs)"
  have ms: "?ms = ?pre @ ?res (filter done ys)" by (simp only: res append.simps append_assoc)
  have "?P m" if "m \<in> set ?pre" for m
    using that nofront tool_a disj by auto
  moreover have "takeWhile ?P (?res (filter done ys)) = []"
    using filter_is_subset[of "done" ys] by (cases "filter done ys"; simp)
  ultimately have tk: "takeWhile ?P ?ms = ?pre" "dropWhile ?P ?ms = ?res (filter done ys)"
    unfolding ms using takeWhile_dropWhile_append[of ?pre ?P "?res (filter done ys)"] by blast+
  have "\<exists>n. insertion_index ys ?ms = Inr n"
    by (rule insertion_index_defined) (use front tool_a in auto)
  then obtain out where out: "insert_tool_message paused content ?ms = Inr out"
    by (auto simp: insert_tool_message_def later)
  have same: "map (\<lambda>x. tool_message x (if x = paused then content else f x)) (filter (\<lambda>x. done x \<or> x = paused) zs)
      = ?res (filter done zs)" if "paused \<notin> set zs" for zs
    using that by (induction zs) auto
  from out insert_tool_message_split[OF out later[symmetric]] tk show ?thesis
    using same[OF notin] same[OF disj(2)] by (simp add: split)
qed

theorem resumed_result_in_call_order_witness:
  "insert_tool_message ''c1'' ''one'' sample_messages =
     Inr (take 2 sample_messages @ [tool_message ''c1'' ''one'', tool_message ''c2'' ''two''])"
proof -
  let ?front = "take 1 sample_messages" and ?a = "sample_messages ! 1"
  let ?calls = "[sample_call ''c1'', sample_call ''c2'']" and ?ids = "[''c1'', ''c2'']"
  let ?done = "\<lambda>x. x = ''c2''"
  have "insert_tool_message ''c1'' ''one'' (?front @ ?a # map (\<lambda>x. tool_message x ''two'') (filter ?done ?ids)) =
      Inr (?front @ ?a # map (\<lambda>x. tool_message x (if x = ''c1'' then ''one'' else ''two''))
             (filter (\<lambda>x. ?done x \<or> x = ''c1'') ?ids))"
    by (rule resumed_result_in_call_order[where calls = ?calls])
      (simp_all add: sample_messages_def sample_call_def ordered_ids_def tool_id_text_def answers_def
         is_tool_message_def jfield_def)
  then show ?thesis by (simp add: sample_messages_def)
qed


definition sample_resume :: "db res" where
  "sample_resume = resume_paused ''s1'' ''r1'' ''t9'' (sample_paused_db AS_COMPLETED)"


text \<open>The transition table does not cover a resume after an approval.  A run that waits for
  approval is resumed to running together with its work item, but
  \<open>validate_work_item_transition\<close> rejects that step, so the table is not the set of moves the
  program makes.\<close>

lemma resume_leaves_transition_table:
  assumes ok: "workflow_ok d" and eq: "resume_paused s run_id now d = Inr d'"
    and r: "row_by r_id run_id (d_runs d) = Some r" "r_status r = WI_WAITING_APPROVAL"
  shows "item_status d (r_work_item r) = Some (r_kind r, WI_WAITING_APPROVAL)
     \<and> item_status d' (r_work_item r) = Some (r_kind r, WI_RUNNING)
     \<and> validate_work_item_transition WI_WAITING_APPROVAL WI_RUNNING =
         Inl (ValueError ''invalid work item transition: waiting_approval -> running'')"
proof -
  from resume_moves[OF eq] obtain x where x: "r_id x = run_id" "both_moved d x WI_RUNNING d'" by blast
  then have "x \<in> set (d_runs d)" by (simp add: both_moved_def)
  then have "x = r" using ok r(1) x(1) row_by_member[of r_id "d_runs d" x] by (simp add: workflow_ok_def)
  with x(2) ok have m: "moved d d' (r_work_item r) WI_RUNNING" "r \<in> set (d_runs d)"
    by (simp_all add: both_moved_def)
  obtain w where "row_by wi_id (r_work_item r) (d_work_items d) = Some w" "wi_kind w = r_kind r"
    "wi_status w = r_status r" using run_in_stepE[OF ok m(2)] by metis
  then have "item_status d (r_work_item r) = Some (r_kind r, WI_WAITING_APPROVAL)"
    using r(2) by (simp add: item_status_def)
  with m(1) show ?thesis by (simp add: moved_def validate_work_item_transition_def)
qed

theorem resume_leaves_transition_table_witness:
  "\<exists>d'. sample_resume = Inr d' \<and> item_status d' ''w1'' = Some (RK_AGENT, WI_RUNNING)"
proof -
  have "is_ok sample_resume" by code_simp
  then obtain d' where c: "sample_resume = Inr d'" by (auto simp: is_ok_iff)
  let ?r = "sample_run ''r1'' ''w1'' WI_WAITING_APPROVAL"
  have ok: "workflow_ok (sample_paused_db AS_COMPLETED)" by code_simp
  have r: "row_by r_id ''r1'' (d_runs (sample_paused_db AS_COMPLETED)) = Some ?r" by code_simp
  have st: "r_status ?r = WI_WAITING_APPROVAL" "r_work_item ?r = ''w1''" "r_kind ?r = RK_AGENT"
    by (simp_all add: sample_run_def)
  from resume_leaves_transition_table[OF ok c[unfolded sample_resume_def] r st(1)] c st(2,3) show ?thesis
    by (intro exI[of _ d']) simp
qed

end
