(* ===== verification/Regex.thy ===== *)
theory Regex
  imports Prelude
begin

text \<open>
  The part of Python's \<^verbatim>\<open>re\<close> the source relies on: whether a pattern matches, with
  \<open>re.search\<close>, \<open>re.match\<close> and \<open>re.fullmatch\<close>.  \<open>ends r s i\<close> lists the positions at which a
  match of \<open>r\<close> that starts at \<open>i\<close> can end; \<open>rmatch\<close> is the declarative meaning, and
  \<open>ends_iff\<close> says that they agree.
\<close>

datatype re =
    Cls "char \<Rightarrow> bool"
  | Eps
  | Seq re re
  | Alt re re
  | Star re
  | Bol
  | Eol
  | WordB

section \<open>Character classes\<close>

definition re_digit :: "char \<Rightarrow> bool" where
  "re_digit c = (let n = of_char c :: nat in 48 \<le> n \<and> n \<le> 57)"

definition re_word :: "char \<Rightarrow> bool" where
  "re_word c = (let n = of_char c :: nat in re_digit c \<or> (65 \<le> n \<and> n \<le> 90) \<or> (97 \<le> n \<and> n \<le> 122)
     \<or> n = 95 \<or> n \<in> {170, 178, 179, 181, 185, 186, 188, 189, 190}
     \<or> (192 \<le> n \<and> n \<noteq> 215 \<and> n \<noteq> 247))"

abbreviation re_space :: "char \<Rightarrow> bool" where
  "re_space \<equiv> py_space"

abbreviation Lit :: "char \<Rightarrow> re" where
  "Lit c \<equiv> Cls (\<lambda>x. x = c)"

abbreviation Dot :: re where
  "Dot \<equiv> Cls (\<lambda>x. x \<noteq> CHR 0x0A)"

fun Str :: "string \<Rightarrow> re" where
  "Str [] = Eps"
| "Str [c] = Lit c"
| "Str (c # cs) = Seq (Lit c) (Str cs)"

fun alts :: "re list \<Rightarrow> re" where
  "alts [] = Cls (\<lambda>_. False)"
| "alts [r] = r"
| "alts (r # rs) = Alt r (alts rs)"

fun seqs :: "re list \<Rightarrow> re" where
  "seqs [] = Eps"
| "seqs [r] = r"
| "seqs (r # rs) = Seq r (seqs rs)"

abbreviation Opt :: "re \<Rightarrow> re" where
  "Opt r \<equiv> Alt r Eps"

abbreviation Plus :: "re \<Rightarrow> re" where
  "Plus r \<equiv> Seq r (Star r)"

section \<open>Matching\<close>

definition word_boundary :: "string \<Rightarrow> nat \<Rightarrow> bool" where
  "word_boundary s i \<longleftrightarrow>
     (0 < i \<and> re_word (s ! (i - 1))) \<noteq> (i < length s \<and> re_word (s ! i))"

definition at_end :: "string \<Rightarrow> nat \<Rightarrow> bool" where
  "at_end s i \<longleftrightarrow> i = length s \<or> (Suc i = length s \<and> s ! i = CHR 0x0A)"

fun closure :: "(nat \<Rightarrow> nat list) \<Rightarrow> nat \<Rightarrow> nat list \<Rightarrow> nat list" where
  "closure f 0 xs = xs"
| "closure f (Suc n) xs = closure f n (remdups (xs @ concat (map f xs)))"

fun ends :: "re \<Rightarrow> string \<Rightarrow> nat \<Rightarrow> nat list" where
  "ends (Cls p) s i = (if i < length s \<and> p (s ! i) then [Suc i] else [])"
| "ends Eps s i = [i]"
| "ends (Seq r q) s i = concat (map (ends q s) (ends r s i))"
| "ends (Alt r q) s i = ends r s i @ ends q s i"
| "ends (Star r) s i = closure (ends r s) (length s) [i]"
| "ends Bol s i = (if i = 0 then [i] else [])"
| "ends Eol s i = (if at_end s i then [i] else [])"
| "ends WordB s i = (if word_boundary s i then [i] else [])"

definition re_search :: "re \<Rightarrow> string \<Rightarrow> bool" where
  "re_search r s = list_ex (\<lambda>i. ends r s i \<noteq> []) [0 ..< Suc (length s)]"

definition re_fullmatch :: "re \<Rightarrow> string \<Rightarrow> bool" where
  "re_fullmatch r s \<longleftrightarrow> length s \<in> set (ends r s 0)"

inductive rmatch :: "re \<Rightarrow> string \<Rightarrow> nat \<Rightarrow> nat \<Rightarrow> bool" where
  "i < length s \<Longrightarrow> p (s ! i) \<Longrightarrow> rmatch (Cls p) s i (Suc i)"
| "rmatch Eps s i i"
| "rmatch r s i j \<Longrightarrow> rmatch q s j k \<Longrightarrow> rmatch (Seq r q) s i k"
| "rmatch r s i j \<Longrightarrow> rmatch (Alt r q) s i j"
| "rmatch q s i j \<Longrightarrow> rmatch (Alt r q) s i j"
| "rmatch (Star r) s i i"
| "rmatch (Star r) s i j \<Longrightarrow> rmatch r s j k \<Longrightarrow> rmatch (Star r) s i k"
| "rmatch Bol s 0 0"
| "at_end s i \<Longrightarrow> rmatch Eol s i i"
| "word_boundary s i \<Longrightarrow> rmatch WordB s i i"

inductive_simps rmatch_simps:
  "rmatch (Cls p) s i j" "rmatch Eps s i j" "rmatch (Seq r q) s i j" "rmatch (Alt r q) s i j"
  "rmatch Bol s i j" "rmatch Eol s i j" "rmatch WordB s i j"

inductive_cases rmatch_StarE: "rmatch (Star r) s i j"

lemma at_end_le: "at_end s i \<Longrightarrow> i \<le> length s"
  by (auto simp: at_end_def)

lemma rmatch_mono: "rmatch r s i j \<Longrightarrow> i \<le> j \<and> (i \<le> length s \<longrightarrow> j \<le> length s)"
  by (induction rule: rmatch.induct) auto

text \<open>The bounded closure is complete: beyond the positions already there, every round adds
  one that is larger.\<close>

lemma closure_superset: "set xs \<subseteq> set (closure f n xs)"
  by (induction n arbitrary: xs) (simp, fastforce)

lemma closure_sound:
  "k \<in> set (closure f n xs) \<Longrightarrow> \<exists>i \<in> set xs. (\<lambda>a b. b \<in> set (f a))\<^sup>*\<^sup>* i k"
proof (induction n arbitrary: xs)
  case (Suc n)
  then obtain i where i: "i \<in> set (xs @ concat (map f xs))" "(\<lambda>a b. b \<in> set (f a))\<^sup>*\<^sup>* i k"
    by fastforce
  then show ?case by (auto intro: converse_rtranclp_into_rtranclp)
qed auto

lemma closure_complete:
  assumes "((\<lambda>a b. b \<in> set (f a) \<and> a < b) ^^ m) i k" and "m \<le> n" and "i \<in> set xs"
  shows "k \<in> set (closure f n xs)"
  using assms
proof (induction n arbitrary: xs m i)
  case 0
  then show ?case by simp
next
  case (Suc n)
  show ?case
  proof (cases m)
    case 0
    with Suc.prems have "i = k" by auto
    with Suc.prems(3) show ?thesis using closure_superset[of xs f "Suc n"] by blast
  next
    case (Suc m')
    with Suc.prems(1) have "((\<lambda>a b. b \<in> set (f a) \<and> a < b) ^^ Suc m') i k" by simp
    from relpowp_Suc_D2[OF this] obtain j where j: "j \<in> set (f i)"
      "((\<lambda>a b. b \<in> set (f a) \<and> a < b) ^^ m') j k" by blast
    have "j \<in> set (remdups (xs @ concat (map f xs)))" using j(1) Suc.prems(3) by auto
    with Suc.IH[OF j(2)] Suc Suc.prems(2) show ?thesis by simp
  qed
qed

lemma increasing_relpow: "((\<lambda>a b. P a b \<and> a < (b::nat)) ^^ m) i k \<Longrightarrow> i + m \<le> k"
proof (induction m arbitrary: k)
  case (Suc m)
  then obtain j where "((\<lambda>a b. P a b \<and> a < b) ^^ m) i j" "j < k" by auto
  with Suc.IH[of j] show ?case by simp
qed simp

lemma star_increasing:
  assumes "(\<lambda>a b. b \<in> set (f a))\<^sup>*\<^sup>* i k" and mono: "\<And>a b. b \<in> set (f a) \<Longrightarrow> a \<le> (b::nat)"
  shows "\<exists>m. ((\<lambda>a b. b \<in> set (f a) \<and> a < b) ^^ m) i k"
  using assms(1)
proof (induction rule: rtranclp_induct)
  case base
  then show ?case by (auto intro: exI[of _ 0])
next
  case (step j k)
  then obtain m where m: "((\<lambda>a b. b \<in> set (f a) \<and> a < b) ^^ m) i j" by blast
  show ?case
  proof (cases "j = k")
    case True
    with m show ?thesis by blast
  next
    case False
    with mono[OF step.hyps(2)] step.hyps(2) have "k \<in> set (f j) \<and> j < k" by simp
    with m have "((\<lambda>a b. b \<in> set (f a) \<and> a < b) ^^ Suc m) i k" by auto
    then show ?thesis by blast
  qed
qed

lemma rmatch_Star_iff: "rmatch (Star r) s i k \<longleftrightarrow> (rmatch r s)\<^sup>*\<^sup>* i k"
proof
  show "(rmatch r s)\<^sup>*\<^sup>* i k \<Longrightarrow> rmatch (Star r) s i k"
    by (induction rule: rtranclp_induct) (auto intro: rmatch.intros)
next
  have "rmatch q s' i k \<Longrightarrow> q = Star r \<Longrightarrow> (rmatch r s')\<^sup>*\<^sup>* i k" for q s'
    by (induction rule: rmatch.induct) (auto intro: rtranclp.rtrancl_into_rtrancl)
  then show "rmatch (Star r) s i k \<Longrightarrow> (rmatch r s)\<^sup>*\<^sup>* i k" by blast
qed

text \<open>The executable matcher decides the declarative meaning of a pattern.\<close>

lemma ends_iff_rmatch:
  assumes "i \<le> length s"
  shows "j \<in> set (ends r s i) \<longleftrightarrow> rmatch r s i j"
  using assms
proof (induction r arbitrary: i j)
  case (Seq r q)
  have "j \<in> set (ends (Seq r q) s i) \<longleftrightarrow> (\<exists>k. rmatch r s i k \<and> j \<in> set (ends q s k))"
    using Seq.IH(1)[OF Seq.prems] by auto
  also have "\<dots> \<longleftrightarrow> (\<exists>k. rmatch r s i k \<and> rmatch q s k j)"
    using Seq.IH(2) Seq.prems rmatch_mono by blast
  finally show ?case by (auto simp: rmatch_simps)
next
  case (Star r)
  have step: "b \<in> set (ends r s a) \<longleftrightarrow> rmatch r s a b" if "a \<le> length s" for a b
    using Star.IH[OF that] .
  show ?case
  proof
    assume "j \<in> set (ends (Star r) s i)"
    then have "(\<lambda>a b. b \<in> set (ends r s a))\<^sup>*\<^sup>* i j" using closure_sound by fastforce
    then have "(rmatch r s)\<^sup>*\<^sup>* i j \<and> j \<le> length s"
    proof (induction rule: rtranclp_induct)
      case (step a b)
      then have "rmatch r s a b" using Star.IH by blast
      with step show ?case using rmatch_mono by (meson rtranclp.rtrancl_into_rtrancl)
    qed (use Star.prems in simp)
    then show "rmatch (Star r) s i j" by (simp add: rmatch_Star_iff)
  next
    define f where "f a = (if a \<le> length s then ends r s a else [])" for a
    assume "rmatch (Star r) s i j"
    then have "(rmatch r s)\<^sup>*\<^sup>* i j" by (simp add: rmatch_Star_iff)
    then have reach: "(\<lambda>a b. b \<in> set (f a))\<^sup>*\<^sup>* i j \<and> j \<le> length s"
    proof (induction rule: rtranclp_induct)
      case (step a b)
      then have "b \<in> set (f a)" using Star.IH[of a b] by (simp add: f_def)
      with step show ?case using rmatch_mono[OF step.hyps(2)] by (auto intro: rtranclp.rtrancl_into_rtrancl)
    qed (use Star.prems in simp)
    have mono: "a \<le> b" if "b \<in> set (f a)" for a b
      using that Star.IH[of a b] rmatch_mono[of r s a b] by (simp add: f_def split: if_splits)
    obtain m where m: "((\<lambda>a b. b \<in> set (f a) \<and> a < b) ^^ m) i j"
      using star_increasing[OF _ mono] reach by blast
    have "m \<le> length s" using increasing_relpow[OF m] reach by simp
    then have "j \<in> set (closure f (length s) [i])" using closure_complete[OF m] by simp
    moreover have "set (closure f n xs) \<subseteq> set (closure (ends r s) n xs)" if "set xs \<subseteq> {..length s}" for n xs
      using that
    proof (induction n arbitrary: xs)
      case (Suc n)
      have eq: "concat (map f xs) = concat (map (ends r s) xs)"
        using Suc.prems by (intro arg_cong[of _ _ concat] map_cong) (auto simp: f_def)
      have "set (remdups (xs @ concat (map (ends r s) xs))) \<subseteq> {..length s}"
      proof
        fix b assume "b \<in> set (remdups (xs @ concat (map (ends r s) xs)))"
        then consider "b \<in> set xs" | a where "a \<in> set xs" "b \<in> set (ends r s a)" by auto
        then show "b \<in> {..length s}"
        proof cases
          case 2
          then have "a \<le> length s" using Suc.prems by auto
          with 2 Star.IH[of a b] rmatch_mono[of r s a b] show ?thesis by simp
        qed (use Suc.prems in auto)
      qed
      with Suc.IH eq show ?case by simp
    qed simp
    ultimately show "j \<in> set (ends (Star r) s i)" using Star.prems subsetD[of _ _ j] by (metis atMost_iff empty_set empty_subsetI ends.simps(5) insert_subset list.simps(15))
  qed
qed (auto simp: rmatch_simps)

lemma re_fullmatch_iff: "re_fullmatch r s \<longleftrightarrow> rmatch r s 0 (length s)"
  by (simp add: re_fullmatch_def ends_iff_rmatch)

lemma re_search_iff: "re_search r s \<longleftrightarrow> (\<exists>i j. i \<le> length s \<and> rmatch r s i j)"
proof -
  have "ends r s i \<noteq> [] \<longleftrightarrow> (\<exists>j. rmatch r s i j)" if "i \<le> length s" for i
    using ends_iff_rmatch[OF that, of _ r] by (metis list.set_intros(1) list.exhaust empty_iff empty_set)
  then have "re_search r s \<longleftrightarrow> (\<exists>i \<in> set [0 ..< Suc (length s)]. \<exists>j. rmatch r s i j)"
    unfolding re_search_def list_ex_iff by (intro bex_cong refl) (auto simp del: upt_Suc)
  then show ?thesis by (auto simp del: upt_Suc simp: less_Suc_eq_le)
qed

text \<open>What a pattern matches as a set of texts, for patterns without anchors.\<close>

fun plain :: "re \<Rightarrow> bool" where
  "plain (Seq r q) = (plain r \<and> plain q)"
| "plain (Alt r q) = (plain r \<and> plain q)"
| "plain (Star r) = plain r"
| "plain (Cls p) = True"
| "plain Eps = True"
| "plain _ = False"

inductive lang :: "re \<Rightarrow> string \<Rightarrow> bool" where
  "p c \<Longrightarrow> lang (Cls p) [c]"
| "lang Eps []"
| "lang r u \<Longrightarrow> lang q v \<Longrightarrow> lang (Seq r q) (u @ v)"
| "lang r u \<Longrightarrow> lang (Alt r q) u"
| "lang q u \<Longrightarrow> lang (Alt r q) u"
| "lang (Star r) []"
| "lang (Star r) u \<Longrightarrow> lang r v \<Longrightarrow> lang (Star r) (u @ v)"

inductive_simps lang_simps: "lang (Cls p) u" "lang Eps u" "lang (Seq r q) u" "lang (Alt r q) u"
inductive_cases lang_StarE: "lang (Star r) u"

definition slice :: "nat \<Rightarrow> nat \<Rightarrow> string \<Rightarrow> string" where
  "slice i j s = take (j - i) (drop i s)"

lemma slice_append: "i \<le> j \<Longrightarrow> j \<le> k \<Longrightarrow> slice i k s = slice i j s @ slice j k s"
proof -
  assume "i \<le> j" "j \<le> k"
  then obtain a b where "j = i + a" "k = i + a + b" by (metis le_Suc_ex)
  then show ?thesis by (simp add: slice_def take_add drop_drop add.commute)
qed

lemma slice_same [simp]: "slice i i s = []"
  by (simp add: slice_def)

lemma rmatch_lang: "rmatch r s i j \<Longrightarrow> plain r \<Longrightarrow> i \<le> length s \<Longrightarrow> lang r (slice i j s)"
proof (induction rule: rmatch.induct)
  case (1 i s p)
  then show ?case by (auto simp: slice_def lang_simps take_Suc hd_drop_conv_nth)
next
  case (3 r s i j q k)
  then show ?case using rmatch_mono[OF 3(1)] rmatch_mono[OF 3(2)] slice_append[of i j k s]
    by (auto intro!: lang.intros)
next
  case (7 r s i j k)
  then show ?case using rmatch_mono[OF 7(1)] rmatch_mono[OF 7(2)] slice_append[of i j k s]
    by (auto intro!: lang.intros)
qed (auto intro: lang.intros)

lemma lang_rmatch: "lang r u \<Longrightarrow> rmatch r (x @ u @ y) (length x) (length x + length u)"
proof (induction arbitrary: x y rule: lang.induct)
  case (1 p c)
  then show ?case by (auto simp: nth_append intro: rmatch.intros)
next
  case (3 r u q v)
  then show ?case using "3.IH"(1)[of x "v @ y"] "3.IH"(2)[of "x @ u" y]
    by (auto intro: rmatch.intros simp: add.assoc)
next
  case (7 r u v)
  then show ?case using "7.IH"(1)[of x "v @ y"] "7.IH"(2)[of "x @ u" y]
    by (auto intro: rmatch.intros simp: add.assoc)
qed (auto intro: rmatch.intros)

lemma re_fullmatch_lang: "plain r \<Longrightarrow> re_fullmatch r s \<longleftrightarrow> lang r s"
  using rmatch_lang[of r s 0 "length s"] lang_rmatch[of r s "[]" "[]"]
  by (auto simp: re_fullmatch_iff slice_def)

end
