(* ===== verification/Shell_Words.thy ===== *)
theory Shell_Words
  imports Regex
begin

text \<open>
  Python's \<^verbatim>\<open>shlex.split(text, posix=True)\<close> and \<^verbatim>\<open>shlex.quote\<close> as the permission rules and the
  shell assessment use them.  The lexer is the state machine of \<open>shlex.read_token\<close> with
  \<open>whitespace_split\<close>: its states, the flag for a quoted (possibly empty) word, and the word
  being read, reversed.  \<open>None\<close> is the \<open>ValueError\<close> for a missing quotation or escaped character.
\<close>

datatype lex_state = LBlank | LWord | LQuote char | LEscape "char option"

definition lex_blank :: "char \<Rightarrow> bool" where
  "lex_blank c \<longleftrightarrow> c \<in> {CHR '' '', CHR 0x09, CHR 0x0D, CHR 0x0A}"

abbreviation squote :: char where "squote \<equiv> CHR 0x27"
abbreviation dquote :: char where "dquote \<equiv> CHR 0x22"
abbreviation backslash :: char where "backslash \<equiv> CHR 0x5C"

definition add_word :: "bool \<Rightarrow> string \<Rightarrow> string list option \<Rightarrow> string list option" where
  "add_word quoted w rest = (if quoted \<or> w \<noteq> [] then map_option (\<lambda>ws. rev w # ws) rest else rest)"

text \<open>\<open>LEscape None\<close> escapes outside quotes, \<open>LEscape (Some q)\<close> inside the quote \<open>q\<close>.\<close>

fun lex_words :: "lex_state \<Rightarrow> bool \<Rightarrow> string \<Rightarrow> string \<Rightarrow> string list option" where
  "lex_words LBlank quoted w [] = Some []"
| "lex_words LWord quoted w [] = add_word quoted w (Some [])"
| "lex_words (LQuote q) quoted w [] = None"
| "lex_words (LEscape q) quoted w [] = None"
| "lex_words LBlank quoted w (c # cs) =
     (if lex_blank c then lex_words LBlank False [] cs
      else if c = backslash then lex_words (LEscape None) False [] cs
      else if c = squote \<or> c = dquote then lex_words (LQuote c) True [] cs
      else lex_words LWord False [c] cs)"
| "lex_words LWord quoted w (c # cs) =
     (if lex_blank c then add_word quoted w (lex_words LBlank False [] cs)
      else if c = squote \<or> c = dquote then lex_words (LQuote c) True w cs
      else if c = backslash then lex_words (LEscape None) quoted w cs
      else lex_words LWord quoted (c # w) cs)"
| "lex_words (LQuote q) quoted w (c # cs) =
     (if c = q then lex_words LWord True w cs
      else if c = backslash \<and> q = dquote then lex_words (LEscape (Some q)) True w cs
      else lex_words (LQuote q) True (c # w) cs)"
| "lex_words (LEscape None) quoted w (c # cs) = lex_words LWord quoted (c # w) cs"
| "lex_words (LEscape (Some q)) quoted w (c # cs) =
     lex_words (LQuote q) quoted (if c \<noteq> backslash \<and> c \<noteq> q then c # backslash # w else c # w) cs"

definition shlex_split :: "string \<Rightarrow> string list option" where
  "shlex_split s = lex_words LBlank False [] s"

text \<open>\<open>re.compile(r'[^\\w@%+=:,./-]', re.ASCII)\<close> finds nothing.\<close>

definition shell_safe :: "char \<Rightarrow> bool" where
  "shell_safe c = (let n = of_char c :: nat in re_digit c \<or> (65 \<le> n \<and> n \<le> 90) \<or> (97 \<le> n \<and> n \<le> 122) \<or> n = 95
     \<or> c \<in> set ''@%+=:,./-'')"

definition quoted_char :: "char \<Rightarrow> string" where
  "quoted_char c = (if c = squote then [squote, dquote, squote, dquote, squote] else [c])"

definition shlex_quote :: "string \<Rightarrow> string" where
  "shlex_quote s =
     (if s = [] then [squote, squote]
      else if list_all shell_safe s then s
      else squote # concat (map quoted_char s) @ [squote])"

definition shlex_join :: "string list \<Rightarrow> string" where
  "shlex_join ws = py_join '' '' (map shlex_quote ws)"

section \<open>Quoting and splitting\<close>

lemma shell_safe_plain:
  assumes "shell_safe c"
  shows "\<not> lex_blank c \<and> c \<noteq> backslash \<and> c \<noteq> squote \<and> c \<noteq> dquote"
proof -
  have "\<not> shell_safe (CHR '' '')" "\<not> shell_safe (CHR 0x09)" "\<not> shell_safe (CHR 0x0D)" "\<not> shell_safe (CHR 0x0A)"
    "\<not> shell_safe backslash" "\<not> shell_safe squote" "\<not> shell_safe dquote"
    by (simp_all add: shell_safe_def re_digit_def)
  with assms show ?thesis by (auto simp: lex_blank_def)
qed

lemma lex_safe: "list_all shell_safe u \<Longrightarrow> lex_words LWord b w (u @ cs) = lex_words LWord b (rev u @ w) cs"
  by (induction u arbitrary: w) (auto dest: shell_safe_plain)

lemma lex_quoted_char: "lex_words (LQuote squote) True w (quoted_char c @ cs) = lex_words (LQuote squote) True (c # w) cs"
  by (simp add: quoted_char_def lex_blank_def)

lemma lex_quoted: "lex_words (LQuote squote) True w (concat (map quoted_char u) @ cs) = lex_words (LQuote squote) True (rev u @ w) cs"
  by (induction u arbitrary: w) (simp_all add: lex_quoted_char)

lemma lex_quote:
  "\<exists>b. lex_words LBlank False [] (shlex_quote u @ cs) = lex_words LWord b (rev u) cs \<and> (u = [] \<longrightarrow> b)"
proof -
  consider "u = []" | c v where "u = c # v" "list_all shell_safe u" | "u \<noteq> []" "\<not> list_all shell_safe u"
    by (cases u) auto
  then show ?thesis
  proof cases
    case 1
    then show ?thesis by (intro exI[of _ True]) (simp add: shlex_quote_def lex_blank_def)
  next
    case 2
    then have "lex_words LBlank False [] (u @ cs) = lex_words LWord False [c] (v @ cs)"
      using shell_safe_plain[of c] by simp
    with 2 lex_safe[of v False "[c]" cs] show ?thesis by (auto simp: shlex_quote_def)
  next
    case 3
    then show ?thesis using lex_quoted[of "[]" u "squote # cs"]
      by (intro exI[of _ True]) (simp add: shlex_quote_def lex_blank_def)
  qed
qed

text \<open>Words that are quoted and joined are read back as they were.\<close>

lemma shlex_split_join: "shlex_split (shlex_join ws) = Some ws"
  unfolding shlex_split_def shlex_join_def
proof (induction ws)
  case (Cons u ws)
  show ?case
  proof (cases ws)
    case Nil
    obtain b where "lex_words LBlank False [] (shlex_quote u) = lex_words LWord b (rev u) []" "u = [] \<longrightarrow> b"
      using lex_quote[of u "[]"] by auto
    with Nil show ?thesis by (auto simp: add_word_def)
  next
    case (Cons v vs)
    obtain b where b: "lex_words LBlank False [] (shlex_quote u @ '' '' @ py_join '' '' (map shlex_quote ws)) =
        lex_words LWord b (rev u) ('' '' @ py_join '' '' (map shlex_quote ws))" "u = [] \<longrightarrow> b"
      using lex_quote by blast
    with Cons Cons.IH show ?thesis by (auto simp: add_word_def lex_blank_def)
  qed
qed simp

end
