(* ===== verification/Shell_Assessment.thy ===== *)
theory Shell_Assessment
  imports Regex Shell_Words
begin

text \<open>
  The deterministic classification of shell commands: \<^verbatim>\<open>capslock/shell/parser.py\<close> and
  \<^verbatim>\<open>capslock/shell/assessment.py\<close>.  The syntax tree comes from tree-sitter, so what the parser
  answers for a command is an argument (\<open>ts_parse\<close>); the walk over the tree, the split into
  segments and the whole assessment are the code's.  The byte offsets of a node are offsets into
  the command's characters here.
\<close>

section \<open>The syntax tree\<close>

datatype ts_node = Node (n_type: string) (n_start: nat) (n_end: nat) (n_missing: bool) (n_children: "ts_node list")

text \<open>What the tree-sitter parser answers: it may be absent, raise, or give the root node and
  its \<open>has_error\<close> flag.\<close>

datatype ts_answer = NoParser | ParserRaised | Parsed ts_node bool

record ShellSegment =
  sg_argv :: "string list"
  sg_operator :: "string option"

record ShellSyntax =
  sx_commands :: "string list"
  sx_segments :: "ShellSegment list"
  sx_redirects :: "string list"
  sx_operators :: "string list"
  sx_dynamic :: "string list"
  sx_has_error :: bool
  sx_available :: bool

definition failed_syntax :: ShellSyntax where
  "failed_syntax = \<lparr>sx_commands = [], sx_segments = [], sx_redirects = [], sx_operators = [],
     sx_dynamic = [], sx_has_error = True, sx_available = True\<rparr>"

fun dynamic_node :: "string \<Rightarrow> string option" where
  "dynamic_node kind =
     (if kind = ''command_substitution'' then Some ''command substitution''
      else if kind = ''process_substitution'' then Some ''process substitution''
      else if kind = ''simple_expansion'' then Some ''parameter expansion''
      else if kind = ''expansion'' then Some ''parameter expansion''
      else if kind = ''arithmetic_expansion'' then Some ''arithmetic expansion''
      else if kind = ''heredoc_redirect'' then Some ''heredoc''
      else if kind = ''herestring_redirect'' then Some ''herestring''
      else None)"

declare dynamic_node.simps [simp del]

definition operator_nodes :: "string list" where
  "operator_nodes = [''&&'', ''||'', '';'', ''&'', ''|'', ''|&'']"

definition redirect_nodes :: "string list" where
  "redirect_nodes = [''file_redirect'', ''heredoc_redirect'', ''herestring_redirect'']"

text \<open>\<open>s[a:b]\<close> of non-negative bounds, and \<open>Path(s).name\<close>.\<close>

definition text_slice :: "string \<Rightarrow> nat \<Rightarrow> nat \<Rightarrow> string" where
  "text_slice s a b = take (b - a) (drop a s)"

definition path_name :: "string \<Rightarrow> string" where
  "path_name s = (case rev (filter (\<lambda>p. p \<noteq> [] \<and> p \<noteq> ''.'') (split_on (CHR ''/'') [] s)) of
      [] \<Rightarrow> [] | p # _ \<Rightarrow> p)"

text \<open>The lists the walk fills.\<close>

record syntax_acc =
  sa_commands :: "string list"
  sa_redirects :: "string list"
  sa_operators :: "string list"
  sa_spans :: "(nat \<times> nat \<times> string) list"
  sa_dynamic :: "string list"
  sa_error :: bool

definition visit_command :: "string \<Rightarrow> ts_node \<Rightarrow> syntax_acc \<Rightarrow> syntax_acc" where
  "visit_command s n a =
     (let v = text_slice s (n_start n) (n_end n) in
      if v \<noteq> [] \<and> \<not> list_ex (\<lambda>m. m \<in> set v) [CHR ''$'', CHR 0x60, CHR ''('']
      then a\<lparr>sa_commands := sa_commands a @ [path_name v]\<rparr>
      else a\<lparr>sa_dynamic := sa_dynamic a @ [''dynamic command name'']\<rparr>)"

definition visit :: "string \<Rightarrow> ts_node \<Rightarrow> syntax_acc \<Rightarrow> syntax_acc" where
  "visit s n a =
     (let kind = n_type n;
          a1 = (if kind = ''ERROR'' \<or> n_missing n then a\<lparr>sa_error := True\<rparr> else a);
          a2 = (if kind = ''command_name'' then visit_command s n a1 else a1);
          a3 = (if kind \<in> set redirect_nodes
                then a2\<lparr>sa_redirects := sa_redirects a2 @ [text_slice s (n_start n) (n_end n)]\<rparr> else a2);
          a4 = (case dynamic_node kind of None \<Rightarrow> a3 | Some d \<Rightarrow> a3\<lparr>sa_dynamic := sa_dynamic a3 @ [d]\<rparr>);
          a5 = (if kind = ''&'' then a4\<lparr>sa_dynamic := sa_dynamic a4 @ [''background execution'']\<rparr> else a4)
      in if kind \<in> set operator_nodes
         then a5\<lparr>sa_operators := sa_operators a5 @ [kind],
                sa_spans := sa_spans a5 @ [(n_start n, n_end n, kind)]\<rparr>
         else a5)"

text \<open>The loop over an explicit stack, whose top is the head of the list.\<close>

function walk :: "string \<Rightarrow> ts_node list \<Rightarrow> syntax_acc \<Rightarrow> syntax_acc" where
  "walk s [] a = a"
| "walk s (n # stack) a = walk s (n_children n @ stack) (visit s n a)"
  by pat_completeness auto

lemma node_smaller: "sum_list (map size (n_children n)) < size n"
  by (cases n) (simp add: size_list_conv_sum_list)

termination walk
  by (relation "measure (\<lambda>(s, st, a). sum_list (map size st))")
     (use node_smaller in auto)

section \<open>Segments\<close>

fun cut_segments ::
  "string \<Rightarrow> nat \<Rightarrow> string option \<Rightarrow> (nat \<times> nat \<times> string) list \<Rightarrow> (string \<times> string option) list" where
  "cut_segments s cursor before [] = [(strip (drop cursor s), before)]"
| "cut_segments s cursor before ((a, b, op) # spans) =
     (strip (text_slice s cursor a), before) # cut_segments s b (Some op) spans"

fun read_segments :: "(string \<times> string option) list \<Rightarrow> ShellSegment list \<times> bool" where
  "read_segments [] = ([], False)"
| "read_segments ((raw, before) # rest) =
     (let (segments, failed) = read_segments rest in
      if raw = [] then (segments, failed)
      else case shlex_split raw of
        None \<Rightarrow> (segments, True)
      | Some argv \<Rightarrow> (\<lparr>sg_argv = argv, sg_operator = before\<rparr> # segments, failed))"

definition first_of_each :: "'a list \<Rightarrow> 'a list" where
  "first_of_each xs = rev (remdups (rev xs))"

definition syntax_of :: "string \<Rightarrow> syntax_acc \<Rightarrow> ShellSyntax" where
  "syntax_of s a =
     (let (segments, failed) = read_segments (cut_segments s 0 None (sort (remdups (sa_spans a)))) in
      \<lparr>sx_commands = sa_commands a, sx_segments = segments, sx_redirects = sa_redirects a,
       sx_operators = sa_operators a, sx_dynamic = first_of_each (sa_dynamic a),
       sx_has_error = sa_error a \<or> failed, sx_available = True\<rparr>)"

definition parse_shell :: "(string \<Rightarrow> ts_answer) \<Rightarrow> string \<Rightarrow> ShellSyntax" where
  "parse_shell ts_parse command = (case ts_parse command of
      NoParser \<Rightarrow> failed_syntax\<lparr>sx_available := False\<rparr>
    | ParserRaised \<Rightarrow> failed_syntax
    | Parsed tree has_error \<Rightarrow> syntax_of command (walk command [tree]
        \<lparr>sa_commands = [], sa_redirects = [], sa_operators = [], sa_spans = [], sa_dynamic = [],
         sa_error = has_error\<rparr>))"

section \<open>The assessment\<close>

record ShellAssessment =
  sm_behavior :: string
  sm_reason :: string
  sm_parsed :: "string list"
  sm_commands :: "string list"
  sm_available :: bool
  sm_read_only :: bool

definition assessed :: "string \<Rightarrow> string \<Rightarrow> string list \<Rightarrow> string list \<Rightarrow> ShellAssessment" where
  "assessed behavior reason words commands = \<lparr>sm_behavior = behavior, sm_reason = reason,
     sm_parsed = words, sm_commands = commands, sm_available = True, sm_read_only = False\<rparr>"

definition hard_deny_words :: "string list" where
  "hard_deny_words = [''sudo'', ''su'', ''doas'', ''mount'', ''umount'', ''nsenter'', ''unshare'', ''chroot'',
     ''pivot_root'', ''modprobe'', ''insmod'', ''rmmod'', ''mkfs'', ''fdisk'', ''parted'', ''swapon'', ''swapoff'']"

definition read_only_git_commands :: "string list" where
  "read_only_git_commands = [''status'', ''diff'', ''log'', ''show'', ''rev-parse'', ''ls-files'']"

definition unsafe_git_options :: "string list" where
  "unsafe_git_options = [''--ext-diff'', ''--no-index'', ''--output'', ''--textconv'', ''--exec-path'', ''--git-dir'',
     ''--work-tree'', ''--config-env'']"

text \<open>The four patterns of \<open>assess_shell\<close> that are searched in the command's text.\<close>

definition device_re :: re where
  "device_re = seqs [Alt Bol (Cls re_space), Lit (CHR ''/''), alts [Str ''dev'', Str ''proc'', Str ''sys''],
     alts [Lit (CHR ''/''), Cls re_space, Eol]]"

definition flags_re :: "char \<Rightarrow> char \<Rightarrow> re" where
  "flags_re a b = (let word = Star (Cls (\<lambda>c. \<not> re_space c)) in
     seqs [Lit (CHR ''-''), word, Lit a, word, Lit b])"

definition delete_re :: re where
  "delete_re = seqs [WordB, Str ''rm'', Plus (Cls re_space),
     Alt (flags_re (CHR ''r'') (CHR ''f'')) (flags_re (CHR ''f'') (CHR ''r'')), Plus (Cls re_space),
     alts [Lit (CHR ''/''), Lit (CHR ''~''), seqs [Lit (CHR ''.''), Opt (Lit (CHR ''.'')), WordB], Lit (CHR ''*''),
       Str ''${'', Seq (Lit (CHR ''$'')) (Cls (\<lambda>c. let n = of_char c :: nat in
         (65 \<le> n \<and> n \<le> 90) \<or> (97 \<le> n \<and> n \<le> 122)))]]"

definition download_re :: re where
  "download_re = seqs [WordB, Alt (Str ''curl'') (Str ''wget''), WordB, Star (Cls (\<lambda>c. c \<notin> set ''|;&'')),
     Alt (Lit (CHR ''|'')) (Lit (CHR ''>'')), Star (Cls re_space), Alt (Str ''sh'') (Str ''bash''), WordB]"

definition root_mode_re :: re where
  "root_mode_re = seqs [WordB, Alt (Str ''chmod'') (Str ''chown''), WordB, Star (Cls (\<lambda>c. c \<notin> set '';&'')),
     Alt (seqs [Cls re_space, Lit (CHR ''/''), Star (Cls re_space), Eol]) (seqs [Cls re_space, Str ''/*''])]"

definition signed_count_re :: re where
  "signed_count_re = Seq (Opt (Cls (\<lambda>c. c \<in> set ''+-''))) (Plus (Cls re_digit))"

definition is_count :: "string \<Rightarrow> bool" where
  "is_count v = re_fullmatch signed_count_re v"

definition dash_count :: "string \<Rightarrow> bool" where
  "dash_count v = re_fullmatch (Seq (Lit (CHR ''-'')) (Plus (Cls re_digit))) v"

definition dash_flags :: "string \<Rightarrow> string \<Rightarrow> bool" where
  "dash_flags letters v = re_fullmatch (Seq (Lit (CHR ''-'')) (Plus (Cls (\<lambda>c. c \<in> set letters)))) v"

text \<open>\<open>value.split("=", 1)[1]\<close> of a text with an equality sign.\<close>

definition after_equals :: "string \<Rightarrow> string" where
  "after_equals v = drop 1 (dropWhile (\<lambda>c. c \<noteq> CHR ''='') v)"

definition count_option :: "string \<Rightarrow> bool" where
  "count_option v \<longleftrightarrow> v \<in> {''-n'', ''--lines'', ''-c'', ''--bytes''}"

definition inline_count :: "string \<Rightarrow> bool" where
  "inline_count v \<longleftrightarrow> (startswith v ''--lines='' \<or> startswith v ''--bytes='') \<and> is_count (after_equals v)"

text \<open>The \<open>while\<close> loop over the arguments of \<open>head\<close> and \<open>tail\<close>, from the current index on.\<close>

fun head_arguments :: "string list \<Rightarrow> bool" where
  "head_arguments [] = True"
| "head_arguments (v # vs) =
     (if dash_count v then head_arguments vs
      else if count_option v
      then (case vs of [] \<Rightarrow> False | w # ws \<Rightarrow> if is_count w then head_arguments ws else False)
      else if inline_count v then head_arguments vs
      else False)"

definition stdin_filter :: "string \<Rightarrow> string list \<Rightarrow> bool" where
  "stdin_filter command args =
     (if command \<in> {''head'', ''tail''} then head_arguments args
      else if command = ''wc''
      then list_all (\<lambda>v. dash_flags ''cmlwL'' v
             \<or> v \<in> {''--bytes'', ''--chars'', ''--lines'', ''--max-line-length'', ''--words''}) args
      else list_all (\<lambda>v. dash_flags ''cdiu'' v
             \<or> v \<in> {''--count'', ''--repeated'', ''--ignore-case'', ''--unique''}) args)"

definition unsafe_git_argument :: "string \<Rightarrow> bool" where
  "unsafe_git_argument v \<longleftrightarrow> v \<in> {''-c'', ''-C''} \<or> startswith v ''-c='' \<or> startswith v ''-C=''
     \<or> v \<in> set unsafe_git_options
     \<or> list_ex (startswith v) [''--output'', ''--ext-diff='', ''--textconv='', ''--exec-path='', ''--git-dir='',
          ''--work-tree='', ''--config-env='']"

definition read_only_git :: "string list \<Rightarrow> bool" where
  "read_only_git argv =
     (let args = drop 1 argv; rest = (if take 1 args = [''--no-pager''] then drop 1 args else args) in
      case rest of
        [] \<Rightarrow> False
      | sub # options \<Rightarrow> sub \<in> set read_only_git_commands \<and> \<not> list_ex unsafe_git_argument options)"

fun read_only_from :: "bool \<Rightarrow> ShellSegment list \<Rightarrow> bool" where
  "read_only_from first [] = True"
| "read_only_from first (segment # rest) =
     (case sg_argv segment of
        [] \<Rightarrow> False
      | command # args \<Rightarrow>
        if command = ''pwd''
        then (if args \<noteq> [] \<or> sg_operator segment = Some ''|'' then False else read_only_from False rest)
        else if command = ''git''
        then (if sg_operator segment = Some ''|'' \<or> \<not> read_only_git (command # args) then False
              else read_only_from False rest)
        else if command \<in> {''head'', ''tail'', ''wc'', ''uniq''}
        then (if first \<or> sg_operator segment \<noteq> Some ''|'' then False
              else if \<not> stdin_filter command args then False else read_only_from False rest)
        else False)"

definition read_only_segments :: "ShellSegment list \<Rightarrow> bool" where
  "read_only_segments segments = (if segments = [] then False else read_only_from True segments)"

definition assess_syntax :: "ShellSyntax \<Rightarrow> string \<Rightarrow> string list \<Rightarrow> ShellAssessment" where
  "assess_syntax syntax command words =
     (let commands = sx_commands syntax in
      if list_ex (\<lambda>w. w \<in> set hard_deny_words) (words @ commands)
      then (assessed ''deny'' ''privilege escalation or sandbox escape command is forbidden'' words commands)
             \<lparr>sm_available := sx_available syntax\<rparr>
      else if list_ex (\<lambda>w. list_ex (\<lambda>m. contains_text m w) [''/dev/'', ''/proc/'', ''/sys/'']) words
      then assessed ''deny'' ''device and kernel filesystem access is forbidden'' words []
      else if re_search root_mode_re command
      then assessed ''deny'' ''recursive ownership or mode changes at root are forbidden'' words []
      else if \<not> sx_available syntax
      then (assessed ''ask'' ''Bash parser is unavailable'' words [])\<lparr>sm_available := False\<rparr>
      else if sx_has_error syntax
      then assessed ''ask'' ''command could not be parsed reliably'' words commands
      else if sx_dynamic syntax \<noteq> []
      then assessed ''ask'' (''command contains dynamic shell syntax: '' @ py_join '', '' (sx_dynamic syntax))
             words commands
      else if sx_redirects syntax \<noteq> []
      then assessed ''ask'' ''command contains shell redirection'' words commands
      else if read_only_segments (sx_segments syntax)
      then \<lparr>sm_behavior = ''allow'',
            sm_reason = ''all command segments are in the deterministic read-only allowlist'',
            sm_parsed = words, sm_commands = commands, sm_available = sx_available syntax, sm_read_only = True\<rparr>
      else assessed ''ask'' ''command requires explicit review'' words commands)"

definition assess_shell :: "(string \<Rightarrow> ts_answer) \<Rightarrow> string \<Rightarrow> ShellAssessment" where
  "assess_shell ts_parse command =
     (if strip command = [] \<or> CHR 0x00 \<in> set command \<or> CHR 0x0A \<in> set command
      then assessed ''ask'' ''command is empty or contains unsupported control data'' [] []
      else if re_search device_re command
      then assessed ''deny'' ''device and kernel filesystem access is forbidden'' [] []
      else if re_search delete_re command
      then assessed ''deny'' ''broad recursive deletion has an unresolved or dangerous target'' [] []
      else if re_search download_re command
      then assessed ''deny'' ''downloading and directly executing code is forbidden'' [] []
      else case shlex_split command of
        None \<Rightarrow> assessed ''ask'' ''command could not be parsed reliably'' [] []
      | Some words \<Rightarrow> if words = [] then assessed ''ask'' ''command is empty'' [] []
          else assess_syntax (parse_shell ts_parse command) command words)"

section \<open>What the walk computes\<close>

fun preorder :: "ts_node \<Rightarrow> ts_node list" where
  "preorder (Node k a b m cs) = Node k a b m cs # concat (map preorder cs)"

lemma walk_preorder: "walk s stack a = fold (visit s) (concat (map preorder stack)) a"
proof -
  have step: "fold (visit s) (preorder n) b = fold (visit s) (concat (map preorder (n_children n))) (visit s n b)"
    for s n b by (cases n) simp
  show ?thesis
    by (induction s stack a rule: walk.induct) (simp_all add: step)
qed

text \<open>The parser's loop over an explicit stack visits the nodes of the syntax tree in
  preorder, each once: it computes what a recursive traversal from left to right computes.\<close>

lemma walk_is_preorder: "walk s [tree] a = fold (visit s) (preorder tree) a"
  by (simp add: walk_preorder)

definition suspicious :: "ts_node \<Rightarrow> bool" where
  "suspicious n \<longleftrightarrow> n_type n \<in> set redirect_nodes \<or> dynamic_node (n_type n) \<noteq> None \<or> n_type n = ''&''"

lemma visit_error: "sa_error (visit s n a) \<longleftrightarrow> sa_error a \<or> n_type n = ''ERROR'' \<or> n_missing n"
  by (simp add: visit_def visit_command_def Let_def split: option.splits)

lemma visit_redirects: "sa_redirects (visit s n a) = sa_redirects a @
    (if n_type n \<in> set redirect_nodes then [text_slice s (n_start n) (n_end n)] else [])"
  by (cases "n_type n = ''&''"; cases "dynamic_node (n_type n)") (simp_all add: visit_def visit_command_def Let_def)

lemma visit_dynamic: "\<exists>d. sa_dynamic (visit s n a) = sa_dynamic a @ d
    @ (case dynamic_node (n_type n) of None \<Rightarrow> [] | Some x \<Rightarrow> [x]) @ (if n_type n = ''&'' then [''background execution''] else [])"
  by (cases "n_type n = ''&''"; cases "dynamic_node (n_type n)") (simp_all add: visit_def visit_command_def Let_def)

lemma visit_empty:
  assumes "sa_dynamic (visit s n a) = []" and "sa_redirects (visit s n a) = []"
  shows "sa_dynamic a = [] \<and> sa_redirects a = [] \<and> \<not> suspicious n"
  using assms visit_dynamic[of s n a] by (auto simp: visit_redirects suspicious_def split: option.splits if_splits)

lemma fold_visit_error:
  "sa_error (fold (visit s) ns a) \<longleftrightarrow> sa_error a \<or> (\<exists>n \<in> set ns. n_type n = ''ERROR'' \<or> n_missing n)"
  by (induction ns arbitrary: a) (auto simp: visit_error)

lemma fold_visit_empty:
  assumes "sa_dynamic (fold (visit s) ns a) = []" and "sa_redirects (fold (visit s) ns a) = []"
  shows "sa_dynamic a = [] \<and> sa_redirects a = [] \<and> (\<forall>n \<in> set ns. \<not> suspicious n)"
  using assms
proof (induction ns arbitrary: a)
  case (Cons n ns)
  have "sa_dynamic (visit s n a) = [] \<and> sa_redirects (visit s n a) = [] \<and> (\<forall>n \<in> set ns. \<not> suspicious n)"
    by (rule Cons.IH) (use Cons.prems in simp_all)
  with visit_empty[of s n a] show ?case by simp
qed simp

section \<open>What an allowed command is\<close>

definition reads_only :: "bool \<Rightarrow> ShellSegment \<Rightarrow> bool" where
  "reads_only first g \<longleftrightarrow> (let piped = (sg_operator g = Some ''|'') in
     (sg_argv g = [''pwd''] \<and> \<not> piped)
     \<or> (\<exists>args. sg_argv g = ''git'' # args \<and> \<not> piped \<and> read_only_git (sg_argv g))
     \<or> (\<exists>c args. sg_argv g = c # args \<and> c \<in> {''head'', ''tail'', ''wc'', ''uniq''} \<and> \<not> first \<and> piped \<and> stdin_filter c args))"

lemma read_only_from_iff:
  "read_only_from first gs \<longleftrightarrow> (case gs of [] \<Rightarrow> True | g # rest \<Rightarrow> reads_only first g \<and> list_all (reads_only False) rest)"
proof (induction first gs rule: read_only_from.induct)
  case (2 first g rest)
  have tail: "list_all (reads_only False) rest = (case rest of [] \<Rightarrow> True | h # t \<Rightarrow> reads_only False h \<and> list_all (reads_only False) t)"
    by (cases rest) auto
  show ?case
  proof (cases "sg_argv g")
    case (Cons c args)
    then show ?thesis using 2 tail by (auto simp: reads_only_def Let_def)
  qed (simp add: reads_only_def)
qed simp

lemma read_only_segments_iff:
  "read_only_segments gs \<longleftrightarrow> (\<exists>g rest. gs = g # rest \<and> reads_only True g \<and> list_all (reads_only False) rest)"
  by (cases gs) (auto simp: read_only_segments_def read_only_from_iff)

lemma first_of_each_Nil [simp]: "first_of_each xs = [] \<longleftrightarrow> xs = []"
  by (simp add: first_of_each_def)

lemma assessed_behavior [simp]: "sm_behavior (assessed b r w c) = b"
  by (simp add: assessed_def)

lemma syntax_of_fields:
  "sx_redirects (syntax_of s a) = sa_redirects a" "sx_dynamic (syntax_of s a) = first_of_each (sa_dynamic a)"
  "\<not> sx_has_error (syntax_of s a) \<Longrightarrow> \<not> sa_error a" "sx_commands (syntax_of s a) = sa_commands a"
  by (simp_all add: syntax_of_def split: prod.splits)

lemma assess_syntax_allow:
  assumes "sm_behavior (assess_syntax syntax command words) = ''allow''"
  shows "sx_available syntax \<and> \<not> sx_has_error syntax \<and> sx_dynamic syntax = [] \<and> sx_redirects syntax = []
    \<and> read_only_segments (sx_segments syntax) \<and> (\<forall>w \<in> set words. w \<notin> set hard_deny_words)"
  using assms by (auto simp: assess_syntax_def Let_def list_ex_iff split: if_splits)

lemma assess_shell_allow:
  assumes "sm_behavior (assess_shell ts_parse command) = ''allow''"
  obtains words where "shlex_split command = Some words" and "words \<noteq> []" and "\<not> re_search device_re command"
    and "sm_behavior (assess_syntax (parse_shell ts_parse command) command words) = ''allow''"
  using assms by (simp add: assess_shell_def split: if_splits option.splits)

text \<open>C36: A shell command is allowed without review only if tree-sitter parsed it and the tree
  holds no error, no missing token, no redirection, no expansion or substitution and no background
  operator; none of its words is a privileged command; and every segment is \<open>pwd\<close>, a read-only
  \<open>git\<close> command, or, after a pipe, one of the filters that only read their input.\<close>

theorem allowed_command_is_read_only:
  assumes "sm_behavior (assess_shell ts_parse command) = ''allow''"
  shows "\<exists>tree words g rest. ts_parse command = Parsed tree False \<and> shlex_split command = Some words
    \<and> (\<forall>n \<in> set (preorder tree). n_type n \<noteq> ''ERROR'' \<and> \<not> n_missing n \<and> \<not> suspicious n)
    \<and> (\<forall>w \<in> set words. w \<notin> set hard_deny_words)
    \<and> sx_segments (parse_shell ts_parse command) = g # rest
    \<and> reads_only True g \<and> list_all (reads_only False) rest"
proof -
  obtain words where words: "shlex_split command = Some words"
    and allow: "sm_behavior (assess_syntax (parse_shell ts_parse command) command words) = ''allow''"
    using assess_shell_allow[OF assms] by metis
  define x where "x = parse_shell ts_parse command"
  have x: "sx_available x" "\<not> sx_has_error x" "sx_dynamic x = []" "sx_redirects x = []"
    "read_only_segments (sx_segments x)" "\<forall>w \<in> set words. w \<notin> set hard_deny_words"
    using assess_syntax_allow[OF allow] by (simp_all add: x_def)
  obtain tree err where tree: "ts_parse command = Parsed tree err"
    using x(1,2) by (cases "ts_parse command") (auto simp: x_def parse_shell_def failed_syntax_def)
  define a where "a = \<lparr>sa_commands = [], sa_redirects = [], sa_operators = [], sa_spans = [], sa_dynamic = [],
    sa_error = err\<rparr>"
  have xs: "x = syntax_of command (fold (visit command) (preorder tree) a)"
    by (simp add: x_def parse_shell_def tree a_def walk_preorder)
  have empty: "sa_dynamic (fold (visit command) (preorder tree) a) = []"
    "sa_redirects (fold (visit command) (preorder tree) a) = []"
    "\<not> sa_error (fold (visit command) (preorder tree) a)"
    using x(2-4) by (simp_all add: xs syntax_of_fields)
  have "\<not> err" "\<forall>n \<in> set (preorder tree). n_type n \<noteq> ''ERROR'' \<and> \<not> n_missing n"
    using empty(3) by (auto simp: fold_visit_error a_def)
  moreover have "\<forall>n \<in> set (preorder tree). \<not> suspicious n"
    using fold_visit_empty[OF empty(1,2)] by simp
  moreover obtain g rest where "sx_segments x = g # rest" "reads_only True g" "list_all (reads_only False) rest"
    using x(5) by (auto simp: read_only_segments_iff)
  ultimately show ?thesis using tree words x(6) by (auto simp: x_def)
qed

definition sample_tree :: ts_node where
  "sample_tree = Node ''program'' 0 17 False [Node ''pipeline'' 0 17 False
     [Node ''command'' 0 7 False [Node ''command_name'' 0 3 False [Node ''word'' 0 3 False []], Node ''word'' 4 7 False []],
      Node ''|'' 8 9 False [],
      Node ''command'' 10 17 False [Node ''command_name'' 10 14 False [Node ''word'' 10 14 False []], Node ''word'' 15 17 False []]]]"

theorem allowed_command_is_read_only_witness:
  "\<exists>tree words g rest. Parsed sample_tree False = Parsed tree False \<and> shlex_split ''git log | head -5'' = Some words
    \<and> (\<forall>n \<in> set (preorder tree). n_type n \<noteq> ''ERROR'' \<and> \<not> n_missing n \<and> \<not> suspicious n)
    \<and> (\<forall>w \<in> set words. w \<notin> set hard_deny_words)
    \<and> sx_segments (parse_shell (\<lambda>_. Parsed sample_tree False) ''git log | head -5'') = g # rest
    \<and> reads_only True g \<and> list_all (reads_only False) rest"
proof -
  have "sm_behavior (assess_shell (\<lambda>_. Parsed sample_tree False) ''git log | head -5'') = ''allow''"
    by code_simp
  from allowed_command_is_read_only[OF this] show ?thesis by simp
qed

end
