(* ===== verification/Actions.thy ===== *)
theory Actions
  imports Workflow_Service
begin

text \<open>
  \<^verbatim>\<open>capslock/storage/repositories/actions.py\<close>: the actions that wait for the user's approval
  (file edits, commands, network and plugin calls).  \<open>transition\<close> reads the action from the
  database \<open>seen\<close> and updates the one it finds then, \<open>d\<close>, guarded by the status it read.
\<close>

section \<open>Transitions\<close>

fun action_transitions :: "ActionStatus \<Rightarrow> ActionStatus list" where
  "action_transitions AS_PENDING = [AS_APPROVED, AS_REJECTED, AS_CANCELLED]"
| "action_transitions AS_APPROVED = [AS_RUNNING, AS_CANCELLED]"
| "action_transitions AS_RUNNING = [AS_COMPLETED, AS_FAILED, AS_CANCELLED]"
| "action_transitions _ = []"

definition action_final :: "ActionStatus \<Rightarrow> bool" where
  "action_final s \<longleftrightarrow> s \<in> {AS_COMPLETED, AS_FAILED, AS_REJECTED, AS_CANCELLED}"

text \<open>How many transitions an action can still make.\<close>

fun action_rank :: "ActionStatus \<Rightarrow> nat" where
  "action_rank AS_PENDING = 3"
| "action_rank AS_APPROVED = 2"
| "action_rank AS_RUNNING = 1"
| "action_rank _ = 0"

interpretation act: ranked_lifecycle action_transitions action_final action_rank
proof
  show "action_final s \<Longrightarrow> action_transitions s = []" for s
    by (cases s) (auto simp: action_final_def)
  show "t \<in> set (action_transitions s) \<Longrightarrow> action_rank t < action_rank s" for s t
    by (cases s) auto
qed

section \<open>Reading\<close>

definition get_action :: "string \<Rightarrow> string option \<Rightarrow> db \<Rightarrow> action_row option" where
  "get_action action_id session_id d = fetch_one
     (\<lambda>a. a_id a = action_id \<and> (session_id = None \<or> session_id = Some (a_session a))) (d_actions d)"

definition require_action :: "string \<Rightarrow> string option \<Rightarrow> db \<Rightarrow> action_row res" where
  "require_action action_id session_id d = (case get_action action_id session_id d of
      None \<Rightarrow> Inl (ValueError ''action does not belong to this session or does not exist'')
    | Some a \<Rightarrow> Inr a)"

text \<open>An optional filter: a missing or empty set of values does not restrict.\<close>

definition in_filter :: "'a list option \<Rightarrow> 'a \<Rightarrow> bool" where
  "in_filter xs x = (case xs of None \<Rightarrow> True | Some ys \<Rightarrow> ys = [] \<or> x \<in> set ys)"

definition resolve_action :: "string \<Rightarrow> string \<Rightarrow> ActionType list option \<Rightarrow> db \<Rightarrow> action_row res" where
  "resolve_action session_id pre types d =
     (if pre = [] then Inl (ValueError ''provide an action id'')
      else case take 2 (sort_key a_created_at (filter (\<lambda>a. a_session a = session_id
             \<and> (a_id a = pre \<or> sql_like (pre @ ''%'') (a_id a)) \<and> in_filter types (a_type a)) (d_actions d))) of
        [] \<Rightarrow> Inl (ValueError ''action does not belong to this session or does not exist'')
      | [a] \<Rightarrow> Inr a
      | _ \<Rightarrow> Inl (ValueError ''action id prefix is ambiguous; provide more characters''))"

definition list_actions ::
  "string \<Rightarrow> string option \<Rightarrow> ActionType list option \<Rightarrow> ActionStatus list option \<Rightarrow> db \<Rightarrow> action_row list" where
  "list_actions session_id run_id types statuses d = sort_key a_created_at (filter (\<lambda>a.
     a_session a = session_id \<and> (run_id = None \<or> run_id = Some (a_run a))
     \<and> in_filter types (a_type a) \<and> in_filter statuses (a_status a)) (d_actions d))"

section \<open>Writing\<close>

definition create_action ::
  "string \<Rightarrow> string \<Rightarrow> ActionType \<Rightarrow> string \<Rightarrow> json \<Rightarrow> string \<Rightarrow> string \<Rightarrow> db \<Rightarrow> (action_row \<times> db) res" where
  "create_action session_id run_id action_type summary request identifier created d =
     rbind (insert_action \<lparr>a_id = identifier, a_session = session_id, a_run = run_id,
         a_type = action_type, a_status = AS_PENDING, a_result_kind = None, a_summary = summary,
         a_request = request, a_result = None, a_risk_level = None, a_risk_reason = None,
         a_rollback = None, a_error_code = None, a_error_message = None, a_created_at = created,
         a_approved_at = None, a_started_at = None, a_finished_at = None, a_reversed_at = None,
         a_decided_at = None, a_historical_only = False, a_requires_reapproval = False\<rparr> d)
       (\<lambda>d'. rbind (require_action identifier (Some session_id) d') (\<lambda>a. Inr (a, d')))"

definition update_actions :: "(action_row \<Rightarrow> bool) \<Rightarrow> (action_row \<Rightarrow> action_row) \<Rightarrow> db \<Rightarrow> db" where
  "update_actions p f d = d\<lparr>d_actions := sql_update p f (d_actions d)\<rparr>"

text \<open>An \<open>UPDATE\<close> that must hit a row, and the action read back.\<close>

definition write_action ::
  "(action_row \<Rightarrow> bool) \<Rightarrow> (action_row \<Rightarrow> action_row) \<Rightarrow> string \<Rightarrow> string \<Rightarrow> db \<Rightarrow> (action_row \<times> db) res" where
  "write_action p f action_id message d =
     (if rowcount p (d_actions d) = 0 then Inl (ValueError message)
      else rbind (require_action action_id None (update_actions p f d)) (\<lambda>a. Inr (a, update_actions p f d)))"

definition set_risk ::
  "string \<Rightarrow> string \<Rightarrow> string \<Rightarrow> string \<Rightarrow> db \<Rightarrow> (action_row \<times> db) res" where
  "set_risk action_id level reason rollback d =
     write_action (\<lambda>a. a_id a = action_id)
       (\<lambda>a. a\<lparr>a_risk_level := Some level, a_risk_reason := Some reason, a_rollback := Some rollback\<rparr>)
       action_id (''action does not exist: '' @ action_id) d"

definition mark_manual_approval :: "string \<Rightarrow> db \<Rightarrow> (action_row \<times> db) res" where
  "mark_manual_approval action_id d =
     (let d' = update_actions (\<lambda>a. a_id a = action_id \<and> a_status a = AS_PENDING)
                 (\<lambda>a. a\<lparr>a_request := json_set ''_manual_approval'' (JBool True) (a_request a)\<rparr>) d
      in rbind (require_action action_id None d') (\<lambda>a. Inr (a, d')))"

text \<open>The columns \<open>transition\<close> sets.\<close>

definition moved_action ::
  "ActionStatus \<Rightarrow> json option \<Rightarrow> ActionResultKind option \<Rightarrow> string option \<Rightarrow> string option \<Rightarrow> string
   \<Rightarrow> action_row \<Rightarrow> action_row" where
  "moved_action target result result_kind error_code error_message timestamp a =
     (let b = a\<lparr>a_status := target, a_result := result, a_result_kind := result_kind,
                a_error_code := error_code, a_error_message := error_message\<rparr>
      in if target = AS_APPROVED then b\<lparr>a_approved_at := Some timestamp, a_decided_at := Some timestamp\<rparr>
         else if target = AS_RUNNING then b\<lparr>a_started_at := Some timestamp\<rparr>
         else if target \<in> {AS_REJECTED, AS_CANCELLED}
         then b\<lparr>a_finished_at := Some timestamp, a_decided_at := coalesce (a_decided_at b) (Some timestamp)\<rparr>
         else b\<lparr>a_finished_at := Some timestamp\<rparr>)"

definition transition ::
  "string \<Rightarrow> ActionStatus \<Rightarrow> json option \<Rightarrow> ActionResultKind option \<Rightarrow> string option \<Rightarrow> string option
   \<Rightarrow> string \<Rightarrow> db \<Rightarrow> db \<Rightarrow> (action_row \<times> db) res" where
  "transition action_id target result result_kind error_code error_message timestamp seen d =
     rbind (require_action action_id None seen) (\<lambda>action.
       if target \<notin> set (action_transitions (a_status action))
       then Inl (ValueError (''invalid action transition: '' @ action_status_value (a_status action)
              @ '' -> '' @ action_status_value target))
       else write_action (\<lambda>a. a_id a = action_id \<and> a_status a = a_status action)
              (moved_action target result result_kind error_code error_message timestamp)
              action_id ''action changed concurrently'' d)"

definition mark_revalidated ::
  "string \<Rightarrow> string \<Rightarrow> json \<Rightarrow> string \<Rightarrow> string \<Rightarrow> string \<Rightarrow> db \<Rightarrow> (action_row \<times> db) res" where
  "mark_revalidated action_id summary request level reason rollback d =
     write_action (\<lambda>a. a_id a = action_id \<and> a_status a = AS_PENDING \<and> \<not> a_historical_only a)
       (\<lambda>a. a\<lparr>a_summary := summary, a_request := request, a_risk_level := Some level,
             a_risk_reason := Some reason, a_rollback := Some rollback, a_requires_reapproval := False,
             a_approved_at := None, a_started_at := None, a_decided_at := None\<rparr>)
       action_id ''imported action cannot be revalidated'' d"

definition cancel_run_actions :: "string \<Rightarrow> string \<Rightarrow> string \<Rightarrow> db \<Rightarrow> nat \<times> db" where
  "cancel_run_actions run_id error_message timestamp d =
     (let p = (\<lambda>a. a_run a = run_id \<and> action_open a) in
      (rowcount p (d_actions d), update_actions p (cancel_action_row error_message timestamp) d))"

definition file_action_done :: "string \<Rightarrow> action_row \<Rightarrow> bool" where
  "file_action_done session_id a \<longleftrightarrow> a_session a = session_id
     \<and> a_type a \<in> {AT_FILE_EDIT, AT_FILE_CREATE, AT_NOTEBOOK_EDIT} \<and> a_status a = AS_COMPLETED
     \<and> a_result_kind a = Some AR_APPLIED \<and> a_reversed_at a = None \<and> \<not> a_historical_only a"

definition last_completed_file_action :: "string \<Rightarrow> db \<Rightarrow> action_row option" where
  "last_completed_file_action session_id d = last_by a_finished_at (file_action_done session_id) (d_actions d)"

definition mark_reversed :: "string \<Rightarrow> string \<Rightarrow> db \<Rightarrow> (action_row \<times> db) res" where
  "mark_reversed action_id timestamp d =
     write_action (\<lambda>a. a_id a = action_id \<and> a_status a = AS_COMPLETED \<and> a_reversed_at a = None)
       (\<lambda>a. a\<lparr>a_result_kind := Some AR_UNDONE, a_reversed_at := Some timestamp\<rparr>)
       action_id ''action cannot be reversed'' d"

section \<open>Properties\<close>

lemma require_action_None: "require_action i None d = Inr a \<longleftrightarrow> row_by a_id i (d_actions d) = Some a"
  by (simp add: require_action_def get_action_def row_by_def split: option.splits)

lemma moved_action_simps [simp]:
  "a_id (moved_action t r k c m n a) = a_id a" "a_status (moved_action t r k c m n a) = t"
  "a_run (moved_action t r k c m n a) = a_run a" "a_session (moved_action t r k c m n a) = a_session a"
  "a_type (moved_action t r k c m n a) = a_type a" "a_request (moved_action t r k c m n a) = a_request a"
  "a_result_kind (moved_action t r k c m n a) = k" "a_result (moved_action t r k c m n a) = r"
  "a_error_code (moved_action t r k c m n a) = c" "a_error_message (moved_action t r k c m n a) = m"
  "a_historical_only (moved_action t r k c m n a) = a_historical_only a"
  by (simp_all add: moved_action_def Let_def)

text \<open>Writing one action by its key.\<close>

lemma write_action_Inr:
  assumes u: "unique_by a_id (d_actions d)" and p: "\<And>x. p x \<Longrightarrow> a_id x = i"
    and f: "\<And>x. p x \<Longrightarrow> a_id (f x) = a_id x"
  shows "write_action p f i m d = Inr (a, d') \<longleftrightarrow>
    (\<exists>b. row_by a_id i (d_actions d) = Some b \<and> p b \<and> a = f b) \<and> d' = update_actions p f d"
proof (cases "row_by a_id i (d_actions d)")
  case None
  then have "\<not> p x" if "x \<in> set (d_actions d)" for x using that p by (auto simp: row_by_None)
  then have "rowcount p (d_actions d) = 0" by simp
  then show ?thesis using None by (simp add: write_action_def)
next
  case (Some b)
  have iff: "rowcount p (d_actions d) = 0 \<longleftrightarrow> \<not> p b"
  proof -
    have "p x \<longleftrightarrow> x = b \<and> p b" if x: "x \<in> set (d_actions d)" for x
      using row_by_Some[OF Some] p[of x] unique_by_eq[OF u x, of b] by auto
    moreover have "b \<in> set (d_actions d)" using row_by_Some[OF Some] by simp
    ultimately show ?thesis unfolding rowcount_0_iff by blast
  qed
  have "row_by a_id i (sql_update p f (d_actions d)) = Some (if p b then f b else b)"
    using row_by_update[of p a_id f i "d_actions d"] f Some by simp
  then have get: "require_action i None (update_actions p f d) = Inr (if p b then f b else b)"
    by (simp add: require_action_None update_actions_def)
  show ?thesis
  proof (cases "p b")
    case True
    with iff get Some show ?thesis by (auto simp: write_action_def simp del: rowcount_0_iff)
  next
    case False
    with iff Some show ?thesis by (simp add: write_action_def del: rowcount_0_iff)
  qed
qed

text \<open>An action moves only along its lifecycle.  When \<open>transition\<close> succeeds, the action still
  had the status the call had read, the target is one of the transitions of that status, and
  the number of transitions left to it, at most three, went down; every other action is as it
  was.\<close>

lemma transition_follows_lifecycle:
  assumes u: "unique_by a_id (d_actions d)"
    and eq: "transition i target result kind code msg now seen d = Inr (a, d')"
  shows "\<exists>b. row_by a_id i (d_actions d) = Some b
     \<and> map_option a_status (row_by a_id i (d_actions seen)) = Some (a_status b)
     \<and> target \<in> set (action_transitions (a_status b))
     \<and> action_rank target < action_rank (a_status b) \<and> action_rank (a_status b) \<le> 3
     \<and> a = moved_action target result kind code msg now b
     \<and> row_by a_id i (d_actions d') = Some a
     \<and> (\<forall>j. j \<noteq> i \<longrightarrow> row_by a_id j (d_actions d') = row_by a_id j (d_actions d))"
proof -
  from eq obtain c where c: "row_by a_id i (d_actions seen) = Some c"
    and t: "target \<in> set (action_transitions (a_status c))"
    and w: "write_action (\<lambda>a. a_id a = i \<and> a_status a = a_status c)
              (moved_action target result kind code msg now) i ''action changed concurrently'' d = Inr (a, d')"
    unfolding transition_def by (auto simp: require_action_None elim!: rbind_InrE split: if_splits)
  from w obtain b where b: "row_by a_id i (d_actions d) = Some b" "a_status b = a_status c"
    "a = moved_action target result kind code msg now b" "a_id b = i"
    and d': "d' = update_actions (\<lambda>a. a_id a = i \<and> a_status a = a_status c)
        (moved_action target result kind code msg now) d"
    by (subst (asm) write_action_Inr[OF u]) (auto dest: row_by_Some)
  have "row_by a_id j (d_actions d') = map_option (\<lambda>x. if a_id x = i \<and> a_status x = a_status c
      then moved_action target result kind code msg now x else x) (row_by a_id j (d_actions d))" for j
    unfolding d' by (simp add: update_actions_def row_by_update)
  moreover have "map_option (\<lambda>x. if a_id x = i \<and> a_status x = a_status c
      then moved_action target result kind code msg now x else x) (row_by a_id j (d_actions d)) =
      row_by a_id j (d_actions d)" if "j \<noteq> i" for j
    using that by (cases "row_by a_id j (d_actions d)") (auto dest: row_by_Some)
  moreover have "action_rank (a_status b) \<le> 3" by (cases "a_status b") simp_all
  moreover have "action_rank target < action_rank (a_status b)" using act.rank_lowers t b(2) by simp
  ultimately show ?thesis using b c t by (intro exI[of _ b]) simp
qed

theorem transition_follows_lifecycle_witness:
  "\<exists>a d'. transition ''a1'' AS_RUNNING None None None None ''t6'' (sample_paused_db AS_APPROVED)
        (sample_paused_db AS_APPROVED) = Inr (a, d')
     \<and> map_option a_status (row_by a_id ''a1'' (d_actions d')) = Some AS_RUNNING"
proof -
  let ?d = "sample_paused_db AS_APPROVED"
  let ?c = "transition ''a1'' AS_RUNNING None None None None ''t6'' ?d ?d"
  have "is_ok ?c" by code_simp
  then obtain a d' where c: "?c = Inr (a, d')" by (auto simp: is_ok_iff)
  have u: "unique_by a_id (d_actions ?d)" by code_simp
  from transition_follows_lifecycle[OF u c] c show ?thesis by auto
qed

text \<open>The user can undo each file change once, the newest first.  The action
  \<open>last_completed_file_action\<close> returns is an applied change that finished no earlier than any
  other one that can be undone; after \<open>mark_reversed\<close> it cannot be marked again, and what
  remains to be undone are the other changes, unaltered.\<close>

lemma undo_newest_change_once:
  assumes u: "unique_by a_id (d_actions d)" and last: "last_completed_file_action s d = Some a"
  shows "file_action_done s a \<and> (\<forall>x \<in> set (d_actions d). file_action_done s x \<longrightarrow> a_finished_at x \<le> a_finished_at a)
     \<and> (\<exists>b d'. mark_reversed (a_id a) now d = Inr (b, d') \<and> a_status b = AS_COMPLETED \<and> a_result_kind b = Some AR_UNDONE
          \<and> filter (file_action_done s) (d_actions d') = filter (\<lambda>x. file_action_done s x \<and> a_id x \<noteq> a_id a) (d_actions d)
          \<and> mark_reversed (a_id a) now' d' = Inl (ValueError ''action cannot be reversed''))"
proof -
  have a: "a \<in> set (d_actions d)" "file_action_done s a"
    "\<forall>x \<in> set (d_actions d). file_action_done s x \<longrightarrow> a_finished_at x \<le> a_finished_at a"
    using last_by_Some[OF last[unfolded last_completed_file_action_def]] by simp_all
  have row: "row_by a_id (a_id a) (d_actions d) = Some a" by (rule row_by_member[OF u a(1)])
  let ?p = "\<lambda>x. a_id x = a_id a \<and> a_status x = AS_COMPLETED \<and> a_reversed_at x = None"
  let ?f = "\<lambda>x. x\<lparr>a_result_kind := Some AR_UNDONE, a_reversed_at := Some now\<rparr>"
  let ?d = "update_actions ?p ?f d"
  have p: "?p a" using a(2) by (simp add: file_action_done_def)
  have w: "mark_reversed (a_id a) now d = Inr (?f a, ?d)"
    unfolding mark_reversed_def by (subst write_action_Inr[OF u]) (use row p in auto)
  have "a_status (?f a) = AS_COMPLETED" using p by simp
  moreover have "filter (file_action_done s) (sql_update ?p ?f t) =
      filter (\<lambda>x. file_action_done s x \<and> a_id x \<noteq> a_id a) t" for t
    by (induction t) (auto simp: sql_update_def file_action_done_def)
  moreover have "mark_reversed (a_id a) now' ?d = Inl (ValueError ''action cannot be reversed'')"
  proof -
    have "rowcount ?p (d_actions ?d) = 0"
      using sql_update_clears[of ?p ?f _ "d_actions d"] by (simp add: update_actions_def)
    then show ?thesis by (simp add: mark_reversed_def write_action_def)
  qed
  ultimately show ?thesis using a w by (auto simp: update_actions_def)
qed

definition sample_change :: "string \<Rightarrow> string \<Rightarrow> action_row" where
  "sample_change i t = (sample_action i AS_COMPLETED)\<lparr>a_type := AT_FILE_EDIT,
     a_result_kind := Some AR_APPLIED, a_finished_at := Some t\<rparr>"

theorem undo_newest_change_once_witness:
  "\<exists>a b d'. last_completed_file_action ''s1'' (sample_db\<lparr>d_actions := [sample_change ''a1'' ''t7'', sample_change ''a2'' ''t6'']\<rparr>) = Some a
     \<and> a_id a = ''a1''
     \<and> mark_reversed ''a1'' ''t8'' (sample_db\<lparr>d_actions := [sample_change ''a1'' ''t7'', sample_change ''a2'' ''t6'']\<rparr>) = Inr (b, d')
     \<and> mark_reversed ''a1'' ''t9'' d' = Inl (ValueError ''action cannot be reversed'')"
proof -
  let ?d = "sample_db\<lparr>d_actions := [sample_change ''a1'' ''t7'', sample_change ''a2'' ''t6'']\<rparr>"
  have u: "unique_by a_id (d_actions ?d)" by code_simp
  have l: "map_option a_id (last_completed_file_action ''s1'' ?d) = Some ''a1''" by code_simp
  then obtain a where a: "last_completed_file_action ''s1'' ?d = Some a" "a_id a = ''a1''" by auto
  from undo_newest_change_once[OF u a(1), of "''t8''" "''t9''"] obtain b d' where
    "mark_reversed ''a1'' ''t8'' ?d = Inr (b, d')"
    "mark_reversed ''a1'' ''t9'' d' = Inl (ValueError ''action cannot be reversed'')"
    unfolding a(2) by blast
  with a show ?thesis by (intro exI conjI)
qed

end
