(* ===== verification/Action_Flow.thy ===== *)
theory Action_Flow
  imports Actions
begin

text \<open>
  \<open>ActionCoordinator\<close> (\<^verbatim>\<open>capslock/application/action_system/core.py\<close>) and \<open>ApprovalPolicy\<close>
  (\<^verbatim>\<open>capslock/permissions.py\<close>): approving, executing, rejecting and reversing actions.  The
  handler of an action type is an object the coordinator is given, so its \<open>execute\<close>,
  \<open>revalidate\<close> and \<open>reverse\<close> are the arguments of that name here; \<open>execute\<close> may itself write to
  the database, and its error \<open>CancelledError\<close> is the cancellation of the awaiting task.
  \<open>describe e\<close> is \<open>(type(e).__name__, str(e))\<close>.  The coordinator's calls are separate
  transactions, as in \<open>Workflow_Service\<close>.
\<close>

section \<open>Approval policy\<close>

datatype PermissionMode = FULL_ACCESS | APPROVE_FOR_ME | ASK_FOR_APPROVAL

record RiskAssessment =
  ra_level :: string
  ra_reason :: string
  ra_rollback :: string

definition assess :: "ActionType \<Rightarrow> RiskAssessment" where
  "assess action =
     (if action \<in> {AT_FILE_EDIT, AT_FILE_CREATE, AT_NOTEBOOK_EDIT}
      then \<lparr>ra_level = ''high'', ra_reason = ''Modifies workspace files.'',
            ra_rollback = ''CapsLock records original content; use /undo while the file is unchanged.''\<rparr>
      else if action \<in> {AT_WORKTREE_CREATE, AT_WORKTREE_EXIT, AT_SESSION_REWIND}
      then \<lparr>ra_level = ''high'',
            ra_reason = ''Changes the active Git workspace and may create or remove a branch.'',
            ra_rollback = ''Keep preserves the worktree; removal is allowed only for this session's worktrees.''\<rparr>
      else if action = AT_COMMAND
      then \<lparr>ra_level = ''high'', ra_reason = ''Runs a local process that may execute project code.'',
            ra_rollback = ''Process groups are timeout/cancel bounded; inspect /diff for workspace changes.''\<rparr>
      else if action \<in> {AT_MCP_CONNECT, AT_MCP_CALL}
      then \<lparr>ra_level = ''high'',
            ra_reason = ''Starts an external local server or invokes a third-party tool.'',
            ra_rollback = ''The managed stdio connection is session-scoped; CapsLock cannot reverse third-party side effects.''\<rparr>
      else if action = AT_CREDENTIAL_ACCESS
      then \<lparr>ra_level = ''high'', ra_reason = ''Delivers a named secret to an approved plugin process.'',
            ra_rollback = ''Credential delivery cannot be reversed; rotate the secret if exposure is suspected.''\<rparr>
      else if action \<in> {AT_WEB_SEARCH, AT_WEB_FETCH}
      then \<lparr>ra_level = ''medium'', ra_reason = ''Sends a query or URL to an external network service.'',
            ra_rollback = ''No local mutation; results and sources remain auditable.''\<rparr>
      else \<lparr>ra_level = ''low'', ra_reason = ''Reads local/session state only.'',
            ra_rollback = ''No mutation is performed.''\<rparr>)"

definition requires_approval :: "PermissionMode \<Rightarrow> ActionType \<Rightarrow> bool" where
  "requires_approval mode action =
     (if action \<in> {AT_WORKTREE_EXIT, AT_SESSION_REWIND} then True
      else case mode of
        FULL_ACCESS \<Rightarrow> False
      | ASK_FOR_APPROVAL \<Rightarrow> True
      | APPROVE_FOR_ME \<Rightarrow> ra_level (assess action) = ''high'')"

section \<open>Executing\<close>

type_synonym handler_execute = "action_row \<Rightarrow> db \<Rightarrow> (json \<times> ActionResultKind) res \<times> db"

definition record_cancellation ::
  "string \<Rightarrow> string \<Rightarrow> stamp \<Rightarrow> db \<Rightarrow> unit res \<times> db" where
  "record_cancellation session_id action_id z d =
     and_then (require_action action_id (Some session_id) d, d) (\<lambda>action _.
       if action_final (a_status action) then (Inr (), d)
       else and_then (require_run (a_run action) None d, d) (\<lambda>run _.
         if r_status run = WI_WAITING_APPROVAL
         then and_then (commit (cancel_waiting_action session_id (a_run action) (a_id action)
                ''cancelled by user'' z d) d) (\<lambda>_ d'. (Inr (), d'))
         else and_then (commit (transition (a_id action) AS_CANCELLED None (Some AR_USER_CANCELLED)
                (Some ''cancelled'') (Some ''cancelled by user'') (t_now z) d d) d) (\<lambda>_ d'. (Inr (), d'))))"

text \<open>\<open>cleanup\<close>, then raise the cancellation again; an error of the cleanup replaces it.\<close>

definition cancel_and_raise :: "string \<Rightarrow> string \<Rightarrow> stamp \<Rightarrow> db \<Rightarrow> action_row res \<times> db" where
  "cancel_and_raise session_id action_id z d =
     and_then (record_cancellation session_id action_id z d) (\<lambda>_ d'. (Inl CancelledError, d'))"

fun result_failed :: "ActionResultKind \<Rightarrow> bool" where
  "result_failed AR_NONZERO_EXIT = True"
| "result_failed AR_TIMEOUT = True"
| "result_failed _ = False"

definition record_failure ::
  "(py_error \<Rightarrow> string \<times> string) \<Rightarrow> string \<Rightarrow> py_error \<Rightarrow> string \<Rightarrow> db \<Rightarrow> action_row res \<times> db" where
  "record_failure describe action_id e now d = commit (transition action_id AS_FAILED None
     (Some AR_EXECUTION_ERROR) (Some (fst (describe e)))
     (Some (if snd (describe e) = [] then fst (describe e) else snd (describe e))) now d d) d"

definition record_result ::
  "string \<Rightarrow> json \<Rightarrow> ActionResultKind \<Rightarrow> string \<Rightarrow> db \<Rightarrow> action_row res \<times> db" where
  "record_result action_id result kind now d =
     (let target = (if result_failed kind then AS_FAILED else AS_COMPLETED) in
      commit (transition action_id target (Some result) (Some kind)
        (if target = AS_FAILED then Some (result_kind_value kind) else None)
        (if kind = AR_TIMEOUT then Some ''command timed out''
         else if kind = AR_NONZERO_EXIT then Some ''command exited with a non-zero status'' else None)
        now d d) d)"

text \<open>\<open>interrupted\<close>: the task is cancelled while it reads the action.\<close>

definition execute_approved ::
  "(py_error \<Rightarrow> string \<times> string) \<Rightarrow> handler_execute \<Rightarrow> bool \<Rightarrow> string \<Rightarrow> string \<Rightarrow> string \<Rightarrow> stamp \<Rightarrow> db
   \<Rightarrow> action_row res \<times> db" where
  "execute_approved describe execute interrupted session_id action_id started z d =
     (if interrupted then cancel_and_raise session_id action_id z d
      else and_then (require_action action_id (Some session_id) d, d) (\<lambda>action _.
        if a_status action \<noteq> AS_APPROVED
        then (Inl (ValueError ''action requires explicit approval before execution''), d)
        else case and_then (commit (transition (a_id action) AS_RUNNING None None None None started d d) d)
                    (\<lambda>running d'. execute running d') of
            (Inl CancelledError, d') \<Rightarrow> cancel_and_raise session_id (a_id action) z d'
          | (Inl e, d') \<Rightarrow> record_failure describe (a_id action) e (t_now z) d'
          | (Inr (result, kind), d') \<Rightarrow> record_result (a_id action) result kind (t_now z) d'))"

definition approve_and_execute ::
  "(py_error \<Rightarrow> string \<times> string) \<Rightarrow> handler_execute \<Rightarrow> (action_row \<Rightarrow> (string \<times> json) res) \<Rightarrow> bool
   \<Rightarrow> string \<Rightarrow> string \<Rightarrow> string \<Rightarrow> string \<Rightarrow> stamp \<Rightarrow> db \<Rightarrow> action_row res \<times> db" where
  "approve_and_execute describe execute revalidate interrupted session_id action_id approved started z d =
     and_then (require_action action_id (Some session_id) d, d) (\<lambda>action _.
       if a_historical_only action
       then (Inl (ValueError ''historical imported actions cannot be executed''), d)
       else and_then
         (if a_status action = AS_PENDING \<and> a_requires_reapproval action
          then and_then (revalidate action, d) (\<lambda>(summary, request) _.
                 let ra = assess (a_type action) in
                 commit (mark_revalidated (a_id action) summary request (ra_level ra) (ra_reason ra)
                   (ra_rollback ra) d) d)
          else (Inr action, d))
         (\<lambda>action d1. and_then
            (if a_status action = AS_PENDING
             then commit (transition (a_id action) AS_APPROVED None None None None approved d1 d1) d1
             else (Inr action, d1))
            (\<lambda>action d2.
               if a_status action \<noteq> AS_APPROVED
               then (Inl (ValueError ''action requires approval before execution''), d2)
               else execute_approved describe execute interrupted session_id (a_id action) started z d2)))"

definition reject_action :: "string \<Rightarrow> string \<Rightarrow> string \<Rightarrow> db \<Rightarrow> action_row res \<times> db" where
  "reject_action session_id action_id now d =
     and_then (require_action action_id (Some session_id) d, d) (\<lambda>action _.
       commit (transition (a_id action) AS_REJECTED None None None None now d d) d)"

text \<open>\<open>reverse\<close> is the handler's, and may fail or write.\<close>

definition reverse_last_file_action ::
  "(action_row \<Rightarrow> db \<Rightarrow> unit res \<times> db) \<Rightarrow> string \<Rightarrow> string \<Rightarrow> db \<Rightarrow> action_row res \<times> db" where
  "reverse_last_file_action reverse session_id now d =
     (case last_completed_file_action session_id d of
        None \<Rightarrow> (Inl (ValueError ''no applied change is available to undo''), d)
      | Some action \<Rightarrow> and_then (reverse action d) (\<lambda>_ d'. commit (mark_reversed (a_id action) now d') d'))"

section \<open>Properties\<close>

text \<open>An undisturbed transition.\<close>

lemma transition_now:
  assumes u: "unique_by a_id (d_actions d)" and b: "row_by a_id i (d_actions d) = Some b"
    and t: "target \<in> set (action_transitions (a_status b))"
  obtains d' where "transition i target result kind code msg now d d = Inr (moved_action target result kind code msg now b, d')"
    and "row_by a_id i (d_actions d') = Some (moved_action target result kind code msg now b)"
    and "unique_by a_id (d_actions d')" and "d_runs d' = d_runs d"
proof -
  let ?f = "moved_action target result kind code msg now" and ?p = "\<lambda>a. a_id a = i \<and> a_status a = a_status b"
  have "transition i target result kind code msg now d d = write_action ?p ?f i ''action changed concurrently'' d"
    using b t by (simp add: transition_def require_action_None[THEN iffD2, OF b])
  also have "\<dots> = Inr (?f b, update_actions ?p ?f d)"
    by (subst write_action_Inr[OF u]) (use b row_by_Some[OF b] in auto)
  finally have eq: "transition i target result kind code msg now d d = Inr (?f b, update_actions ?p ?f d)" .
  show ?thesis
  proof (rule that[OF eq])
    show "row_by a_id i (d_actions (update_actions ?p ?f d)) = Some (?f b)"
      using b row_by_Some[OF b] by (simp add: update_actions_def row_by_update)
  qed (use u in \<open>simp_all add: update_actions_def unique_by_update\<close>)
qed

lemma commit_transition:
  assumes "unique_by a_id (d_actions d)" and "row_by a_id i (d_actions d) = Some b"
    and "target \<in> set (action_transitions (a_status b))"
  shows "\<exists>a d'. commit (transition i target result kind code msg now d d) d = (Inr a, d')
     \<and> map_option a_status (row_by a_id i (d_actions d')) = Some target"
  by (rule transition_now[OF assms, of result kind code msg now]) auto

lemma require_action_session:
  assumes u: "unique_by a_id (d_actions d)" and b: "row_by a_id i (d_actions d) = Some b" "a_session b = s"
  shows "require_action i (Some s) d = Inr b"
proof -
  have "fetch_one (\<lambda>a. a_id a = i \<and> s = a_session a) (d_actions d) = Some b"
  proof (cases "fetch_one (\<lambda>a. a_id a = i \<and> s = a_session a) (d_actions d)")
    case None
    then show ?thesis using row_by_Some[OF b(1)] b(2) by (auto simp: fetch_one_None)
  next
    case (Some x)
    then show ?thesis using fetch_one_Some[OF Some] row_by_Some[OF b(1)] unique_by_eq[OF u] by fastforce
  qed
  then show ?thesis by (simp add: require_action_def get_action_def)
qed

definition final_of :: "(json \<times> ActionResultKind) res \<Rightarrow> ActionStatus" where
  "final_of out = (case out of
      Inr (_, kind) \<Rightarrow> if result_failed kind then AS_FAILED else AS_COMPLETED
    | Inl CancelledError \<Rightarrow> AS_CANCELLED
    | Inl _ \<Rightarrow> AS_FAILED)"

text \<open>No approved action is left running.  Whatever the handler does, return a result, raise,
  or be cancelled, executing an approved action of a run that is not waiting leaves the action
  in the final status of that outcome: completed for a result, failed for a non-zero exit, a
  timeout or an exception, cancelled for a cancellation, which alone is raised again.  The
  handler is only called with the action in \<open>running\<close>.\<close>

lemma execution_settles_action:
  assumes u: "unique_by a_id (d_actions d)" and b: "row_by a_id i (d_actions d) = Some b"
    and st: "a_session b = s" "a_status b = AS_APPROVED"
    and run: "row_by r_id (a_run b) (d_runs d) = Some r" "r_status r \<noteq> WI_WAITING_APPROVAL"
    and handler: "\<And>a e. d_actions (snd (execute a e)) = d_actions e \<and> d_runs (snd (execute a e)) = d_runs e"
  shows "\<exists>running d1. a_status running = AS_RUNNING \<and> a_id running = i
     \<and> (case execute_approved describe execute False s i started z d of (out, d') \<Rightarrow>
          map_option a_status (row_by a_id i (d_actions d')) = Some (final_of (fst (execute running d1)))
          \<and> (case fst (execute running d1) of Inl CancelledError \<Rightarrow> out = Inl CancelledError | _ \<Rightarrow> is_ok out))"
proof -
  let ?m = "moved_action AS_RUNNING None None None None started b"
  obtain d1 where t1: "transition i AS_RUNNING None None None None started d d = Inr (?m, d1)"
    and b1: "row_by a_id i (d_actions d1) = Some ?m" and r1: "d_runs d1 = d_runs d"
    and u1: "unique_by a_id (d_actions d1)"
    by (rule transition_now[OF u b]) (auto simp: st(2))
  obtain out d2 where x: "execute ?m d1 = (out, d2)" by (cases "execute ?m d1")
  have d2: "d_actions d2 = d_actions d1" "d_runs d2 = d_runs d1" using handler[of ?m d1] x by simp_all
  have id: "a_id b = i" using row_by_Some[OF b] by simp
  have u2: "unique_by a_id (d_actions d2)" and b2: "row_by a_id i (d_actions d2) = Some ?m"
    using u1 b1 d2 by simp_all
  have req: "require_action (a_id b) (Some s) d = Inr b" using require_action_session[OF u b st(1)] id by simp
  have eq: "execute_approved describe execute False s i started z d =
      (case (out, d2) of (Inl CancelledError, d') \<Rightarrow> cancel_and_raise s (a_id b) z d'
          | (Inl e, d') \<Rightarrow> record_failure describe (a_id b) e (t_now z) d'
          | (Inr (result, kind), d') \<Rightarrow> record_result (a_id b) result kind (t_now z) d')"
    unfolding execute_approved_def using t1 x by (simp add: req st(2) id[symmetric])
  note eq = eq[unfolded id]
  have "case execute_approved describe execute False s i started z d of (out', d') \<Rightarrow>
          map_option a_status (row_by a_id i (d_actions d')) = Some (final_of out)
          \<and> (case out of Inl CancelledError \<Rightarrow> out' = Inl CancelledError | _ \<Rightarrow> is_ok out')"
  proof (cases out)
    case (Inr rk)
    obtain res kind where rk: "rk = (res, kind)" by (cases rk)
    define t where "t = (if result_failed kind then AS_FAILED else AS_COMPLETED)"
    have t: "t \<in> set (action_transitions (a_status ?m))" by (simp add: t_def)
    obtain a d3 where "record_result i res kind (t_now z) d2 = (Inr a, d3)"
      "map_option a_status (row_by a_id i (d_actions d3)) = Some t"
      using commit_transition[OF u2 b2 t] unfolding record_result_def Let_def t_def[symmetric] by blast
    then show ?thesis by (simp add: eq Inr rk final_of_def t_def)
  next
    case (Inl e)
    show ?thesis
    proof (cases "e = CancelledError")
      case True
      obtain a d3 where c: "commit (transition i AS_CANCELLED None (Some AR_USER_CANCELLED) (Some ''cancelled'')
          (Some ''cancelled by user'') (t_now z) d2 d2) d2 = (Inr a, d3)"
        and fin: "map_option a_status (row_by a_id i (d_actions d3)) = Some AS_CANCELLED"
        using commit_transition[OF u2 b2, of AS_CANCELLED] by fastforce
      moreover have "require_action i (Some s) d2 = Inr ?m"
        by (rule require_action_session[OF u2 b2]) (simp add: st)
      moreover have "require_run (a_run b) None d2 = Inr r"
        using run(1) d2 r1 by (simp add: require_run_def get_run_def row_by_def)
      ultimately have "cancel_and_raise s i z d2 = (Inl CancelledError, d3)"
        using run(2) id c by (simp add: cancel_and_raise_def record_cancellation_def action_final_def)
      with fin show ?thesis
        by (simp add: eq Inl True final_of_def)
    next
      case False
      obtain d3 m where "record_failure describe i e (t_now z) d2 = (Inr m, d3)"
        "map_option a_status (row_by a_id i (d_actions d3)) = Some AS_FAILED"
        using commit_transition[OF u2 b2, of AS_FAILED] unfolding record_failure_def by fastforce
      then show ?thesis using False by (cases e) (simp_all add: eq Inl final_of_def)
    qed
  qed
  then show ?thesis
    by (intro exI[of _ ?m] exI[of _ d1]) (simp add: x id)
qed

definition sample_busy_db :: db where
  "sample_busy_db = sample_db\<lparr>d_actions := [sample_action ''a1'' AS_APPROVED]\<rparr>"

theorem execution_settles_action_witness:
  "\<exists>d'. execute_approved (\<lambda>e. (''E'', [])) (\<lambda>a d. (Inl CancelledError, d)) False ''s1'' ''a1'' ''t6''
        sample_stamp sample_busy_db = (Inl CancelledError, d')
     \<and> map_option a_status (row_by a_id ''a1'' (d_actions d')) = Some AS_CANCELLED"
proof -
  let ?b = "sample_action ''a1'' AS_APPROVED" and ?r = "sample_run ''r1'' ''w1'' WI_RUNNING"
  have u: "unique_by a_id (d_actions sample_busy_db)"
    and b: "row_by a_id ''a1'' (d_actions sample_busy_db) = Some ?b"
    and st: "a_session ?b = ''s1''" "a_status ?b = AS_APPROVED"
    and run: "row_by r_id (a_run ?b) (d_runs sample_busy_db) = Some ?r" "r_status ?r \<noteq> WI_WAITING_APPROVAL"
    by code_simp+
  show ?thesis
    using execution_settles_action[OF u b st run, of "\<lambda>a d. (Inl CancelledError, d)" "\<lambda>e. (''E'', [])" "''t6''" sample_stamp]
    by (auto simp: final_of_def split: prod.splits)
qed

text \<open>C9: Actions that may not run do not run.  \<open>approve_and_execute\<close> of an action imported as
  history, or of one already rejected, cancelled, running or finished, fails, and neither calls
  the handler nor writes anything.\<close>

theorem closed_action_never_executes:
  assumes "require_action i (Some s) d = Inr a"
    and "a_historical_only a \<or> a_status a \<notin> {AS_PENDING, AS_APPROVED}"
  shows "\<exists>m. approve_and_execute describe execute revalidate interrupted s i approved started z d
     = (Inl (ValueError m), d)"
  using assms by (auto simp: approve_and_execute_def)

theorem closed_action_never_executes_witness:
  "\<exists>m. approve_and_execute (\<lambda>e. (''E'', [])) (\<lambda>a d. (Inr (JNull, AR_APPLIED), empty_db)) (\<lambda>a. Inl KeyError)
     False ''s1'' ''a1'' ''t6'' ''t7'' sample_stamp (sample_paused_db AS_REJECTED)
   = (Inl (ValueError m), sample_paused_db AS_REJECTED)"
proof -
  have "require_action ''a1'' (Some ''s1'') (sample_paused_db AS_REJECTED) = Inr (sample_action ''a1'' AS_REJECTED)"
    by code_simp
  moreover have "a_status (sample_action ''a1'' AS_REJECTED) \<notin> {AS_PENDING, AS_APPROVED}" by code_simp
  ultimately show ?thesis by (intro closed_action_never_executes) auto
qed

end
