(* ===== verification/Permission_Rules.thy ===== *)
theory Permission_Rules
  imports Shell_Assessment Action_Flow
begin

text \<open>
  Permission rules: the value objects of \<^verbatim>\<open>capslock/tooling/permission_policy/models.py\<close>, the
  selection of \<^verbatim>\<open>decision.py\<close> and the text matching of \<^verbatim>\<open>specs.py\<close> (paths, commands, hosts,
  MCP names).  Arguments and constraints are the items of a dictionary.  A \<open>url_lib\<close> holds what
  \<^verbatim>\<open>urllib.parse.urlsplit\<close> and the IDNA codec compute.
\<close>

section \<open>Rules and decisions\<close>

datatype PermissionBehavior = PB_ALLOW | PB_ASK | PB_DENY

fun behavior_value :: "PermissionBehavior \<Rightarrow> string" where
  "behavior_value PB_ALLOW = ''allow''"
| "behavior_value PB_ASK = ''ask''"
| "behavior_value PB_DENY = ''deny''"

datatype PermissionDestination = PD_SESSION | PD_LOCAL | PD_PROJECT | PD_USER

fun destination_value :: "PermissionDestination \<Rightarrow> string" where
  "destination_value PD_SESSION = ''session''"
| "destination_value PD_LOCAL = ''local''"
| "destination_value PD_PROJECT = ''project''"
| "destination_value PD_USER = ''user''"

datatype PermissionUpdateOperation = PU_ADD | PU_REMOVE

type_synonym dict = "(string \<times> json) list"

record PermissionUpdate =
  pu_operation :: PermissionUpdateOperation
  pu_destination :: PermissionDestination
  pu_allow :: PermissionBehavior
  pu_name :: string
  pu_limits :: dict
  pu_rule :: "string option"

record PermissionRule =
  ru_behavior :: PermissionBehavior
  ru_tool :: string
  ru_constraints :: dict
  ru_source :: string
  ru_id :: "string option"
  ru_version :: int
  ru_diagnostic :: "string option"

definition glob_chars :: "char list" where
  "glob_chars = ''*?[''"

definition contains_glob :: "string \<Rightarrow> bool" where
  "contains_glob s = list_ex (\<lambda>c. c \<in> set glob_chars) s"

definition exact_constraint :: "string \<times> json \<Rightarrow> bool" where
  "exact_constraint kv \<longleftrightarrow> fst kv \<notin> {''path'', ''cwd'', ''command_prefix'', ''host''}
     \<or> (case snd kv of JStr s \<Rightarrow> \<not> contains_glob s | _ \<Rightarrow> False)"

definition specificity :: "PermissionRule \<Rightarrow> nat \<times> nat \<times> nat" where
  "specificity r =
     (length (filter exact_constraint (ru_constraints r)), length (ru_constraints r),
      sum_list (map (\<lambda>kv. length (filter (\<lambda>c. c \<noteq> CHR ''*'') (py_str (snd kv)))) (ru_constraints r)))"

section \<open>Selecting a rule\<close>

definition source_priority :: "string \<Rightarrow> int" where
  "source_priority s = (if s = ''user'' then 0 else if s = ''project'' then 1
     else if s = ''local'' then 2 else if s = ''session'' then 3 else - 1)"

definition rule_key :: "PermissionRule \<Rightarrow> (nat \<times> nat \<times> nat) \<times> int \<times> string" where
  "rule_key r = (specificity r, source_priority (ru_source r), or_text (ru_id r) [])"

text \<open>\<open>max(xs, key=k)\<close>: the first of the largest.\<close>

fun max_by :: "('a \<Rightarrow> 'k::linorder) \<Rightarrow> 'a \<Rightarrow> 'a list \<Rightarrow> 'a" where
  "max_by k x [] = x"
| "max_by k x (y # ys) = (if k x < k y then max_by k y ys else max_by k x ys)"

fun select_among :: "PermissionBehavior list \<Rightarrow> PermissionRule list \<Rightarrow> PermissionRule option" where
  "select_among [] rules = None"
| "select_among (b # bs) rules = (case filter (\<lambda>r. ru_behavior r = b) rules of
      [] \<Rightarrow> select_among bs rules
    | r # rs \<Rightarrow> Some (max_by rule_key r rs))"

definition select_rule :: "PermissionRule list \<Rightarrow> PermissionRule option" where
  "select_rule rules = select_among [PB_DENY, PB_ASK, PB_ALLOW] rules"

text \<open>The fields of \<open>ResolvedToolPolicy\<close> that the permission policy reads.\<close>

record tool_policy =
  tp_destructive :: bool
  tp_external :: bool
  tp_open_world :: bool

definition default_behavior :: "PermissionMode \<Rightarrow> tool_policy \<Rightarrow> bool \<Rightarrow> bool \<Rightarrow> PermissionBehavior" where
  "default_behavior mode policy deterministic_shell_allow shell_tool =
     (if mode = APPROVE_FOR_ME \<and> shell_tool
      then (if deterministic_shell_allow then PB_ALLOW else PB_ASK)
      else if mode = FULL_ACCESS then PB_ALLOW
      else if mode = ASK_FOR_APPROVAL then PB_ASK
      else if tp_destructive policy \<or> tp_external policy \<or> tp_open_world policy then PB_ASK
      else PB_ALLOW)"

section \<open>Path patterns\<close>

definition slashes :: "string \<Rightarrow> string" where
  "slashes s = map (\<lambda>c. if c = backslash then CHR ''/'' else c) s"

definition removeprefix :: "string \<Rightarrow> string \<Rightarrow> string" where
  "removeprefix p s = (if startswith s p then drop (length p) s else s)"

definition normal_path :: "string \<Rightarrow> string" where
  "normal_path s = (let t = removeprefix ''./'' (slashes s) in if t = [] then ''.'' else t)"

definition path_parts :: "string \<Rightarrow> string list" where
  "path_parts s = filter (\<lambda>p. p \<noteq> [] \<and> p \<noteq> ''.'') (split_on (CHR ''/'') [] s)"

definition unsafe_pattern :: "string \<Rightarrow> bool" where
  "unsafe_pattern s \<longleftrightarrow> startswith s ''/'' \<or> ''..'' \<in> set (path_parts s)"

abbreviation not_slash :: re where
  "not_slash \<equiv> Cls (\<lambda>c. c \<noteq> CHR ''/'')"

fun glob_re :: "string \<Rightarrow> re list" where
  "glob_re [] = []"
| "glob_re (c # cs) =
     (if c = CHR ''*''
      then (if take 1 cs = ''*''
            then (if take 2 cs = ''*/'' then Opt (Seq (Star Dot) (Lit (CHR ''/''))) # glob_re (drop 2 cs)
                  else Star Dot # glob_re (drop 1 cs))
            else Star not_slash # glob_re cs)
      else if c = CHR ''?'' then not_slash # glob_re cs
      else Lit c # glob_re cs)"

definition path_glob_match :: "string \<Rightarrow> string \<Rightarrow> bool" where
  "path_glob_match path pattern =
     (if unsafe_pattern (normal_path pattern) then False
      else re_fullmatch (seqs (glob_re (normal_path pattern))) (normal_path path))"

section \<open>Commands\<close>

text \<open>A separator of \<open>re.split(r"\\s*(?:&&|\\|\\||;|\\|)\\s*", ...)\<close> at the head of a text, and
  what follows it.\<close>

definition operator_rest :: "string \<Rightarrow> string option" where
  "operator_rest s = (if startswith s ''&&'' \<or> startswith s ''||'' then Some (drop 2 s)
     else if startswith s '';'' \<or> startswith s ''|'' then Some (drop 1 s) else None)"

definition separator_rest :: "string \<Rightarrow> string option" where
  "separator_rest s = map_option (dropWhile py_space) (operator_rest (dropWhile py_space s))"

lemma separator_rest_shorter: "separator_rest s = Some r \<Longrightarrow> length r < length s"
proof -
  assume "separator_rest s = Some r"
  then obtain u where u: "operator_rest (dropWhile py_space s) = Some u" "r = dropWhile py_space u"
    by (auto simp: separator_rest_def)
  then have "length u < length (dropWhile py_space s)"
    by (cases "dropWhile py_space s") (auto simp: operator_rest_def startswith_def split: if_splits)
  then show ?thesis using u(2) length_dropWhile_le[of py_space u] length_dropWhile_le[of py_space s] by simp
qed

function split_segments :: "string \<Rightarrow> string \<Rightarrow> string list" where
  "split_segments w [] = [rev w]"
| "split_segments w (c # cs) = (case separator_rest (c # cs) of
      Some r \<Rightarrow> rev w # split_segments [] r
    | None \<Rightarrow> split_segments (c # w) cs)"
  by pat_completeness auto
termination by (relation "measure (length \<circ> snd)") (auto dest: separator_rest_shorter)

definition redirect_re :: re where
  "redirect_re = (let arrow = Cls (\<lambda>c. c = CHR ''<'' \<or> c = CHR ''>'') in
     Alt (Seq (Alt Bol (Cls re_digit)) arrow) (Seq arrow (Opt (Alt (Lit (CHR ''&'')) (Lit (CHR ''|''))))))"

definition shell_dynamic :: "string \<Rightarrow> bool" where
  "shell_dynamic command = list_ex (\<lambda>m. contains_text m command)
     [''$('', [CHR 0x60], ''${'', [CHR 0x0A], [CHR 0x00]]"

definition segment_words :: "string \<Rightarrow> string list option" where
  "segment_words raw = (case shlex_split raw of
      None \<Rightarrow> None
    | Some words \<Rightarrow> if words = [] \<or> list_ex (re_search redirect_re) words then None else Some words)"

fun all_some :: "'a option list \<Rightarrow> 'a list option" where
  "all_some [] = Some []"
| "all_some (None # xs) = None"
| "all_some (Some x # xs) = map_option (\<lambda>ys. x # ys) (all_some xs)"

definition shell_segments :: "string \<Rightarrow> string list option" where
  "shell_segments command = (if shell_dynamic command then None
     else map_option (map shlex_join) (all_some (map segment_words (split_segments [] command))))"

definition command_prefix_match :: "string \<Rightarrow> string \<Rightarrow> bool" where
  "command_prefix_match command pre = (case (shlex_split command, shlex_split (strip pre)) of
      (Some command_words, Some prefix_words) \<Rightarrow>
        prefix_words \<noteq> [] \<and> take (length prefix_words) command_words = prefix_words
    | _ \<Rightarrow> False)"

section \<open>Tool names, hosts and MCP identities\<close>

text \<open>\<open>fnmatch.fnmatchcase\<close> of legacy rules.  A bracket that is not closed is literal.\<close>

fun class_items :: "string \<Rightarrow> (char \<times> char) list" where
  "class_items (a # b # c # cs) = (if b = CHR ''-'' then (a, c) # class_items cs else (a, a) # class_items (b # c # cs))"
| "class_items (a # cs) = (a, a) # class_items cs"
| "class_items [] = []"

definition class_re :: "string \<Rightarrow> re" where
  "class_re body =
     (let negated = startswith body ''!''; items = class_items (if negated then drop 1 body else body);
          hit = (\<lambda>c. list_ex (\<lambda>(a, b). (of_char a :: nat) \<le> of_char c \<and> (of_char c :: nat) \<le> of_char b) items)
      in Cls (\<lambda>c. hit c \<noteq> negated))"

text \<open>The text before the closing bracket (which may not be the first character, nor the one
  after a leading \<open>!\<close>) and the text behind it.\<close>

definition class_start :: "string \<Rightarrow> nat" where
  "class_start cs = (let k = (if startswith cs ''!'' then 1 else 0)
     in if take 1 (drop k cs) = '']'' then Suc k else k)"

definition class_split :: "string \<Rightarrow> (string \<times> string) option" where
  "class_split cs = (case dropWhile (\<lambda>c. c \<noteq> CHR '']'') (drop (class_start cs) cs) of
      [] \<Rightarrow> None
    | c # rest \<Rightarrow> Some (take (length cs - Suc (length rest)) cs, rest))"

lemma class_split_shorter:
  assumes "class_split cs = Some (a, b)"
  shows "length b < length cs"
proof -
  obtain c where "dropWhile (\<lambda>c. c \<noteq> CHR '']'') (drop (class_start cs) cs) = c # b"
    using assms by (auto simp: class_split_def split: list.splits)
  then have "Suc (length b) \<le> length (drop (class_start cs) cs)"
    using length_dropWhile_le[of "\<lambda>c. c \<noteq> CHR '']''" "drop (class_start cs) cs"] by simp
  then show ?thesis by simp
qed

function fnmatch_re :: "string \<Rightarrow> re list" where
  "fnmatch_re [] = []"
| "fnmatch_re (c # cs) =
     (if c = CHR ''*'' then Star (Cls (\<lambda>_. True)) # fnmatch_re cs
      else if c = CHR ''?'' then Cls (\<lambda>_. True) # fnmatch_re cs
      else if c = CHR ''['' then (case class_split cs of
          None \<Rightarrow> Lit c # fnmatch_re cs
        | Some (body, rest) \<Rightarrow> class_re body # fnmatch_re rest)
      else Lit c # fnmatch_re cs)"
  by pat_completeness auto
termination by (relation "measure length") (auto dest: class_split_shorter)

definition fnmatchcase :: "string \<Rightarrow> string \<Rightarrow> bool" where
  "fnmatchcase name pattern = re_fullmatch (seqs (fnmatch_re pattern)) name"

definition tool_matches :: "PermissionRule \<Rightarrow> string \<Rightarrow> bool" where
  "tool_matches rule name =
     (if ru_version rule = 1 then fnmatchcase name (ru_tool rule) else name = ru_tool rule)"

record split_url =
  su_scheme :: string
  su_host :: "string option"
  su_port :: "int option res"
  su_path :: string
  su_query :: string

record url_lib =
  ul_split :: "string \<Rightarrow> split_url res"
  ul_idna :: "string \<Rightarrow> string res"

definition ascii_lower_text :: "string \<Rightarrow> string" where
  "ascii_lower_text s = map ascii_lower s"

definition host_match :: "url_lib \<Rightarrow> string \<Rightarrow> string \<Rightarrow> bool res" where
  "host_match lib host pattern = rbind (ul_idna lib pattern) (\<lambda>encoded.
     let normalized = ascii_lower_text encoded in
     if startswith normalized ''*.''
     then let suffix = drop 2 normalized in Inr (endswith host (''.'' @ suffix) \<and> host \<noteq> suffix)
     else Inr (host = normalized))"

definition url_host :: "url_lib \<Rightarrow> json \<Rightarrow> string option" where
  "url_host lib v = (case v of
      JStr s \<Rightarrow> (case ul_split lib s of
          Inl _ \<Rightarrow> None
        | Inr u \<Rightarrow> (case su_host u of
            None \<Rightarrow> None
          | Some h \<Rightarrow> if h = [] then None
              else (case ul_idna lib h of Inl _ \<Rightarrow> None | Inr e \<Rightarrow> Some (ascii_lower_text e))))
    | _ \<Rightarrow> None)"

text \<open>\<open>name.split("__", 2)\<close>.\<close>

fun split_once :: "string \<Rightarrow> string \<Rightarrow> (string \<times> string) option" where
  "split_once w (c # d # cs) = (if c = CHR ''_'' \<and> d = CHR ''_'' then Some (rev w, cs) else split_once (c # w) (d # cs))"
| "split_once w _ = None"

definition mcp_identity :: "string \<Rightarrow> string \<times> string" where
  "mcp_identity name = (case split_once [] name of
      None \<Rightarrow> ([], name)
    | Some (_, rest) \<Rightarrow> (case split_once [] rest of None \<Rightarrow> ([], name) | Some (server, tool) \<Rightarrow> (server, tool)))"

end
