(* ===== verification/Permission_Specs.thy ===== *)
theory Permission_Specs
  imports Permission_Rules
begin

text \<open>
  The permission strategies of \<^verbatim>\<open>capslock/tooling/permission_policy/specs.py\<close>: for each family of
  tools how arguments are normalised, which limits no rule can lift (\<open>hard_check\<close>), when a rule
  matches, and which rules are suggested.  \<open>workspace\<close> stands for the file system behind
  \<open>context.policy\<close>: the workspace-relative path a path resolves to, or the error it raises.
\<close>

section \<open>Dictionaries of arguments\<close>

definition dget :: "dict \<Rightarrow> string \<Rightarrow> json" where
  "dget d k = (case map_of d k of None \<Rightarrow> JNull | Some v \<Rightarrow> v)"

definition dget_or :: "dict \<Rightarrow> string \<Rightarrow> json \<Rightarrow> json" where
  "dget_or d k v = (case map_of d k of None \<Rightarrow> v | Some x \<Rightarrow> x)"

definition has_key :: "dict \<Rightarrow> string \<Rightarrow> bool" where
  "has_key d k \<longleftrightarrow> map_of d k \<noteq> None"

text \<open>Python's equality of such values: truth values are the integers 0 and 1, and the order
  of a dictionary's items does not count.  Floats are equal when their texts are.\<close>

fun json_norm :: "json \<Rightarrow> json" where
  "json_norm (JBool b) = JInt (if b then 1 else 0)"
| "json_norm (JList vs) = JList (map json_norm vs)"
| "json_norm (JObj kvs) = JObj (sort_key fst (map (\<lambda>kv. (fst kv, json_norm (snd kv))) kvs))"
| "json_norm v = v"

definition py_eq :: "json \<Rightarrow> json \<Rightarrow> bool" where
  "py_eq v w \<longleftrightarrow> json_norm v = json_norm w"

definition alternatives :: "json \<Rightarrow> json list" where
  "alternatives v = (case v of JList vs \<Rightarrow> vs | _ \<Rightarrow> [v])"

fun any_res :: "('a \<Rightarrow> bool res) \<Rightarrow> 'a list \<Rightarrow> bool res" where
  "any_res f [] = Inr False"
| "any_res f (x # xs) = rbind (f x) (\<lambda>b. if b then Inr True else any_res f xs)"

section \<open>Matching\<close>

datatype tool_spec = DefaultSpec | FileSpec | ShellSpec | WebSpec | McpSpec

definition file_tools :: "string list" where
  "file_tools = [''list_files'', ''glob_files'', ''read_file'', ''read_image'', ''search_files'', ''edit_file'',
     ''create_file'', ''write_file'', ''edit_notebook'', ''read_pdf'', ''read_notebook'', ''read_tool_artifact'']"

definition spec_for :: "string \<Rightarrow> tool_spec" where
  "spec_for name =
     (if name \<in> set file_tools then FileSpec
      else if name \<in> {''shell'', ''run_check''} then ShellSpec
      else if name \<in> {''web_search'', ''web_fetch''} then WebSpec
      else if startswith name ''mcp__'' then McpSpec
      else DefaultSpec)"

definition allowed_constraints :: "tool_spec \<Rightarrow> string list" where
  "allowed_constraints spec = (case spec of
      DefaultSpec \<Rightarrow> []
    | FileSpec \<Rightarrow> [''path'']
    | ShellSpec \<Rightarrow> [''command'', ''command_prefix'', ''cwd'', ''sandbox'', ''network'']
    | WebSpec \<Rightarrow> [''host'', ''operation'']
    | McpSpec \<Rightarrow> [''server'', ''mcp_tool''])"

definition default_matches :: "PermissionRule \<Rightarrow> string \<Rightarrow> dict \<Rightarrow> bool" where
  "default_matches rule name args \<longleftrightarrow> tool_matches rule name
     \<and> list_all (\<lambda>(k, v). py_eq (dget args k) v) (ru_constraints rule)"

definition file_matches :: "PermissionRule \<Rightarrow> string \<Rightarrow> dict \<Rightarrow> bool" where
  "file_matches rule name args =
     (if \<not> tool_matches rule name then False
      else let expected = dget (ru_constraints rule) ''path'' in
        if expected = JNull then ru_constraints rule = []
        else case dget args ''path'' of
            JStr actual \<Rightarrow> list_ex (\<lambda>p. path_glob_match actual (py_str p)) (alternatives expected)
          | _ \<Rightarrow> False)"

text \<open>The constraints of a shell rule, in the order they are tested.\<close>

definition command_ok :: "PermissionRule \<Rightarrow> string \<Rightarrow> string list option \<Rightarrow> bool" where
  "command_ok rule command segments = (case map_of (ru_constraints rule) ''command'' of
      None \<Rightarrow> True
    | Some expected \<Rightarrow> command \<in> set (map (\<lambda>v. strip (py_str v)) (alternatives expected))
        \<and> (ru_behavior rule = PB_ALLOW \<longrightarrow> (case segments of None \<Rightarrow> False | Some ss \<Rightarrow> length ss = 1)))"

definition prefix_ok :: "PermissionRule \<Rightarrow> string list option \<Rightarrow> bool" where
  "prefix_ok rule segments = (case map_of (ru_constraints rule) ''command_prefix'' of
      None \<Rightarrow> True
    | Some expected \<Rightarrow> (case segments of
          None \<Rightarrow> False
        | Some ss \<Rightarrow>
            let hit = (\<lambda>s. list_ex (\<lambda>p. command_prefix_match s (py_str p)) (alternatives expected))
            in if ru_behavior rule = PB_ALLOW then list_all hit ss else list_ex hit ss))"

definition cwd_ok :: "PermissionRule \<Rightarrow> dict \<Rightarrow> bool" where
  "cwd_ok rule args = (let cwd = dget (ru_constraints rule) ''cwd'' in
     cwd = JNull \<or> list_ex (\<lambda>p. path_glob_match (py_str (dget_or args ''cwd'' (JStr ''.''))) (py_str p)) (alternatives cwd))"

definition sandbox_ok :: "PermissionRule \<Rightarrow> dict \<Rightarrow> bool" where
  "sandbox_ok rule args = (case map_of (ru_constraints rule) ''sandbox'' of
      None \<Rightarrow> True | Some v \<Rightarrow> py_eq (dget args ''sandbox'') v)"

definition network_ok :: "PermissionRule \<Rightarrow> dict \<Rightarrow> bool res" where
  "network_ok rule args = (case map_of (ru_constraints rule) ''network'' of
      None \<Rightarrow> Inr True
    | Some allowed \<Rightarrow>
        rbind (py_list (dget_or args ''network'' (JList []))) (\<lambda>requested.
        rbind (py_list allowed) (\<lambda>allowed.
          Inr (set (map py_str requested) \<subseteq> set (map py_str allowed)))))"

definition shell_matches :: "PermissionRule \<Rightarrow> string \<Rightarrow> dict \<Rightarrow> bool res" where
  "shell_matches rule name args =
     (if \<not> tool_matches rule name then Inr False
      else let command = py_str (dget_or args ''command'' (JStr [])); segments = shell_segments command in
        if ru_behavior rule = PB_ALLOW \<and> segments = None then Inr False
        else if \<not> command_ok rule command segments then Inr False
        else if \<not> prefix_ok rule segments then Inr False
        else if \<not> cwd_ok rule args then Inr False
        else if \<not> sandbox_ok rule args then Inr False
        else network_ok rule args)"

definition web_matches :: "url_lib \<Rightarrow> PermissionRule \<Rightarrow> string \<Rightarrow> dict \<Rightarrow> bool res" where
  "web_matches lib rule name args =
     (if \<not> tool_matches rule name then Inr False
      else let operation = dget (ru_constraints rule) ''operation''; host = dget (ru_constraints rule) ''host'' in
        if operation \<noteq> JNull \<and> \<not> py_eq operation (JStr name) then Inr False
        else if host = JNull then Inr (list_all (\<lambda>kv. fst kv = ''operation'') (ru_constraints rule))
        else case url_host lib (dget args ''url'') of
            None \<Rightarrow> Inr False
          | Some actual \<Rightarrow> any_res (\<lambda>p. host_match lib actual (py_str p)) (alternatives host))"

definition mcp_matches :: "PermissionRule \<Rightarrow> string \<Rightarrow> bool" where
  "mcp_matches rule name =
     (if \<not> tool_matches rule name then False
      else let (server, mcp_tool) = mcp_identity name in
        py_eq (dget_or (ru_constraints rule) ''server'' (JStr server)) (JStr server)
        \<and> py_eq (dget_or (ru_constraints rule) ''mcp_tool'' (JStr mcp_tool)) (JStr mcp_tool))"

definition rule_matches :: "url_lib \<Rightarrow> PermissionRule \<Rightarrow> string \<Rightarrow> dict \<Rightarrow> bool res" where
  "rule_matches lib rule name args = (case spec_for name of
      DefaultSpec \<Rightarrow> Inr (default_matches rule name args)
    | FileSpec \<Rightarrow> Inr (file_matches rule name args)
    | ShellSpec \<Rightarrow> shell_matches rule name args
    | WebSpec \<Rightarrow> web_matches lib rule name args
    | McpSpec \<Rightarrow> Inr (mcp_matches rule name))"

section \<open>Normalising arguments\<close>

record workspace =
  wp_resolve :: "string \<Rightarrow> string res"
  wp_directory :: "string \<Rightarrow> string res"
  wp_eval_network :: bool

definition normalize_file :: "workspace \<Rightarrow> dict \<Rightarrow> dict res" where
  "normalize_file w args = (case dget args ''path'' of
      JStr path \<Rightarrow> rbind (wp_resolve w path) (\<lambda>p. Inr (set_field ''path'' (JStr (if p = [] then ''.'' else p)) args))
    | _ \<Rightarrow> Inr args)"

text \<open>\<open>sorted(set(values))\<close> of a list of texts (the tool's schema admits no other value).\<close>

definition sorted_texts :: "json list \<Rightarrow> json res" where
  "sorted_texts vs = (if list_all is_str vs then Inr (JList (map JStr (sort (remdups (map text_of vs)))))
     else Inl TypeError)"

definition normalize_shell :: "workspace \<Rightarrow> string \<Rightarrow> dict \<Rightarrow> dict res" where
  "normalize_shell w name args =
     (let a1 = (case dget args ''command'' of JStr c \<Rightarrow> set_field ''command'' (JStr (strip c)) args | _ \<Rightarrow> args) in
      rbind (case dget_or a1 ''cwd'' (JStr ''.'') of
          JStr cwd \<Rightarrow> rbind (wp_directory w cwd) (\<lambda>p. Inr (set_field ''cwd'' (JStr (if p = [] then ''.'' else p)) a1))
        | _ \<Rightarrow> Inr a1) (\<lambda>a2.
      let a3 = set_field ''sandbox'' (dget_or a2 ''sandbox'' (JStr ''default'')) a2 in
      rbind (py_list (dget_or a3 ''network'' (JList []))) (\<lambda>network.
      rbind (sorted_texts network) (\<lambda>sorted.
        Inr (set_field ''network'' (if name = ''shell'' \<and> wp_eval_network w then JList [JStr ''*''] else sorted) a3)))))"

definition canonical_url :: "url_lib \<Rightarrow> split_url \<Rightarrow> string res" where
  "canonical_url lib u =
     (let scheme = ascii_lower_text (su_scheme u) in
      case su_host u of
        None \<Rightarrow> Inl (ValueError ''web URL must use public HTTP or HTTPS'')
      | Some hostname \<Rightarrow>
          if scheme \<notin> {''http'', ''https''} \<or> hostname = []
          then Inl (ValueError ''web URL must use public HTTP or HTTPS'')
          else rbind (ul_idna lib hostname) (\<lambda>encoded. rbind (su_port u) (\<lambda>port.
            let host = ascii_lower_text encoded;
                default_port = (if scheme = ''http'' then 80 else 443);
                netloc = (case port of None \<Rightarrow> host
                  | Some p \<Rightarrow> if p = default_port then host else host @ '':'' @ py_int_str p);
                path = (if su_path u = [] then ''/'' else su_path u)
            in Inr (scheme @ ''://'' @ netloc @ (if startswith path ''/'' then path else CHR ''/'' # path)
                 @ (if su_query u = [] then [] else CHR ''?'' # su_query u)))))"

definition normalize_web :: "url_lib \<Rightarrow> dict \<Rightarrow> dict res" where
  "normalize_web lib args = (case dget args ''url'' of
      JStr url \<Rightarrow> rbind (ul_split lib url) (\<lambda>u. rbind (canonical_url lib u) (\<lambda>c. Inr (set_field ''url'' (JStr c) args)))
    | _ \<Rightarrow> Inr args)"

definition normalize_call :: "workspace \<Rightarrow> url_lib \<Rightarrow> string \<Rightarrow> dict \<Rightarrow> dict res" where
  "normalize_call w lib name args = (case spec_for name of
      FileSpec \<Rightarrow> normalize_file w args
    | ShellSpec \<Rightarrow> normalize_shell w name args
    | WebSpec \<Rightarrow> normalize_web lib args
    | _ \<Rightarrow> Inr args)"

section \<open>Limits that no rule lifts\<close>

type_synonym verdict = "PermissionBehavior \<times> string \<times> string"

definition hard_check_file :: "workspace \<Rightarrow> (py_error \<Rightarrow> string \<times> string) \<Rightarrow> dict \<Rightarrow> verdict option" where
  "hard_check_file w describe args = (case dget args ''path'' of
      JStr path \<Rightarrow> (case wp_resolve w path of
          Inl e \<Rightarrow> Some (PB_DENY, ''workspace_boundary'', snd (describe e)) | Inr _ \<Rightarrow> None)
    | _ \<Rightarrow> None)"

definition hard_check_shell :: "tool_policy \<Rightarrow> dict \<Rightarrow> verdict option" where
  "hard_check_shell policy args =
     (if tp_destructive policy
      then Some (PB_DENY, ''dangerous_shell_command'', ''deterministic shell analysis rejected the command'')
      else if \<not> py_eq (dget args ''sandbox'') (JStr ''default'')
      then Some (PB_DENY, ''host_execution_forbidden'',
             ''host shell execution is outside the automatic permission boundary'')
      else if dget_or args ''network'' (JList []) \<notin> {JList [], JList [JStr ''*'']}
      then Some (PB_DENY, ''unenforceable_network_scope'',
             ''the sandbox can enforce only no network or unrestricted network'')
      else if \<not> is_str (dget args ''command'') \<or> dget args ''command'' = JStr []
      then Some (PB_ASK, ''shell_unparseable'', ''shell command is empty'')
      else if dget args ''background'' = JBool True
      then Some (PB_ASK, ''background_process_confirmation'',
             ''background processes require an explicit approval'')
      else None)"

definition hard_check ::
  "workspace \<Rightarrow> (py_error \<Rightarrow> string \<times> string) \<Rightarrow> string \<Rightarrow> tool_policy \<Rightarrow> dict \<Rightarrow> verdict option" where
  "hard_check w describe name policy args = (case spec_for name of
      FileSpec \<Rightarrow> hard_check_file w describe args
    | ShellSpec \<Rightarrow> hard_check_shell policy args
    | _ \<Rightarrow> None)"

section \<open>Suggested rules\<close>

definition allow_suggestions :: "string \<Rightarrow> dict \<Rightarrow> PermissionUpdate list" where
  "allow_suggestions tool constraints = map (\<lambda>destination. \<lparr>pu_operation = PU_ADD,
     pu_destination = destination, pu_allow = PB_ALLOW, pu_name = tool, pu_limits = constraints,
     pu_rule = None\<rparr>) [PD_SESSION, PD_LOCAL]"

definition suggest_updates :: "url_lib \<Rightarrow> string \<Rightarrow> dict \<Rightarrow> PermissionUpdate list res" where
  "suggest_updates lib name args = (case spec_for name of
      DefaultSpec \<Rightarrow> Inr (allow_suggestions name [])
    | FileSpec \<Rightarrow> Inr (allow_suggestions name
        (case dget args ''path'' of JStr p \<Rightarrow> [(''path'', JStr p)] | _ \<Rightarrow> []))
    | ShellSpec \<Rightarrow> rbind (py_list (dget_or args ''network'' (JList []))) (\<lambda>network.
        Inr (allow_suggestions name
          [(''command'', dget_or args ''command'' (JStr [])), (''cwd'', dget_or args ''cwd'' (JStr ''.'')),
           (''sandbox'', dget_or args ''sandbox'' (JStr ''default'')), (''network'', JList network)]))
    | WebSpec \<Rightarrow> Inr (allow_suggestions name ((''operation'', JStr name) #
        (case url_host lib (dget args ''url'') of None \<Rightarrow> [] | Some h \<Rightarrow> [(''host'', JStr h)])))
    | McpSpec \<Rightarrow> (let (server, mcp_tool) = mcp_identity name in
        Inr (allow_suggestions name [(''server'', JStr server), (''mcp_tool'', JStr mcp_tool)])))"

end
