(* ===== verification/Permission_Engine.thy ===== *)
theory Permission_Engine
  imports Permission_Specs Journal_Permissions
begin

text \<open>
  The permission engine (\<^verbatim>\<open>capslock/tooling/permission_policy/engine.py\<close>): the rules of the
  permission files and of the session, the decision on a call, and the updates of rules.
  \<open>permission_file\<close> is what the engine reads of one configured file: the parsed document or the
  error of reading it, and the digest of its bytes.  \<open>sha\<close> is \<open>hashlib.sha256(...).hexdigest()\<close>
  of a text's UTF-8 bytes.
\<close>

section \<open>Digests\<close>

text \<open>\<open>json.dumps(v, sort_keys=True)\<close> with the two separators and the string writer as
  arguments.\<close>

fun dumps_sorted :: "string \<Rightarrow> string \<Rightarrow> (string \<Rightarrow> string) \<Rightarrow> json \<Rightarrow> string" where
  "dumps_sorted item key text (JStr s) = text s"
| "dumps_sorted item key text (JList vs) = ''['' @ py_join item (map (dumps_sorted item key text) vs) @ '']''"
| "dumps_sorted item key text (JObj kvs) = ''{'' @ py_join item
     (map (\<lambda>kt. text (fst kt) @ key @ snd kt)
       (sort_key fst (map (\<lambda>kv. (fst kv, dumps_sorted item key text (snd kv))) kvs))) @ ''}''"
| "dumps_sorted item key text v = json_dumps v"

text \<open>String escapes of \<open>json.dumps\<close> with \<open>ensure_ascii=True\<close>.\<close>

definition json_ascii_char :: "char \<Rightarrow> string" where
  "json_ascii_char c = (if 127 < (of_char c :: nat) then char_of (92::nat) # ''u00'' @ hex_byte c
     else json_escape_char c)"

definition json_ascii :: "string \<Rightarrow> string" where
  "json_ascii s = [char_of (34::nat)] @ concat (map json_ascii_char s) @ [char_of (34::nat)]"

definition permission_arguments_digest :: "(string \<Rightarrow> string) \<Rightarrow> dict \<Rightarrow> string" where
  "permission_arguments_digest sha args =
     sha (dumps_sorted '','' '':'' json_string (JObj (filter (\<lambda>kv. \<not> startswith (fst kv) ''_permission_'') args)))"

definition rule_digest :: "(string \<Rightarrow> string) \<Rightarrow> string \<Rightarrow> string \<Rightarrow> dict \<Rightarrow> string \<Rightarrow> string" where
  "rule_digest sha behavior tool constraints source =
     ''rule_'' @ take 20 (sha (dumps_sorted '', '' '': '' json_ascii
       (JList [JStr behavior, JStr tool, JObj constraints, JStr source])))"

section \<open>Reading rules\<close>

definition parse_behavior :: "string \<Rightarrow> PermissionBehavior option" where
  "parse_behavior s = (if s = ''allow'' then Some PB_ALLOW else if s = ''ask'' then Some PB_ASK
     else if s = ''deny'' then Some PB_DENY else None)"

definition legacy_constraints :: "int \<Rightarrow> string \<Rightarrow> dict \<Rightarrow> dict" where
  "legacy_constraints version tool constraints =
     (if version = 1 \<and> startswith tool ''mcp__'' \<and> has_key constraints ''tool''
      then set_field ''mcp_tool'' (dget constraints ''tool'') (filter (\<lambda>kv. fst kv \<noteq> ''tool'') constraints)
      else constraints)"

definition parse_rule :: "(string \<Rightarrow> string) \<Rightarrow> dict \<Rightarrow> string \<Rightarrow> int \<Rightarrow> PermissionRule res" where
  "parse_rule sha raw source version =
     (case (map_option (parse_behavior \<circ> py_str) (map_of raw ''behavior''), map_of raw ''tool'') of
        (Some (Some behavior), Some t) \<Rightarrow>
          (case dget_or raw ''constraints'' (dget_or raw ''constraint'' (JObj [])) of
             JObj given \<Rightarrow>
               (let tool = py_str t; constraints = legacy_constraints version tool given in
                Inr \<lparr>ru_behavior = behavior, ru_tool = tool, ru_constraints = constraints, ru_source = source,
                     ru_id = Some (if dget raw ''id'' \<noteq> JNull then py_str (dget raw ''id'')
                       else rule_digest sha (behavior_value behavior) tool constraints source),
                     ru_version = version, ru_diagnostic = None\<rparr>)
           | _ \<Rightarrow> Inl (ValueError (''permission constraint must be a table in '' @ source)))
      | _ \<Rightarrow> Inl (ValueError (''invalid '' @ source @ '' permission rule'')))"

definition check_path_value :: "string \<Rightarrow> json \<Rightarrow> unit res" where
  "check_path_value key v =
     (let text = slashes (py_str v) in
      if CHR 0x00 \<in> set text \<or> unsafe_pattern text
      then Inl (ValueError (''unsafe '' @ key @ '' constraint''))
      else if CHR ''['' \<in> set text \<or> CHR '']'' \<in> set text
      then Inl (ValueError (''unsupported or invalid '' @ key @ '' glob; use *, **, or ?''))
      else Inr ())"

fun each_ok :: "('a \<Rightarrow> unit res) \<Rightarrow> 'a list \<Rightarrow> unit res" where
  "each_ok f [] = Inr ()"
| "each_ok f (x # xs) = rbind (f x) (\<lambda>_. each_ok f xs)"

definition check_paths :: "string \<Rightarrow> dict \<Rightarrow> unit res" where
  "check_paths key constraints = (case map_of constraints key of
      None \<Rightarrow> Inr ()
    | Some v \<Rightarrow> each_ok (check_path_value key) (alternatives v))"

text \<open>\<open>any(item not in {"*"} for item in value)\<close>: a list or a dictionary is not hashable.\<close>

fun check_network_items :: "json list \<Rightarrow> unit res" where
  "check_network_items [] = Inr ()"
| "check_network_items (v # vs) =
     (if \<not> hashable v then Inl TypeError
      else if v = JStr ''*'' then check_network_items vs
      else Inl (ValueError ''network constraint must be [] or ['*']''))"

definition check_network :: "dict \<Rightarrow> unit res" where
  "check_network constraints = (case map_of constraints ''network'' of
      None \<Rightarrow> Inr ()
    | Some (JList vs) \<Rightarrow> check_network_items vs
    | Some _ \<Rightarrow> Inl (ValueError ''network constraint must be [] or ['*']''))"

definition unknown_constraints :: "PermissionRule \<Rightarrow> string list" where
  "unknown_constraints rule = sort (remdups (filter (\<lambda>k. k \<notin> set (allowed_constraints (spec_for (ru_tool rule))))
     (map fst (ru_constraints rule))))"

definition validate_rule :: "PermissionRule \<Rightarrow> unit res" where
  "validate_rule rule =
     (if ru_tool rule = [] \<or> CHR 0x00 \<in> set (ru_tool rule)
      then Inl (ValueError ''tool name must be non-empty and contain no NUL'')
      else if ru_version rule = 2 \<and> contains_glob (ru_tool rule)
      then Inl (ValueError ''v2 tool names must be exact'')
      else if unknown_constraints rule \<noteq> []
      then Inl (ValueError (''unknown constraints for '' @ ru_tool rule @ '': ''
             @ py_repr (JList (map JStr (unknown_constraints rule)))))
      else rbind (check_paths ''path'' (ru_constraints rule)) (\<lambda>_.
           rbind (check_paths ''cwd'' (ru_constraints rule)) (\<lambda>_.
           rbind (check_network (ru_constraints rule)) (\<lambda>_.
             if has_key (ru_constraints rule) ''command'' \<and> has_key (ru_constraints rule) ''command_prefix''
             then Inl (ValueError ''command and command_prefix are mutually exclusive'') else Inr ()))))"

definition old_allow_is_ambiguous :: "PermissionRule \<Rightarrow> bool" where
  "old_allow_is_ambiguous rule \<longleftrightarrow> contains_glob (ru_tool rule)
     \<or> list_ex (\<lambda>(k, v). k \<noteq> ''network'' \<and> list_ex (\<lambda>x. contains_glob (py_str x)) (alternatives v)) (ru_constraints rule)"

definition rules_overlap :: "PermissionRule \<Rightarrow> PermissionRule \<Rightarrow> bool" where
  "rules_overlap blocker allowed \<longleftrightarrow>
     (ru_tool blocker = ru_tool allowed \<or> ru_version blocker = 1 \<and> ru_tool blocker = ''*'')
     \<and> (ru_constraints blocker = [] \<or> py_eq (JObj (ru_constraints blocker)) (JObj (ru_constraints allowed)))"

section \<open>The rules of a file\<close>

datatype file_content = FileMissing | FileUnreadable string | FileDocument dict

record permission_file =
  pf_source :: string
  pf_path :: string
  pf_content :: file_content
  pf_digest :: string

definition ask_everything :: "string \<Rightarrow> string option \<Rightarrow> PermissionRule" where
  "ask_everything source diagnostic = \<lparr>ru_behavior = PB_ASK, ru_tool = ''*'', ru_constraints = [],
     ru_source = source, ru_id = None, ru_version = 1, ru_diagnostic = diagnostic\<rparr>"

definition document_version :: "dict \<Rightarrow> int option" where
  "document_version document = (case dget_or document ''permissions_version'' (JInt 1) of
      JInt i \<Rightarrow> if i \<in> {1, 2} then Some i else None
    | JBool b \<Rightarrow> if b then Some 1 else None
    | _ \<Rightarrow> None)"

definition read_rule :: "(string \<Rightarrow> string) \<Rightarrow> dict \<Rightarrow> string \<Rightarrow> int \<Rightarrow> PermissionRule res" where
  "read_rule sha raw source version =
     rbind (parse_rule sha raw source version) (\<lambda>rule. rbind (validate_rule rule) (\<lambda>_. Inr rule))"

definition downgrade_legacy :: "string \<Rightarrow> nat \<Rightarrow> int \<Rightarrow> PermissionRule \<Rightarrow> PermissionRule \<times> string list" where
  "downgrade_legacy path index version rule =
     (if version = 1 \<and> ru_behavior rule = PB_ALLOW \<and> old_allow_is_ambiguous rule
      then let message = ''legacy allow rule '' @ or_text (ru_id rule) (py_int_str (int index + 1)) @ '' in ''
                 @ path @ '' was downgraded to ask''
        in (rule\<lparr>ru_behavior := PB_ASK, ru_version := 1, ru_diagnostic := Some message\<rparr>, [message])
      else (rule, []))"

definition rule_entry ::
  "(string \<Rightarrow> string) \<Rightarrow> string \<Rightarrow> string \<Rightarrow> int \<Rightarrow> nat \<Rightarrow> json \<Rightarrow> (PermissionRule \<times> string list) res" where
  "rule_entry sha source path version index raw =
     (let number = py_int_str (int index + 1);
          broken = ask_everything source (Some ''invalid rule; all automatic grants are disabled'') in
      case raw of
        JObj r \<Rightarrow> (case read_rule sha r source version of
            Inr rule \<Rightarrow> Inr (downgrade_legacy path index version rule)
          | Inl (ValueError e) \<Rightarrow> Inr (broken, [''invalid rule '' @ number @ '' in '' @ path @ '': '' @ e])
          | Inl e \<Rightarrow> Inl e)
      | _ \<Rightarrow> Inr (broken, [''invalid rule '' @ number @ '' in '' @ path]))"

fun all_res :: "('a \<Rightarrow> 'b res) \<Rightarrow> 'a list \<Rightarrow> 'b list res" where
  "all_res f [] = Inr []"
| "all_res f (x # xs) = rbind (f x) (\<lambda>y. rbind (all_res f xs) (\<lambda>ys. Inr (y # ys)))"

type_synonym rules_read = "(PermissionRule \<times> string list) list"

definition document_rules :: "(string \<Rightarrow> string) \<Rightarrow> string \<Rightarrow> string \<Rightarrow> dict \<Rightarrow> rules_read res" where
  "document_rules sha source path document = (case document_version document of
      None \<Rightarrow> Inr [(ask_everything source None, [''unsupported permissions version in '' @ path @ '': ''
          @ py_str (dget_or document ''permissions_version'' (JInt 1))])]
    | Some version \<Rightarrow> (case dget_or document ''rules'' (dget_or document ''rule'' (JList [])) of
          JList raws \<Rightarrow> all_res (\<lambda>(index, raw). rule_entry sha source path version index raw) (enumerate 0 raws)
        | _ \<Rightarrow> Inr [(ask_everything source None, [''permissions rules must be an array in '' @ path])]))"

definition rules_of_file :: "(string \<Rightarrow> string) \<Rightarrow> permission_file \<Rightarrow> rules_read res" where
  "rules_of_file sha f = (case pf_content f of
      FileMissing \<Rightarrow> Inr []
    | FileUnreadable e \<Rightarrow> Inr [(ask_everything (pf_source f)
          (Some ''invalid permission file; all automatic grants are disabled''),
          [''invalid '' @ pf_source f @ '' permissions file '' @ pf_path f @ '': '' @ e])]
    | FileDocument document \<Rightarrow> document_rules sha (pf_source f) (pf_path f) document)"

definition file_rules :: "(string \<Rightarrow> string) \<Rightarrow> permission_file list \<Rightarrow> rules_read res" where
  "file_rules sha files = rbind (all_res (rules_of_file sha) files) (\<lambda>rs. Inr (concat rs))"

section \<open>All rules, with diagnostics\<close>

definition session_rule :: "(string \<Rightarrow> string) \<Rightarrow> rule_row \<Rightarrow> PermissionRule res" where
  "session_rule sha r = parse_rule sha
     [(''id'', JStr (pu_id r)), (''behavior'', JStr (pu_behavior r)), (''tool'', JStr (pu_tool r)),
      (''constraints'', pu_constraints r), (''source'', JStr ''session''),
      (''matcher_version'', JInt (pu_matcher_version r))] ''session'' 2"

definition shown_id :: "PermissionRule \<Rightarrow> string" where
  "shown_id rule = or_text (ru_id rule) ''-''"

definition rule_signature :: "PermissionRule \<Rightarrow> string \<times> string \<times> string" where
  "rule_signature rule = (behavior_value (ru_behavior rule), ru_tool rule,
     dumps_sorted '', '' '': '' json_ascii (JObj (ru_constraints rule)))"

fun duplicate_diagnostics :: "PermissionRule list \<Rightarrow> PermissionRule list \<Rightarrow> string list" where
  "duplicate_diagnostics seen [] = []"
| "duplicate_diagnostics seen (rule # rules) =
     (case find (\<lambda>r. rule_signature r = rule_signature rule) seen of
        Some previous \<Rightarrow> (''duplicate permission rules '' @ shown_id previous @ '' and '' @ shown_id rule)
          # duplicate_diagnostics seen rules
      | None \<Rightarrow> duplicate_diagnostics (seen @ [rule]) rules)"

definition shadow_diagnostics :: "PermissionRule list \<Rightarrow> string list" where
  "shadow_diagnostics rules = concat (map (\<lambda>rule.
     if ru_behavior rule \<noteq> PB_ALLOW then []
     else case find (\<lambda>c. ru_behavior c \<in> {PB_DENY, PB_ASK} \<and> rules_overlap c rule) rules of
        None \<Rightarrow> []
      | Some blocker \<Rightarrow> [''allow rule '' @ shown_id rule @ '' is shadowed by ''
          @ behavior_value (ru_behavior blocker) @ '' rule '' @ shown_id blocker]) rules)"

text \<open>\<open>dict(self.paths).get(name)\<close>: the last of two files with one source.\<close>

definition file_of :: "string \<Rightarrow> permission_file list \<Rightarrow> permission_file option" where
  "file_of name files = find (\<lambda>f. pf_source f = name) (rev files)"

definition project_digest :: "permission_file list \<Rightarrow> string option" where
  "project_digest files = (case file_of ''project'' files of
      None \<Rightarrow> None | Some f \<Rightarrow> if pf_content f = FileMissing then None else Some (pf_digest f))"

definition project_allow_is_trusted :: "permission_file list \<Rightarrow> db \<Rightarrow> bool" where
  "project_allow_is_trusted files d = (case project_digest files of
      None \<Rightarrow> False | Some digest \<Rightarrow> permission_setting ''project_permissions_sha256'' d = Some digest)"

definition trust_project_permissions :: "permission_file list \<Rightarrow> db \<Rightarrow> (string \<times> db) res" where
  "trust_project_permissions files d = (case project_digest files of
      None \<Rightarrow> Inl (ValueError ''project permissions file does not exist'')
    | Some digest \<Rightarrow> Inr (digest, set_permission_setting ''project_permissions_sha256'' digest d))"

definition all_rules :: "(string \<Rightarrow> string) \<Rightarrow> permission_file list \<Rightarrow> string \<Rightarrow> db
    \<Rightarrow> (PermissionRule list \<times> string list) res" where
  "all_rules sha files session_id d =
     rbind (file_rules sha files) (\<lambda>read.
     rbind (all_res (session_rule sha) (session_permission_rules session_id d)) (\<lambda>session.
       let rules = map fst read @ session in
       Inr (rules, concat (map snd read) @ duplicate_diagnostics [] rules @ shadow_diagnostics rules
         @ (if list_ex (\<lambda>r. ru_source r = ''project'' \<and> ru_behavior r = PB_ALLOW) rules
               \<and> \<not> project_allow_is_trusted files d
            then [''project allow rules are inactive until the current permissions file digest is trusted'']
            else []))))"

section \<open>Which rules match a call\<close>

text \<open>\<open>resolve_agent_operation\<close> of \<^verbatim>\<open>capslock/tooling/tools/collaboration.py\<close>.\<close>

definition is_in :: "json \<Rightarrow> string list \<Rightarrow> bool res" where
  "is_in v texts = (if hashable v then Inr (v \<in> JStr ` set texts) else Inl TypeError)"

definition agent_target_ok :: "string \<Rightarrow> dict \<Rightarrow> unit res" where
  "agent_target_ok name args =
     rbind (is_in (dget args ''target_type'') (if name = ''stop_agent'' then [''task'', ''agent''] else [''task'', ''agent'', ''team'']))
       (\<lambda>known. check (known \<and> is_str (dget args ''target_id'') \<and> dget args ''target_id'' \<noteq> JStr [])
          ''an explicit target_type and nonempty target_id are required'')"

definition task_message :: "dict \<Rightarrow> json \<Rightarrow> json \<Rightarrow> (string \<times> dict) res" where
  "task_message args target_id payload =
     rbind (is_in (dget args ''kind'') [''instruction'', ''response'', ''cancel'']) (\<lambda>known.
       if \<not> known then Inl (ValueError ''task messages require kind instruction, response, or cancel'')
       else Inr (''send_agent_message'', [(''task_id'', target_id), (''kind'', dget args ''kind''), (''payload'', payload)]
         @ (if has_key args ''reply_to_message_id''
            then [(''reply_to_message_id'', dget args ''reply_to_message_id'')] else [])))"

definition agent_message :: "dict \<Rightarrow> (string \<times> dict) res" where
  "agent_message args =
     (let target_type = dget args ''target_type''; target_id = dget args ''target_id'' in
      case map_of args ''payload'' of
        None \<Rightarrow> Inl KeyError
      | Some payload \<Rightarrow>
          if target_type = JStr ''team'' \<and> dget args ''broadcast'' \<noteq> JBool True
          then Inl (ValueError ''team messages require explicit broadcast=true'')
          else if target_type \<noteq> JStr ''team'' \<and> dget_or args ''broadcast'' (JBool False) \<noteq> JBool False
          then Inl (ValueError ''broadcast=true is permitted only for team messages'')
          else if target_type = JStr ''task'' then task_message args target_id payload
          else if has_key args ''kind'' then Inl (ValueError ''kind is permitted only for task messages'')
          else if target_type = JStr ''agent''
          then Inr (''send_team_message'', [(''recipient_agent_id'', target_id), (''payload'', payload)])
          else Inr (''send_team_message'', [(''team_id'', target_id), (''broadcast'', JBool True), (''payload'', payload)]))"

definition resolve_agent_operation :: "string \<Rightarrow> dict \<Rightarrow> (string \<times> dict) res" where
  "resolve_agent_operation name args =
     (if name \<notin> {''stop_agent'', ''send_agent_message''} then Inr (name, args)
      else if name = ''stop_agent'' \<and> has_key args ''agent_id''
      then (if list_ex (\<lambda>kv. fst kv \<noteq> ''agent_id'') args
            then Inl (ValueError ''legacy and explicit Agent target arguments cannot be combined'')
            else Inr (name, args))
      else rbind (agent_target_ok name args) (\<lambda>_.
        if name = ''stop_agent''
        then (if dget args ''target_type'' = JStr ''task''
              then Inr (''stop_agent_task'', [(''task_id'', dget args ''target_id'')])
              else Inr (''stop_agent'', [(''agent_id'', dget args ''target_id'')]))
        else agent_message args))"

definition related_names :: "string \<Rightarrow> string \<Rightarrow> dict \<Rightarrow> string list" where
  "related_names operation name args =
     (if operation \<noteq> name then [name] else [])
     @ (if name = ''write_file'' \<and> dget args ''expected_sha256'' = JNull then [''create_file''] else [])
     @ (if name = ''list_tasks'' \<and> dget args ''task_id'' \<noteq> JNull then [''get_task''] else [])"

text \<open>\<open>[r for r in rules if f(r)]\<close> where the test may raise.\<close>

fun filter_res :: "('a \<Rightarrow> bool res) \<Rightarrow> 'a list \<Rightarrow> 'a list res" where
  "filter_res f [] = Inr []"
| "filter_res f (x # xs) = rbind (f x) (\<lambda>b. rbind (filter_res f xs) (\<lambda>ys. Inr (if b then x # ys else ys)))"

definition rule_norm :: "PermissionRule \<Rightarrow> PermissionRule" where
  "rule_norm rule = rule\<lparr>ru_constraints :=
     (case json_norm (JObj (ru_constraints rule)) of JObj kvs \<Rightarrow> kvs | _ \<Rightarrow> [])\<rparr>"

definition restriction_matches :: "url_lib \<Rightarrow> string \<Rightarrow> dict \<Rightarrow> PermissionRule list \<Rightarrow> PermissionRule \<Rightarrow> bool res" where
  "restriction_matches lib name args matching rule =
     (if ru_behavior rule = PB_ALLOW then Inr False
      else rbind (rule_matches lib rule name args) (\<lambda>b. Inr (b \<and> rule_norm rule \<notin> rule_norm ` set matching)))"

text \<open>\<open>matching.extend\<close> of a generator: each test sees what was added before it.\<close>

fun add_restrictions :: "url_lib \<Rightarrow> string \<Rightarrow> dict \<Rightarrow> PermissionRule list \<Rightarrow> PermissionRule list \<Rightarrow> PermissionRule list res" where
  "add_restrictions lib name args matching [] = Inr matching"
| "add_restrictions lib name args matching (rule # rules) =
     rbind (restriction_matches lib name args matching rule) (\<lambda>b.
       add_restrictions lib name args (if b then matching @ [rule] else matching) rules)"

fun with_related :: "url_lib \<Rightarrow> dict \<Rightarrow> PermissionRule list \<Rightarrow> string list \<Rightarrow> PermissionRule list \<Rightarrow> PermissionRule list res" where
  "with_related lib args rules [] matching = Inr matching"
| "with_related lib args rules (name # names) matching =
     rbind (add_restrictions lib name args matching rules) (with_related lib args rules names)"

definition matching_rules :: "url_lib \<Rightarrow> PermissionRule list \<Rightarrow> string \<Rightarrow> dict \<Rightarrow> PermissionRule list res" where
  "matching_rules lib rules name args =
     rbind (resolve_agent_operation name args) (\<lambda>(operation, routed).
     rbind (filter_res (\<lambda>rule. rule_matches lib rule operation routed) rules) (\<lambda>matching.
       with_related lib args rules (related_names operation name args) matching))"

section \<open>The decision\<close>

record PermissionDecision =
  de_behavior :: PermissionBehavior
  de_source :: string
  de_reason :: string
  de_reason_code :: string
  de_mode :: PermissionMode
  de_rule :: "PermissionRule option"
  de_digest :: string
  de_suggestions :: "PermissionUpdate list"
  de_decided_by :: string

record perm_context =
  cx_session :: string
  cx_run :: string
  cx_invocation :: "string option"
  cx_mode :: PermissionMode
  cx_shell_behavior :: json

record perm_env =
  en_files :: "permission_file list"
  en_workspace :: workspace
  en_url :: url_lib
  en_sha :: "string \<Rightarrow> string"
  en_ts :: "string \<Rightarrow> ts_answer"
  en_describe :: "py_error \<Rightarrow> string \<times> string"

fun mode_value :: "PermissionMode \<Rightarrow> string" where
  "mode_value FULL_ACCESS = ''full_access''"
| "mode_value APPROVE_FOR_ME = ''approve_for_me''"
| "mode_value ASK_FOR_APPROVAL = ''ask_for_approval''"

definition decision ::
  "perm_context \<Rightarrow> PermissionBehavior \<Rightarrow> string \<Rightarrow> string \<Rightarrow> string \<Rightarrow> PermissionRule option \<Rightarrow> string \<Rightarrow> string
   \<Rightarrow> PermissionDecision" where
  "decision cx behavior source reason code rule digest by = \<lparr>de_behavior = behavior, de_source = source,
     de_reason = reason, de_reason_code = code, de_mode = cx_mode cx, de_rule = rule, de_digest = digest,
     de_suggestions = [], de_decided_by = by\<rparr>"

definition no_deny :: "PermissionRule list \<Rightarrow> bool" where
  "no_deny matching \<longleftrightarrow> \<not> list_ex (\<lambda>r. ru_behavior r = PB_DENY) matching"

definition take_grant :: "perm_context \<Rightarrow> string \<Rightarrow> string \<Rightarrow> string \<Rightarrow> PermissionRule list \<Rightarrow> db \<Rightarrow> bool \<times> db" where
  "take_grant cx name digest now matching d = (case cx_invocation cx of
      None \<Rightarrow> (False, d)
    | Some i \<Rightarrow> if no_deny matching \<and> i \<noteq> []
        then consume_permission_grant (cx_session cx) (cx_run cx) i name digest now d else (False, d))"

definition rule_decision :: "perm_env \<Rightarrow> perm_context \<Rightarrow> string \<Rightarrow> db \<Rightarrow> PermissionRule \<Rightarrow> PermissionDecision" where
  "rule_decision en cx digest d selected =
     (if ru_behavior selected = PB_ALLOW \<and> ru_source selected = ''project''
         \<and> \<not> project_allow_is_trusted (en_files en) d
      then decision cx PB_ASK ''project'' ''project allow rule requires trust for the current file digest''
             ''project_allow_untrusted'' (Some selected) digest ''trust_boundary''
      else decision cx (ru_behavior selected) (ru_source selected)
             (''matched '' @ ru_source selected @ '' permission rule for '' @ ru_tool selected)
             (''explicit_'' @ behavior_value (ru_behavior selected)) (Some selected) digest ''rule'')"

definition deterministic_shell_allow :: "perm_env \<Rightarrow> perm_context \<Rightarrow> string \<Rightarrow> dict \<Rightarrow> bool" where
  "deterministic_shell_allow en cx name args \<longleftrightarrow>
     cx_mode cx = APPROVE_FOR_ME \<and> name = ''shell'' \<and> cx_shell_behavior cx = JStr ''allow''
     \<and> sm_behavior (assess_shell (en_ts en) (py_str (dget_or args ''command'' (JStr [])))) = ''allow''
     \<and> dget args ''sandbox'' = JStr ''default'' \<and> dget args ''network'' = JList []
     \<and> dget_or args ''background'' (JBool False) = JBool False"

definition mode_decision ::
  "perm_env \<Rightarrow> perm_context \<Rightarrow> string \<Rightarrow> dict \<Rightarrow> tool_policy \<Rightarrow> string \<Rightarrow> PermissionDecision res" where
  "mode_decision en cx name args policy digest =
     (let default = default_behavior (cx_mode cx) policy (deterministic_shell_allow en cx name args) (name = ''shell'');
          base = decision cx default ''permission_mode''
            (''defaulted from permission mode '' @ mode_value (cx_mode cx)) ''mode_default'' None digest ''mode'' in
      rbind (resolve_agent_operation name args) (\<lambda>(operation, routed).
        if default = PB_ASK
        then rbind (suggest_updates (en_url en) operation routed) (\<lambda>s. Inr (base\<lparr>de_suggestions := s\<rparr>))
        else Inr base))"

definition decide_with ::
  "perm_env \<Rightarrow> perm_context \<Rightarrow> string \<Rightarrow> dict \<Rightarrow> tool_policy \<Rightarrow> string \<Rightarrow> string \<Rightarrow> PermissionRule list \<Rightarrow> db
   \<Rightarrow> (PermissionDecision \<times> db) res" where
  "decide_with en cx name args policy digest now matching d =
     (case take_grant cx name digest now matching d of
        (True, d') \<Rightarrow> Inr (decision cx PB_ALLOW ''one_time_grant''
            ''consumed a one-time approval bound to this invocation and input'' ''one_time_grant'' None digest ''user'', d')
      | (False, d') \<Rightarrow> (case select_rule matching of
            Some selected \<Rightarrow> Inr (rule_decision en cx digest d' selected, d')
          | None \<Rightarrow> rbind (mode_decision en cx name args policy digest) (\<lambda>x. Inr (x, d'))))"

definition decide ::
  "perm_env \<Rightarrow> perm_context \<Rightarrow> string \<Rightarrow> dict \<Rightarrow> tool_policy \<Rightarrow> string \<Rightarrow> db \<Rightarrow> (PermissionDecision \<times> db) res" where
  "decide en cx name args policy now d =
     rbind (normalize_call (en_workspace en) (en_url en) name args) (\<lambda>normalized.
       let digest = permission_arguments_digest (en_sha en) normalized in
       case hard_check (en_workspace en) (en_describe en) name policy normalized of
         Some (behavior, code, reason) \<Rightarrow>
           Inr (decision cx behavior ''safety_boundary'' reason code None digest ''safety'', d)
       | None \<Rightarrow>
           rbind (all_rules (en_sha en) (en_files en) (cx_session cx) d) (\<lambda>(rules, _).
           rbind (matching_rules (en_url en) rules name normalized) (\<lambda>matching.
             decide_with en cx name normalized policy digest now matching d)))"

section \<open>Asking about and changing rules\<close>

definition has_explicit_restriction :: "perm_env \<Rightarrow> string \<Rightarrow> string \<Rightarrow> dict \<Rightarrow> db \<Rightarrow> bool res" where
  "has_explicit_restriction en session_id name args d =
     rbind (normalize_call (en_workspace en) (en_url en) name args) (\<lambda>normalized.
     rbind (all_rules (en_sha en) (en_files en) session_id d) (\<lambda>(rules, _).
       any_res (\<lambda>rule. if ru_behavior rule \<in> {PB_ASK, PB_DENY} then rule_matches (en_url en) rule name normalized
         else Inr False) rules))"

definition verify_explicit_allow :: "perm_env \<Rightarrow> string \<Rightarrow> string \<Rightarrow> dict \<Rightarrow> db \<Rightarrow> bool res" where
  "verify_explicit_allow en session_id name args d =
     rbind (all_rules (en_sha en) (en_files en) session_id d) (\<lambda>(rules, _).
     rbind (matching_rules (en_url en) rules name args) (\<lambda>matching.
       Inr (if list_ex (\<lambda>r. ru_behavior r = PB_DENY) matching then False
            else if list_ex (\<lambda>r. ru_behavior r = PB_ASK) matching then False
            else list_ex (\<lambda>r. ru_behavior r = PB_ALLOW) matching)))"

definition updated_rule :: "PermissionUpdate \<Rightarrow> PermissionRule" where
  "updated_rule u = \<lparr>ru_behavior = pu_allow u, ru_tool = pu_name u, ru_constraints = pu_limits u,
     ru_source = destination_value (pu_destination u), ru_id = None, ru_version = 2, ru_diagnostic = None\<rparr>"

text \<open>\<open>_persist_file_update\<close> on the parsed document; writing it back is the caller's.\<close>

definition rule_table :: "string \<Rightarrow> PermissionUpdate \<Rightarrow> json" where
  "rule_table rule_id u = JObj ([(''id'', JStr rule_id), (''behavior'', JStr (behavior_value (pu_allow u))),
     (''tool'', JStr (pu_name u))] @ (if pu_limits u = [] then [] else [(''constraints'', JObj (pu_limits u))]))"

definition item_id :: "json \<Rightarrow> string res" where
  "item_id v = (case v of JObj kvs \<Rightarrow> Inr (py_str (dget_or kvs ''id'' (JStr []))) | _ \<Rightarrow> Inl AttributeError)"

definition file_update :: "PermissionUpdate \<Rightarrow> string \<Rightarrow> dict option \<Rightarrow> (string \<times> dict) res" where
  "file_update u uuid content =
     (let rule_id = or_text (pu_rule u) (''rule_'' @ uuid);
          document = set_field ''permissions_version'' (JInt 2) (case content of None \<Rightarrow> [] | Some doc \<Rightarrow> doc);
          rules = (case dget document ''rules'' of JList vs \<Rightarrow> vs | _ \<Rightarrow> []) in
      if pu_operation u = PU_REMOVE \<and> content = None then Inl (ValueError ''permission rule does not exist'')
      else if pu_operation u = PU_REMOVE
      then rbind (filter_res (\<lambda>v. rbind (item_id v) (\<lambda>i. Inr (i \<noteq> rule_id))) rules) (\<lambda>remaining.
             if length remaining = length rules then Inl (ValueError ''permission rule does not exist'')
             else Inr (rule_id, set_field ''rules'' (JList remaining) document))
      else Inr (rule_id, set_field ''rules'' (JList (rules @ [rule_table rule_id u])) document))"

text \<open>The file of a destination: its path, whether it is a symbolic link, its document.\<close>

record rule_file =
  rf_source :: string
  rf_path :: string
  rf_symlink :: bool
  rf_content :: "dict option res"

definition update_file :: "rule_file list \<Rightarrow> PermissionUpdate \<Rightarrow> string \<Rightarrow> (string \<times> dict) res" where
  "update_file files u uuid = (case find (\<lambda>f. rf_source f = destination_value (pu_destination u)) (rev files) of
      None \<Rightarrow> Inl (ValueError (''permission destination is unavailable: '' @ destination_value (pu_destination u)))
    | Some f \<Rightarrow> if rf_symlink f
        then Inl (ValueError (''permissions file must not be a symlink: '' @ rf_path f))
        else rbind (rf_content f) (file_update u uuid))"

datatype update_result = InDatabase string db | InFile string dict

definition apply_update ::
  "rule_file list \<Rightarrow> string \<Rightarrow> PermissionUpdate \<Rightarrow> string \<Rightarrow> string \<Rightarrow> db \<Rightarrow> update_result res" where
  "apply_update files session_id u uuid now d =
     rbind (if pu_operation u = PU_ADD then validate_rule (updated_rule u) else Inr ()) (\<lambda>_.
       if pu_destination u \<noteq> PD_SESSION
       then rbind (update_file files u uuid) (\<lambda>(i, doc). Inr (InFile i doc))
       else if pu_operation u = PU_REMOVE
       then (case pu_rule u of
           None \<Rightarrow> Inl (ValueError ''session rule removal is unavailable'')
         | Some i \<Rightarrow> if i = [] then Inl (ValueError ''session rule removal is unavailable'')
             else rbind (remove_session_permission_rule session_id i d) (\<lambda>d'. Inr (InDatabase i d')))
       else rbind (add_session_permission_rule session_id (behavior_value (pu_allow u)) (pu_name u)
           (JObj (pu_limits u)) 2 uuid now d) (\<lambda>(i, d'). Inr (InDatabase i d')))"

end
