(* ===== verification/Permission_Safety.thy ===== *)
theory Permission_Safety
  imports Permission_Engine
begin

text \<open>
  What the permission engine guarantees: which rule explains a decision, when a call is allowed,
  that an unusable permission file grants nothing, what shell and path rules cover, and that an
  added rule is read back.
\<close>

section \<open>The selected rule\<close>

fun severity :: "PermissionBehavior \<Rightarrow> nat" where
  "severity PB_ALLOW = 0"
| "severity PB_ASK = 1"
| "severity PB_DENY = 2"

lemma max_by_max: "max_by k x ys \<in> set (x # ys) \<and> (\<forall>y \<in> set (x # ys). k y \<le> k (max_by k x ys))"
proof (induction ys arbitrary: x)
  case (Cons y ys)
  show ?case
  proof (cases "k x < k y")
    case True
    then show ?thesis using Cons.IH[of y] by (auto intro: order_trans[OF less_imp_le])
  next
    case False
    then show ?thesis using Cons.IH[of x] by (auto intro: order_trans)
  qed
qed simp

lemma select_among_Some:
  assumes "select_among bs rules = Some r"
  obtains us b vs where "bs = us @ b # vs" and "\<forall>q \<in> set rules. ru_behavior q \<notin> set us"
    and "r \<in> set rules" and "ru_behavior r = b"
    and "\<forall>q \<in> set rules. ru_behavior q = b \<longrightarrow> rule_key q \<le> rule_key r"
  using assms
proof (induction bs arbitrary: thesis)
  case (Cons b bs)
  show ?case
  proof (cases "filter (\<lambda>q. ru_behavior q = b) rules")
    case Nil
    then have none: "\<forall>q \<in> set rules. ru_behavior q \<noteq> b" by (simp add: filter_empty_conv)
    from Cons.prems(2) Nil have "select_among bs rules = Some r" by simp
    then obtain us c vs where "bs = us @ c # vs" "\<forall>q \<in> set rules. ru_behavior q \<notin> set us" "r \<in> set rules"
      "ru_behavior r = c" "\<forall>q \<in> set rules. ru_behavior q = c \<longrightarrow> rule_key q \<le> rule_key r"
      using Cons.IH by blast
    then show thesis using none by (intro Cons.prems(1)[of "b # us" c vs]) auto
  next
    case (Cons x xs)
    then have r: "r = max_by rule_key x xs" using Cons.prems(2) by simp
    have mem: "set (x # xs) = {q \<in> set rules. ru_behavior q = b}" using Cons by (metis set_filter)
    show thesis using max_by_max[of rule_key x xs] mem
      by (intro Cons.prems(1)[of "[]" b bs]) (auto simp: r)
  qed
qed simp

lemma select_among_None: "select_among bs rules = None \<longleftrightarrow> (\<forall>r \<in> set rules. ru_behavior r \<notin> set bs)"
proof (induction bs)
  case (Cons b bs)
  have "select_among (b # bs) rules = None \<longleftrightarrow> filter (\<lambda>r. ru_behavior r = b) rules = [] \<and> select_among bs rules = None"
    by (simp split: list.split)
  then show ?case using Cons.IH by (auto simp: filter_empty_conv)
qed simp

lemma select_rule_None [simp]: "select_rule rules = None \<longleftrightarrow> rules = []"
proof -
  have "ru_behavior r \<in> set [PB_DENY, PB_ASK, PB_ALLOW]" for r by (cases "ru_behavior r") auto
  then show ?thesis by (cases rules) (auto simp: select_rule_def select_among_None simp del: select_among.simps)
qed

lemma select_rule_strictest:
  assumes "select_rule rules = Some r"
  shows "r \<in> set rules" and "q \<in> set rules \<Longrightarrow> severity (ru_behavior q) \<le> severity (ru_behavior r)"
    and "q \<in> set rules \<Longrightarrow> ru_behavior q = ru_behavior r \<Longrightarrow> rule_key q \<le> rule_key r"
proof -
  obtain us b vs where bs: "[PB_DENY, PB_ASK, PB_ALLOW] = us @ b # vs" and us: "\<forall>q \<in> set rules. ru_behavior q \<notin> set us"
    and r: "r \<in> set rules" "ru_behavior r = b" "\<forall>q \<in> set rules. ru_behavior q = b \<longrightarrow> rule_key q \<le> rule_key r"
    using select_among_Some[OF assms[unfolded select_rule_def]] .
  show "r \<in> set rules" by fact
  show "rule_key q \<le> rule_key r" if "q \<in> set rules" "ru_behavior q = ru_behavior r" using r that by simp
  show "severity (ru_behavior q) \<le> severity (ru_behavior r)" if q: "q \<in> set rules"
  proof -
    have "ru_behavior q \<notin> set us" using us q by blast
    then show ?thesis using bs r(2) by (cases us; cases "tl us"; cases "ru_behavior q") auto
  qed
qed

section \<open>When a call is allowed\<close>

lemma decideE:
  assumes "decide en cx name args policy now d = Inr (x, d')"
  obtains (hard) normalized v where "normalize_call (en_workspace en) (en_url en) name args = Inr normalized"
      and "hard_check (en_workspace en) (en_describe en) name policy normalized = Some v" and "d' = d"
      and "de_behavior x = fst v" and "de_source x = ''safety_boundary''"
  | (rules) normalized rules diagnostics matching where
      "normalize_call (en_workspace en) (en_url en) name args = Inr normalized"
      and "hard_check (en_workspace en) (en_describe en) name policy normalized = None"
      and "all_rules (en_sha en) (en_files en) (cx_session cx) d = Inr (rules, diagnostics)"
      and "matching_rules (en_url en) rules name normalized = Inr matching"
      and "decide_with en cx name normalized policy (permission_arguments_digest (en_sha en) normalized) now matching d
        = Inr (x, d')"
proof -
  obtain normalized where n: "normalize_call (en_workspace en) (en_url en) name args = Inr normalized"
    using assms by (auto simp: decide_def elim: rbind_InrE)
  show thesis
  proof (cases "hard_check (en_workspace en) (en_describe en) name policy normalized")
    case None
    then show thesis using assms n rules by (auto simp: decide_def Let_def elim!: rbind_InrE)
  next
    case (Some v)
    then show thesis using assms n hard by (auto simp: decide_def Let_def decision_def split: prod.splits)
  qed
qed

lemma hard_check_never_allows: "hard_check w describe name policy args = Some v \<Longrightarrow> fst v \<noteq> PB_ALLOW"
  by (auto simp: hard_check_def hard_check_file_def hard_check_shell_def split: tool_spec.splits json.splits sum.splits if_splits)

lemma take_grant_denied: "\<not> no_deny matching \<Longrightarrow> take_grant cx name digest now matching d = (False, d)"
  by (simp add: take_grant_def split: option.split)

lemma take_grant_True:
  assumes "take_grant cx name digest now matching d = (True, d')"
  shows "no_deny matching \<and> (\<exists>i. cx_invocation cx = Some i
    \<and> consume_permission_grant (cx_session cx) (cx_run cx) i name digest now d = (True, d'))"
  using assms by (auto simp: take_grant_def split: option.splits if_splits)

lemma take_grant_False: "take_grant cx name digest now matching d = (False, d') \<Longrightarrow> d' = d"
proof -
  have "d' = d" if "consume_permission_grant s r i name digest now d = (False, d')" for s r i
  proof (cases "fetch_one (grant_covers s r i name digest) (d_grants d)")
    case None
    then show ?thesis using that by (simp add: consume_permission_grant_def)
  next
    case (Some g)
    then have "\<not> rowcount (\<lambda>r. g_id r = g_id g \<and> g_consumed_at r = None) (d_grants d) = 0"
      using fetch_one_Some[OF Some] by (auto simp: grant_covers_def)
    then show ?thesis using that Some by (simp add: consume_permission_grant_def Let_def del: rowcount_0_iff)
  qed
  then show "take_grant cx name digest now matching d = (False, d') \<Longrightarrow> d' = d"
    by (auto simp: take_grant_def split: option.splits if_splits)
qed

lemma decide_withE:
  assumes "decide_with en cx name args policy digest now matching d = Inr (x, d')"
  obtains (grant) "take_grant cx name digest now matching d = (True, d')" and "de_behavior x = PB_ALLOW"
      and "de_source x = ''one_time_grant''"
  | (rule) selected where "select_rule matching = Some selected" and "x = rule_decision en cx digest d selected" and "d' = d"
  | (mode) "matching = []" and "mode_decision en cx name args policy digest = Inr x" and "d' = d"
proof (cases "take_grant cx name digest now matching d")
  case (Pair b e)
  show thesis
  proof (cases b)
    case True
    then have "e = d'" "de_behavior x = PB_ALLOW" "de_source x = ''one_time_grant''"
      using Pair assms by (auto simp: decide_with_def decision_def)
    then show thesis using True Pair grant by simp
  next
    case False
    then have e: "e = d" using take_grant_False Pair by simp
    show thesis
    proof (cases "select_rule matching")
      case None
      then have "rbind (mode_decision en cx name args policy digest) (\<lambda>x. Inr (x, d)) = Inr (x, d')"
        using False Pair assms e by (simp add: decide_with_def del: select_rule_None)
      then obtain y where "mode_decision en cx name args policy digest = Inr y" "y = x \<and> d' = d"
        by (elim rbind_InrE) simp
      with None show thesis by (intro mode) simp_all
    next
      case (Some s)
      then have "x = rule_decision en cx digest d s \<and> d' = d" using False Pair assms e by (auto simp: decide_with_def)
      then show thesis using Some by (intro rule) simp_all
    qed
  qed
qed

definition decided_by_grant :: "perm_context \<Rightarrow> string \<Rightarrow> string \<Rightarrow> string \<Rightarrow> db \<Rightarrow> db \<Rightarrow> bool" where
  "decided_by_grant cx name digest now d d' \<longleftrightarrow> (\<exists>i. cx_invocation cx = Some i
     \<and> consume_permission_grant (cx_session cx) (cx_run cx) i name digest now d = (True, d'))"

definition decided_by_rule :: "perm_env \<Rightarrow> PermissionRule list \<Rightarrow> db \<Rightarrow> bool" where
  "decided_by_rule en matching d \<longleftrightarrow> (\<exists>r. select_rule matching = Some r
     \<and> list_all (\<lambda>q. ru_behavior q = PB_ALLOW) matching
     \<and> (ru_source r = ''project'' \<longrightarrow> project_allow_is_trusted (en_files en) d))"

definition mode_allows :: "perm_env \<Rightarrow> perm_context \<Rightarrow> string \<Rightarrow> dict \<Rightarrow> tool_policy \<Rightarrow> bool" where
  "mode_allows en cx name args policy \<longleftrightarrow>
     (if cx_mode cx = FULL_ACCESS then True
      else cx_mode cx = APPROVE_FOR_ME \<and>
        (if name = ''shell'' then deterministic_shell_allow en cx name args
         else \<not> (tp_destructive policy \<or> tp_external policy \<or> tp_open_world policy)))"

lemma default_behavior_allow:
  "default_behavior (cx_mode cx) policy (deterministic_shell_allow en cx name args) (name = ''shell'') = PB_ALLOW
    \<longleftrightarrow> mode_allows en cx name args policy"
  by (cases "cx_mode cx") (auto simp: default_behavior_def mode_allows_def)

lemma mode_decision_behavior:
  assumes "mode_decision en cx name args policy digest = Inr x"
  shows "de_behavior x = PB_ALLOW \<longleftrightarrow> mode_allows en cx name args policy"
    and "de_source x = ''permission_mode''"
  using assms default_behavior_allow[of cx policy en name args]
  by (auto simp: mode_decision_def decision_def Let_def elim!: rbind_InrE split: if_splits)

lemma rule_decision_allow:
  assumes "de_behavior (rule_decision en cx digest d r) = PB_ALLOW"
  shows "ru_behavior r = PB_ALLOW \<and> (ru_source r = ''project'' \<longrightarrow> project_allow_is_trusted (en_files en) d)"
  using assms by (auto simp: rule_decision_def decision_def split: if_splits)

lemma allow_authority:
  assumes "decide en cx name args policy now d = Inr (x, d')" and "de_behavior x = PB_ALLOW"
  shows "\<exists>normalized rules diagnostics matching.
    normalize_call (en_workspace en) (en_url en) name args = Inr normalized
    \<and> hard_check (en_workspace en) (en_describe en) name policy normalized = None
    \<and> all_rules (en_sha en) (en_files en) (cx_session cx) d = Inr (rules, diagnostics)
    \<and> matching_rules (en_url en) rules name normalized = Inr matching
    \<and> (decided_by_grant cx name (permission_arguments_digest (en_sha en) normalized) now d d' \<and> no_deny matching
       \<or> d' = d \<and> decided_by_rule en matching d
       \<or> d' = d \<and> matching = [] \<and> mode_allows en cx name normalized policy)"
  using assms(1)
proof (cases rule: decideE)
  case (hard normalized v)
  then show ?thesis using hard_check_never_allows[OF hard(2)] assms(2) by simp
next
  case (rules normalized rules diagnostics matching)
  let ?digest = "permission_arguments_digest (en_sha en) normalized"
  from rules(5) have "decided_by_grant cx name ?digest now d d' \<and> no_deny matching
       \<or> d' = d \<and> decided_by_rule en matching d
       \<or> d' = d \<and> matching = [] \<and> mode_allows en cx name normalized policy"
  proof (cases rule: decide_withE)
    case grant
    then show ?thesis using take_grant_True[OF grant(1)] by (simp add: decided_by_grant_def)
  next
    case (rule selected)
    then have allow: "ru_behavior selected = PB_ALLOW" "ru_source selected = ''project'' \<longrightarrow> project_allow_is_trusted (en_files en) d"
      using rule_decision_allow assms(2) by blast+
    have "ru_behavior q = PB_ALLOW" if "q \<in> set matching" for q
      using select_rule_strictest(2)[OF rule(1) that] allow(1) by (cases "ru_behavior q") auto
    then show ?thesis using rule allow by (auto simp: decided_by_rule_def list_all_iff)
  next
    case mode
    then show ?thesis using mode_decision_behavior(1) assms(2) by blast
  qed
  then show ?thesis using rules(1-4) by blast
qed

text \<open>C11: A call is allowed only after the capability limits (\<open>hard_check\<close>) let it pass, and only
  if either a one-time grant for exactly this session, run, invocation, tool and input digest was
  consumed and no matching rule denies the call, or every matching rule allows it (and a project
  rule counts only while the user trusts the digest of the current project file), or no rule matches
  and the permission mode allows it.\<close>

theorem allow_needs_authority:
  assumes "decide en cx name args policy now d = Inr (x, d')" and "de_behavior x = PB_ALLOW"
  shows "\<exists>normalized rules diagnostics matching.
    normalize_call (en_workspace en) (en_url en) name args = Inr normalized
    \<and> hard_check (en_workspace en) (en_describe en) name policy normalized = None
    \<and> all_rules (en_sha en) (en_files en) (cx_session cx) d = Inr (rules, diagnostics)
    \<and> matching_rules (en_url en) rules name normalized = Inr matching
    \<and> (decided_by_grant cx name (permission_arguments_digest (en_sha en) normalized) now d d' \<and> no_deny matching
       \<or> d' = d \<and> decided_by_rule en matching d
       \<or> d' = d \<and> matching = [] \<and> mode_allows en cx name normalized policy)"
  using assms by (rule allow_authority)

text \<open>C31: A matching deny rule wins: unless the capability limits already answered, the decision
  is to deny, and no one-time grant is spent on the call.\<close>

theorem deny_rule_wins:
  assumes "normalize_call (en_workspace en) (en_url en) name args = Inr normalized"
    and "hard_check (en_workspace en) (en_describe en) name policy normalized = None"
    and "all_rules (en_sha en) (en_files en) (cx_session cx) d = Inr (rules, diagnostics)"
    and "matching_rules (en_url en) rules name normalized = Inr matching"
    and "r \<in> set matching" and "ru_behavior r = PB_DENY"
  shows "\<exists>x. decide en cx name args policy now d = Inr (x, d) \<and> de_behavior x = PB_DENY \<and> de_decided_by x = ''rule''"
proof -
  have deny: "\<not> no_deny matching" using assms(5,6) by (auto simp: no_deny_def list_ex_iff)
  obtain s where s: "select_rule matching = Some s" using assms(5) by (cases "select_rule matching") auto
  have "ru_behavior s = PB_DENY"
    using select_rule_strictest(2)[OF s assms(5)] assms(6) by (cases "ru_behavior s") auto
  then have "de_behavior (rule_decision en cx g d s) = PB_DENY \<and> de_decided_by (rule_decision en cx g d s) = ''rule''" for g
    by (simp add: rule_decision_def decision_def)
  then show ?thesis using assms(1-4) s by (simp add: decide_def decide_with_def take_grant_denied[OF deny] Let_def)
qed

section \<open>Unusable permission files\<close>

lemma fnmatch_star: "fnmatchcase name ''*''"
proof -
  have "lang (Star (Cls (\<lambda>_. True))) name"
  proof (induction name rule: rev_induct)
    case (snoc c name)
    then show ?case by (auto intro!: lang.intros(7) lang.intros(1))
  qed (rule lang.intros)
  then show ?thesis by (simp add: fnmatchcase_def re_fullmatch_lang)
qed

lemma ask_everything_matches: "rule_matches lib (ask_everything source diagnostic) name args = Inr True"
  by (simp add: rule_matches_def ask_everything_def tool_matches_def fnmatch_star default_matches_def file_matches_def
      shell_matches_def web_matches_def mcp_matches_def command_ok_def prefix_ok_def cwd_ok_def sandbox_ok_def
      network_ok_def dget_def dget_or_def py_eq_def Let_def split: tool_spec.split prod.split)

lemma all_res_Inr:
  assumes "all_res f xs = Inr ys" and "x \<in> set xs"
  shows "\<exists>y \<in> set ys. f x = Inr y"
  using assms by (induction xs arbitrary: ys) (auto elim!: rbind_InrE)

lemma filter_res_Inr: "filter_res f xs = Inr ys \<Longrightarrow> x \<in> set xs \<Longrightarrow> f x = Inr True \<Longrightarrow> x \<in> set ys"
  by (induction xs arbitrary: ys) (auto elim!: rbind_InrE split: if_splits)

lemma add_restrictions_keeps: "add_restrictions lib name args ms rules = Inr ms' \<Longrightarrow> set ms \<subseteq> set ms'"
  by (induction rules arbitrary: ms) (fastforce elim!: rbind_InrE split: if_splits)+

lemma with_related_keeps: "with_related lib args rules names ms = Inr ms' \<Longrightarrow> set ms \<subseteq> set ms'"
  by (induction names arbitrary: ms) (auto elim!: rbind_InrE dest!: add_restrictions_keeps)

lemma matching_ask_everything:
  assumes "matching_rules lib rules name args = Inr matching" and "ask_everything source diagnostic \<in> set rules"
  shows "ask_everything source diagnostic \<in> set matching"
proof -
  obtain op routed ms where "filter_res (\<lambda>rule. rule_matches lib rule op routed) rules = Inr ms"
    and "with_related lib args rules (related_names op name args) ms = Inr matching"
    using assms(1) by (auto simp: matching_rules_def elim!: rbind_InrE)
  then show ?thesis
    using filter_res_Inr[OF _ assms(2)] with_related_keeps by (blast intro: ask_everything_matches)
qed

definition bad_entry :: "(string \<Rightarrow> string) \<Rightarrow> string \<Rightarrow> int \<Rightarrow> json \<Rightarrow> bool" where
  "bad_entry sha source version raw = (case raw of
      JObj r \<Rightarrow> (case read_rule sha r source version of Inl (ValueError _) \<Rightarrow> True | _ \<Rightarrow> False)
    | _ \<Rightarrow> True)"

definition unusable :: "(string \<Rightarrow> string) \<Rightarrow> permission_file \<Rightarrow> bool" where
  "unusable sha f \<longleftrightarrow> (case pf_content f of
      FileMissing \<Rightarrow> False
    | FileUnreadable e \<Rightarrow> True
    | FileDocument document \<Rightarrow> (case document_version document of
        None \<Rightarrow> True
      | Some version \<Rightarrow> (case dget_or document ''rules'' (dget_or document ''rule'' (JList [])) of
            JList raws \<Rightarrow> list_ex (bad_entry sha (pf_source f) version) raws
          | _ \<Rightarrow> True)))"

lemma broken_entry:
  assumes "bad_entry sha source version raw"
  shows "\<exists>dg msgs. rule_entry sha source path version i raw = Inr (ask_everything source dg, msgs)"
  using assms by (auto simp: rule_entry_def bad_entry_def Let_def split: json.splits sum.splits py_error.splits)

lemma broken_document:
  assumes "all_res (\<lambda>(i, raw). rule_entry sha source path version i raw) (enumerate 0 raws) = Inr entries"
    and "list_ex (bad_entry sha source version) raws"
  shows "\<exists>dg msgs. (ask_everything source dg, msgs) \<in> set entries"
proof -
  obtain raw where raw: "raw \<in> set raws" and bad: "bad_entry sha source version raw"
    using assms(2) by (auto simp: list_ex_iff)
  then obtain i where "raws ! i = raw" "i < length raws" by (auto simp: in_set_conv_nth)
  then have i: "(i, raw) \<in> set (enumerate 0 raws)" by (simp add: in_set_enumerate_eq)
  obtain y where "y \<in> set entries" "rule_entry sha source path version i raw = Inr y"
    using all_res_Inr[OF assms(1) i] by auto
  then show ?thesis using broken_entry[OF bad, of path i] by auto
qed

lemma unusable_asks:
  assumes "unusable sha f" and "rules_of_file sha f = Inr entries"
  shows "\<exists>dg msgs. (ask_everything (pf_source f) dg, msgs) \<in> set entries"
proof (cases "pf_content f")
  case (FileDocument document)
  show ?thesis
  proof (cases "document_version document")
    case (Some version)
    show ?thesis
    proof (cases "dget_or document ''rules'' (dget_or document ''rule'' (JList []))")
      case (JList raws)
      then show ?thesis using assms FileDocument Some
        by (intro broken_document) (simp_all add: rules_of_file_def document_rules_def unusable_def)
    qed (use assms FileDocument Some in \<open>auto simp: rules_of_file_def document_rules_def\<close>)
  qed (use assms FileDocument in \<open>auto simp: rules_of_file_def document_rules_def\<close>)
qed (use assms in \<open>auto simp: rules_of_file_def unusable_def\<close>)

lemma all_rules_of_file:
  assumes "all_rules sha files s d = Inr (rules, msgs)" and "f \<in> set files"
  obtains entries where "rules_of_file sha f = Inr entries" and "fst ` set entries \<subseteq> set rules"
proof -
  obtain per session where per: "all_res (rules_of_file sha) files = Inr per" "rules = map fst (concat per) @ session"
    using assms(1) by (auto simp: all_rules_def file_rules_def Let_def elim!: rbind_InrE)
  obtain entries where "entries \<in> set per" "rules_of_file sha f = Inr entries"
    using all_res_Inr[OF per(1) assms(2)] by blast
  then show thesis using per(2) by (intro that[of entries]) auto
qed

text \<open>C32: A permission file that cannot be read, has an unsupported version or holds an invalid rule
  disables every automatic grant: whatever the other files, the session and the mode say, a call is
  allowed only by consuming a one-time grant.\<close>

theorem unusable_file_fails_closed:
  assumes "f \<in> set (en_files en)" and "unusable (en_sha en) f"
    and "decide en cx name args policy now d = Inr (x, d')" and "de_behavior x = PB_ALLOW"
  shows "\<exists>digest. decided_by_grant cx name digest now d d'"
proof -
  obtain normalized rules diagnostics matching where
    rules: "all_rules (en_sha en) (en_files en) (cx_session cx) d = Inr (rules, diagnostics)"
    and matching: "matching_rules (en_url en) rules name normalized = Inr matching"
    and why: "decided_by_grant cx name (permission_arguments_digest (en_sha en) normalized) now d d' \<and> no_deny matching
       \<or> d' = d \<and> decided_by_rule en matching d
       \<or> d' = d \<and> matching = [] \<and> mode_allows en cx name normalized policy"
    using allow_authority[OF assms(3,4)] by blast
  obtain entries where "rules_of_file (en_sha en) f = Inr entries" and sub: "fst ` set entries \<subseteq> set rules"
    using all_rules_of_file[OF rules assms(1)] .
  then obtain dg msgs where "(ask_everything (pf_source f) dg, msgs) \<in> set entries"
    using unusable_asks[OF assms(2)] by blast
  then have "ask_everything (pf_source f) dg \<in> set rules" using sub by force
  then have "ask_everything (pf_source f) dg \<in> set matching" using matching matching_ask_everything by blast
  then have "\<not> list_all (\<lambda>q. ru_behavior q = PB_ALLOW) matching" "matching \<noteq> []"
    by (auto simp: list_all_iff ask_everything_def intro!: bexI)
  then show ?thesis using why by (auto simp: decided_by_rule_def)
qed

section \<open>Shell and path rules\<close>

lemma all_some_Some: "all_some xs = Some ys \<longleftrightarrow> xs = map Some ys"
  by (induction xs arbitrary: ys rule: all_some.induct) auto

lemma shell_segments_Some:
  assumes "shell_segments command = Some ss"
  obtains wss where "\<not> shell_dynamic command" and "ss = map shlex_join wss"
    and "map segment_words (split_segments [] command) = map Some wss"
  using assms by (auto simp: shell_segments_def all_some_Some split: if_splits)

lemma prefix_match_join:
  "command_prefix_match (shlex_join ws) p \<longleftrightarrow> (\<exists>pre. shlex_split (strip p) = Some pre \<and> pre \<noteq> [] \<and> prefix pre ws)"
proof -
  have "take (length pre) ws = pre \<longleftrightarrow> prefix pre ws" for pre
    by (metis append_eq_conv_conj append_take_drop_id prefix_def)
  then show ?thesis by (simp add: command_prefix_match_def shlex_split_join split: option.split)
qed

definition segment_covered :: "string \<Rightarrow> string \<Rightarrow> bool" where
  "segment_covered p segment \<longleftrightarrow> (\<exists>words pre. shlex_split segment = Some words
     \<and> shlex_split (strip p) = Some pre \<and> pre \<noteq> [] \<and> prefix pre words \<and> \<not> list_ex (re_search redirect_re) words)"


lemma glob_re_plain:
  "list_all (\<lambda>c. c \<noteq> CHR ''*'' \<and> c \<noteq> CHR ''?'') p \<Longrightarrow> glob_re (p @ cs) = map Lit p @ glob_re cs"
  by (induction p) auto

lemma lang_seqs: "lang (seqs (r # rs)) s \<longleftrightarrow> (\<exists>u v. s = u @ v \<and> lang r u \<and> lang (seqs rs) v)"
  by (cases rs) (auto simp: lang_simps)

lemma lang_literals: "lang (seqs (map Lit p @ rs)) s \<longleftrightarrow> (\<exists>v. s = p @ v \<and> lang (seqs rs) v)"
  by (induction p arbitrary: s) (auto simp: lang_seqs lang_simps simp del: seqs.simps(3))

lemma plain_seqs: "plain (seqs rs) \<longleftrightarrow> list_all plain rs"
  by (induction rs rule: seqs.induct) auto

lemma lang_star_class: "lang (Star (Cls q)) s \<longleftrightarrow> list_all q s"
proof
  have "list_all q s" if "lang r s" "r = Star (Cls q)" for r
    using that by (induction rule: lang.induct) (auto elim: lang.cases)
  then show "lang (Star (Cls q)) s \<Longrightarrow> list_all q s" by blast
  show "list_all q s \<Longrightarrow> lang (Star (Cls q)) s"
    by (induction s rule: rev_induct) (auto intro!: lang.intros(6) lang.intros(7) lang.intros(1))
qed

text \<open>A rule whose path is a directory followed by \<open>/**\<close> covers exactly the paths below that
  directory, at any depth, except those with a line break below it.\<close>

lemma directory_glob:
  assumes "list_all (\<lambda>c. c \<noteq> CHR ''*'' \<and> c \<noteq> CHR ''?'') p" and "normal_path (p @ ''/**'') = p @ ''/**''"
    and "\<not> unsafe_pattern (p @ ''/**'')"
  shows "path_glob_match path (p @ ''/**'')
    \<longleftrightarrow> (\<exists>below. normal_path path = p @ ''/'' @ below \<and> CHR 0x0A \<notin> set below)"
proof -
  have re: "glob_re (p @ ''/**'') = map Lit (p @ ''/'') @ [Star Dot]"
    using glob_re_plain[OF assms(1), of "''/**''"] by simp
  have "plain (seqs (map Lit (p @ ''/'') @ [Star Dot]))" by (simp add: plain_seqs list_all_iff)
  then have "path_glob_match path (p @ ''/**'') \<longleftrightarrow> lang (seqs (map Lit (p @ ''/'') @ [Star Dot])) (normal_path path)"
    using assms(2,3) by (simp add: path_glob_match_def re re_fullmatch_lang del: map_append)
  also have "\<dots> \<longleftrightarrow> (\<exists>v. normal_path path = (p @ ''/'') @ v \<and> list_all (\<lambda>c. c \<noteq> CHR 0x0A) v)"
    unfolding lang_literals by (simp add: lang_star_class)
  finally show ?thesis by (auto simp: list_all_iff)
qed

theorem directory_glob_witness:
  "path_glob_match ''./docs/a/b.md'' ''docs/**''
    \<longleftrightarrow> (\<exists>below. normal_path ''./docs/a/b.md'' = ''docs'' @ ''/'' @ below \<and> CHR 0x0A \<notin> set below)"
  using directory_glob[of "''docs''" "''./docs/a/b.md''"]
  by (simp add: normal_path_def slashes_def removeprefix_def startswith_def unsafe_pattern_def path_parts_def)

section \<open>Updating a permission file\<close>

lemma validate_rule_same:
  "ru_tool r = ru_tool q \<Longrightarrow> ru_constraints r = ru_constraints q \<Longrightarrow> ru_version r = ru_version q
    \<Longrightarrow> validate_rule r = validate_rule q"
  by (simp add: validate_rule_def unknown_constraints_def)

definition rule_added :: "PermissionUpdate \<Rightarrow> string \<Rightarrow> string \<Rightarrow> PermissionRule" where
  "rule_added u source i = (updated_rule u)\<lparr>ru_source := source, ru_id := Some i\<rparr>"

lemma parse_rule_table:
  "parse_rule sha (case rule_table i u of JObj r \<Rightarrow> r) source 2 = Inr (rule_added u source i)"
  by (cases "pu_allow u")
     (simp_all add: rule_table_def parse_rule_def parse_behavior_def legacy_constraints_def dget_def dget_or_def
        rule_added_def updated_rule_def)

lemma rule_entry_table:
  assumes "validate_rule (updated_rule u) = Inr ()"
  shows "rule_entry sha source path 2 n (rule_table i u) = Inr (rule_added u source i, [])"
proof -
  have "validate_rule (rule_added u source i) = Inr ()"
    using assms validate_rule_same[of "rule_added u source i" "updated_rule u"] by (simp add: rule_added_def)
  then show ?thesis
    using parse_rule_table[of sha i u source]
    by (simp add: rule_entry_def read_rule_def rule_table_def downgrade_legacy_def Let_def)
qed

lemma all_res_append: "all_res f (xs @ ys) = rbind (all_res f xs) (\<lambda>us. rbind (all_res f ys) (\<lambda>vs. Inr (us @ vs)))"
  by (induction xs) (auto simp: rbind_def split: sum.split)

lemma dget_set_field: "dget (set_field k v d) k' = (if k' = k then v else dget d k')"
  "dget_or (set_field k v d) k' w = (if k' = k then v else dget_or d k' w)"
  by (simp_all add: dget_def dget_or_def map_of_set_field)

lemma added_document_rules:
  assumes "validate_rule (updated_rule u) = Inr ()"
    and "document_version document = Some 2"
    and "dget_or document ''rules'' (dget_or document ''rule'' (JList [])) = JList (raws @ [rule_table i u])"
    and "all_res (\<lambda>(n, raw). rule_entry sha source path 2 n raw) (enumerate 0 raws) = Inr entries"
  shows "document_rules sha source path document = Inr (entries @ [(rule_added u source i, [])])"
  using assms by (simp add: document_rules_def enumerate_append_eq all_res_append rule_entry_table)

lemma file_update_add:
  assumes "file_update u uuid (Some document) = Inr (i, document')" and "pu_operation u = PU_ADD"
  shows "document' = set_field ''rules'' (JList ((case dget document ''rules'' of JList vs \<Rightarrow> vs | _ \<Rightarrow> []) @ [rule_table i u]))
    (set_field ''permissions_version'' (JInt 2) document)"
  using assms by (auto simp: file_update_def Let_def dget_set_field)


text \<open>Adding a rule to a file that keeps its rules under the legacy key \<open>rule\<close> makes the new
  rule the only one that is read: the earlier rules, deny rules included, lose their effect.\<close>

lemma legacy_rules_dropped:
  assumes "pu_operation u = PU_ADD" and "validate_rule (updated_rule u) = Inr ()" and "\<not> has_key document ''rules''"
    and "file_update u uuid (Some document) = Inr (i, document')"
  shows "document_rules sha source path document' = Inr [(rule_added u source i, [])]"
proof -
  have "dget document ''rules'' = JNull" using assms(3) by (simp add: has_key_def dget_def)
  then have doc: "document' = set_field ''rules'' (JList ([] @ [rule_table i u])) (set_field ''permissions_version'' (JInt 2) document)"
    using file_update_add[OF assms(4,1)] by (simp add: \<open>dget document ''rules'' = JNull\<close>)
  have "all_res (\<lambda>(n, raw). rule_entry sha source path 2 n raw) (enumerate 0 []) = Inr []" by simp
  from added_document_rules[OF assms(2) _ _ this]
  show ?thesis by (simp add: doc document_version_def dget_set_field)
qed

section \<open>Sample calls\<close>

definition sample_update :: PermissionUpdate where
  "sample_update = \<lparr>pu_operation = PU_ADD, pu_destination = PD_LOCAL, pu_allow = PB_ALLOW, pu_name = ''read_file'',
     pu_limits = [(''path'', JStr ''docs/**'')], pu_rule = None\<rparr>"

definition deny_shell :: json where
  "deny_shell = JObj [(''id'', JStr ''d''), (''behavior'', JStr ''deny''), (''tool'', JStr ''shell'')]"

definition shell_denied :: PermissionRule where
  "shell_denied = \<lparr>ru_behavior = PB_DENY, ru_tool = ''shell'', ru_constraints = [], ru_source = ''local'',
     ru_id = Some ''d'', ru_version = 2, ru_diagnostic = None\<rparr>"


theorem legacy_rules_dropped_witness:
  "document_rules (\<lambda>s. s) ''local'' ''p'' [(''rule'', JList [deny_shell])]
     = Inr [(shell_denied\<lparr>ru_version := 1\<rparr>, [])]
   \<and> document_rules (\<lambda>s. s) ''local'' ''p'' [(''rule'', JList [deny_shell]), (''permissions_version'', JInt 2),
       (''rules'', JList [rule_table ''rule_7'' sample_update])]
     = Inr [(rule_added sample_update ''local'' ''rule_7'', [])]"
proof -
  let ?d = "[(''rule'', JList [deny_shell])]"
  have 1: "pu_operation sample_update = PU_ADD" "validate_rule (updated_rule sample_update) = Inr ()"
    "\<not> has_key ?d ''rules''"
    by (simp_all add: sample_update_def dget_def has_key_def) code_simp
  have 2: "document_rules (\<lambda>s. s) ''local'' ''p'' ?d = Inr [(shell_denied\<lparr>ru_version := 1\<rparr>, [])]" by code_simp
  have "file_update sample_update ''7'' (Some ?d) = Inr (''rule_7'', [(''rule'', JList [deny_shell]),
       (''permissions_version'', JInt 2), (''rules'', JList [rule_table ''rule_7'' sample_update])])"
    by (simp add: file_update_def sample_update_def dget_def or_text_def Let_def)
  from legacy_rules_dropped[OF 1 this] 2 show ?thesis by blast
qed

definition sample_env :: "permission_file list \<Rightarrow> perm_env" where
  "sample_env files = \<lparr>en_files = files,
     en_workspace = \<lparr>wp_resolve = Inr, wp_directory = Inr, wp_eval_network = False\<rparr>,
     en_url = \<lparr>ul_split = (\<lambda>s. Inl (ValueError [])), ul_idna = Inr\<rparr>, en_sha = (\<lambda>s. ''ab''),
     en_ts = (\<lambda>s. NoParser), en_describe = (\<lambda>e. ([], []))\<rparr>"

definition sample_context :: "PermissionMode \<Rightarrow> perm_context" where
  "sample_context mode = \<lparr>cx_session = ''s1'', cx_run = ''r1'', cx_invocation = Some ''inv_0'', cx_mode = mode,
     cx_shell_behavior = JNull\<rparr>"

definition sample_policy :: tool_policy where
  "sample_policy = \<lparr>tp_destructive = False, tp_external = False, tp_open_world = False\<rparr>"

definition sample_file :: "file_content \<Rightarrow> permission_file" where
  "sample_file c = \<lparr>pf_source = ''local'', pf_path = ''p'', pf_content = c, pf_digest = ''d''\<rparr>"

definition sample_rules :: "json list \<Rightarrow> permission_file" where
  "sample_rules rs = sample_file (FileDocument [(''permissions_version'', JInt 2), (''rules'', JList rs)])"

definition sample_args :: "string \<Rightarrow> dict" where
  "sample_args command = [(''command'', JStr command), (''cwd'', JStr ''.''), (''sandbox'', JStr ''default''),
     (''network'', JList [])]"

definition prefix_rule :: "string \<Rightarrow> string \<Rightarrow> json" where
  "prefix_rule behavior p = JObj [(''id'', JStr behavior), (''behavior'', JStr behavior), (''tool'', JStr ''shell''),
     (''constraints'', JObj [(''command_prefix'', JStr p)])]"

definition outcome :: "(PermissionDecision \<times> db) res \<Rightarrow> (PermissionBehavior \<times> string) option" where
  "outcome r = (case r of Inl _ \<Rightarrow> None | Inr (x, d) \<Rightarrow> Some (de_behavior x, de_reason_code x))"


definition write_args :: dict where
  "write_args = [(''path'', JStr ''a'')]"

text \<open>The grant of \<open>sample_perm_db\<close>, for a call that no rule of the session restricts.\<close>

theorem allow_needs_authority_witness:
  "\<exists>x d'. decide (sample_env []) (sample_context ASK_FOR_APPROVAL) ''write_file'' write_args sample_policy ''t'' sample_perm_db
      = Inr (x, d') \<and> de_behavior x = PB_ALLOW
    \<and> (decided_by_grant (sample_context ASK_FOR_APPROVAL) ''write_file'' ''ab'' ''t'' sample_perm_db d' \<or> d' = sample_perm_db)"
proof -
  let ?c = "decide (sample_env []) (sample_context ASK_FOR_APPROVAL) ''write_file'' write_args sample_policy ''t'' sample_perm_db"
  have o: "outcome ?c = Some (PB_ALLOW, ''one_time_grant'')" by code_simp
  then obtain x d' where c: "?c = Inr (x, d')" and x: "de_behavior x = PB_ALLOW"
    by (auto simp: outcome_def split: sum.splits)
  have "en_sha (sample_env []) = (\<lambda>s. ''ab'')" by (simp add: sample_env_def)
  then show ?thesis using allow_needs_authority[OF c x] c x by (auto simp: permission_arguments_digest_def)
qed

theorem unusable_file_fails_closed_witness:
  "\<exists>x d' digest. decide (sample_env [sample_file (FileUnreadable ''e'')]) (sample_context FULL_ACCESS) ''write_file'' write_args
      sample_policy ''t'' sample_perm_db = Inr (x, d')
    \<and> decided_by_grant (sample_context FULL_ACCESS) ''write_file'' digest ''t'' sample_perm_db d'"
proof -
  let ?f = "sample_file (FileUnreadable ''e'')"
  let ?c = "decide (sample_env [?f]) (sample_context FULL_ACCESS) ''write_file'' write_args sample_policy ''t'' sample_perm_db"
  have "outcome ?c = Some (PB_ALLOW, ''one_time_grant'')" by code_simp
  then obtain x d' where c: "?c = Inr (x, d')" and x: "de_behavior x = PB_ALLOW"
    by (auto simp: outcome_def split: sum.splits)
  have f: "?f \<in> set (en_files (sample_env [?f]))" "unusable (en_sha (sample_env [?f])) ?f"
    by (simp_all add: sample_env_def sample_file_def unusable_def)
  from unusable_file_fails_closed[OF f c x] c show ?thesis by blast
qed

theorem deny_rule_wins_witness:
  "\<exists>x. decide (sample_env [sample_rules [deny_shell]]) (sample_context FULL_ACCESS) ''shell'' (sample_args ''ls'') sample_policy
      ''t'' empty_db = Inr (x, empty_db) \<and> de_behavior x = PB_DENY \<and> de_decided_by x = ''rule''"
proof -
  let ?en = "sample_env [sample_rules [deny_shell]]"
  have 1: "normalize_call (en_workspace ?en) (en_url ?en) ''shell'' (sample_args ''ls'') = Inr (sample_args ''ls'')"
    "hard_check (en_workspace ?en) (en_describe ?en) ''shell'' sample_policy (sample_args ''ls'') = None"
    "all_rules (en_sha ?en) (en_files ?en) (cx_session (sample_context FULL_ACCESS)) empty_db = Inr ([shell_denied], [])"
    "matching_rules (en_url ?en) [shell_denied] ''shell'' (sample_args ''ls'') = Inr [shell_denied]"
    "shell_denied \<in> set [shell_denied]" "ru_behavior shell_denied = PB_DENY"
    by code_simp+
  from deny_rule_wins[OF this] show ?thesis .
qed


end
