(* ===== verification/Plans.thy ===== *)
theory Plans
  imports Work_Items Resume
begin

text \<open>
  Session plans: \<^verbatim>\<open>capslock/storage/repositories/plans.py\<close>.  A plan is a sequence of revisions,
  the last of which is current; an update names the digest of the revision it was made from.  A
  submitted revision waits for a decision, and an approved one is implemented by a work item.
  \<open>sha\<close> is \<open>_digest\<close>, and the identifiers and times a call draws are arguments.
\<close>

section \<open>Reading\<close>

text \<open>\<open>str(v) if v else None\<close>.\<close>

definition some_text :: "string option \<Rightarrow> string option" where
  "some_text v = (case v of None \<Rightarrow> None | Some s \<Rightarrow> if s = [] then None else Some s)"

definition plan_info :: "plan_row \<Rightarrow> plan_row" where
  "plan_info r = r\<lparr>p_current_revision := some_text (p_current_revision r), p_parent := some_text (p_parent r)\<rparr>"

definition revision_info :: "revision_row \<Rightarrow> revision_row" where
  "revision_info r = r\<lparr>v_run := some_text (v_run r)\<rparr>"

definition request_info :: "plan_request_row \<Rightarrow> plan_request_row" where
  "request_info r = r\<lparr>pq_plan := some_text (pq_plan r), pq_revision := some_text (pq_revision r),
     pq_run := some_text (pq_run r), pq_invocation := some_text (pq_invocation r),
     pq_objective := some_text (pq_objective r), pq_feedback := some_text (pq_feedback r),
     pq_decided_at := some_text (pq_decided_at r)\<rparr>"

definition implementation_info :: "implementation_row \<Rightarrow> implementation_row" where
  "implementation_info r = r\<lparr>pi_run := some_text (pi_run r)\<rparr>"

definition get_plan :: "string \<Rightarrow> db \<Rightarrow> plan_row option" where
  "get_plan plan_id d = map_option plan_info (row_by p_id plan_id (d_plans d))"

definition require_plan :: "string \<Rightarrow> db \<Rightarrow> plan_row res" where
  "require_plan plan_id d = (case get_plan plan_id d of
      None \<Rightarrow> Inl (ValueError ''plan does not exist'') | Some p \<Rightarrow> Inr p)"

text \<open>The runs that keep the plan they submitted active.\<close>

definition submitted_by_open_run :: "db \<Rightarrow> plan_row \<Rightarrow> bool" where
  "submitted_by_open_run d p = exists_row (\<lambda>q. pq_plan q = Some (p_id p) \<and> pq_kind q = PK_SUBMIT
     \<and> exists_row (\<lambda>r. Some (r_id r) = pq_run q
          \<and> r_status r \<in> {WI_RUNNING, WI_WAITING_APPROVAL, WI_WAITING_INPUT}) (d_runs d)) (d_plan_requests d)"

definition plan_is_active :: "db \<Rightarrow> plan_row \<Rightarrow> bool" where
  "plan_is_active d p \<longleftrightarrow> p_status p \<in> {PS_DRAFT, PS_AWAITING_APPROVAL}
     \<or> (p_status p \<in> {PS_APPROVED, PS_REJECTED} \<and> submitted_by_open_run d p)"

definition newest_plan :: "(plan_row \<Rightarrow> bool) \<Rightarrow> db \<Rightarrow> plan_row option" where
  "newest_plan p d = map_option plan_info (last_by (\<lambda>r. (p_updated_at r, p_id r)) p (d_plans d))"

definition active_plan :: "string \<Rightarrow> db \<Rightarrow> plan_row option" where
  "active_plan session_id d = newest_plan (\<lambda>r. p_session r = session_id \<and> plan_is_active d r) d"

definition latest_unapproved :: "string \<Rightarrow> db \<Rightarrow> plan_row option" where
  "latest_unapproved session_id d = newest_plan (\<lambda>r. p_session r = session_id
     \<and> p_status r \<in> {PS_DRAFT, PS_AWAITING_APPROVAL, PS_REJECTED, PS_CANCELLED}) d"

definition latest_plan :: "string \<Rightarrow> db \<Rightarrow> plan_row option" where
  "latest_plan session_id d = newest_plan (\<lambda>r. p_session r = session_id) d"

definition get_revision :: "string option \<Rightarrow> db \<Rightarrow> revision_row option" where
  "get_revision revision_id d = (case revision_id of None \<Rightarrow> None
    | Some i \<Rightarrow> map_option revision_info (row_by v_id i (d_revisions d)))"

definition require_revision :: "string \<Rightarrow> db \<Rightarrow> revision_row res" where
  "require_revision revision_id d = (case get_revision (Some revision_id) d of
      None \<Rightarrow> Inl (ValueError ''plan revision does not exist'') | Some v \<Rightarrow> Inr v)"

definition current_revision :: "plan_row \<Rightarrow> db \<Rightarrow> revision_row res" where
  "current_revision p d = (case p_current_revision p of
      None \<Rightarrow> Inl (ValueError ''plan has no current revision'')
    | Some i \<Rightarrow> rbind (require_revision i d) (\<lambda>v.
        if v_plan v = p_id p then Inr v else Inl (ValueError ''plan revision ownership is invalid'')))"

definition get_request :: "string \<Rightarrow> db \<Rightarrow> plan_request_row option" where
  "get_request request_id d = map_option request_info (row_by pq_id request_id (d_plan_requests d))"

definition require_request :: "string \<Rightarrow> db \<Rightarrow> plan_request_row res" where
  "require_request request_id d = (case get_request request_id d of
      None \<Rightarrow> Inl (ValueError ''plan request does not exist'') | Some q \<Rightarrow> Inr q)"

definition pending_plan_requests :: "string \<Rightarrow> db \<Rightarrow> plan_request_row list" where
  "pending_plan_requests session_id d = map request_info (sort_key (\<lambda>q. (pq_created_at q, pq_id q))
     (filter (\<lambda>q. pq_session q = session_id \<and> pq_status q = PR_PENDING) (d_plan_requests d)))"

definition approved_to_implement :: "plan_request_row \<Rightarrow> bool" where
  "approved_to_implement q \<longleftrightarrow> pq_kind q = PK_SUBMIT \<and> pq_status q = PR_APPROVED \<and> pq_choice q = Some PC_IMPLEMENT"

definition approved_request_for_run :: "string \<Rightarrow> db \<Rightarrow> plan_request_row option" where
  "approved_request_for_run run_id d = map_option request_info
     (last_by pq_decided_at (\<lambda>q. pq_run q = Some run_id \<and> approved_to_implement q) (d_plan_requests d))"

definition unreconciled_approved_requests :: "string \<Rightarrow> db \<Rightarrow> plan_request_row list" where
  "unreconciled_approved_requests session_id d = map request_info
     (sort_key (\<lambda>q. (pq_decided_at q, pq_id q)) (filter (\<lambda>q. pq_session q = session_id \<and> approved_to_implement q
        \<and> \<not> exists_row (\<lambda>i. pi_request i = pq_id q) (d_implementations d)) (d_plan_requests d)))"

definition implementation_of :: "string \<Rightarrow> db \<Rightarrow> implementation_row res" where
  "implementation_of plan_id d = (case row_by pi_plan plan_id (d_implementations d) of
      None \<Rightarrow> Inl (ValueError ''plan implementation does not exist'') | Some i \<Rightarrow> Inr (implementation_info i))"

section \<open>Creating and revising\<close>

definition newline :: char where
  "newline = CHR 0x0A"

definition initial_content :: "string \<Rightarrow> string" where
  "initial_content objective = ''# Plan'' @ [newline, newline] @ ''## Goal'' @ [newline, newline] @ strip objective @ [newline]"

definition insert_new_plan ::
  "string \<Rightarrow> string \<Rightarrow> string \<Rightarrow> string \<Rightarrow> string \<Rightarrow> string \<Rightarrow> string \<Rightarrow> string option \<Rightarrow> string \<Rightarrow> string \<Rightarrow> string \<Rightarrow> db
   \<Rightarrow> db res" where
  "insert_new_plan plan_id revision_id session_id objective entry_source base_mode content parent source digest now d =
     rbind (insert_plan \<lparr>p_id = plan_id, p_session = session_id, p_objective = objective, p_status = PS_DRAFT,
         p_entry_source = entry_source, p_base_mode = base_mode, p_current_revision = Some revision_id,
         p_parent = parent, p_mirror = session_id @ ''/'' @ plan_id @ ''.md'', p_created_at = now,
         p_updated_at = now\<rparr> d)
       (insert_revision \<lparr>v_id = revision_id, v_plan = plan_id, v_ordinal = 1, v_content = content, v_sha256 = digest,
          v_source = source, v_run = None, v_created_at = now\<rparr>)"

definition create_plan ::
  "(string \<Rightarrow> string) \<Rightarrow> string \<Rightarrow> string \<Rightarrow> string \<Rightarrow> string \<Rightarrow> string \<Rightarrow> string option \<Rightarrow> string \<Rightarrow> string \<Rightarrow> string
   \<Rightarrow> string \<Rightarrow> db \<Rightarrow> ((plan_row \<times> revision_row) \<times> db) res" where
  "create_plan sha session_id objective entry_source base_mode content parent source uuid1 uuid2 now d =
     (let plan_id = ''plan_'' @ uuid1; revision_id = ''planrev_'' @ uuid2 in
      rbind (insert_new_plan plan_id revision_id session_id objective entry_source base_mode content parent source
          (sha content) now d) (\<lambda>d'.
      rbind (require_plan plan_id d') (\<lambda>p. rbind (require_revision revision_id d') (\<lambda>v. Inr ((p, v), d')))))"

text \<open>The current revision, joined with its plan as \<open>append_revision\<close> and \<open>submit\<close> read it.\<close>

definition draft_plan :: "string \<Rightarrow> db \<Rightarrow> plan_row option" where
  "draft_plan plan_id d = fetch_one (\<lambda>p. p_id p = plan_id \<and> p_status p = PS_DRAFT) (d_plans d)"

definition owned_revision :: "plan_row \<Rightarrow> string \<Rightarrow> db \<Rightarrow> revision_row option" where
  "owned_revision p plan_id d =
     fetch_one (\<lambda>v. Some (v_id v) = p_current_revision p \<and> v_plan v = plan_id) (d_revisions d)"

definition next_ordinal :: "string \<Rightarrow> db \<Rightarrow> int" where
  "next_ordinal plan_id d = max_or 0 v_ordinal (\<lambda>v. v_plan v = plan_id) (d_revisions d) + 1"

definition set_plan :: "string \<Rightarrow> (plan_row \<Rightarrow> plan_row) \<Rightarrow> db \<Rightarrow> db" where
  "set_plan plan_id f d = d\<lparr>d_plans := sql_update (\<lambda>p. p_id p = plan_id) f (d_plans d)\<rparr>"

definition append_revision ::
  "(string \<Rightarrow> string) \<Rightarrow> string \<Rightarrow> string \<Rightarrow> string \<Rightarrow> string \<Rightarrow> string option \<Rightarrow> string \<Rightarrow> string \<Rightarrow> db
   \<Rightarrow> (revision_row \<times> db) res" where
  "append_revision sha plan_id content expected_sha256 source run_id uuid now d =
     (let identifier = ''planrev_'' @ uuid in
      case draft_plan plan_id d of
        None \<Rightarrow> Inl (ValueError ''only an active draft can be updated'')
      | Some p \<Rightarrow> (case owned_revision p plan_id d of
          None \<Rightarrow> Inl (ValueError ''plan changed since it was read'')
        | Some current \<Rightarrow>
            if v_sha256 current \<noteq> expected_sha256 then Inl (ValueError ''plan changed since it was read'')
            else if v_sha256 current = sha content then Inr (revision_info current, d)
            else rbind (insert_revision \<lparr>v_id = identifier, v_plan = plan_id, v_ordinal = next_ordinal plan_id d,
                     v_content = content, v_sha256 = sha content, v_source = source, v_run = run_id,
                     v_created_at = now\<rparr> d) (\<lambda>d1.
                 let d2 = set_plan plan_id (\<lambda>p. p\<lparr>p_current_revision := Some identifier, p_updated_at := now\<rparr>) d1 in
                 rbind (require_revision identifier d2) (\<lambda>v. Inr (v, d2)))))"

section \<open>Requests\<close>

definition new_request :: "string \<Rightarrow> string \<Rightarrow> string option \<Rightarrow> string option \<Rightarrow> PlanRequestKind \<Rightarrow> string option
    \<Rightarrow> string option \<Rightarrow> string option \<Rightarrow> string \<Rightarrow> plan_request_row" where
  "new_request identifier session_id plan revision kind run_id invocation objective now =
     \<lparr>pq_id = identifier, pq_session = session_id, pq_plan = plan, pq_revision = revision, pq_kind = kind,
      pq_status = PR_PENDING, pq_run = run_id, pq_invocation = invocation, pq_objective = objective,
      pq_choice = None, pq_feedback = None, pq_created_at = now, pq_decided_at = None\<rparr>"

definition create_enter_request ::
  "string \<Rightarrow> string \<Rightarrow> string \<Rightarrow> string \<Rightarrow> string \<Rightarrow> string \<Rightarrow> db \<Rightarrow> (plan_request_row \<times> db) res" where
  "create_enter_request session_id objective run_id invocation_id uuid now d =
     (let identifier = ''planreq_'' @ uuid in
      rbind (insert_plan_request (new_request identifier session_id None None PK_ENTER (Some run_id)
         (Some invocation_id) (Some objective) now) d) (\<lambda>d'.
      rbind (require_request identifier d') (\<lambda>q. Inr (q, d'))))"

definition submit_plan ::
  "string \<Rightarrow> string \<Rightarrow> string option \<Rightarrow> string option \<Rightarrow> string \<Rightarrow> string \<Rightarrow> db \<Rightarrow> (plan_request_row \<times> db) res" where
  "submit_plan plan_id expected_sha256 run_id invocation_id uuid now d =
     (let identifier = ''planreq_'' @ uuid in
      case draft_plan plan_id d of
        None \<Rightarrow> Inl (ValueError ''only an active draft can be submitted'')
      | Some p \<Rightarrow> (case owned_revision p plan_id d of
          None \<Rightarrow> Inl (ValueError ''plan changed before submission'')
        | Some v \<Rightarrow>
            if v_sha256 v \<noteq> expected_sha256 then Inl (ValueError ''plan changed before submission'')
            else if strip (v_content v) = [] then Inl (ValueError ''an empty plan cannot be submitted'')
            else rbind (insert_plan_request (new_request identifier (p_session p) (Some plan_id) (Some (v_id v))
                     PK_SUBMIT run_id invocation_id None now) d) (\<lambda>d1.
                 let d2 = set_plan plan_id (\<lambda>p. p\<lparr>p_status := PS_AWAITING_APPROVAL, p_updated_at := now\<rparr>) d1 in
                 rbind (require_request identifier d2) (\<lambda>q. Inr (q, d2)))))"

definition parse_choice :: "PlanRequestKind \<Rightarrow> string \<Rightarrow> PlanApprovalChoice option" where
  "parse_choice kind choice = find (\<lambda>c. plan_choice_value c = choice)
     (if kind = PK_ENTER then [PC_ENTER, PC_REJECT] else [PC_IMPLEMENT, PC_FEEDBACK, PC_REJECT])"

fun decided_status :: "PlanApprovalChoice \<Rightarrow> PlanRequestStatus" where
  "decided_status PC_ENTER = PR_APPROVED"
| "decided_status PC_IMPLEMENT = PR_APPROVED"
| "decided_status PC_FEEDBACK = PR_FEEDBACK"
| "decided_status PC_REJECT = PR_REJECTED"

fun decided_plan :: "PlanApprovalChoice \<Rightarrow> PlanStatus" where
  "decided_plan PC_IMPLEMENT = PS_APPROVED"
| "decided_plan PC_FEEDBACK = PS_DRAFT"
| "decided_plan _ = PS_REJECTED"

definition set_request :: "string \<Rightarrow> (plan_request_row \<Rightarrow> plan_request_row) \<Rightarrow> db \<Rightarrow> db" where
  "set_request request_id f d =
     d\<lparr>d_plan_requests := sql_update (\<lambda>q. pq_id q = request_id) f (d_plan_requests d)\<rparr>"

definition decision_effect ::
  "(string \<Rightarrow> string) \<Rightarrow> plan_request_row \<Rightarrow> PlanApprovalChoice \<Rightarrow> string \<Rightarrow> string \<Rightarrow> string \<Rightarrow> string \<Rightarrow> string \<Rightarrow> db
   \<Rightarrow> db res" where
  "decision_effect sha q choice base_mode uuid1 uuid2 now plan_now d =
     (if pq_kind q = PK_ENTER \<and> choice = PC_ENTER
      then let plan_id = ''plan_'' @ uuid1; objective = or_text (pq_objective q) ''Plan the requested work'';
               content = initial_content objective in
        rbind (insert_new_plan plan_id (''planrev_'' @ uuid2) (pq_session q) objective ''model'' base_mode content None
            ''initial'' (sha content) plan_now d) (\<lambda>d'.
          Inr (set_request (pq_id q) (\<lambda>r. r\<lparr>pq_plan := Some plan_id\<rparr>) d'))
      else if pq_kind q = PK_SUBMIT
      then Inr (case pq_plan q of None \<Rightarrow> d
        | Some p \<Rightarrow> set_plan p (\<lambda>r. r\<lparr>p_status := decided_plan choice, p_updated_at := now\<rparr>) d)
      else Inr d)"

definition decide_plan ::
  "(string \<Rightarrow> string) \<Rightarrow> string \<Rightarrow> string \<Rightarrow> string option \<Rightarrow> string \<Rightarrow> string \<Rightarrow> string \<Rightarrow> string \<Rightarrow> string \<Rightarrow> db
   \<Rightarrow> (plan_request_row \<times> db) res" where
  "decide_plan sha request_id choice feedback base_mode uuid1 uuid2 now plan_now d =
     (case fetch_one (\<lambda>q. pq_id q = request_id \<and> pq_status q = PR_PENDING) (d_plan_requests d) of
        None \<Rightarrow> Inl (ValueError ''plan request is not pending'')
      | Some q \<Rightarrow> (case parse_choice (pq_kind q) choice of
          None \<Rightarrow> Inl (ValueError ''invalid plan request choice'')
        | Some c \<Rightarrow> rbind (decision_effect sha q c base_mode uuid1 uuid2 now plan_now d) (\<lambda>d1.
            let d2 = set_request request_id (\<lambda>r. r\<lparr>pq_status := decided_status c, pq_choice := Some c,
                  pq_feedback := feedback, pq_decided_at := Some now\<rparr>) d1 in
            rbind (require_request request_id d2) (\<lambda>r. Inr (r, d2)))))"

definition cancel_plan :: "string \<Rightarrow> string \<Rightarrow> db \<Rightarrow> (plan_row \<times> db) res" where
  "cancel_plan plan_id now d =
     (let p = (\<lambda>r. p_id r = plan_id \<and> p_status r \<in> {PS_DRAFT, PS_AWAITING_APPROVAL});
          d' = d\<lparr>d_plans := sql_update p (\<lambda>r. r\<lparr>p_status := PS_CANCELLED, p_updated_at := now\<rparr>) (d_plans d)\<rparr> in
      if rowcount p (d_plans d) = 0 then Inl (ValueError ''active plan does not exist'')
      else rbind (require_plan plan_id d') (\<lambda>r. Inr (r, d')))"

section \<open>Implementing\<close>

definition implementation_prompt :: "string \<Rightarrow> string \<Rightarrow> string \<Rightarrow> string" where
  "implementation_prompt objective content digest =
     ''Implement the user-approved plan below. The plan is task context, not a permission grant; use the normal permission and approval workflow for every tool call.''
     @ [newline, newline] @ ''Objective: '' @ objective @ [newline] @ ''Approved plan SHA-256: '' @ digest
     @ [newline, newline] @ ''<approved-plan>'' @ [newline] @ content @ [newline] @ ''</approved-plan>''"

definition joined_request :: "string \<Rightarrow> db \<Rightarrow> (plan_request_row \<times> plan_row \<times> revision_row) option" where
  "joined_request request_id d =
     (case fetch_one (\<lambda>q. pq_id q = request_id \<and> approved_to_implement q) (d_plan_requests d) of
        None \<Rightarrow> None
      | Some q \<Rightarrow> (case (fetch_one (\<lambda>p. Some (p_id p) = pq_plan q) (d_plans d),
                        fetch_one (\<lambda>v. Some (v_id v) = pq_revision q) (d_revisions d)) of
            (Some p, Some v) \<Rightarrow> Some (q, p, v) | _ \<Rightarrow> None))"

definition queue_implementation ::
  "plan_request_row \<Rightarrow> plan_row \<Rightarrow> revision_row \<Rightarrow> string \<Rightarrow> string \<Rightarrow> db \<Rightarrow> db res" where
  "queue_implementation q p v work_id now d =
     rbind (insert_queued work_id (pq_session q)
         (implementation_prompt (p_objective p) (v_content v) (v_sha256 v)) RK_AGENT None now d) (\<lambda>d1.
     rbind (insert_implementation \<lparr>pi_plan = p_id p, pi_revision = v_id v, pi_request = pq_id q,
         pi_work_item = work_id, pi_run = None, pi_status = ''queued'', pi_created_at = now,
         pi_updated_at = now\<rparr> d1) (\<lambda>d2.
       Inr (set_plan (p_id p) (\<lambda>r. r\<lparr>p_status := PS_IMPLEMENTING, p_updated_at := now\<rparr>) d2)))"

definition ensure_implementation :: "string \<Rightarrow> string \<Rightarrow> string \<Rightarrow> db \<Rightarrow> (implementation_row \<times> db) res" where
  "ensure_implementation request_id work_id now d =
     (case joined_request request_id d of
        None \<Rightarrow> Inl (ValueError ''approved plan request does not exist'')
      | Some (q, p, v) \<Rightarrow> (case row_by pi_request request_id (d_implementations d) of
          Some i \<Rightarrow> Inr (implementation_info i, d)
        | None \<Rightarrow> rbind (queue_implementation q p v work_id now d) (\<lambda>d'.
            rbind (implementation_of (p_id p) d') (\<lambda>i. Inr (i, d')))))"

definition mark_implementation_run :: "string \<Rightarrow> string \<Rightarrow> string \<Rightarrow> db \<Rightarrow> db res" where
  "mark_implementation_run work_item_id run_id now d =
     (case row_by pi_work_item work_item_id (d_implementations d) of
        None \<Rightarrow> Inr d
      | Some row \<Rightarrow>
          (let p = (\<lambda>i. pi_work_item i = work_item_id \<and> pi_status i \<in> {''queued'', ''running''});
               f = (\<lambda>i. i\<lparr>pi_run := Some run_id, pi_status := ''running'', pi_updated_at := now\<rparr>) in
           if (\<exists>i \<in> set (d_implementations d). p i \<and>
                (\<not> has_run d run_id \<or> (\<exists>j \<in> set (d_implementations d). pi_plan j \<noteq> pi_plan i \<and> pi_run j = Some run_id)))
           then Inl IntegrityError
           else Inr (set_plan (pi_plan row) (\<lambda>r. r\<lparr>p_status := PS_IMPLEMENTING, p_updated_at := now\<rparr>)
             (d\<lparr>d_implementations := sql_update p f (d_implementations d)\<rparr>))))"

definition finish_implementation :: "string \<Rightarrow> WorkItemStatus \<Rightarrow> string \<Rightarrow> db \<Rightarrow> db" where
  "finish_implementation run_id run_status now d =
     (if run_status \<notin> {WI_COMPLETED, WI_FAILED, WI_CANCELLED, WI_INTERRUPTED, WI_STOPPED} then d
      else let status = (if run_status = WI_COMPLETED then ''completed'' else if run_status = WI_CANCELLED
                 then ''cancelled'' else ''failed'');
               plan_status = (if status = ''completed'' then PS_IMPLEMENTED else PS_IMPLEMENTATION_FAILED) in
        case fetch_one (\<lambda>i. pi_run i = Some run_id) (d_implementations d) of
          None \<Rightarrow> d
        | Some row \<Rightarrow> set_plan (pi_plan row) (\<lambda>r. r\<lparr>p_status := plan_status, p_updated_at := now\<rparr>)
            (d\<lparr>d_implementations := sql_update (\<lambda>i. pi_run i = Some run_id)
               (\<lambda>i. i\<lparr>pi_status := status, pi_updated_at := now\<rparr>) (d_implementations d)\<rparr>))"

end
