(* ===== verification/Plan_Safety.thy ===== *)
theory Plan_Safety
  imports Plans Workflow_Service
begin

text \<open>
  What holds of plans: the invariant \<open>plans_ok\<close> of the four tables under every operation that
  writes them, the refinement of a plan's revisions to a history of texts with compare-and-swap
  updates, and what an implementation rests on.
\<close>

section \<open>The invariant\<close>

lemma fetch_one_ex: "r \<in> set t \<Longrightarrow> p r \<Longrightarrow> \<exists>x. fetch_one p t = Some x"
  by (cases "fetch_one p t") (auto simp: fetch_one_None)

lemma fetch_one_unique:
  assumes "unique_by key t" and "r \<in> set t" and "p r" and "\<And>x. p x \<Longrightarrow> key x = key r"
  shows "fetch_one p t = Some r"
proof -
  obtain x where x: "fetch_one p t = Some x" using fetch_one_ex[of r t p, OF assms(2,3)] by blast
  then show ?thesis using fetch_one_Some[OF x] unique_by_eq[OF assms(1) _ assms(2)] assms(4) by auto
qed

definition revisions_ok :: "(string \<Rightarrow> string) \<Rightarrow> revision_row list \<Rightarrow> bool" where
  "revisions_ok sha vs \<longleftrightarrow> unique_by v_id vs \<and> unique_by (\<lambda>v. (v_plan v, v_ordinal v)) vs
     \<and> unique_by (\<lambda>v. (v_plan v, v_sha256 v)) vs \<and> (\<forall>v \<in> set vs. v_sha256 v = sha (v_content v))"

definition current_ok :: "revision_row list \<Rightarrow> plan_row \<Rightarrow> bool" where
  "current_ok vs p \<longleftrightarrow> (\<exists>v \<in> set vs. p_current_revision p = Some (v_id v) \<and> v_plan v = p_id p
     \<and> (\<forall>w \<in> set vs. v_plan w = p_id p \<longrightarrow> v_ordinal w \<le> v_ordinal v))"

definition request_ok :: "plan_row list \<Rightarrow> revision_row list \<Rightarrow> plan_request_row \<Rightarrow> bool" where
  "request_ok ps vs q \<longleftrightarrow> (pq_kind q = PK_SUBMIT \<longrightarrow> (\<exists>p \<in> set ps. \<exists>v \<in> set vs. pq_plan q = Some (p_id p)
     \<and> pq_revision q = Some (v_id v) \<and> v_plan v = p_id p \<and> pq_session q = p_session p))"

definition backed :: "plan_request_row list \<Rightarrow> implementation_row \<Rightarrow> bool" where
  "backed qs i \<longleftrightarrow> (\<exists>q \<in> set qs. pq_id q = pi_request i \<and> approved_to_implement q
     \<and> pq_plan q = Some (pi_plan i) \<and> pq_revision q = Some (pi_revision i))"

definition plans_ok :: "(string \<Rightarrow> string) \<Rightarrow> db \<Rightarrow> bool" where
  "plans_ok sha d \<longleftrightarrow> unique_by p_id (d_plans d) \<and> unique_by pq_id (d_plan_requests d)
     \<and> revisions_ok sha (d_revisions d) \<and> (\<forall>v \<in> set (d_revisions d). v_plan v \<in> p_id ` set (d_plans d))
     \<and> (\<forall>p \<in> set (d_plans d). current_ok (d_revisions d) p)
     \<and> (\<forall>q \<in> set (d_plan_requests d). request_ok (d_plans d) (d_revisions d) q)
     \<and> (\<forall>i \<in> set (d_implementations d). backed (d_plan_requests d) i)"

lemma plans_okI:
  assumes "unique_by p_id (d_plans d)" and "unique_by pq_id (d_plan_requests d)" and "revisions_ok sha (d_revisions d)"
    and "\<And>v. v \<in> set (d_revisions d) \<Longrightarrow> v_plan v \<in> p_id ` set (d_plans d)"
    and "\<And>p. p \<in> set (d_plans d) \<Longrightarrow> current_ok (d_revisions d) p"
    and "\<And>q. q \<in> set (d_plan_requests d) \<Longrightarrow> request_ok (d_plans d) (d_revisions d) q"
    and "\<And>i. i \<in> set (d_implementations d) \<Longrightarrow> backed (d_plan_requests d) i"
  shows "plans_ok sha d"
  using assms by (simp add: plans_ok_def)

lemma plans_okD:
  assumes "plans_ok sha d"
  shows "unique_by p_id (d_plans d)" "unique_by pq_id (d_plan_requests d)" "revisions_ok sha (d_revisions d)"
    "p \<in> set (d_plans d) \<Longrightarrow> current_ok (d_revisions d) p"
    "q \<in> set (d_plan_requests d) \<Longrightarrow> request_ok (d_plans d) (d_revisions d) q"
    "i \<in> set (d_implementations d) \<Longrightarrow> backed (d_plan_requests d) i"
    "v \<in> set (d_revisions d) \<Longrightarrow> v_plan v \<in> p_id ` set (d_plans d)"
  using assms by (simp_all add: plans_ok_def)

text \<open>Rewriting plans without their identity, session and current revision.\<close>

definition plan_key :: "plan_row \<Rightarrow> string \<times> string \<times> string option" where
  "plan_key p = (p_id p, p_session p, p_current_revision p)"

lemma same_keys:
  assumes "map plan_key ps' = map plan_key ps"
  shows "p \<in> set ps' \<Longrightarrow> \<exists>q \<in> set ps. plan_key q = plan_key p" "q \<in> set ps \<Longrightarrow> \<exists>p \<in> set ps'. plan_key p = plan_key q"
    "unique_by p_id ps' \<longleftrightarrow> unique_by p_id ps"
proof -
  have img: "plan_key ` set ps' = plan_key ` set ps" using assms by (metis list.set_map)
  show "p \<in> set ps' \<Longrightarrow> \<exists>q \<in> set ps. plan_key q = plan_key p" using img by (metis image_iff)
  show "q \<in> set ps \<Longrightarrow> \<exists>p \<in> set ps'. plan_key p = plan_key q" using img by (metis image_iff)
  have "map p_id ps' = map p_id ps"
    using arg_cong[OF assms, of "map fst"] by (simp add: plan_key_def comp_def)
  then show "unique_by p_id ps' \<longleftrightarrow> unique_by p_id ps" by (simp add: unique_by_def)
qed

lemma current_ok_key: "plan_key p = plan_key q \<Longrightarrow> current_ok vs p = current_ok vs q"
  by (simp add: current_ok_def plan_key_def)

lemma request_ok_iff: "request_ok ps vs q \<longleftrightarrow> (pq_kind q = PK_SUBMIT \<longrightarrow>
    (\<exists>k \<in> (\<lambda>p. (p_id p, p_session p)) ` set ps. \<exists>v \<in> set vs.
      pq_plan q = Some (fst k) \<and> pq_revision q = Some (v_id v) \<and> v_plan v = fst k \<and> pq_session q = snd k))"
  by (simp add: request_ok_def)

lemma request_ok_ids:
  assumes "request_ok ps vs q" and "(\<lambda>p. (p_id p, p_session p)) ` set ps' = (\<lambda>p. (p_id p, p_session p)) ` set ps"
    and "set vs \<subseteq> set vs'"
  shows "request_ok ps' vs' q"
  using assms(1,3) unfolding request_ok_iff assms(2) by blast

lemma request_ok_key: "request_ok ps vs q \<Longrightarrow> map plan_key ps' = map plan_key ps \<Longrightarrow> request_ok ps' vs q"
proof (rule request_ok_ids)
  assume "map plan_key ps' = map plan_key ps"
  from arg_cong[OF this, of "map (\<lambda>k. (fst k, fst (snd k)))"]
  have "map (\<lambda>p. (p_id p, p_session p)) ps' = map (\<lambda>p. (p_id p, p_session p)) ps" by (simp add: plan_key_def comp_def)
  from arg_cong[OF this, of set]
  show "(\<lambda>p. (p_id p, p_session p)) ` set ps' = (\<lambda>p. (p_id p, p_session p)) ` set ps" by (simp only: list.set_map)
qed (assumption | rule subset_refl)+

lemma plans_ok_rewrite:
  assumes "plans_ok sha d" and "map plan_key (d_plans d') = map plan_key (d_plans d)"
    and "d_revisions d' = d_revisions d" and "d_plan_requests d' = d_plan_requests d"
    and "\<And>i. i \<in> set (d_implementations d') \<Longrightarrow> backed (d_plan_requests d) i"
  shows "plans_ok sha d'"
proof (rule plans_okI)
  note ok = plans_okD[OF assms(1)]
  show "unique_by p_id (d_plans d')" using ok(1) same_keys(3)[OF assms(2)] by simp
  show "unique_by pq_id (d_plan_requests d')" "revisions_ok sha (d_revisions d')" using ok assms(3,4) by simp_all
  show "v_plan v \<in> p_id ` set (d_plans d')" if "v \<in> set (d_revisions d')" for v
  proof -
    have "p_id ` set ps = fst ` plan_key ` set ps" for ps by (simp add: image_image plan_key_def)
    moreover have "plan_key ` set (d_plans d') = plan_key ` set (d_plans d)" using assms(2) by (metis list.set_map)
    ultimately show ?thesis using ok(7) that assms(3) by simp
  qed
  show "current_ok (d_revisions d') p" if "p \<in> set (d_plans d')" for p
    using same_keys(1)[OF assms(2) that] ok(4) current_ok_key assms(3) by metis
  show "request_ok (d_plans d') (d_revisions d') q" if "q \<in> set (d_plan_requests d')" for q
    using ok(5) request_ok_key[OF _ assms(2)] that assms(3,4) by simp
  show "backed (d_plan_requests d') i" if "i \<in> set (d_implementations d')" for i
    using assms(4,5) that by simp
qed

lemma plan_key_update: "(\<And>p. plan_key (f p) = plan_key p) \<Longrightarrow> map plan_key (sql_update P f ps) = map plan_key ps"
  by (rule map_sql_update)

lemma set_plan_fields [simp]:
  "d_plans (set_plan i f d) = sql_update (\<lambda>p. p_id p = i) f (d_plans d)" "d_revisions (set_plan i f d) = d_revisions d"
  "d_plan_requests (set_plan i f d) = d_plan_requests d" "d_implementations (set_plan i f d) = d_implementations d"
  by (simp_all add: set_plan_def)

lemma set_plan_ok:
  assumes "plans_ok sha d" and "\<And>p. plan_key (f p) = plan_key p"
  shows "plans_ok sha (set_plan i f d)"
  by (rule plans_ok_rewrite[OF assms(1)]) (use plans_okD(6)[OF assms(1)] in \<open>simp_all add: plan_key_update assms(2)\<close>)

text \<open>Rewriting requests: a submission keeps what it refers to, and an approval to implement is
  never taken back.\<close>

lemma set_requests_ok:
  assumes "plans_ok sha d"
    and "\<And>q. P q \<Longrightarrow> q \<in> set (d_plan_requests d) \<Longrightarrow> pq_id (f q) = pq_id q \<and> pq_kind (f q) = pq_kind q
       \<and> pq_session (f q) = pq_session q \<and> pq_revision (f q) = pq_revision q \<and> (pq_kind q = PK_SUBMIT \<longrightarrow> pq_plan (f q) = pq_plan q)
       \<and> \<not> approved_to_implement q"
  shows "plans_ok sha (d\<lparr>d_plan_requests := sql_update P f (d_plan_requests d)\<rparr>)"
proof (rule plans_okI)
  note ok = plans_okD[OF assms(1)]
  have "map pq_id (sql_update P f (d_plan_requests d)) = map pq_id (d_plan_requests d)"
    using assms(2) by (simp add: sql_update_def)
  then show "unique_by pq_id (d_plan_requests (d\<lparr>d_plan_requests := sql_update P f (d_plan_requests d)\<rparr>))"
    using ok(2) by (simp add: unique_by_def)
  show "request_ok (d_plans (d\<lparr>d_plan_requests := sql_update P f (d_plan_requests d)\<rparr>))
    (d_revisions (d\<lparr>d_plan_requests := sql_update P f (d_plan_requests d)\<rparr>)) q"
    if "q \<in> set (d_plan_requests (d\<lparr>d_plan_requests := sql_update P f (d_plan_requests d)\<rparr>))" for q
  proof -
    have "q \<in> set (sql_update P f (d_plan_requests d))" using that by simp
    then show ?thesis
    proof (cases rule: sql_updateE)
      case (1 x)
      then show ?thesis using ok(5)[OF 1(1)] assms(2)[OF 1(2,1)] by (simp add: request_ok_def)
    qed (use ok(5) in simp)
  qed
  show "backed (d_plan_requests (d\<lparr>d_plan_requests := sql_update P f (d_plan_requests d)\<rparr>)) i"
    if "i \<in> set (d_implementations (d\<lparr>d_plan_requests := sql_update P f (d_plan_requests d)\<rparr>))" for i
  proof -
    have "backed (d_plan_requests d) i" using ok(6) that by simp
    then obtain q where q: "q \<in> set (d_plan_requests d)" "pq_id q = pi_request i" "approved_to_implement q"
      "pq_plan q = Some (pi_plan i)" "pq_revision q = Some (pi_revision i)"
      by (auto simp: backed_def)
    then have "\<not> P q" using assms(2) by blast
    then have "q \<in> set (sql_update P f (d_plan_requests d))" using q(1) by (rule sql_update_miss[rotated])
    then show ?thesis using q by (auto simp: backed_def)
  qed
qed (use plans_okD[OF assms(1)] in simp_all)

section \<open>Inserting\<close>

lemma revisions_ok_insert:
  assumes "revisions_ok sha vs" and "v_sha256 v = sha (v_content v)"
    and "\<forall>x \<in> set vs. \<not> (v_id v = v_id x \<or> (v_plan v = v_plan x \<and> (v_ordinal v = v_ordinal x \<or> v_sha256 v = v_sha256 x)))"
  shows "revisions_ok sha (vs @ [v])"
  using assms by (auto simp: revisions_ok_def)

lemma current_ok_insert_other:
  "current_ok vs p \<Longrightarrow> v_plan v \<noteq> p_id p \<Longrightarrow> current_ok (vs @ [v]) p"
  by (auto simp: current_ok_def)

lemma request_ok_mono: "request_ok ps vs q \<Longrightarrow> set ps \<subseteq> set ps' \<Longrightarrow> set vs \<subseteq> set vs' \<Longrightarrow> request_ok ps' vs' q"
  unfolding request_ok_def by blast

definition new_plan_row :: "string \<Rightarrow> string \<Rightarrow> string \<Rightarrow> string \<Rightarrow> string \<Rightarrow> string \<Rightarrow> string option \<Rightarrow> string \<Rightarrow> plan_row" where
  "new_plan_row plan_id revision_id s obj src mode parent now = \<lparr>p_id = plan_id, p_session = s, p_objective = obj,
     p_status = PS_DRAFT, p_entry_source = src, p_base_mode = mode, p_current_revision = Some revision_id,
     p_parent = parent, p_mirror = s @ ''/'' @ plan_id @ ''.md'', p_created_at = now, p_updated_at = now\<rparr>"

lemma insert_new_plan_effect:
  assumes "insert_new_plan plan_id revision_id s obj src mode content parent vsrc digest now d = Inr d'"
  obtains v where "d' = d\<lparr>d_plans := d_plans d @ [new_plan_row plan_id revision_id s obj src mode parent now],
      d_revisions := d_revisions d @ [v]\<rparr>"
    and "v_id v = revision_id" and "v_plan v = plan_id" and "v_ordinal v = 1" and "v_content v = content" and "v_sha256 v = digest"
    and "\<forall>x \<in> set (d_plans d). plan_id \<noteq> p_id x"
    and "\<forall>x \<in> set (d_revisions d). \<not> (v_id v = v_id x \<or> (v_plan v = v_plan x \<and> (v_ordinal v = v_ordinal x \<or> v_sha256 v = v_sha256 x)))"
proof -
  define v where "v = \<lparr>v_id = revision_id, v_plan = plan_id, v_ordinal = 1, v_content = content, v_sha256 = digest,
     v_source = vsrc, v_run = None, v_created_at = now\<rparr>"
  obtain d1 where 1: "insert_plan (new_plan_row plan_id revision_id s obj src mode parent now) d = Inr d1"
    "insert_revision v d1 = Inr d'"
    using assms unfolding insert_new_plan_def new_plan_row_def[symmetric] v_def[symmetric] by (rule rbind_InrE)
  have d1: "d1 = d\<lparr>d_plans := d_plans d @ [new_plan_row plan_id revision_id s obj src mode parent now]\<rparr>"
    "\<forall>x \<in> set (d_plans d). plan_id \<noteq> p_id x"
    using 1(1) unfolding insert_plan_Inr by (simp_all add: new_plan_row_def)
  have "d' = d1\<lparr>d_revisions := d_revisions d1 @ [v]\<rparr>"
    "\<forall>x \<in> set (d_revisions d1). \<not> (v_id v = v_id x \<or> (v_plan v = v_plan x \<and> (v_ordinal v = v_ordinal x \<or> v_sha256 v = v_sha256 x)))"
    using 1(2) unfolding insert_revision_Inr by simp_all
  then show thesis using d1 by (intro that[of v]) (simp_all add: v_def)
qed

lemma new_plan_ok:
  assumes "plans_ok sha d"
    and "insert_new_plan plan_id revision_id s obj src mode content parent vsrc (sha content) now d = Inr d'"
  shows "plans_ok sha d'"
proof -
  note ok = plans_okD[OF assms(1)]
  let ?p = "new_plan_row plan_id revision_id s obj src mode parent now"
  obtain v where d': "d' = d\<lparr>d_plans := d_plans d @ [?p], d_revisions := d_revisions d @ [v]\<rparr>"
    and v: "v_id v = revision_id" "v_plan v = plan_id" "v_sha256 v = sha (v_content v)"
    and fresh: "\<forall>x \<in> set (d_plans d). plan_id \<noteq> p_id x"
      "\<forall>x \<in> set (d_revisions d). \<not> (v_id v = v_id x \<or> (v_plan v = v_plan x \<and> (v_ordinal v = v_ordinal x \<or> v_sha256 v = v_sha256 x)))"
    using insert_new_plan_effect[OF assms(2)] by metis
  have none: "v_plan w \<noteq> plan_id" if "w \<in> set (d_revisions d)" for w
    using ok(7)[OF that] fresh(1) by auto
  have p: "p_id ?p = plan_id" "p_current_revision ?p = Some revision_id" by (simp_all add: new_plan_row_def)
  show ?thesis
  proof (rule plans_okI)
    show "unique_by p_id (d_plans d')" using ok(1) fresh(1) p by (auto simp: d')
    show "unique_by pq_id (d_plan_requests d')" using ok(2) by (simp add: d')
    show "revisions_ok sha (d_revisions d')" using revisions_ok_insert[OF ok(3) v(3) fresh(2)] by (simp add: d')
    show "v_plan w \<in> p_id ` set (d_plans d')" if "w \<in> set (d_revisions d')" for w
      using that ok(7)[of w] v(2) p(1) by (auto simp: d')
    show "current_ok (d_revisions d') q" if "q \<in> set (d_plans d')" for q
    proof (cases "q = ?p")
      case True
      have "\<forall>w \<in> set (d_revisions d @ [v]). v_plan w = plan_id \<longrightarrow> v_ordinal w \<le> v_ordinal v" using none by auto
      then show ?thesis using True p v unfolding current_ok_def d' by simp
    next
      case False
      then have "q \<in> set (d_plans d)" using that by (simp add: d')
      then show ?thesis using current_ok_insert_other[OF ok(4), of q v] fresh(1) v(2) by (simp add: d')
    qed
    show "request_ok (d_plans d') (d_revisions d') q" if "q \<in> set (d_plan_requests d')" for q
      by (rule request_ok_mono[OF ok(5)]) (use that in \<open>auto simp: d'\<close>)
    show "backed (d_plan_requests d') i" if "i \<in> set (d_implementations d')" for i
      using ok(6) that by (simp add: d')
  qed
qed

lemma draft_plan_Some:
  assumes "draft_plan plan_id d = Some p"
  shows "p \<in> set (d_plans d)" "p_id p = plan_id" "p_status p = PS_DRAFT"
  using fetch_one_Some[OF assms[unfolded draft_plan_def]] by simp_all

lemma owned_revision_Some:
  assumes "owned_revision p plan_id d = Some v"
  shows "v \<in> set (d_revisions d)" "p_current_revision p = Some (v_id v)" "v_plan v = plan_id"
  using fetch_one_Some[OF assms[unfolded owned_revision_def]] by simp_all

lemma owned_revision_current:
  assumes "plans_ok sha d" and "p \<in> set (d_plans d)"
  obtains v where "owned_revision p (p_id p) d = Some v"
    and "\<forall>w \<in> set (d_revisions d). v_plan w = p_id p \<longrightarrow> v_ordinal w \<le> v_ordinal v"
proof -
  obtain v where v: "v \<in> set (d_revisions d)" "p_current_revision p = Some (v_id v)" "v_plan v = p_id p"
    "\<forall>w \<in> set (d_revisions d). v_plan w = p_id p \<longrightarrow> v_ordinal w \<le> v_ordinal v"
    using plans_okD(4)[OF assms(1,2)] unfolding current_ok_def by auto
  have uniq: "unique_by v_id (d_revisions d)" using plans_okD(3)[OF assms(1)] by (simp add: revisions_ok_def)
  have "owned_revision p (p_id p) d \<noteq> None" using v(1-3) by (auto simp: owned_revision_def fetch_one_None)
  then obtain w where w: "owned_revision p (p_id p) d = Some w" by blast
  have "v_id w = v_id v" using owned_revision_Some(2)[OF w] v(2) by simp
  then have "w = v" using unique_by_eq[OF uniq owned_revision_Some(1)[OF w] v(1)] by simp
  then show thesis using w v(4) that by simp
qed

lemma require_revision_id: "require_revision i d = Inr v \<Longrightarrow> v_id v = i"
  by (cases "row_by v_id i (d_revisions d)")
     (auto simp: require_revision_def get_revision_def revision_info_def dest: row_by_Some)

lemma append_revision_effect:
  assumes "append_revision sha plan_id content expected source run_id uuid now d = Inr (r, d')"
  obtains (same) p current where "draft_plan plan_id d = Some p" and "owned_revision p plan_id d = Some current"
      and "v_sha256 current = expected" and "v_sha256 current = sha content" and "r = revision_info current" and "d' = d"
  | (new) p current v where "draft_plan plan_id d = Some p" and "owned_revision p plan_id d = Some current"
      and "v_sha256 current = expected" and "v_sha256 current \<noteq> sha content"
      and "d' = set_plan plan_id (\<lambda>p. p\<lparr>p_current_revision := Some (v_id v), p_updated_at := now\<rparr>)
             (d\<lparr>d_revisions := d_revisions d @ [v]\<rparr>)"
      and "v_plan v = plan_id" and "v_ordinal v = next_ordinal plan_id d" and "v_content v = content"
      and "v_sha256 v = sha content" and "v_id r = v_id v"
      and "\<forall>x \<in> set (d_revisions d). \<not> (v_id v = v_id x \<or> (v_plan v = v_plan x \<and> (v_ordinal v = v_ordinal x \<or> v_sha256 v = v_sha256 x)))"
proof -
  obtain p where p: "draft_plan plan_id d = Some p"
    using assms by (cases "draft_plan plan_id d") (simp_all add: append_revision_def)
  obtain current where c: "owned_revision p plan_id d = Some current"
    using assms p by (cases "owned_revision p plan_id d") (simp_all add: append_revision_def)
  have e: "v_sha256 current = expected" using assms p c by (cases "v_sha256 current = expected") (simp_all add: append_revision_def)
  show thesis
  proof (cases "v_sha256 current = sha content")
    case True
    then show thesis using assms p c e by (intro same[OF p c e True]) (simp_all add: append_revision_def)
  next
    case False
    define v where "v = \<lparr>v_id = ''planrev_'' @ uuid, v_plan = plan_id, v_ordinal = next_ordinal plan_id d,
      v_content = content, v_sha256 = sha content, v_source = source, v_run = run_id, v_created_at = now\<rparr>"
    have "rbind (insert_revision v d) (\<lambda>d1.
        let d2 = set_plan plan_id (\<lambda>p. p\<lparr>p_current_revision := Some (v_id v), p_updated_at := now\<rparr>) d1 in
        rbind (require_revision (v_id v) d2) (\<lambda>x. Inr (x, d2))) = Inr (r, d')"
      using assms p c e False by (simp add: append_revision_def v_def Let_def)
    then obtain d1 where d1: "insert_revision v d = Inr d1" and rest: "(let d2 = set_plan plan_id
        (\<lambda>p. p\<lparr>p_current_revision := Some (v_id v), p_updated_at := now\<rparr>) d1 in
        rbind (require_revision (v_id v) d2) (\<lambda>x. Inr (x, d2))) = Inr (r, d')" by (rule rbind_InrE)
    obtain x where x: "require_revision (v_id v) (set_plan plan_id (\<lambda>p. p\<lparr>p_current_revision := Some (v_id v), p_updated_at := now\<rparr>) d1) = Inr x"
      "Inr (x, set_plan plan_id (\<lambda>p. p\<lparr>p_current_revision := Some (v_id v), p_updated_at := now\<rparr>) d1) = (Inr (r, d') :: (revision_row \<times> db) res)"
      using rest unfolding Let_def by (rule rbind_InrE)
    have "d1 = d\<lparr>d_revisions := d_revisions d @ [v]\<rparr>"
      and fresh: "\<forall>x \<in> set (d_revisions d). \<not> (v_id v = v_id x \<or> (v_plan v = v_plan x \<and> (v_ordinal v = v_ordinal x \<or> v_sha256 v = v_sha256 x)))"
      using d1 unfolding insert_revision_Inr by simp_all
    moreover have "v_id r = v_id v"
      using x require_revision_id by simp
    moreover have "d' = set_plan plan_id (\<lambda>p. p\<lparr>p_current_revision := Some (v_id v), p_updated_at := now\<rparr>) d1"
      using x(2) by simp
    ultimately show thesis
      by (intro new[OF p c e False _ _ _ _ _ _ fresh]) (simp_all add: v_def)
  qed
qed

lemma next_ordinal_above: "v \<in> set (d_revisions d) \<Longrightarrow> v_plan v = plan_id \<Longrightarrow> v_ordinal v < next_ordinal plan_id d"
  unfolding next_ordinal_def using max_or_ge[of v "d_revisions d" "\<lambda>v. v_plan v = plan_id" v_ordinal 0] by simp

lemma append_revision_ok:
  assumes "plans_ok sha d" and "append_revision sha plan_id content expected source run_id uuid now d = Inr (r, d')"
  shows "plans_ok sha d'"
  using assms(2)
proof (cases rule: append_revision_effect)
  case (new p current v)
  note ok = plans_okD[OF assms(1)]
  let ?f = "\<lambda>p. p\<lparr>p_current_revision := Some (v_id v), p_updated_at := now\<rparr>"
  let ?ps = "sql_update (\<lambda>p. p_id p = plan_id) ?f (d_plans d)"
  have tables: "d_plans d' = ?ps" "d_revisions d' = d_revisions d @ [v]" "d_plan_requests d' = d_plan_requests d"
    "d_implementations d' = d_implementations d"
    using new(5) by simp_all
  have ids: "map (\<lambda>p. (p_id p, p_session p)) ?ps = map (\<lambda>p. (p_id p, p_session p)) (d_plans d)" by (rule map_sql_update) simp
  have img: "(\<lambda>p. (p_id p, p_session p)) ` set ?ps = (\<lambda>p. (p_id p, p_session p)) ` set (d_plans d)"
    using arg_cong[OF ids, of set] by (simp only: list.set_map)
  have "map p_id ?ps = map p_id (d_plans d)" by (rule map_sql_update) simp
  from arg_cong[OF this, of set] have fst: "p_id ` set ?ps = p_id ` set (d_plans d)" by (simp only: list.set_map)
  show ?thesis
  proof (rule plans_okI)
    have "map p_id ?ps = map p_id (d_plans d)" by (rule map_sql_update) simp
    then show "unique_by p_id (d_plans d')" using ok(1) by (simp add: tables unique_by_def)
    show "unique_by pq_id (d_plan_requests d')" using ok(2) by (simp add: tables)
    show "revisions_ok sha (d_revisions d')"
      using revisions_ok_insert[OF ok(3) _ new(11)] new(8,9) by (simp add: tables)
    show "v_plan w \<in> p_id ` set (d_plans d')" if "w \<in> set (d_revisions d')" for w
    proof (cases "w = v")
      case True
      have "p_id p \<in> p_id ` set (d_plans d)" using draft_plan_Some(1)[OF new(1)] by simp
      then show ?thesis using True new(6) draft_plan_Some(2)[OF new(1)] by (simp add: tables fst)
    next
      case False
      then show ?thesis using that ok(7)[of w] by (simp add: tables fst)
    qed
    show "current_ok (d_revisions d') q" if "q \<in> set (d_plans d')" for q
    proof -
      have "q \<in> set ?ps" using that by (simp add: tables)
      then show ?thesis
      proof (cases rule: sql_updateE)
        case (1 x)
        have top: "v_ordinal w \<le> v_ordinal v" if "w \<in> set (d_revisions d @ [v])" "v_plan w = plan_id" for w
          using next_ordinal_above[of w d plan_id] new(7) that by auto
        have q: "p_id q = plan_id" "p_current_revision q = Some (v_id v)" using 1(2,3) by simp_all
        show ?thesis unfolding current_ok_def tables q using top new(6) by (intro bexI[of _ v]) simp_all
      next
        case 2
        then show ?thesis using current_ok_insert_other[OF ok(4)[OF 2(1)], of v] new(6) by (simp add: tables)
      qed
    qed
    show "request_ok (d_plans d') (d_revisions d') q" if "q \<in> set (d_plan_requests d')" for q
    proof -
      have "request_ok (d_plans d) (d_revisions d) q" using ok(5) that by (simp add: tables)
      then show ?thesis unfolding tables by (rule request_ok_ids) (use img in auto)
    qed
    show "backed (d_plan_requests d') i" if "i \<in> set (d_implementations d')" for i
      using ok(6) that by (simp add: tables)
  qed
qed (use assms(1) in simp)

lemma insert_request_ok:
  assumes "plans_ok sha d" and "insert_plan_request q d = Inr d'" and "request_ok (d_plans d) (d_revisions d) q"
  shows "plans_ok sha d'"
proof -
  note ok = plans_okD[OF assms(1)]
  have d': "d' = d\<lparr>d_plan_requests := d_plan_requests d @ [q]\<rparr>" "\<forall>x \<in> set (d_plan_requests d). pq_id q \<noteq> pq_id x"
    using assms(2) unfolding insert_plan_request_Inr by simp_all
  show ?thesis
  proof (rule plans_okI)
    show "unique_by pq_id (d_plan_requests d')" using ok(2) d'(2) by (auto simp: d'(1))
    show "request_ok (d_plans d') (d_revisions d') r" if "r \<in> set (d_plan_requests d')" for r
      using that ok(5)[of r] assms(3) by (auto simp: d'(1))
    show "backed (d_plan_requests d') i" if "i \<in> set (d_implementations d')" for i
      using ok(6)[of i] that by (auto simp: d'(1) backed_def)
  qed (use ok in \<open>simp_all add: d'(1)\<close>)
qed

lemma submit_effect:
  assumes "submit_plan plan_id expected run_id ivk uuid now d = Inr (q, d')"
  obtains p v d1 where "draft_plan plan_id d = Some p" and "owned_revision p plan_id d = Some v" and "v_sha256 v = expected"
    and "strip (v_content v) \<noteq> []"
    and "insert_plan_request (new_request (''planreq_'' @ uuid) (p_session p) (Some plan_id) (Some (v_id v)) PK_SUBMIT run_id ivk None now) d = Inr d1"
    and "d' = set_plan plan_id (\<lambda>p. p\<lparr>p_status := PS_AWAITING_APPROVAL, p_updated_at := now\<rparr>) d1"
proof -
  obtain p where p: "draft_plan plan_id d = Some p"
    using assms by (cases "draft_plan plan_id d") (simp_all add: submit_plan_def)
  obtain v where v: "owned_revision p plan_id d = Some v"
    using assms p by (cases "owned_revision p plan_id d") (simp_all add: submit_plan_def)
  have e: "v_sha256 v = expected" "strip (v_content v) \<noteq> []"
    using assms p v by (auto simp: submit_plan_def Let_def split: if_splits)
  have rest: "rbind (insert_plan_request (new_request (''planreq_'' @ uuid) (p_session p) (Some plan_id) (Some (v_id v)) PK_SUBMIT run_id ivk None now) d)
     (\<lambda>d1. let d2 = set_plan plan_id (\<lambda>p. p\<lparr>p_status := PS_AWAITING_APPROVAL, p_updated_at := now\<rparr>) d1 in
        rbind (require_request (''planreq_'' @ uuid) d2) (\<lambda>q. Inr (q, d2))) = Inr (q, d')"
    using assms p v e by (simp add: submit_plan_def Let_def)
  then obtain d1 where d1: "insert_plan_request (new_request (''planreq_'' @ uuid) (p_session p) (Some plan_id) (Some (v_id v)) PK_SUBMIT run_id ivk None now) d = Inr d1"
    and more: "rbind (require_request (''planreq_'' @ uuid) (set_plan plan_id (\<lambda>p. p\<lparr>p_status := PS_AWAITING_APPROVAL, p_updated_at := now\<rparr>) d1))
      (\<lambda>q. Inr (q, set_plan plan_id (\<lambda>p. p\<lparr>p_status := PS_AWAITING_APPROVAL, p_updated_at := now\<rparr>) d1)) = Inr (q, d')"
    unfolding Let_def by (rule rbind_InrE)
  have "d' = set_plan plan_id (\<lambda>p. p\<lparr>p_status := PS_AWAITING_APPROVAL, p_updated_at := now\<rparr>) d1"
    using more by (elim rbind_InrE) simp
  then show thesis using that[OF p v e d1] by simp
qed

lemma submit_ok:
  assumes "plans_ok sha d" and "submit_plan plan_id expected run_id ivk uuid now d = Inr (q, d')"
  shows "plans_ok sha d'"
proof -
  obtain p v d1 where e: "draft_plan plan_id d = Some p" "owned_revision p plan_id d = Some v"
    "insert_plan_request (new_request (''planreq_'' @ uuid) (p_session p) (Some plan_id) (Some (v_id v)) PK_SUBMIT run_id ivk None now) d = Inr d1"
    "d' = set_plan plan_id (\<lambda>p. p\<lparr>p_status := PS_AWAITING_APPROVAL, p_updated_at := now\<rparr>) d1"
    using submit_effect[OF assms(2)] by metis
  have "request_ok (d_plans d) (d_revisions d)
    (new_request (''planreq_'' @ uuid) (p_session p) (Some plan_id) (Some (v_id v)) PK_SUBMIT run_id ivk None now)"
    unfolding request_ok_def new_request_def
    using draft_plan_Some[OF e(1)] owned_revision_Some[OF e(2)] by auto
  then show ?thesis
    unfolding e(4) by (intro set_plan_ok insert_request_ok[OF assms(1) e(3)]) (simp_all add: plan_key_def)
qed

lemma set_request_ok:
  assumes "plans_ok sha d" and "q \<in> set (d_plan_requests d)" and "\<not> approved_to_implement q"
    and "pq_id (f q) = pq_id q \<and> pq_kind (f q) = pq_kind q
       \<and> pq_session (f q) = pq_session q \<and> pq_revision (f q) = pq_revision q \<and> (pq_kind q = PK_SUBMIT \<longrightarrow> pq_plan (f q) = pq_plan q)"
  shows "plans_ok sha (set_request (pq_id q) f d)"
  unfolding set_request_def
proof (rule set_requests_ok[OF assms(1)])
  fix r assume "pq_id r = pq_id q" "r \<in> set (d_plan_requests d)"
  then have "r = q" using unique_by_eq[OF plans_okD(2)[OF assms(1)]] assms(2) by blast
  then show "pq_id (f r) = pq_id r \<and> pq_kind (f r) = pq_kind r
       \<and> pq_session (f r) = pq_session r \<and> pq_revision (f r) = pq_revision r \<and> (pq_kind r = PK_SUBMIT \<longrightarrow> pq_plan (f r) = pq_plan r)
       \<and> \<not> approved_to_implement r"
    using assms(3,4) by simp
qed

lemma pending_request:
  assumes "plans_ok sha d" and "fetch_one (\<lambda>q. pq_id q = i \<and> pq_status q = PR_PENDING) (d_plan_requests d) = Some q"
  shows "q \<in> set (d_plan_requests d)" "pq_id q = i" "\<not> approved_to_implement q"
  using fetch_one_Some[OF assms(2)] by (simp_all add: approved_to_implement_def)

lemma decision_effect_ok:
  assumes "plans_ok sha d" and "q \<in> set (d_plan_requests d)" and "\<not> approved_to_implement q"
    and "decision_effect sha q c mode u1 u2 now pnow d = Inr d1"
  shows "plans_ok sha d1 \<and> (\<exists>r \<in> set (d_plan_requests d1). pq_id r = pq_id q \<and> \<not> approved_to_implement r)"
proof (cases "pq_kind q = PK_ENTER \<and> c = PC_ENTER")
  case True
  let ?f = "\<lambda>r. r\<lparr>pq_plan := Some (''plan_'' @ u1)\<rparr>"
  let ?objective = "or_text (pq_objective q) ''Plan the requested work''"
  have "rbind (insert_new_plan (''plan_'' @ u1) (''planrev_'' @ u2) (pq_session q) ?objective ''model'' mode
        (initial_content ?objective) None ''initial'' (sha (initial_content ?objective)) pnow d)
      (\<lambda>d'. Inr (set_request (pq_id q) ?f d')) = Inr d1"
    using True assms(4) by (simp add: decision_effect_def Let_def)
  then obtain d' where new: "insert_new_plan (''plan_'' @ u1) (''planrev_'' @ u2) (pq_session q) ?objective ''model'' mode
        (initial_content ?objective) None ''initial'' (sha (initial_content ?objective)) pnow d = Inr d'"
    and "Inr (set_request (pq_id q) ?f d') = (Inr d1 :: db res)" by (rule rbind_InrE)
  then have d1: "d1 = set_request (pq_id q) ?f d'" by simp
  have ok: "plans_ok sha d'" by (rule new_plan_ok[OF assms(1) new])
  have "d_plan_requests d' = d_plan_requests d" by (rule insert_new_plan_effect[OF new]) simp
  then have q: "q \<in> set (d_plan_requests d')" using assms(2) by simp
  have "plans_ok sha d1" unfolding d1 using True by (intro set_request_ok[OF ok q assms(3)]) simp_all
  moreover have "?f q \<in> set (d_plan_requests d1)" using q by (simp add: d1 set_request_def sql_update_hit)
  moreover have "\<not> approved_to_implement (?f q)" using assms(3) by (simp add: approved_to_implement_def)
  ultimately show ?thesis by (intro conjI bexI[of _ "?f q"]) simp_all
next
  case False
  then have "d1 = d \<or> (\<exists>i. d1 = set_plan i (\<lambda>r. r\<lparr>p_status := decided_plan c, p_updated_at := now\<rparr>) d)"
    using assms(4) by (auto simp: decision_effect_def split: if_splits option.splits)
  then show ?thesis using set_plan_ok[OF assms(1)] assms(1-3) by (auto simp: plan_key_def)
qed

lemma decide_plan_effect:
  assumes "decide_plan sha i choice feedback mode u1 u2 now pnow d = Inr (r, d')"
  obtains q c d1 where "fetch_one (\<lambda>q. pq_id q = i \<and> pq_status q = PR_PENDING) (d_plan_requests d) = Some q"
    and "parse_choice (pq_kind q) choice = Some c" and "decision_effect sha q c mode u1 u2 now pnow d = Inr d1"
    and "d' = set_request i (\<lambda>r. r\<lparr>pq_status := decided_status c, pq_choice := Some c, pq_feedback := feedback,
      pq_decided_at := Some now\<rparr>) d1"
proof -
  obtain q where q: "fetch_one (\<lambda>q. pq_id q = i \<and> pq_status q = PR_PENDING) (d_plan_requests d) = Some q"
    using assms by (auto simp: decide_plan_def split: option.splits)
  obtain c where c: "parse_choice (pq_kind q) choice = Some c"
    using assms q by (auto simp: decide_plan_def split: option.splits)
  let ?f = "\<lambda>r. r\<lparr>pq_status := decided_status c, pq_choice := Some c, pq_feedback := feedback, pq_decided_at := Some now\<rparr>"
  have "rbind (decision_effect sha q c mode u1 u2 now pnow d) (\<lambda>d1. let d2 = set_request i ?f d1 in
      rbind (require_request i d2) (\<lambda>r. Inr (r, d2))) = Inr (r, d')"
    using assms q c by (simp add: decide_plan_def)
  then obtain d1 where d1: "decision_effect sha q c mode u1 u2 now pnow d = Inr d1"
    and "(let d2 = set_request i ?f d1 in rbind (require_request i d2) (\<lambda>r. Inr (r, d2))) = Inr (r, d')"
    by (rule rbind_InrE)
  then have d': "d' = set_request i ?f d1" by (auto simp: Let_def elim!: rbind_InrE)
  show thesis by (rule that[OF q c d1 d'])
qed

lemma decide_ok:
  assumes "plans_ok sha d" and "decide_plan sha i choice feedback mode u1 u2 now pnow d = Inr (r, d')"
  shows "plans_ok sha d'"
proof (rule decide_plan_effect[OF assms(2)])
  fix q c d1
  let ?f = "\<lambda>r. r\<lparr>pq_status := decided_status c, pq_choice := Some c, pq_feedback := feedback, pq_decided_at := Some now\<rparr>"
  assume q: "fetch_one (\<lambda>q. pq_id q = i \<and> pq_status q = PR_PENDING) (d_plan_requests d) = Some q"
    and d1: "decision_effect sha q c mode u1 u2 now pnow d = Inr d1" and d': "d' = set_request i ?f d1"
  note q = pending_request[OF assms(1) q]
  obtain x where "plans_ok sha d1" "x \<in> set (d_plan_requests d1)" "pq_id x = i" "\<not> approved_to_implement x"
    using decision_effect_ok[OF assms(1) q(1,3) d1] q(2) by auto
  then show ?thesis unfolding d' using set_request_ok[of sha d1 x ?f] by simp
qed

lemma cancel_plan_effect:
  assumes "cancel_plan i now d = Inr (p, d')"
  shows "d' = d\<lparr>d_plans := sql_update (\<lambda>r. p_id r = i \<and> p_status r \<in> {PS_DRAFT, PS_AWAITING_APPROVAL})
      (\<lambda>r. r\<lparr>p_status := PS_CANCELLED, p_updated_at := now\<rparr>) (d_plans d)\<rparr>"
  using assms by (auto simp: cancel_plan_def Let_def elim!: rbind_InrE split: if_splits)

lemma cancel_plan_ok:
  assumes "plans_ok sha d" and "cancel_plan i now d = Inr (p, d')"
  shows "plans_ok sha d'"
proof -
  note d' = cancel_plan_effect[OF assms(2)]
  show ?thesis
    by (rule plans_ok_rewrite[OF assms(1)]) (use plans_okD(6)[OF assms(1)] in \<open>simp_all add: d' plan_key_update plan_key_def\<close>)
qed

lemma insert_queued_frame:
  assumes "insert_queued i s q k parent now d = Inr d'"
  shows "d_plans d' = d_plans d" "d_revisions d' = d_revisions d" "d_plan_requests d' = d_plan_requests d"
    "d_implementations d' = d_implementations d"
  using assms unfolding insert_queued_def insert_work_item_Inr by simp_all

lemma queue_implementation_effect:
  assumes "queue_implementation q p v work_id now d = Inr d'"
  obtains d1 i where "insert_queued work_id (pq_session q) (implementation_prompt (p_objective p) (v_content v) (v_sha256 v))
      RK_AGENT None now d = Inr d1"
    and "d' = set_plan (p_id p) (\<lambda>r. r\<lparr>p_status := PS_IMPLEMENTING, p_updated_at := now\<rparr>)
      (d1\<lparr>d_implementations := d_implementations d @ [i]\<rparr>)"
    and "pi_plan i = p_id p" and "pi_revision i = v_id v" and "pi_request i = pq_id q" and "pi_work_item i = work_id"
    and "\<forall>x \<in> set (d_implementations d). pi_plan x \<noteq> p_id p"
proof -
  define i where "i = \<lparr>pi_plan = p_id p, pi_revision = v_id v, pi_request = pq_id q,
         pi_work_item = work_id, pi_run = None, pi_status = ''queued'', pi_created_at = now, pi_updated_at = now\<rparr>"
  obtain d1 where d1: "insert_queued work_id (pq_session q) (implementation_prompt (p_objective p) (v_content v) (v_sha256 v))
      RK_AGENT None now d = Inr d1"
    and "rbind (insert_implementation i d1) (\<lambda>d2.
       Inr (set_plan (p_id p) (\<lambda>r. r\<lparr>p_status := PS_IMPLEMENTING, p_updated_at := now\<rparr>) d2)) = Inr d'"
    using assms unfolding queue_implementation_def i_def by (rule rbind_InrE)
  then obtain d2 where d2: "insert_implementation i d1 = Inr d2"
    and "Inr (set_plan (p_id p) (\<lambda>r. r\<lparr>p_status := PS_IMPLEMENTING, p_updated_at := now\<rparr>) d2) = (Inr d' :: db res)"
    by (elim rbind_InrE)
  then have d': "d' = set_plan (p_id p) (\<lambda>r. r\<lparr>p_status := PS_IMPLEMENTING, p_updated_at := now\<rparr>) d2" by simp
  have "d2 = d1\<lparr>d_implementations := d_implementations d @ [i]\<rparr>" "\<forall>x \<in> set (d_implementations d). pi_plan x \<noteq> p_id p"
    using d2 insert_queued_frame(4)[OF d1] unfolding insert_implementation_Inr by (auto simp: i_def)
  then show thesis using that[OF d1, of i] d' by (simp add: i_def)
qed

lemma joined_request_Some:
  assumes "joined_request i d = Some (q, p, v)"
  shows "q \<in> set (d_plan_requests d)" "pq_id q = i" "approved_to_implement q" "p \<in> set (d_plans d)"
    "pq_plan q = Some (p_id p)" "v \<in> set (d_revisions d)" "pq_revision q = Some (v_id v)"
proof -
  have "fetch_one (\<lambda>q. pq_id q = i \<and> approved_to_implement q) (d_plan_requests d) = Some q
    \<and> fetch_one (\<lambda>p. Some (p_id p) = pq_plan q) (d_plans d) = Some p
    \<and> fetch_one (\<lambda>v. Some (v_id v) = pq_revision q) (d_revisions d) = Some v"
    using assms by (auto simp: joined_request_def split: option.splits)
  then have "q \<in> set (d_plan_requests d) \<and> pq_id q = i \<and> approved_to_implement q" "p \<in> set (d_plans d) \<and> Some (p_id p) = pq_plan q"
    "v \<in> set (d_revisions d) \<and> Some (v_id v) = pq_revision q"
    using fetch_one_Some by fast+
  then show "q \<in> set (d_plan_requests d)" "pq_id q = i" "approved_to_implement q" "p \<in> set (d_plans d)"
    "pq_plan q = Some (p_id p)" "v \<in> set (d_revisions d)" "pq_revision q = Some (v_id v)" by simp_all
qed

lemma ensure_effect:
  assumes "ensure_implementation i work_id now d = Inr (x, d')"
  obtains (found) "d' = d" "pi_request x = i"
  | (queued) q p v where "joined_request i d = Some (q, p, v)" and "queue_implementation q p v work_id now d = Inr d'"
proof -
  obtain q p v where j: "joined_request i d = Some (q, p, v)"
    using assms by (auto simp: ensure_implementation_def split: option.splits)
  show thesis
  proof (cases "row_by pi_request i (d_implementations d)")
    case None
    have "rbind (queue_implementation q p v work_id now d) (\<lambda>d'. rbind (implementation_of (p_id p) d') (\<lambda>i. Inr (i, d'))) = Inr (x, d')"
      using assms j None by (simp add: ensure_implementation_def)
    then obtain d1 where "queue_implementation q p v work_id now d = Inr d1"
      "rbind (implementation_of (p_id p) d1) (\<lambda>i. Inr (i, d1)) = Inr (x, d')" by (rule rbind_InrE)
    moreover then have "d1 = d'" by (elim rbind_InrE) simp
    ultimately show thesis using queued[OF j] by simp
  next
    case (Some y)
    have "d' = d \<and> x = implementation_info y" using assms j Some by (simp add: ensure_implementation_def)
    then show thesis using found row_by_Some[OF Some] by (simp add: implementation_info_def)
  qed
qed

lemma ensure_ok:
  assumes "plans_ok sha d" and "ensure_implementation i work_id now d = Inr (x, d')"
  shows "plans_ok sha d'"
  using assms(2)
proof (cases rule: ensure_effect)
  case (queued q p v)
  note j = joined_request_Some[OF queued(1)]
  show ?thesis
  proof (rule queue_implementation_effect[OF queued(2)])
    fix d1 y
    assume a: "insert_queued work_id (pq_session q) (implementation_prompt (p_objective p) (v_content v) (v_sha256 v))
        RK_AGENT None now d = Inr d1"
      and d': "d' = set_plan (p_id p) (\<lambda>r. r\<lparr>p_status := PS_IMPLEMENTING, p_updated_at := now\<rparr>)
        (d1\<lparr>d_implementations := d_implementations d @ [y]\<rparr>)"
      and y: "pi_plan y = p_id p" "pi_revision y = v_id v" "pi_request y = pq_id q"
    note frame = insert_queued_frame[OF a]
    have "backed (d_plan_requests d) y" unfolding backed_def using j y by (intro bexI[of _ q]) simp_all
    then have "plans_ok sha (d1\<lparr>d_implementations := d_implementations d @ [y]\<rparr>)"
      by (intro plans_ok_rewrite[OF assms(1)]) (use plans_okD(6)[OF assms(1)] in \<open>auto simp: frame\<close>)
    then show ?thesis unfolding d' by (rule set_plan_ok) (simp add: plan_key_def)
  qed
qed (use assms(1) in simp)

lemma backed_status: "backed qs i \<Longrightarrow> pi_request j = pi_request i \<Longrightarrow> pi_plan j = pi_plan i \<Longrightarrow> pi_revision j = pi_revision i
    \<Longrightarrow> backed qs j"
  by (simp add: backed_def)

lemma implementations_update_ok:
  assumes "plans_ok sha d" and "\<And>i. pi_request (f i) = pi_request i \<and> pi_plan (f i) = pi_plan i \<and> pi_revision (f i) = pi_revision i"
  shows "plans_ok sha (d\<lparr>d_implementations := sql_update P f (d_implementations d)\<rparr>)"
proof (rule plans_ok_rewrite[OF assms(1)])
  fix i assume "i \<in> set (d_implementations (d\<lparr>d_implementations := sql_update P f (d_implementations d)\<rparr>))"
  then have "i \<in> set (sql_update P f (d_implementations d))" by simp
  then show "backed (d_plan_requests d) i"
    by (cases rule: sql_updateE) (use plans_okD(6)[OF assms(1)] assms(2) backed_status in metis)+
qed simp_all

lemma mark_implementation_ok:
  assumes "plans_ok sha d" and "mark_implementation_run w r now d = Inr d'"
  shows "plans_ok sha d'"
proof (cases "row_by pi_work_item w (d_implementations d)")
  case None
  then show ?thesis using assms by (simp add: mark_implementation_run_def)
next
  case (Some row)
  then have "d' = set_plan (pi_plan row) (\<lambda>r. r\<lparr>p_status := PS_IMPLEMENTING, p_updated_at := now\<rparr>)
    (d\<lparr>d_implementations := sql_update (\<lambda>i. pi_work_item i = w \<and> pi_status i \<in> {''queued'', ''running''})
      (\<lambda>i. i\<lparr>pi_run := Some r, pi_status := ''running'', pi_updated_at := now\<rparr>) (d_implementations d)\<rparr>)"
    using assms(2) unfolding mark_implementation_run_def Let_def by (simp split: if_splits)
  then show ?thesis by (simp add: set_plan_ok implementations_update_ok assms(1) plan_key_def)
qed

lemma finish_implementation_ok: "plans_ok sha d \<Longrightarrow> plans_ok sha (finish_implementation r st now d)"
  unfolding finish_implementation_def Let_def
  by (auto intro!: set_plan_ok implementations_update_ok simp: plan_key_def split: option.split)

lemma cancel_requests_ok: 
  assumes "plans_ok sha d" shows "plans_ok sha (cancel_requests r now d)"
proof -
  let ?ps = "d_plans (cancel_requests r now d)"
  have "plans_ok sha (d\<lparr>d_plans := ?ps\<rparr>)"
    by (rule plans_ok_rewrite[OF assms])
       (use plans_okD(6)[OF assms] in \<open>simp_all add: cancel_requests_def plan_key_update plan_key_def\<close>)
  then have "plans_ok sha ((d\<lparr>d_plans := ?ps\<rparr>)\<lparr>d_plan_requests := sql_update (\<lambda>q. pq_run q = Some r \<and> pq_status q = PR_PENDING)
       (\<lambda>q. q\<lparr>pq_status := PR_CANCELLED, pq_decided_at := Some now\<rparr>) (d_plan_requests (d\<lparr>d_plans := ?ps\<rparr>))\<rparr>)"
    by (rule set_requests_ok) (auto simp: approved_to_implement_def)
  then show ?thesis by (simp add: plans_ok_def cancel_requests_def)
qed

section \<open>One live submission per plan\<close>

definition live :: "plan_request_row \<Rightarrow> bool" where
  "live q \<longleftrightarrow> pq_kind q = PK_SUBMIT \<and> (pq_status q = PR_PENDING \<or> approved_to_implement q)"

definition live_ok :: "db \<Rightarrow> bool" where
  "live_ok d \<longleftrightarrow> (\<forall>q \<in> set (d_plan_requests d). live q \<longrightarrow>
       (\<forall>p \<in> set (d_plans d). pq_plan q = Some (p_id p) \<longrightarrow> p_status p \<noteq> PS_DRAFT))
     \<and> (\<forall>q \<in> set (d_plan_requests d). \<forall>r \<in> set (d_plan_requests d).
          live q \<longrightarrow> live r \<longrightarrow> pq_plan q = pq_plan r \<longrightarrow> q = r)"

lemma live_okD:
  assumes "live_ok d" and "q \<in> set (d_plan_requests d)" and "live q"
  shows "p \<in> set (d_plans d) \<Longrightarrow> pq_plan q = Some (p_id p) \<Longrightarrow> p_status p \<noteq> PS_DRAFT"
    and "r \<in> set (d_plan_requests d) \<Longrightarrow> live r \<Longrightarrow> pq_plan q = pq_plan r \<Longrightarrow> q = r"
  using assms unfolding live_ok_def by blast+

text \<open>Plans that leave their status, or move to one that is not a draft.\<close>

lemma live_ok_plans:
  assumes "live_ok d" and "d_plan_requests d' = d_plan_requests d"
    and "\<And>p. p \<in> set (d_plans d') \<Longrightarrow> p_status p = PS_DRAFT \<Longrightarrow> (\<exists>x \<in> set (d_plans d). p_id x = p_id p \<and> p_status x = PS_DRAFT)"
  shows "live_ok d'"
  using assms(1,3) unfolding live_ok_def assms(2) by metis

lemma live_ok_set_plan: "live_ok d \<Longrightarrow> (\<And>p. p_status (f p) \<noteq> PS_DRAFT) \<Longrightarrow> live_ok (set_plan i f d)"
  by (rule live_ok_plans) (auto elim: sql_updateE)

lemma live_ok_new_plan:
  assumes "live_ok d" and "plans_ok sha d"
    and "insert_new_plan plan_id revision_id s obj src mode content parent vsrc digest now d = Inr d'"
  shows "live_ok d'"
proof (rule insert_new_plan_effect[OF assms(3)])
  fix v
  let ?p = "new_plan_row plan_id revision_id s obj src mode parent now"
  assume d': "d' = d\<lparr>d_plans := d_plans d @ [?p], d_revisions := d_revisions d @ [v]\<rparr>"
    and fresh: "\<forall>x \<in> set (d_plans d). plan_id \<noteq> p_id x"
  have none: "pq_plan q \<noteq> Some plan_id" if "q \<in> set (d_plan_requests d)" "live q" for q
    using plans_okD(5)[OF assms(2) that(1)] that(2) fresh by (auto simp: request_ok_def live_def)
  have "p_id ?p = plan_id" by (simp add: new_plan_row_def)
  then show ?thesis using assms(1) none unfolding live_ok_def d' by auto
qed

lemma live_ok_request_same:
  assumes "live_ok d" and "d_plans d' = d_plans d" and "d_plan_requests d' = sql_update P f (d_plan_requests d)"
    and "\<And>q. q \<in> set (d_plan_requests d) \<Longrightarrow> P q \<Longrightarrow> \<not> live (f q)"
  shows "live_ok d'"
proof -
  have orig: "q \<in> set (d_plan_requests d)" if "q \<in> set (d_plan_requests d')" "live q" for q
  proof -
    have "q \<in> set (sql_update P f (d_plan_requests d))" using that(1) assms(3) by simp
    then show ?thesis by (cases rule: sql_updateE) (use assms(4) that(2) in auto)
  qed
  show ?thesis using live_okD[OF assms(1)] orig unfolding live_ok_def assms(2) by blast
qed

lemma live_ok_append:
  assumes "live_ok d" and "append_revision sha i c e src run u now d = Inr (r, d')"
  shows "live_ok d'"
  using assms(2)
proof (cases rule: append_revision_effect)
  case (new p current v)
  show ?thesis by (rule live_ok_plans[OF assms(1)]) (auto simp: new(5) elim!: sql_updateE)
qed (use assms(1) in simp)

lemma live_ok_submit:
  assumes "live_ok d" and "submit_plan i e run ivk u now d = Inr (q, d')"
  shows "live_ok d'"
proof (rule submit_effect[OF assms(2)])
  fix p :: plan_row and v :: revision_row and d1
  let ?q = "new_request (''planreq_'' @ u) (p_session p) (Some i) (Some (v_id v)) PK_SUBMIT run ivk None now"
  let ?f = "\<lambda>p. p\<lparr>p_status := PS_AWAITING_APPROVAL, p_updated_at := now\<rparr>"
  assume p: "draft_plan i d = Some p" and ins: "insert_plan_request ?q d = Inr d1" and d': "d' = set_plan i ?f d1"
  have d1: "d1 = d\<lparr>d_plan_requests := d_plan_requests d @ [?q]\<rparr>" using ins unfolding insert_plan_request_Inr by simp
  have none: "pq_plan r \<noteq> Some i" if "r \<in> set (d_plan_requests d)" "live r" for r
    using live_okD(1)[OF assms(1) that draft_plan_Some(1)[OF p]] draft_plan_Some(2,3)[OF p] by auto
  have q: "pq_plan ?q = Some i" by (simp add: new_request_def)
  show ?thesis
    unfolding live_ok_def
  proof (intro conjI ballI impI)
    fix r x
    assume r: "r \<in> set (d_plan_requests d')" "live r" and x: "x \<in> set (d_plans d')" "pq_plan r = Some (p_id x)"
    have "x \<in> set (sql_update (\<lambda>p. p_id p = i) ?f (d_plans d))" using x(1) by (simp add: d' d1)
    then show "p_status x \<noteq> PS_DRAFT"
    proof (cases rule: sql_updateE)
      case 2
      then have "r \<noteq> ?q" using x(2) q by auto
      then have "r \<in> set (d_plan_requests d)" using r(1) by (simp add: d' d1)
      then show ?thesis using live_okD(1)[OF assms(1)] r(2) 2(1) x(2) by blast
    qed simp
  next
    fix r x
    assume "r \<in> set (d_plan_requests d')" "x \<in> set (d_plan_requests d')" "live r" "live x" "pq_plan r = pq_plan x"
    moreover have "set (d_plan_requests d') = insert ?q (set (d_plan_requests d))" by (simp add: d' d1)
    ultimately show "r = x" using live_okD(2)[OF assms(1)] none q by (metis insertE)
  qed
qed

lemma live_ok_answer:
  assumes "live_ok d" and "plans_ok sha d" and "q \<in> set (d_plan_requests d)" and "live q" and "pq_plan q = Some i"
    and "pq_plan (f q) = Some i" and "\<And>p. live (f q) \<Longrightarrow> p_status (g p) \<noteq> PS_DRAFT" and "\<And>p. p_id (g p) = p_id p"
  shows "live_ok (set_request (pq_id q) f (set_plan i g d))"
proof -
  let ?d = "set_request (pq_id q) f (set_plan i g d)"
  have reqs: "r = f q \<or> (r \<in> set (d_plan_requests d) \<and> r \<noteq> q)" if "r \<in> set (d_plan_requests ?d)" for r
  proof -
    have "r \<in> set (sql_update (\<lambda>r. pq_id r = pq_id q) f (d_plan_requests d))" using that by (simp add: set_request_def)
    then show ?thesis
    proof (cases rule: sql_updateE)
      case (1 x)
      then have "x = q" using unique_by_eq[OF plans_okD(2)[OF assms(2)]] assms(3) by blast
      then show ?thesis using 1 by simp
    qed auto
  qed
  have other: "pq_plan r \<noteq> Some i" if "r \<in> set (d_plan_requests d)" "r \<noteq> q" "live r" for r
    using live_okD(2)[OF assms(1,3,4) that(1,3)] that(2) assms(5) by auto
  show ?thesis
    unfolding live_ok_def
  proof (intro conjI ballI impI)
    fix r x
    assume r: "r \<in> set (d_plan_requests ?d)" "live r" and x: "x \<in> set (d_plans ?d)" "pq_plan r = Some (p_id x)"
    have "x \<in> set (sql_update (\<lambda>p. p_id p = i) g (d_plans d))" using x(1) by (simp add: set_request_def)
    then show "p_status x \<noteq> PS_DRAFT"
    proof (cases rule: sql_updateE)
      case (1 y)
      then have "pq_plan r = Some i" using x(2) assms(8) by simp
      then have "r = f q" using reqs[OF r(1)] other r(2) by blast
      then show ?thesis using 1(3) assms(7) r(2) by blast
    next
      case 2
      then have "r \<noteq> f q" using x(2) assms(6) by auto
      then show ?thesis using reqs[OF r(1)] live_okD(1)[OF assms(1)] r(2) 2(1) x(2) by blast
    qed
  next
    fix r x
    assume "r \<in> set (d_plan_requests ?d)" "x \<in> set (d_plan_requests ?d)" "live r" "live x" "pq_plan r = pq_plan x"
    then show "r = x" using reqs other assms(6) live_okD(2)[OF assms(1)] by metis
  qed
qed

lemma live_ok_cong: "d_plans d' = d_plans d \<Longrightarrow> d_plan_requests d' = d_plan_requests d \<Longrightarrow> live_ok d' = live_ok d"
  by (simp add: live_ok_def)

lemma live_ok_cancel_requests:
  assumes "live_ok d" shows "live_ok (cancel_requests r now d)"
proof -
  let ?f = "\<lambda>q. q\<lparr>pq_status := PR_CANCELLED, pq_decided_at := Some now\<rparr>"
  let ?P = "\<lambda>q. pq_run q = Some r \<and> pq_status q = PR_PENDING"
  have reqs: "q \<in> set (d_plan_requests d) \<and> \<not> ?P q" if "q \<in> set (d_plan_requests (cancel_requests r now d))" "live q" for q
  proof -
    have "q \<in> set (sql_update ?P ?f (d_plan_requests d))" using that(1) by (simp add: cancel_requests_def)
    then show ?thesis by (cases rule: sql_updateE) (use that(2) in \<open>auto simp: live_def approved_to_implement_def\<close>)
  qed
  show ?thesis
    unfolding live_ok_def
  proof (intro conjI ballI impI)
    fix q x
    assume q: "q \<in> set (d_plan_requests (cancel_requests r now d))" "live q"
      and x: "x \<in> set (d_plans (cancel_requests r now d))" "pq_plan q = Some (p_id x)"
    let ?Q = "\<lambda>p. p_status p = PS_AWAITING_APPROVAL \<and> exists_row (\<lambda>q. pq_plan q = Some (p_id p) \<and> pq_run q = Some r
       \<and> pq_kind q = PK_SUBMIT \<and> pq_status q = PR_PENDING) (d_plan_requests d)"
    have "x \<in> set (sql_update ?Q (\<lambda>p. p\<lparr>p_status := PS_DRAFT, p_updated_at := now\<rparr>) (d_plans d))"
      using x(1) by (simp add: cancel_requests_def)
    then show "p_status x \<noteq> PS_DRAFT"
    proof (cases rule: sql_updateE)
      case (1 y)
      then obtain z where z: "z \<in> set (d_plan_requests d)" "pq_plan z = Some (p_id y)" "?P z" "pq_kind z = PK_SUBMIT" by auto
      then have "live z" by (simp add: live_def)
      then have "z = q" using live_okD(2)[OF assms z(1)] reqs[OF q] q(2) z(2) x(2) 1(3) by simp
      then show ?thesis using reqs[OF q] z(3) by blast
    next
      case 2
      then show ?thesis using live_okD(1)[OF assms _ q(2)] reqs[OF q] x(2) by blast
    qed
  next
    fix q x
    assume "q \<in> set (d_plan_requests (cancel_requests r now d))" "x \<in> set (d_plan_requests (cancel_requests r now d))"
      "live q" "live x" "pq_plan q = pq_plan x"
    then show "q = x" using reqs live_okD(2)[OF assms] by blast
  qed
qed

lemma set_request_frame [simp]:
  "d_plans (set_request i f d) = d_plans d" "d_revisions (set_request i f d) = d_revisions d"
  "d_implementations (set_request i f d) = d_implementations d"
  by (simp_all add: set_request_def)

lemma live_ok_enter:
  assumes "live_ok d" and "\<And>q. q \<in> set (d_plan_requests d) \<Longrightarrow> pq_id q = i \<Longrightarrow> \<not> live (f q)"
  shows "live_ok (set_request i f d)"
  by (rule live_ok_request_same[OF assms(1), of _ "\<lambda>q. pq_id q = i" f]) (use assms(2) in \<open>simp_all add: set_request_def\<close>)

lemma live_ok_decide:
  assumes "live_ok d" and "plans_ok sha d" and "decide_plan sha i choice feedback mode u1 u2 now pnow d = Inr (r, d')"
  shows "live_ok d'"
proof (rule decide_plan_effect[OF assms(3)])
  fix q c d1
  let ?f = "\<lambda>r. r\<lparr>pq_status := decided_status c, pq_choice := Some c, pq_feedback := feedback, pq_decided_at := Some now\<rparr>"
  assume fetch: "fetch_one (\<lambda>q. pq_id q = i \<and> pq_status q = PR_PENDING) (d_plan_requests d) = Some q"
    and c: "parse_choice (pq_kind q) choice = Some c" and eff: "decision_effect sha q c mode u1 u2 now pnow d = Inr d1"
    and d': "d' = set_request i ?f d1"
  note q = pending_request[OF assms(2) fetch]
  have pending: "pq_status q = PR_PENDING" using fetch_one_Some[OF fetch] by simp
  show ?thesis
  proof (cases "pq_kind q")
    case PK_SUBMIT
    then have live: "live q" using pending by (simp add: live_def)
    obtain pl where pl: "pq_plan q = Some pl" using plans_okD(5)[OF assms(2) q(1)] PK_SUBMIT by (auto simp: request_ok_def)
    have d1: "d1 = set_plan pl (\<lambda>r. r\<lparr>p_status := decided_plan c, p_updated_at := now\<rparr>) d"
      using eff PK_SUBMIT pl by (simp add: decision_effect_def)
    have "c \<noteq> PC_ENTER" using c PK_SUBMIT by (auto simp: parse_choice_def split: if_splits)
    then have "decided_plan c \<noteq> PS_DRAFT" if "live (?f q)"
      using that by (cases c) (auto simp: live_def approved_to_implement_def)
    then show ?thesis unfolding d' d1 q(2)[symmetric]
      by (intro live_ok_answer[OF assms(1,2) q(1) live pl]) (simp_all add: pl)
  next
    case PK_ENTER
    have "live_ok d1 \<and> (\<forall>x \<in> set (d_plan_requests d1). pq_id x = i \<longrightarrow> pq_kind x = PK_ENTER)"
    proof (cases "c = PC_ENTER")
      case True
      let ?objective = "or_text (pq_objective q) ''Plan the requested work''"
      let ?g = "\<lambda>r. r\<lparr>pq_plan := Some (''plan_'' @ u1)\<rparr>"
      have "rbind (insert_new_plan (''plan_'' @ u1) (''planrev_'' @ u2) (pq_session q) ?objective ''model'' mode
            (initial_content ?objective) None ''initial'' (sha (initial_content ?objective)) pnow d)
          (\<lambda>d'. Inr (set_request (pq_id q) ?g d')) = Inr d1"
        using True PK_ENTER eff by (simp add: decision_effect_def Let_def)
      then obtain e where new: "insert_new_plan (''plan_'' @ u1) (''planrev_'' @ u2) (pq_session q) ?objective ''model'' mode
            (initial_content ?objective) None ''initial'' (sha (initial_content ?objective)) pnow d = Inr e"
        and "Inr (set_request (pq_id q) ?g e) = (Inr d1 :: db res)" by (rule rbind_InrE)
      then have d1: "d1 = set_request i ?g e" using q(2) by simp
      have reqs: "d_plan_requests e = d_plan_requests d" by (rule insert_new_plan_effect[OF new]) simp
      have enter: "x = q" if "x \<in> set (d_plan_requests e)" "pq_id x = i" for x
        using unique_by_eq[OF plans_okD(2)[OF assms(2)], of x q] that q reqs by simp
      have "live_ok d1" unfolding d1
        by (rule live_ok_enter[OF live_ok_new_plan[OF assms(1,2) new]]) (use enter PK_ENTER in \<open>auto simp: live_def\<close>)
      moreover have "\<forall>x \<in> set (d_plan_requests d1). pq_id x = i \<longrightarrow> pq_kind x = PK_ENTER"
      proof (intro ballI impI)
        fix x assume x: "x \<in> set (d_plan_requests d1)" "pq_id x = i"
        then have "x \<in> set (sql_update (\<lambda>r. pq_id r = i) ?g (d_plan_requests e))" by (simp add: d1 set_request_def)
        then show "pq_kind x = PK_ENTER"
        proof (cases rule: sql_updateE)
          case (1 y)
          then show ?thesis using enter[OF 1(1,2)] PK_ENTER by simp
        next
          case 2
          then show ?thesis using enter[OF 2(1)] x(2) PK_ENTER by simp
        qed
      qed
      ultimately show ?thesis by blast
    next
      case False
      then have "d1 = d" using eff PK_ENTER by (simp add: decision_effect_def)
      moreover have "pq_kind x = PK_ENTER" if "x \<in> set (d_plan_requests d)" "pq_id x = i" for x
        using unique_by_eq[OF plans_okD(2)[OF assms(2)] that(1) q(1)] that(2) q(2) PK_ENTER by simp
      ultimately show ?thesis using assms(1) by simp
    qed
    then show ?thesis unfolding d' by (intro live_ok_enter) (auto simp: live_def)
  qed
qed

lemma live_ok_cancel:
  assumes "live_ok d" and "cancel_plan i now d = Inr (p, d')"
  shows "live_ok d'"
proof (rule live_ok_plans[OF assms(1)])
  note d' = cancel_plan_effect[OF assms(2)]
  show "d_plan_requests d' = d_plan_requests d" by (simp add: d')
  fix x assume "x \<in> set (d_plans d')" and draft: "p_status x = PS_DRAFT"
  then have "x \<in> set (sql_update (\<lambda>r. p_id r = i \<and> p_status r \<in> {PS_DRAFT, PS_AWAITING_APPROVAL})
      (\<lambda>r. r\<lparr>p_status := PS_CANCELLED, p_updated_at := now\<rparr>) (d_plans d))" by (simp add: d')
  then show "\<exists>y \<in> set (d_plans d). p_id y = p_id x \<and> p_status y = PS_DRAFT"
    by (cases rule: sql_updateE) (use draft in auto)
qed

lemma live_ok_ensure:
  assumes "live_ok d" and "ensure_implementation i w now d = Inr (x, d')"
  shows "live_ok d'"
  using assms(2)
proof (cases rule: ensure_effect)
  case (queued q p v)
  show ?thesis
  proof (rule queue_implementation_effect[OF queued(2)])
    fix d1 y
    assume a: "insert_queued w (pq_session q) (implementation_prompt (p_objective p) (v_content v) (v_sha256 v))
        RK_AGENT None now d = Inr d1"
      and d': "d' = set_plan (p_id p) (\<lambda>r. r\<lparr>p_status := PS_IMPLEMENTING, p_updated_at := now\<rparr>)
        (d1\<lparr>d_implementations := d_implementations d @ [y]\<rparr>)"
    have "live_ok (d1\<lparr>d_implementations := d_implementations d @ [y]\<rparr>)"
      using assms(1) live_ok_cong[of "d1\<lparr>d_implementations := d_implementations d @ [y]\<rparr>" d] insert_queued_frame[OF a] by simp
    then show ?thesis unfolding d' by (rule live_ok_set_plan) simp
  qed
qed (use assms(1) in simp)

lemma live_ok_mark:
  assumes "live_ok d" and "mark_implementation_run w r now d = Inr d'"
  shows "live_ok d'"
proof (cases "row_by pi_work_item w (d_implementations d)")
  case None
  then show ?thesis using assms by (simp add: mark_implementation_run_def)
next
  case (Some row)
  define e where "e = d\<lparr>d_implementations := sql_update (\<lambda>i. pi_work_item i = w \<and> pi_status i \<in> {''queued'', ''running''})
      (\<lambda>i. i\<lparr>pi_run := Some r, pi_status := ''running'', pi_updated_at := now\<rparr>) (d_implementations d)\<rparr>"
  have d': "d' = set_plan (pi_plan row) (\<lambda>r. r\<lparr>p_status := PS_IMPLEMENTING, p_updated_at := now\<rparr>) e"
    using assms(2) Some unfolding mark_implementation_run_def Let_def e_def by (simp split: if_splits)
  have "live_ok e" using live_ok_cong[of e d] assms(1) by (simp add: e_def)
  then show ?thesis unfolding d' by (rule live_ok_set_plan) simp
qed

lemma live_ok_finish: "live_ok d \<Longrightarrow> live_ok (finish_implementation r st now d)"
proof -
  assume a: "live_ok d"
  have "live_ok (set_plan i (\<lambda>r. r\<lparr>p_status := PS_IMPLEMENTED, p_updated_at := now\<rparr>) (d\<lparr>d_implementations := is\<rparr>))"
    "live_ok (set_plan i (\<lambda>r. r\<lparr>p_status := PS_IMPLEMENTATION_FAILED, p_updated_at := now\<rparr>) (d\<lparr>d_implementations := is\<rparr>))" for i "is"
    using live_ok_cong[of "d\<lparr>d_implementations := is\<rparr>" d] a by (simp_all add: live_ok_set_plan)
  then show ?thesis using a unfolding finish_implementation_def Let_def by (simp split: option.split)
qed

section \<open>Every sequence of operations\<close>

inductive plan_step :: "(string \<Rightarrow> string) \<Rightarrow> db \<Rightarrow> db \<Rightarrow> bool" for sha where
  create: "create_plan sha s obj src mode c parent vsrc u1 u2 now d = Inr (pv, d') \<Longrightarrow> plan_step sha d d'"
| append: "append_revision sha i c e src run u now d = Inr (r, d') \<Longrightarrow> plan_step sha d d'"
| enter: "create_enter_request s obj run ivk u now d = Inr (q, d') \<Longrightarrow> plan_step sha d d'"
| submit: "submit_plan i e orun oivk u now d = Inr (q, d') \<Longrightarrow> plan_step sha d d'"
| decide: "decide_plan sha i choice feedback mode u1 u2 now pnow d = Inr (q, d') \<Longrightarrow> plan_step sha d d'"
| cancel: "cancel_plan i now d = Inr (p, d') \<Longrightarrow> plan_step sha d d'"
| ensure: "ensure_implementation i w now d = Inr (x, d') \<Longrightarrow> plan_step sha d d'"
| mark: "mark_implementation_run w r now d = Inr d' \<Longrightarrow> plan_step sha d d'"
| finish: "plan_step sha d (finish_implementation r st now d)"
| cancel_waiting: "cancel_waiting s r z d = Inr (ev, d') \<Longrightarrow> plan_step sha d d'"
| others: "d_plans d' = d_plans d \<Longrightarrow> d_revisions d' = d_revisions d \<Longrightarrow> d_plan_requests d' = d_plan_requests d
    \<Longrightarrow> d_implementations d' = d_implementations d \<Longrightarrow> plan_step sha d d'"

inductive plan_reach :: "(string \<Rightarrow> string) \<Rightarrow> db \<Rightarrow> db \<Rightarrow> bool" for sha where
  stay: "plan_reach sha d d"
| step: "plan_reach sha d e \<Longrightarrow> plan_step sha e f \<Longrightarrow> plan_reach sha d f"

definition plans_good :: "(string \<Rightarrow> string) \<Rightarrow> db \<Rightarrow> bool" where
  "plans_good sha d \<longleftrightarrow> plans_ok sha d \<and> live_ok d"

lemma plans_good_cong:
  assumes "d_plans d' = d_plans d" and "d_revisions d' = d_revisions d" and "d_plan_requests d' = d_plan_requests d"
    and "d_implementations d' = d_implementations d"
  shows "plans_good sha d' = plans_good sha d"
  using assms by (simp add: plans_good_def plans_ok_def live_ok_def)

lemma cancel_waiting_plans:
  assumes "cancel_waiting s r z d = Inr (ev, d')"
  obtains e now where "d_plans e = d_plans d" and "d_revisions e = d_revisions d" and "d_plan_requests e = d_plan_requests d"
    and "d_implementations e = d_implementations d" and "\<exists>row. d' = (cancel_requests r now e)\<lparr>d_events := row\<rparr>"
proof (cases "fetch_one (\<lambda>x. r_id x = r \<and> r_session x = s \<and> run_waiting x) (d_runs d)")
  case None
  then show thesis using assms by (simp add: cancel_waiting_def)
next
  case (Some row)
  define m where "m = ''cancelled before resume''"
  define e where "e = cancel_activity r m (t_now z) (cancel_run_rows r (r_work_item row) m (t_now z) d)"
  have "append_stamped r EV_CANCELLED (cancelled_payload m) z (cancel_requests r (t_now z) e) = Inr (ev, d')"
    using assms Some by (simp add: cancel_waiting_def m_def e_def Let_def)
  from append_stamped_effect[OF this] have "\<exists>row. d' = (cancel_requests r (t_now z) e)\<lparr>d_events := row\<rparr>" by blast
  then show thesis by (intro that[of e "t_now z"]) (simp_all add: e_def cancel_activity_def cancel_run_rows_def)
qed

lemma plan_step_good:
  assumes "plan_step sha d d'" and "plans_good sha d"
  shows "plans_good sha d'"
proof -
  have ok: "plans_ok sha d" "live_ok d" using assms(2) by (simp_all add: plans_good_def)
  show ?thesis
    using assms(1)
proof (cases rule: plan_step.cases)
  case (create s obj src mode c parent vsrc u1 u2 now pv)
  then obtain e where e: "insert_new_plan (''plan_'' @ u1) (''planrev_'' @ u2) s obj src mode c parent vsrc (sha c) now d = Inr e"
    and "rbind (require_plan (''plan_'' @ u1) e) (\<lambda>p. rbind (require_revision (''planrev_'' @ u2) e) (\<lambda>v. Inr ((p, v), e))) = Inr (pv, d')"
    unfolding create_plan_def Let_def by (rule rbind_InrE)
  then have "d' = e" by (elim rbind_InrE) simp
  then show ?thesis using new_plan_ok[where sha = sha, OF _ e] live_ok_new_plan[where sha = sha, OF _ _ e] assms(2) by (simp add: plans_good_def)
next
  case (append i c e src run u now r)
  show ?thesis using append_revision_ok[OF ok(1) append] live_ok_append[OF ok(2) append] by (simp add: plans_good_def)
next
  case (enter s obj run ivk u now q)
  define r where "r = new_request (''planreq_'' @ u) s None None PK_ENTER (Some run) (Some ivk) (Some obj) now"
  obtain e where e: "insert_plan_request r d = Inr e"
    and rest: "rbind (require_request (''planreq_'' @ u) e) (\<lambda>q. Inr (q, e)) = Inr (q, d')"
    using enter(1) unfolding create_enter_request_def Let_def r_def by (rule rbind_InrE)
  then have d': "d' = e" by (elim rbind_InrE) simp
  have "plans_ok sha e"
    using insert_request_ok[OF _ e] assms(2) by (simp add: plans_good_def request_ok_def r_def new_request_def)
  moreover have "e = d\<lparr>d_plan_requests := d_plan_requests d @ [r]\<rparr>" "\<not> live r"
    using e unfolding insert_plan_request_Inr by (simp_all add: live_def r_def new_request_def)
  then have "live_ok e" using assms(2) unfolding plans_good_def live_ok_def by auto
  ultimately show ?thesis by (simp add: plans_good_def d')
next
  case (submit i e orun oivk u now q)
  show ?thesis using submit_ok[OF ok(1) submit] live_ok_submit[OF ok(2) submit] by (simp add: plans_good_def)
next
  case (decide i choice feedback mode u1 u2 now pnow q)
  show ?thesis using decide_ok[OF ok(1) decide] live_ok_decide[OF ok(2,1) decide] by (simp add: plans_good_def)
next
  case (cancel i now p)
  show ?thesis using cancel_plan_ok[OF ok(1) cancel] live_ok_cancel[OF ok(2) cancel] by (simp add: plans_good_def)
next
  case (ensure i w now x)
  show ?thesis using ensure_ok[OF ok(1) ensure] live_ok_ensure[OF ok(2) ensure] by (simp add: plans_good_def)
next
  case (mark w r now)
  show ?thesis using mark_implementation_ok[OF ok(1) mark] live_ok_mark[OF ok(2) mark] by (simp add: plans_good_def)
next
  case (finish r st now)
  show ?thesis unfolding finish using finish_implementation_ok[OF ok(1)] live_ok_finish[OF ok(2)] by (simp add: plans_good_def)
next
  case (cancel_waiting s r z ev)
  show ?thesis
  proof (rule cancel_waiting_plans[OF cancel_waiting])
    fix e now
    assume e: "d_plans e = d_plans d" "d_revisions e = d_revisions d" "d_plan_requests e = d_plan_requests d"
      "d_implementations e = d_implementations d" and "\<exists>row. d' = (cancel_requests r now e)\<lparr>d_events := row\<rparr>"
    then obtain row where d': "d' = (cancel_requests r now e)\<lparr>d_events := row\<rparr>" by blast
    have "plans_good sha e" using plans_good_cong[OF e] assms(2) by simp
    then have "plans_good sha (cancel_requests r now e)"
      using cancel_requests_ok live_ok_cancel_requests by (simp add: plans_good_def)
    then show ?thesis using plans_good_cong[of d' "cancel_requests r now e" sha] by (simp add: d')
  qed
next
  case others
  then show ?thesis using plans_good_cong[of d' d sha] assms(2) by simp
qed
qed

text \<open>C38: Whatever sequence of plan operations runs, every plan keeps a current revision that is its
  own and its newest, ordinals and digests stay unique within a plan, every submission refers to a
  revision of its plan, at most one submission of a plan is open or approved and none while the plan is
  a draft, and every implementation rests on the revision the user approved.\<close>

theorem plans_stay_good:
  assumes "plan_reach sha d d'" and "plans_good sha d"
  shows "plans_good sha d'"
  using assms by induction (auto dest: plan_step_good)

section \<open>A plan is a history of texts\<close>

definition plan_texts :: "db \<Rightarrow> string \<Rightarrow> string list" where
  "plan_texts d i = map v_content (sort_key v_ordinal (filter (\<lambda>v. v_plan v = i) (d_revisions d)))"

text \<open>The abstract update: compare the digest of the last text, then append.\<close>

definition swap_text :: "(string \<Rightarrow> string) \<Rightarrow> string \<Rightarrow> string \<Rightarrow> string list \<Rightarrow> string list option" where
  "swap_text sha expected content texts =
     (if texts = [] \<or> sha (last texts) \<noteq> expected then None
      else if sha content = expected then Some texts else Some (texts @ [content]))"

lemma insort_key_last: "k x \<le> k v \<Longrightarrow> insort_key k x (ys @ [v]) = insort_key k x ys @ [v]"
  by (induction ys) auto

lemma sort_key_snoc: "(\<And>x. x \<in> set xs \<Longrightarrow> k x \<le> k v) \<Longrightarrow> sort_key k (xs @ [v]) = sort_key k xs @ [v]"
proof (induction xs)
  case (Cons x xs)
  then have "sort_key k (xs @ [v]) = sort_key k xs @ [v]" by simp
  moreover have "k x \<le> k v" using Cons.prems by simp
  ultimately show ?case by (simp add: insort_key_last)
qed simp

lemma last_sorted_max:
  assumes "v \<in> set xs" and "\<And>x. x \<in> set xs \<Longrightarrow> k x \<le> k v" and "\<And>x. x \<in> set xs \<Longrightarrow> k x = k v \<Longrightarrow> x = v"
  shows "last (sort_key k xs) = v"
proof -
  let ?ys = "sort_key k xs"
  have ne: "?ys \<noteq> []" using assms(1) by (metis length_0_conv length_sort list.set(1) empty_iff)
  have "last ?ys \<in> set xs" using last_in_set[OF ne] by simp
  moreover have "k v \<le> k (last ?ys)"
  proof -
    obtain us where us: "?ys = us @ [last ?ys]" using ne by (metis append_butlast_last_id)
    have "sorted (map k (us @ [last ?ys]))" using us by (metis sorted_sort_key)
    moreover have "v \<in> set (us @ [last ?ys])" using assms(1) us by (metis set_sort)
    ultimately show ?thesis by (auto simp: sorted_append)
  qed
  ultimately show ?thesis using assms(2,3) by (metis order_antisym)
qed

lemma plan_texts_last:
  assumes "plans_ok sha d" and "p \<in> set (d_plans d)" and "owned_revision p (p_id p) d = Some v"
  shows "plan_texts d (p_id p) \<noteq> [] \<and> last (plan_texts d (p_id p)) = v_content v"
proof -
  let ?vs = "filter (\<lambda>v. v_plan v = p_id p) (d_revisions d)"
  obtain w where "owned_revision p (p_id p) d = Some w"
    and top: "\<forall>x \<in> set (d_revisions d). v_plan x = p_id p \<longrightarrow> v_ordinal x \<le> v_ordinal w"
    using owned_revision_current[OF assms(1,2)] .
  then have w: "w = v" using assms(3) by simp
  note v = owned_revision_Some[OF assms(3)]
  have uniq: "unique_by (\<lambda>v. (v_plan v, v_ordinal v)) (d_revisions d)"
    using plans_okD(3)[OF assms(1)] by (simp add: revisions_ok_def)
  have "last (sort_key v_ordinal ?vs) = v"
  proof (rule last_sorted_max)
    show "v \<in> set ?vs" using v by simp
    show "v_ordinal x \<le> v_ordinal v" if "x \<in> set ?vs" for x using top that by (simp add: w)
    show "x = v" if "x \<in> set ?vs" "v_ordinal x = v_ordinal v" for x
      using unique_by_eq[OF uniq, of x v] that v by simp
  qed
  moreover have "v \<in> set (sort_key v_ordinal ?vs)" using v by simp
  then have "sort_key v_ordinal ?vs \<noteq> []" by force
  ultimately show ?thesis by (simp add: plan_texts_def last_map)
qed

text \<open>C37: A plan refines a history of texts: \<open>append_revision\<close> succeeds only when the abstract
  compare-and-swap on the plan's texts does, has exactly its effect, and leaves every other plan's
  texts as they are.\<close>

theorem append_revision_refines:
  assumes "plans_ok sha d" and "append_revision sha i content expected source run_id uuid now d = Inr (r, d')"
  shows "swap_text sha expected content (plan_texts d i) = Some (plan_texts d' i)
    \<and> (\<forall>j. j \<noteq> i \<longrightarrow> plan_texts d' j = plan_texts d j)"
proof -
  have common: "plan_texts d i \<noteq> [] \<and> sha (last (plan_texts d i)) = expected"
    if "draft_plan i d = Some p" "owned_revision p i d = Some current" "v_sha256 current = expected" for p current
  proof -
    have "v_sha256 current = sha (v_content current)"
      using plans_okD(3)[OF assms(1)] owned_revision_Some(1)[OF that(2)] by (simp add: revisions_ok_def)
    then show ?thesis using plan_texts_last[OF assms(1) draft_plan_Some(1)[OF that(1)], of current]
        draft_plan_Some(2)[OF that(1)] that(2,3) by simp
  qed
  from assms(2) show ?thesis
  proof (cases rule: append_revision_effect)
    case (same p current)
    then show ?thesis using common by (simp add: swap_text_def)
  next
    case (new p current v)
    have "sort_key v_ordinal (filter (\<lambda>v. v_plan v = i) (d_revisions d) @ [v])
        = sort_key v_ordinal (filter (\<lambda>v. v_plan v = i) (d_revisions d)) @ [v]"
      by (rule sort_key_snoc) (use next_ordinal_above new(7) in fastforce)
    then have "plan_texts d' i = plan_texts d i @ [content]" using new(5-8) by (simp add: plan_texts_def)
    moreover have "plan_texts d' j = plan_texts d j" if "j \<noteq> i" for j using new(5,6) that by (simp add: plan_texts_def)
    ultimately show ?thesis using common[OF new(1-3)] new(3,4) by (auto simp: swap_text_def)
  qed
qed

text \<open>A draft cannot return to an earlier text: when the new content equals a revision other than
  the current one, the update fails with an integrity error instead of being stored.\<close>

lemma revert_is_refused:
  assumes "plans_ok sha d" and "draft_plan i d = Some p" and "owned_revision p i d = Some current"
    and "w \<in> set (d_revisions d)" and "v_plan w = i" and "v_sha256 w \<noteq> v_sha256 current"
  shows "append_revision sha i (v_content w) (v_sha256 current) source run_id uuid now d = Inl IntegrityError"
proof -
  have sha: "v_sha256 w = sha (v_content w)" using plans_okD(3)[OF assms(1)] assms(4) by (simp add: revisions_ok_def)
  define v where "v = \<lparr>v_id = ''planrev_'' @ uuid, v_plan = i, v_ordinal = next_ordinal i d,
      v_content = v_content w, v_sha256 = sha (v_content w), v_source = source, v_run = run_id, v_created_at = now\<rparr>"
  have "insert_revision v d = Inl IntegrityError"
    using assms(4,5) sha by (auto simp: insert_revision_def sql_insert_def list_ex_iff v_def)
  then show ?thesis using assms(2,3,6) sha by (simp add: append_revision_def v_def Let_def)
qed

text \<open>A submission stays open when its plan is cancelled, and approving it later takes the
  cancelled plan back to approved, from where it is implemented.\<close>

lemma approval_revives_cancelled_plan:
  assumes "plans_ok sha d" and "q \<in> set (d_plan_requests d)" and "pq_kind q = PK_SUBMIT" and "pq_status q = PR_PENDING"
    and "p \<in> set (d_plans d)" and "pq_plan q = Some (p_id p)" and "p_status p = PS_CANCELLED"
  shows "\<exists>r d'. decide_plan sha (pq_id q) ''implement'' feedback mode u1 u2 now pnow d = Inr (r, d')
    \<and> p\<lparr>p_status := PS_APPROVED, p_updated_at := now\<rparr> \<in> set (d_plans d')
    \<and> (\<exists>x v. joined_request (pq_id q) d' = Some (x, p\<lparr>p_status := PS_APPROVED, p_updated_at := now\<rparr>, v))"
proof -
  let ?f = "\<lambda>r. r\<lparr>pq_status := PR_APPROVED, pq_choice := Some PC_IMPLEMENT, pq_feedback := feedback, pq_decided_at := Some now\<rparr>"
  let ?g = "\<lambda>r. r\<lparr>p_status := PS_APPROVED, p_updated_at := now\<rparr>"
  let ?d = "set_request (pq_id q) ?f (set_plan (p_id p) ?g d)"
  note ok = plans_okD[OF assms(1)]
  have fetch: "fetch_one (\<lambda>r. pq_id r = pq_id q \<and> pq_status r = PR_PENDING) (d_plan_requests d) = Some q"
    by (rule fetch_one_unique[OF ok(2) assms(2)]) (use assms(4) in simp_all)
  have req: "row_by pq_id (pq_id q) (d_plan_requests ?d) = Some (?f q)"
    using row_by_member[OF ok(2) assms(2)] by (simp add: set_request_def row_by_update)
  have dec: "decide_plan sha (pq_id q) ''implement'' feedback mode u1 u2 now pnow d = Inr (request_info (?f q), ?d)"
    using fetch assms(3,6) req
    by (simp add: decide_plan_def parse_choice_def decision_effect_def require_request_def get_request_def Let_def)
  have plans: "d_plans ?d = sql_update (\<lambda>r. p_id r = p_id p) ?g (d_plans d)" by simp
  have uniq: "unique_by p_id (d_plans ?d)" unfolding plans by (rule unique_by_update[OF ok(1)]) simp
  have mem: "?g p \<in> set (d_plans ?d)" unfolding plans by (rule sql_update_hit[OF assms(5)]) simp
  have ids: "unique_by pq_id (d_plan_requests ?d)" unfolding set_request_def by (simp add: unique_by_update[OF ok(2)])
  have "?f q \<in> set (sql_update (\<lambda>r. pq_id r = pq_id q) ?f (d_plan_requests d))"
    by (rule sql_update_hit[OF assms(2)]) simp
  then have fq: "?f q \<in> set (d_plan_requests ?d)" by (simp add: set_request_def)
  have j1: "fetch_one (\<lambda>r. pq_id r = pq_id q \<and> approved_to_implement r) (d_plan_requests ?d) = Some (?f q)"
    by (rule fetch_one_unique[OF ids fq]) (use assms(3) in \<open>simp_all add: approved_to_implement_def\<close>)
  have j2: "fetch_one (\<lambda>r. Some (p_id r) = pq_plan (?f q)) (d_plans ?d) = Some (?g p)"
    using row_by_member[OF uniq mem] assms(6) by (simp add: row_by_def)
  obtain w where "w \<in> set (d_revisions ?d)" "Some (v_id w) = pq_revision (?f q)"
    using ok(5)[OF assms(2)] assms(3) by (auto simp: request_ok_def)
  from fetch_one_ex[of w _ "\<lambda>r. Some (v_id r) = pq_revision (?f q)", OF this] obtain v where "fetch_one (\<lambda>r. Some (v_id r) = pq_revision (?f q)) (d_revisions ?d) = Some v"
    by blast
  then have "joined_request (pq_id q) ?d = Some (?f q, ?g p, v)" using j1 j2 by (simp add: joined_request_def)
  then show ?thesis using dec mem by blast
qed

section \<open>Witnesses\<close>

text \<open>A plan with two revisions, digested by the identity, and a submission of the second.\<close>

definition sample_plan :: "PlanStatus \<Rightarrow> plan_row" where
  "sample_plan st = \<lparr>p_id = ''p'', p_session = ''s1'', p_objective = ''ship'', p_status = st, p_entry_source = ''slash'',
     p_base_mode = ''full_access'', p_current_revision = Some ''v2'', p_parent = None, p_mirror = ''s1/p.md'',
     p_created_at = ''t0'', p_updated_at = ''t1''\<rparr>"

definition sample_revision :: "string \<Rightarrow> int \<Rightarrow> string \<Rightarrow> revision_row" where
  "sample_revision i n c = \<lparr>v_id = i, v_plan = ''p'', v_ordinal = n, v_content = c, v_sha256 = c, v_source = ''model'',
     v_run = None, v_created_at = ''t0''\<rparr>"

definition sample_submission :: "PlanRequestStatus \<Rightarrow> PlanApprovalChoice option \<Rightarrow> plan_request_row" where
  "sample_submission st c = \<lparr>pq_id = ''q'', pq_session = ''s1'', pq_plan = Some ''p'', pq_revision = Some ''v2'',
     pq_kind = PK_SUBMIT, pq_status = st, pq_run = None, pq_invocation = None, pq_objective = None, pq_choice = c,
     pq_feedback = None, pq_created_at = ''t1'', pq_decided_at = None\<rparr>"

definition sample_plan_db :: "PlanStatus \<Rightarrow> plan_request_row list \<Rightarrow> db" where
  "sample_plan_db st qs = sample_db\<lparr>d_plans := [sample_plan st],
     d_revisions := [sample_revision ''v1'' 1 ''a'', sample_revision ''v2'' 2 ''b''], d_plan_requests := qs\<rparr>"

lemmas sample_plan_defs = sample_plan_db_def sample_plan_def sample_revision_def sample_submission_def sample_db_def
  empty_db_def unique_by_def

lemma sample_plans_ok: "plans_ok (\<lambda>s. s) (sample_plan_db st [])" "plans_ok (\<lambda>s. s) (sample_plan_db st [sample_submission rs c])"
  by (simp_all add: plans_ok_def revisions_ok_def current_ok_def request_ok_def sample_plan_defs)

lemma sample_live_ok: "live_ok (sample_plan_db st [])" "st \<noteq> PS_DRAFT \<Longrightarrow> live_ok (sample_plan_db st [sample_submission rs c])"
  by (simp_all add: live_ok_def sample_plan_defs)

definition sample_append :: "(revision_row \<times> db) res" where
  "sample_append = append_revision (\<lambda>s. s) ''p'' ''c'' ''b'' ''model'' None ''u'' ''t2'' (sample_plan_db PS_DRAFT [])"

definition sample_appended :: "revision_row \<times> db" where
  "sample_appended = (case sample_append of Inr x \<Rightarrow> x | Inl _ \<Rightarrow> (sample_revision ''v1'' 1 ''a'', sample_db))"

lemma sample_append_succeeds: "append_revision (\<lambda>s. s) ''p'' ''c'' ''b'' ''model'' None ''u'' ''t2'' (sample_plan_db PS_DRAFT [])
    = Inr (fst sample_appended, snd sample_appended)"
proof -
  have "case sample_append of Inl _ \<Rightarrow> False | Inr _ \<Rightarrow> True" by code_simp
  then obtain x where "sample_append = Inr x" by (simp split: sum.split_asm)
  note e = this
  show ?thesis unfolding sample_append_def[symmetric] sample_appended_def unfolding e by simp
qed

theorem plans_stay_good_witness: "plans_good (\<lambda>s. s) (snd sample_appended)"
proof (rule plans_stay_good)
  show "plan_reach (\<lambda>s. s) (sample_plan_db PS_DRAFT []) (snd sample_appended)"
    by (rule plan_reach.step[OF plan_reach.stay plan_step.append[OF sample_append_succeeds]])
  show "plans_good (\<lambda>s. s) (sample_plan_db PS_DRAFT [])" by (simp add: plans_good_def sample_plans_ok sample_live_ok)
qed

theorem append_revision_refines_witness:
  "swap_text (\<lambda>s. s) ''b'' ''c'' (plan_texts (sample_plan_db PS_DRAFT []) ''p'') = Some (plan_texts (snd sample_appended) ''p'')
    \<and> swap_text (\<lambda>s. s) ''b'' ''c'' [''a'', ''b''] = Some [''a'', ''b'', ''c'']"
  using append_revision_refines[OF sample_plans_ok(1) sample_append_succeeds] by (simp add: swap_text_def)

theorem revert_is_refused_witness:
  "append_revision (\<lambda>s. s) ''p'' ''a'' ''b'' ''model'' None ''u'' ''t2'' (sample_plan_db PS_DRAFT []) = Inl IntegrityError"
  using revert_is_refused[OF sample_plans_ok(1)[of PS_DRAFT], of "''p''" "sample_plan PS_DRAFT" "sample_revision ''v2'' 2 ''b''"
      "sample_revision ''v1'' 1 ''a''" "''model''" None "''u''" "''t2''"]
  by (simp add: sample_plan_defs draft_plan_def owned_revision_def fetch_one_def)

theorem approval_revives_cancelled_plan_witness:
  "\<exists>r d'. decide_plan (\<lambda>s. s) ''q'' ''implement'' None ''full_access'' ''u'' ''w'' ''t3'' ''t3''
      (sample_plan_db PS_CANCELLED [sample_submission PR_PENDING None]) = Inr (r, d')
    \<and> (sample_plan PS_APPROVED)\<lparr>p_updated_at := ''t3''\<rparr> \<in> set (d_plans d')"
  using approval_revives_cancelled_plan[OF sample_plans_ok(2)[of PS_CANCELLED PR_PENDING None],
      of "sample_submission PR_PENDING None" "sample_plan PS_CANCELLED" None "''full_access''" "''u''" "''w''" "''t3''" "''t3''"]
  by (auto simp: sample_plan_defs)

end
