(* ===== verification/Tool_Contracts.thy ===== *)
theory Tool_Contracts
  imports Permission_Engine
begin

text \<open>
  The value objects of \<^verbatim>\<open>capslock/tooling/contracts.py\<close> (outcomes, pauses, policies, contracts)
  and \<open>strip_optional_nulls\<close> with the error selection of \<^verbatim>\<open>capslock/tooling/schema.py\<close>.  The
  validator of the package \<open>jsonschema\<close> is an argument.
\<close>

section \<open>Enumerations\<close>

datatype InterruptBehavior = IB_CANCEL | IB_COMPLETE | IB_SHIELD

datatype ToolOutcomeStatus = OS_SUCCEEDED | OS_FAILED | OS_DENIED | OS_CANCELLED

fun outcome_status_value :: "ToolOutcomeStatus \<Rightarrow> string" where
  "outcome_status_value OS_SUCCEEDED = ''succeeded''"
| "outcome_status_value OS_FAILED = ''failed''"
| "outcome_status_value OS_DENIED = ''denied''"
| "outcome_status_value OS_CANCELLED = ''cancelled''"

datatype ToolExecutionState = ES_NOT_STARTED | ES_COMMITTED | ES_UNKNOWN

fun execution_state_value :: "ToolExecutionState \<Rightarrow> string" where
  "execution_state_value ES_NOT_STARTED = ''not_started''"
| "execution_state_value ES_COMMITTED = ''committed''"
| "execution_state_value ES_UNKNOWN = ''unknown''"

datatype DeliveryStatus = DS_INLINE | DS_ARTIFACT | DS_TRUNCATED | DS_DELIVERY_FAILED

fun delivery_value :: "DeliveryStatus \<Rightarrow> string" where
  "delivery_value DS_INLINE = ''inline''"
| "delivery_value DS_ARTIFACT = ''artifact''"
| "delivery_value DS_TRUNCATED = ''truncated''"
| "delivery_value DS_DELIVERY_FAILED = ''delivery_failed''"

datatype PlanToolVisibility = PV_HIDDEN | PV_LOCAL_READ | PV_CONTROL

section \<open>Errors raised while a tool runs\<close>

text \<open>The classes the executor tells apart.  \<open>Other n t c\<close> is any other \<open>Exception\<close> of class
  \<open>n\<close> with text \<open>t\<close> and, when it has one, the attribute \<open>code\<close>.\<close>

datatype tool_error =
    TimedOut
  | SchemaError string string "string option" "string option"
  | InvalidPath string
  | PolicyViolation string
  | Other string string "string option"
  | Cancelled

type_synonym 'a tres = "tool_error + 'a"

text \<open>How a repository or engine error reaches the executor; \<open>describe e\<close> is
  \<open>(type(e).__name__, str(e))\<close>.\<close>

definition of_py :: "(py_error \<Rightarrow> string \<times> string) \<Rightarrow> py_error \<Rightarrow> tool_error" where
  "of_py describe e = (let (name, text) = describe e in
     if e = CancelledError then Cancelled
     else if name = ''TimeoutError'' then TimedOut
     else if name = ''InvalidPathError'' then InvalidPath text
     else if name = ''PolicyError'' then PolicyViolation text
     else Other name text None)"

definition of_res :: "(py_error \<Rightarrow> string \<times> string) \<Rightarrow> 'a res \<Rightarrow> 'a tres" where
  "of_res describe r = (case r of Inl e \<Rightarrow> Inl (of_py describe e) | Inr x \<Rightarrow> Inr x)"

section \<open>Policies\<close>

record ResolvedToolPolicy =
  rp_read_only :: bool
  rp_concurrency_safe :: bool
  rp_destructive :: bool
  rp_external :: bool
  rp_open_world :: bool
  rp_context_mutation :: bool
  rp_interrupt :: InterruptBehavior
  rp_capabilities :: "string list"
  rp_timeout :: "rat option"
  rp_fail_fast :: bool

text \<open>\<open>ResolvedToolPolicy.__post_init__\<close>: every policy that exists has passed it.\<close>

definition resolved_policy :: "ResolvedToolPolicy \<Rightarrow> ResolvedToolPolicy res" where
  "resolved_policy p =
     (if (case rp_timeout p of None \<Rightarrow> False | Some t \<Rightarrow> t \<le> 0) then Inl (ValueError ''tool timeout must be positive'')
      else if rp_destructive p \<and> rp_read_only p then Inl (ValueError ''a destructive tool cannot be read-only'')
      else if rp_concurrency_safe p \<and> (\<not> rp_read_only p \<or> rp_destructive p \<or> rp_context_mutation p \<or> rp_external p)
      then Inl (ValueError ''concurrency-safe tools must be local read-only operations'')
      else Inr p)"

definition default_policy :: ResolvedToolPolicy where
  "default_policy = \<lparr>rp_read_only = False, rp_concurrency_safe = False, rp_destructive = False, rp_external = False,
     rp_open_world = False, rp_context_mutation = False, rp_interrupt = IB_COMPLETE, rp_capabilities = [],
     rp_timeout = None, rp_fail_fast = False\<rparr>"

definition safe_read :: "rat option \<Rightarrow> ResolvedToolPolicy" where
  "safe_read timeout = default_policy\<lparr>rp_read_only := True, rp_concurrency_safe := True, rp_interrupt := IB_CANCEL,
     rp_timeout := timeout\<rparr>"

definition has_side_effects :: "ResolvedToolPolicy \<Rightarrow> bool" where
  "has_side_effects p \<longleftrightarrow> rp_external p \<or> rp_destructive p \<or> rp_context_mutation p"

text \<open>The part of a policy the permission engine reads.\<close>

definition engine_policy :: "ResolvedToolPolicy \<Rightarrow> tool_policy" where
  "engine_policy p = \<lparr>tp_destructive = rp_destructive p, tp_external = rp_external p, tp_open_world = rp_open_world p\<rparr>"

section \<open>Outcomes and pauses\<close>

record ToolContent =
  tc_kind :: string
  tc_value :: json
  tc_media_type :: "string option"

definition content_dict :: "ToolContent \<Rightarrow> json" where
  "content_dict c = JObj ([(''type'', JStr (tc_kind c)), (''value'', tc_value c)]
     @ (case tc_media_type c of None \<Rightarrow> [] | Some m \<Rightarrow> if m = [] then [] else [(''media_type'', JStr m)]))"

definition summary_dict :: "ToolContent \<Rightarrow> json" where
  "summary_dict c = (if tc_kind c = ''image''
     then JObj ([(''type'', JStr ''image''), (''embedded'', JBool True)]
       @ (case tc_media_type c of None \<Rightarrow> [] | Some m \<Rightarrow> if m = [] then [] else [(''media_type'', JStr m)]))
     else content_dict c)"

definition artifact_content :: "json \<Rightarrow> ToolContent" where
  "artifact_content v = \<lparr>tc_kind = ''artifact'', tc_value = v, tc_media_type = None\<rparr>"

record ToolOutcome =
  to_status :: ToolOutcomeStatus
  to_executed :: bool
  to_data :: json
  to_content :: "ToolContent list"
  to_error :: "string option"
  to_code :: "string option"
  to_source_ids :: "string list"
  to_audit_data :: "json option"
  to_audit_arguments :: "dict option"
  to_event_data :: "dict option"
  to_usage :: "dict option"
  to_delivery :: DeliveryStatus
  to_trust :: string
  to_source :: "string option"
  to_suspicious :: bool
  to_signals :: "string list"
  to_state :: "ToolExecutionState option"

definition tool_outcome :: "ToolOutcomeStatus \<Rightarrow> bool \<Rightarrow> ToolOutcome" where
  "tool_outcome status executed = \<lparr>to_status = status, to_executed = executed, to_data = JObj [], to_content = [],
     to_error = None, to_code = None, to_source_ids = [], to_audit_data = None, to_audit_arguments = None,
     to_event_data = None, to_usage = None, to_delivery = DS_INLINE, to_trust = ''tool_data'', to_source = None,
     to_suspicious = False, to_signals = [], to_state = None\<rparr>"

definition outcome_ok :: "ToolOutcome \<Rightarrow> bool" where
  "outcome_ok t \<longleftrightarrow> to_status t = OS_SUCCEEDED"

definition effective_state :: "ToolOutcome \<Rightarrow> ToolExecutionState" where
  "effective_state t = (case to_state t of Some s \<Rightarrow> s | None \<Rightarrow> if to_executed t then ES_COMMITTED else ES_NOT_STARTED)"

definition success :: "json \<Rightarrow> ToolOutcome" where
  "success data = (tool_outcome OS_SUCCEEDED True)\<lparr>to_data := data\<rparr>"

definition failure :: "string \<Rightarrow> string \<Rightarrow> bool \<Rightarrow> json \<Rightarrow> ToolExecutionState option \<Rightarrow> ToolOutcome" where
  "failure error code executed data state = (tool_outcome OS_FAILED executed)\<lparr>to_data := data, to_error := Some error,
     to_code := Some code, to_state := state\<rparr>"

definition outcome_json :: "ToolOutcome \<Rightarrow> json" where
  "outcome_json t = JObj [(''status'', JStr (outcome_status_value (to_status t))), (''ok'', JBool (outcome_ok t)),
     (''executed'', JBool (to_executed t)), (''execution_state'', JStr (execution_state_value (effective_state t))),
     (''delivery_status'', JStr (delivery_value (to_delivery t))), (''data'', to_data t),
     (''content'', JList (map summary_dict (to_content t))), (''error'', jopt (to_error t)),
     (''error_code'', jopt (to_code t)), (''content_trust'', JStr (to_trust t)), (''content_source'', jopt (to_source t)),
     (''suspicious'', JBool (to_suspicious t)), (''risk_signals'', JList (map JStr (to_signals t)))]"

definition for_model :: "ToolOutcome \<Rightarrow> string" where
  "for_model t = json_dumps (outcome_json t)"

definition for_audit :: "ToolOutcome \<Rightarrow> string" where
  "for_audit t = json_dumps (JObj [(''status'', JStr (outcome_status_value (to_status t))),
     (''executed'', JBool (to_executed t)), (''execution_state'', JStr (execution_state_value (effective_state t))),
     (''data'', (case to_audit_data t of None \<Rightarrow> to_data t | Some v \<Rightarrow> v)), (''error'', jopt (to_error t)),
     (''error_code'', jopt (to_code t)), (''content_trust'', JStr (to_trust t)), (''content_source'', jopt (to_source t)),
     (''suspicious'', JBool (to_suspicious t)), (''risk_signals'', JList (map JStr (to_signals t)))])"

record ToolPause =
  tz_kind :: string
  tz_request :: string
  tz_payload :: dict
  tz_resume :: dict

definition tool_pause :: "string \<Rightarrow> string \<Rightarrow> dict \<Rightarrow> dict \<Rightarrow> ToolPause res" where
  "tool_pause kind request payload resume =
     (if kind \<notin> {''approval'', ''user_input''} then Inl (ValueError (''unsupported tool pause kind: '' @ kind))
      else if request = [] then Inl (ValueError ''tool pause request_id must not be empty'')
      else Inr \<lparr>tz_kind = kind, tz_request = request, tz_payload = payload, tz_resume = resume\<rparr>)"

datatype ToolExecution = Outcome ToolOutcome | Pause ToolPause

section \<open>Contracts\<close>

record ToolContract =
  tk_name :: string
  tk_version :: string
  tk_description :: string
  tk_input_schema :: json
  tk_output_schema :: "json option"
  tk_search_hint :: "string option"
  tk_deferred :: bool
  tk_inline_bytes :: int
  tk_capture_bytes :: int
  tk_visibility :: PlanToolVisibility
  tk_aliases :: "string list"
  tk_intent_tags :: "string list"
  tk_group :: "string option"
  tk_model_visible :: bool
  tk_model_schema :: "json option"

text \<open>\<open>__post_init__\<close>; \<open>fault\<close> compiles a schema and returns the message of its first fault.\<close>

definition compile_schema :: "(json \<Rightarrow> string option) \<Rightarrow> json option \<Rightarrow> unit tres" where
  "compile_schema fault schema = (case schema of None \<Rightarrow> Inr () | Some s \<Rightarrow>
     if \<not> is_dict s then Inl (SchemaError ''$: schema must be an object'' ''$'' None None)
     else (case fault s of None \<Rightarrow> Inr ()
       | Some message \<Rightarrow> Inl (SchemaError (''invalid tool schema: '' @ message) ''$'' None None)))"

definition tool_contract :: "(json \<Rightarrow> string option) \<Rightarrow> ToolContract \<Rightarrow> ToolContract tres" where
  "tool_contract fault c =
     (if tk_name c = [] \<or> tk_version c = [] \<or> strip (tk_description c) = []
      then Inl (Other ''ValueError'' ''invalid tool contract'' None)
      else if tk_inline_bytes c \<le> 0 then Inl (Other ''ValueError'' ''inline tool result limit must be positive'' None)
      else if tk_capture_bytes c < tk_inline_bytes c
      then Inl (Other ''ValueError'' ''tool capture limit must cover the inline limit'' None)
      else (case compile_schema fault (Some (tk_input_schema c)) of Inl e \<Rightarrow> Inl e | Inr _ \<Rightarrow>
        (case compile_schema fault (tk_model_schema c) of Inl e \<Rightarrow> Inl e | Inr _ \<Rightarrow>
          (case compile_schema fault (tk_output_schema c) of Inl e \<Rightarrow> Inl e | Inr _ \<Rightarrow> Inr c))))"

definition model_schema :: "ToolContract \<Rightarrow> json" where
  "model_schema c = JObj [(''type'', JStr ''function''), (''function'', JObj [(''name'', JStr (tk_name c)),
     (''description'', JStr (tk_description c)),
     (''parameters'', (case tk_model_schema c of Some s \<Rightarrow> if py_truthy s then s else tk_input_schema c
        | None \<Rightarrow> tk_input_schema c))])]"

section \<open>Arguments against a schema\<close>

text \<open>\<open>set(schema.get("required", ()))\<close>: the names, whatever iterable of hashable values it is.\<close>

definition required_names :: "dict \<Rightarrow> string list tres" where
  "required_names schema = (case map_of schema ''required'' of
      None \<Rightarrow> Inr []
    | Some (JList vs) \<Rightarrow> if list_all hashable vs then Inr (List.map_filter (\<lambda>v. case v of JStr s \<Rightarrow> Some s | _ \<Rightarrow> None) vs)
        else Inl (Other ''TypeError'' ''unhashable type'' None)
    | Some (JObj kvs) \<Rightarrow> Inr (map fst kvs)
    | Some (JStr s) \<Rightarrow> Inr (map (\<lambda>c. [c]) s)
    | Some _ \<Rightarrow> Inl (Other ''TypeError'' ''object is not iterable'' None))"

fun all_tres :: "('a \<Rightarrow> 'b tres) \<Rightarrow> 'a list \<Rightarrow> 'b list tres" where
  "all_tres f [] = Inr []"
| "all_tres f (x # xs) = (case f x of Inl e \<Rightarrow> Inl e | Inr y \<Rightarrow>
     (case all_tres f xs of Inl e \<Rightarrow> Inl e | Inr ys \<Rightarrow> Inr (y # ys)))"

lemma all_tres_cong [fundef_cong]:
  "xs = ys \<Longrightarrow> (\<And>x. x \<in> set ys \<Longrightarrow> f x = g x) \<Longrightarrow> all_tres f xs = all_tres g ys"
  by (induction xs arbitrary: ys) (auto split: sum.split)

definition kept_field :: "string list \<Rightarrow> string \<times> json \<Rightarrow> bool" where
  "kept_field required kv \<longleftrightarrow> \<not> (snd kv = JNull \<and> fst kv \<notin> set required)"

lemma json_item_smaller: "(k, v) \<in> set kvs \<Longrightarrow> size v < Suc (size_list (size_prod (\<lambda>_. 0) size) kvs)"
  by (induction kvs) auto

fun strip_optional_nulls :: "json \<Rightarrow> json \<Rightarrow> json tres" where
  "strip_optional_nulls (JList vs) (JObj schema) =
     (if dget schema ''type'' = JStr ''array''
      then (case dget schema ''items'' of
          JObj items \<Rightarrow> (case all_tres (\<lambda>v. strip_optional_nulls v (JObj items)) vs of Inl e \<Rightarrow> Inl e | Inr ws \<Rightarrow> Inr (JList ws))
        | _ \<Rightarrow> Inr (JList vs))
      else Inr (JList vs))"
| "strip_optional_nulls (JObj kvs) (JObj schema) =
     (if dget schema ''type'' \<noteq> JStr ''object'' then Inr (JObj kvs)
      else (case dget_or schema ''properties'' (JObj []) of
          JObj properties \<Rightarrow> (case required_names schema of Inl e \<Rightarrow> Inl e | Inr required \<Rightarrow>
            (case all_tres (\<lambda>kv. case dget properties (fst kv) of
                  JObj child \<Rightarrow> (case strip_optional_nulls (snd kv) (JObj child) of Inl e \<Rightarrow> Inl e | Inr v \<Rightarrow> Inr (fst kv, v))
                | _ \<Rightarrow> Inr kv)
              (filter (kept_field required) kvs) of Inl e \<Rightarrow> Inl e | Inr out \<Rightarrow> Inr (JObj out)))
        | _ \<Rightarrow> Inr (JObj kvs)))"
| "strip_optional_nulls v schema = Inr v"

text \<open>One error of \<open>Draft202012Validator.iter_errors\<close>: its path, message, the failed keyword with
  its value (as JSON text) and the type of the instance.\<close>

datatype path_part = Index int | Key string

record schema_error =
  er_path :: "path_part list"
  er_message :: string
  er_validator :: string
  er_value :: string
  er_instance :: string

fun path_key :: "path_part \<Rightarrow> int \<times> string" where
  "path_key (Index i) = (i, [])"
| "path_key (Key s) = (0, s)"

fun show_part :: "path_part \<Rightarrow> string" where
  "show_part (Index i) = ''['' @ py_int_str i @ '']''"
| "show_part (Key s) = ''.'' @ s"

type_synonym validator = "json \<Rightarrow> json \<Rightarrow> schema_error list"

definition schema_failure :: "schema_error \<Rightarrow> tool_error" where
  "schema_failure e = (let path = CHR ''$'' # concat (map show_part (er_path e)) in
     SchemaError (path @ '': '' @ er_message e) path (Some (er_validator e @ ''='' @ er_value e)) (Some (er_instance e)))"

definition validate_schema :: "validator \<Rightarrow> json \<Rightarrow> json \<Rightarrow> unit tres" where
  "validate_schema errors schema v =
     (case sort_key (\<lambda>e. map path_key (er_path e)) (errors schema v) of
        [] \<Rightarrow> Inr () | e # _ \<Rightarrow> Inl (schema_failure e))"

definition repair_data :: "string \<Rightarrow> json \<Rightarrow> json \<Rightarrow> bool \<Rightarrow> string list \<Rightarrow> json" where
  "repair_data path expected received can_retry suggested = JObj [(''path'', JStr path), (''expected'', expected),
     (''received_type'', received), (''retryable'', JBool can_retry), (''suggested_tools'', JList (map JStr suggested)),
     (''repair_attempt'', JInt 0)]"

end
