(* ===== verification/Tool_Runtime.thy ===== *)
theory Tool_Runtime
  imports Tool_Contracts Planning
begin

text \<open>
  The invocation pipeline: \<open>ToolExecutor\<close> of \<^verbatim>\<open>capslock/tooling/executor.py\<close> and the two
  middlewares that \<^verbatim>\<open>capslock/composition/tools.py\<close> installs, the planning boundary
  (\<^verbatim>\<open>capslock/tooling/planning.py\<close>) and the permission adapter
  (\<^verbatim>\<open>capslock/tooling/permission_policy/middleware.py\<close>).

  A step of the pipeline maps the surroundings (database, run-time flags, everything else a handler
  can change) to a result and the surroundings it leaves.  A time limit that expires is the result
  \<open>TimedOut\<close> of the handler; an interruption of the awaiting task is the argument \<open>course\<close>.
  Telemetry and timings are left out.
\<close>

section \<open>Surroundings and steps\<close>

text \<open>The three flags are the entries of \<open>context.runtime_state\<close> the pipeline reads or sets.\<close>

record 'w surroundings =
  ev_db :: db
  ev_plan_control :: bool
  ev_manual :: bool
  ev_interrupt :: bool
  ev_world :: 'w

type_synonym ('w, 'a) act = "'w surroundings \<Rightarrow> 'a tres \<times> 'w surroundings"

text \<open>The local variables of \<open>_run\<close> that its handlers of exceptions read.\<close>

record progress =
  pg_args :: dict
  pg_policy :: ResolvedToolPolicy
  pg_started :: bool
  pg_completed :: "ToolOutcome option"

type_synonym ('w, 'a) phase = "progress \<times> 'w surroundings \<Rightarrow> 'a tres \<times> progress \<times> 'w surroundings"

definition ret :: "'a \<Rightarrow> 's \<Rightarrow> 'a tres \<times> 's" where
  "ret x s = (Inr x, s)"

definition raise :: "tool_error \<Rightarrow> 's \<Rightarrow> 'a tres \<times> 's" where
  "raise e s = (Inl e, s)"

definition tbind :: "('s \<Rightarrow> 'a tres \<times> 's) \<Rightarrow> ('a \<Rightarrow> 's \<Rightarrow> 'b tres \<times> 's) \<Rightarrow> 's \<Rightarrow> 'b tres \<times> 's" where
  "tbind m f s = (case m s of (Inl e, s') \<Rightarrow> (Inl e, s') | (Inr x, s') \<Rightarrow> f x s')"

definition of_tres :: "'a tres \<Rightarrow> 's \<Rightarrow> 'a tres \<times> 's" where
  "of_tres r s = (r, s)"

definition on_env :: "('w, 'a) act \<Rightarrow> ('w, 'a) phase" where
  "on_env a ps = (case ps of (p, s) \<Rightarrow> (case a s of (r, s') \<Rightarrow> (r, p, s')))"

definition note_progress :: "(progress \<Rightarrow> progress) \<Rightarrow> ('w, unit) phase" where
  "note_progress f ps = (Inr (), f (fst ps), snd ps)"

record 'w tool =
  tl_contract :: ToolContract
  tl_validate :: "dict \<Rightarrow> ('w, unit) act"
  tl_policy :: "dict \<Rightarrow> ('w, ResolvedToolPolicy) act"
  tl_execute :: "dict \<Rightarrow> ('w, ToolExecution) act"
  tl_resume :: "(dict \<Rightarrow> ToolPause \<Rightarrow> json \<Rightarrow> ('w, ToolExecution) act) option"

definition tool_name :: "'w tool \<Rightarrow> string" where
  "tool_name t = tk_name (tl_contract t)"

record 'w middleware =
  mw_normalize :: "'w tool \<Rightarrow> dict \<Rightarrow> ('w, dict) act"
  mw_pre :: "('w tool \<Rightarrow> dict \<Rightarrow> ('w, ToolExecution option) act) option"
  mw_authorize :: "'w tool \<Rightarrow> dict \<Rightarrow> ResolvedToolPolicy \<Rightarrow> ('w, ToolExecution option) act"
  mw_after :: "'w tool \<Rightarrow> dict \<Rightarrow> ResolvedToolPolicy \<Rightarrow> ToolOutcome \<Rightarrow> ('w, ToolOutcome) act"

section \<open>The chain\<close>

fun normalize_all :: "'w middleware list \<Rightarrow> 'w tool \<Rightarrow> dict \<Rightarrow> ('w, dict) phase" where
  "normalize_all [] tool args = ret args"
| "normalize_all (m # ms) tool args =
     tbind (on_env (mw_normalize m tool args)) (\<lambda>args'.
     tbind (note_progress (\<lambda>p. p\<lparr>pg_args := args'\<rparr>)) (\<lambda>_. normalize_all ms tool args'))"

text \<open>The first decision of a chain; the rest of the chain is not asked.\<close>

fun first_decision :: "('w, ToolExecution option) act list \<Rightarrow> ('w, ToolExecution option) act" where
  "first_decision [] = ret None"
| "first_decision (a # as) = tbind a (\<lambda>d. case d of None \<Rightarrow> first_decision as | Some x \<Rightarrow> ret (Some x))"

fun after_all :: "'w middleware list \<Rightarrow> 'w tool \<Rightarrow> dict \<Rightarrow> ResolvedToolPolicy \<Rightarrow> ToolOutcome \<Rightarrow> ('w, ToolOutcome) act" where
  "after_all [] tool args policy out = ret out"
| "after_all (m # ms) tool args policy out =
     tbind (mw_after m tool args policy out) (\<lambda>out'. after_all ms tool args policy out')"

definition validate_output :: "validator \<Rightarrow> 'w tool \<Rightarrow> ToolOutcome \<Rightarrow> ToolOutcome" where
  "validate_output errors tool out = (case tk_output_schema (tl_contract tool) of
      None \<Rightarrow> out
    | Some schema \<Rightarrow> if \<not> outcome_ok out then out else (case validate_schema errors schema (to_data out) of
          Inl (SchemaError text _ _ _) \<Rightarrow> out\<lparr>to_status := OS_FAILED, to_error := Some text, to_code := Some ''invalid_tool_output''\<rparr>
        | _ \<Rightarrow> out))"

text \<open>What happens to the task that awaits the handler: nothing, or it is interrupted after the handler
  has done a part of its work.\<close>

datatype 'w course = Completes | Interrupted "'w surroundings \<Rightarrow> 'w surroundings"

definition await_handler :: "'w course \<Rightarrow> InterruptBehavior \<Rightarrow> ('w, ToolExecution) act \<Rightarrow> ('w, ToolExecution) act" where
  "await_handler course behavior handler s = (case course of
      Completes \<Rightarrow> handler s
    | Interrupted part \<Rightarrow> if behavior = IB_CANCEL then (Inl Cancelled, part s)
        else (case handler s of (r, s') \<Rightarrow> (r, s'\<lparr>ev_interrupt := True\<rparr>)))"

text \<open>A call starts the tool or resumes it with the response to its pause.\<close>

definition call_handler :: "'w tool \<Rightarrow> (ToolPause \<times> json) option \<Rightarrow> dict \<Rightarrow> ('w, ToolExecution) act" where
  "call_handler tool how args = (case how of
      None \<Rightarrow> tl_execute tool args
    | Some (paused, response) \<Rightarrow> (case tl_resume tool of
        None \<Rightarrow> raise (Other ''AssertionError'' [] None) | Some resume \<Rightarrow> resume args paused response))"

section \<open>One run through the pipeline\<close>

text \<open>Everything before the handler: the decision of a middleware, or none.\<close>

definition before_handler ::
  "validator \<Rightarrow> (string \<Rightarrow> ('w, unit) act) \<Rightarrow> 'w middleware list \<Rightarrow> 'w tool \<Rightarrow> dict \<Rightarrow> ('w, ToolExecution option) phase" where
  "before_handler errors report mws tool args =
     tbind (on_env (report ''validating'')) (\<lambda>_.
     tbind (of_tres (case strip_optional_nulls (JObj args) (tk_input_schema (tl_contract tool)) of
         Inl e \<Rightarrow> Inl e | Inr (JObj kvs) \<Rightarrow> Inr kvs | Inr _ \<Rightarrow> Inl (Other ''AssertionError'' [] None))) (\<lambda>stripped.
     tbind (note_progress (\<lambda>p. p\<lparr>pg_args := stripped\<rparr>)) (\<lambda>_.
     tbind (normalize_all mws tool stripped) (\<lambda>normalized.
     tbind (of_tres (validate_schema errors (tk_input_schema (tl_contract tool)) (JObj normalized))) (\<lambda>_.
     tbind (on_env (tl_validate tool normalized)) (\<lambda>_.
     tbind (on_env (first_decision (map (\<lambda>pre. pre tool normalized) (List.map_filter mw_pre mws)))) (\<lambda>early.
     case early of
       Some x \<Rightarrow> tbind (on_env (report ''authorizing'')) (\<lambda>_. ret (Some x))
     | None \<Rightarrow>
         tbind (on_env (tl_policy tool normalized)) (\<lambda>policy.
         tbind (note_progress (\<lambda>p. p\<lparr>pg_policy := policy\<rparr>)) (\<lambda>_.
         tbind (on_env (report ''authorizing'')) (\<lambda>_.
         on_env (first_decision (map (\<lambda>m. mw_authorize m tool normalized policy) mws))))))))))))"

definition run_handler ::
  "(string \<Rightarrow> ('w, unit) act) \<Rightarrow> 'w course \<Rightarrow> 'w tool \<Rightarrow> (ToolPause \<times> json) option \<Rightarrow> ('w, ToolExecution) phase" where
  "run_handler report course tool how =
     tbind (on_env (report ''running'')) (\<lambda>_.
     tbind (note_progress (\<lambda>p. p\<lparr>pg_started := True\<rparr>)) (\<lambda>_.
     (\<lambda>(p, s). on_env (await_handler course (rp_interrupt (pg_policy p)) (call_handler tool how (pg_args p))) (p, s))))"

definition finish_execution ::
  "validator \<Rightarrow> 'w middleware list \<Rightarrow> 'w tool \<Rightarrow> ToolExecution \<Rightarrow> ('w, ToolExecution) phase" where
  "finish_execution errors mws tool execution = (case execution of
      Pause z \<Rightarrow> ret (Pause z)
    | Outcome out \<Rightarrow>
        tbind (note_progress (\<lambda>p. p\<lparr>pg_completed := Some out\<rparr>)) (\<lambda>_.
        tbind (\<lambda>(p, s). on_env (after_all (rev mws) tool (pg_args p) (pg_policy p) (validate_output errors tool out)) (p, s))
          (\<lambda>out'. ret (Outcome (validate_output errors tool out')))))"

definition run_body ::
  "validator \<Rightarrow> (string \<Rightarrow> ('w, unit) act) \<Rightarrow> 'w course \<Rightarrow> 'w middleware list \<Rightarrow> 'w tool \<Rightarrow> dict \<Rightarrow> (ToolPause \<times> json) option
   \<Rightarrow> ('w, ToolExecution) phase" where
  "run_body errors report course mws tool args how =
     tbind (before_handler errors report mws tool args) (\<lambda>decision.
     tbind (case decision of Some x \<Rightarrow> ret x | None \<Rightarrow> run_handler report course tool how)
       (finish_execution errors mws tool))"

section \<open>Failures\<close>

definition uncertain :: "progress \<Rightarrow> bool" where
  "uncertain p \<longleftrightarrow> pg_started p \<and> has_side_effects (pg_policy p)"

definition missing_file_text :: "string \<Rightarrow> bool" where
  "missing_file_text t \<longleftrightarrow> contains_text ''file does not exist:'' t \<or> contains_text ''path is a directory:'' t"

text \<open>The \<open>except\<close> clauses; a cancellation passes through all of them.\<close>

fun error_outcome :: "string \<Rightarrow> progress \<Rightarrow> tool_error \<Rightarrow> ToolOutcome" where
  "error_outcome name p TimedOut = failure ''tool execution timed out''
     (if uncertain p then ''unknown_execution'' else ''tool_timeout'') False
     (repair_data ''$'' (JStr ''tool completion before timeout'') (JStr ''timeout'') False [])
     (Some (if uncertain p then ES_UNKNOWN else ES_NOT_STARTED))"
| "error_outcome name p (SchemaError text path expected received) = failure text ''invalid_tool_arguments'' False
     (repair_data path (jopt expected) (jopt received) True []) None"
| "error_outcome name p (InvalidPath text) = failure text ''invalid_path'' False
     (repair_data ''$.path'' (JStr ''repository-relative file path'') (JStr ''string'') True [name]) None"
| "error_outcome name p (PolicyViolation text) = failure text
     (if missing_file_text text then ''invalid_path'' else ''policy_denied'') False
     (repair_data ''$.path'' (JStr (if name \<in> {''read_file'', ''edit_file''} then ''existing repository file'' else ''allowed workspace path''))
       (JStr ''string'') (missing_file_text text) (if missing_file_text text then [name] else [])) None"
| "error_outcome name p (Other class text code) = failure (if text = [] then class else text)
     (if uncertain p then ''unknown_execution'' else (case code of None \<Rightarrow> class | Some c \<Rightarrow> c)) False
     (repair_data ''$'' (JStr ''successful tool execution'') (JStr class) False [])
     (Some (if uncertain p then ES_UNKNOWN else ES_NOT_STARTED))"
| "error_outcome name p Cancelled = tool_outcome OS_CANCELLED False"

definition not_retryable :: "json \<Rightarrow> json" where
  "not_retryable data = json_set ''retryable'' (JBool False) data"

text \<open>An error raised inside a handler with side effects.\<close>

definition mark_unknown :: "progress \<Rightarrow> ToolOutcome \<Rightarrow> ToolOutcome" where
  "mark_unknown p out =
     (if pg_completed p = None \<and> uncertain p
         \<and> to_code out \<in> {Some ''invalid_tool_arguments'', Some ''invalid_path'', Some ''policy_denied''}
      then out\<lparr>to_code := Some ''unknown_execution'', to_state := Some ES_UNKNOWN,
             to_data := not_retryable (case to_data out of JObj kvs \<Rightarrow> JObj kvs | _ \<Rightarrow> JObj [])\<rparr>
      else out)"

text \<open>An error after the handler has returned.\<close>

definition keep_completed :: "progress \<Rightarrow> bool \<Rightarrow> ToolOutcome \<Rightarrow> ToolOutcome" where
  "keep_completed p failed out = (case pg_completed p of
      None \<Rightarrow> out
    | Some c \<Rightarrow> if \<not> outcome_ok out \<and> (failed \<or> outcome_ok c)
        then out\<lparr>to_executed := to_executed c, to_state := Some (effective_state c),
               to_data := (if jget (to_data out) ''retryable'' \<noteq> None then not_retryable (to_data out) else to_data out),
               to_code := (if to_code out \<in> {Some ''invalid_tool_arguments'', Some ''invalid_path'', Some ''unknown_execution'',
                     Some ''tool_timeout''} then Some ''tool_postprocessing_failed'' else to_code out)\<rparr>
        else out)"

definition settle_error :: "string \<Rightarrow> progress \<Rightarrow> tool_error \<Rightarrow> ToolOutcome" where
  "settle_error name p e = keep_completed p (pg_completed p \<noteq> None) (mark_unknown p (error_outcome name p e))"

record invocation_result =
  ir_execution :: ToolExecution
  ir_args :: dict
  ir_policy :: ResolvedToolPolicy

definition unsupported_tool :: "string \<Rightarrow> string list \<Rightarrow> ToolOutcome" where
  "unsupported_tool name suggestions = failure (''unsupported tool: '' @ name) ''unsupported_tool'' False
     (repair_data ''$.name'' (JStr ''registered tool name'') (JStr ''string'') (suggestions \<noteq> []) suggestions) None"

definition run_tool ::
  "validator \<Rightarrow> (string \<Rightarrow> ('w, unit) act) \<Rightarrow> 'w course \<Rightarrow> 'w middleware list \<Rightarrow> (string \<Rightarrow> string list)
   \<Rightarrow> (string \<Rightarrow> 'w tool option) \<Rightarrow> string \<Rightarrow> dict \<Rightarrow> (ToolPause \<times> json) option \<Rightarrow> ('w, invocation_result) act" where
  "run_tool errors report course mws candidates tools name args how s =
     (case tools name of
        None \<Rightarrow> (Inr \<lparr>ir_execution = Outcome (unsupported_tool name (candidates name)), ir_args = args,
            ir_policy = default_policy\<rparr>, s)
      | Some tool \<Rightarrow>
          if how \<noteq> None \<and> tl_resume tool = None
          then (Inr \<lparr>ir_execution = Outcome (failure (''tool does not support resume: '' @ name) ''tool_resume_unsupported'' False
                (JObj []) None), ir_args = args, ir_policy = default_policy\<rparr>, s)
          else (case run_body errors report course mws tool args how
                  (\<lparr>pg_args = args, pg_policy = default_policy, pg_started = False, pg_completed = None\<rparr>, s) of
              (Inl Cancelled, p, s') \<Rightarrow> (Inl Cancelled, s')
            | (Inl e, p, s') \<Rightarrow> (Inr \<lparr>ir_execution = Outcome (settle_error name p e), ir_args = pg_args p,
                  ir_policy = pg_policy p\<rparr>, s')
            | (Inr (Pause z), p, s') \<Rightarrow> (Inr \<lparr>ir_execution = Pause z, ir_args = pg_args p, ir_policy = pg_policy p\<rparr>, s')
            | (Inr (Outcome out), p, s') \<Rightarrow> (Inr \<lparr>ir_execution = Outcome (keep_completed p False (mark_unknown p out)),
                  ir_args = pg_args p, ir_policy = pg_policy p\<rparr>, s')))"

text \<open>\<open>ToolExecutor.resolve\<close>, which the scheduler asks before it runs a batch.\<close>

definition resolve_tool ::
  "validator \<Rightarrow> (string \<Rightarrow> 'w tool option) \<Rightarrow> string \<Rightarrow> dict \<Rightarrow> ('w, ResolvedToolPolicy) act" where
  "resolve_tool errors tools name args = (case tools name of
      None \<Rightarrow> raise (SchemaError (''unsupported tool: '' @ name) ''$'' None None)
    | Some tool \<Rightarrow>
        tbind (of_tres (case strip_optional_nulls (JObj args) (tk_input_schema (tl_contract tool)) of
            Inl e \<Rightarrow> Inl e | Inr (JObj kvs) \<Rightarrow> Inr kvs | Inr _ \<Rightarrow> Inl (Other ''AssertionError'' [] None))) (\<lambda>normalized.
        tbind (of_tres (validate_schema errors (tk_input_schema (tl_contract tool)) (JObj normalized))) (\<lambda>_.
        tbind (tl_validate tool normalized) (\<lambda>_. tl_policy tool normalized))))"

end
