(* ===== verification/Tool_Pipeline.thy ===== *)
theory Tool_Pipeline
  imports Tool_Runtime Permission_Safety
begin

text \<open>
  The two middlewares of a workspace runtime as members of the chain, and what the chain guarantees:
  which calls reach a handler, and what is reported of the handlers' effects.
\<close>

section \<open>The planning boundary\<close>

definition plan_denied :: "string \<Rightarrow> ToolOutcome" where
  "plan_denied reason = (tool_outcome OS_DENIED False)\<lparr>to_error := Some reason, to_code := Some ''plan_mode_read_only''\<rparr>"

text \<open>\<open>planning\<close> says that the context has a planning service.\<close>

definition plan_mode :: "bool \<Rightarrow> string \<Rightarrow> 'w surroundings \<Rightarrow> bool" where
  "plan_mode planning session_id s \<longleftrightarrow> planning \<and> planning_is_active session_id (ev_db s)"

definition plan_tools_in_use :: "string list" where
  "plan_tools_in_use = [''get_plan'', ''update_plan'', ''submit_plan'', ''ask_user'']"

definition control_allowed :: "string \<Rightarrow> bool \<Rightarrow> bool" where
  "control_allowed name active \<longleftrightarrow> (name = ''enter_plan_mode'' \<and> \<not> active) \<or> (active \<and> name \<in> set plan_tools_in_use)"

definition plan_pre_authorize :: "bool \<Rightarrow> string \<Rightarrow> 'w tool \<Rightarrow> dict \<Rightarrow> ('w, ToolExecution option) act" where
  "plan_pre_authorize planning session_id tool args s =
     (let active = plan_mode planning session_id s; visibility = tk_visibility (tl_contract tool) in
      if active \<and> visibility = PV_HIDDEN
      then (Inr (Some (Outcome (plan_denied ''tool is unavailable while Plan Mode is active''))), s)
      else if visibility = PV_CONTROL \<and> \<not> control_allowed (tool_name tool) active
      then (Inr (Some (Outcome (plan_denied ''plan control tool is unavailable in the current state''))), s)
      else (Inr None, s))"

definition plan_authorize :: "bool \<Rightarrow> string \<Rightarrow> 'w tool \<Rightarrow> dict \<Rightarrow> ResolvedToolPolicy \<Rightarrow> ('w, ToolExecution option) act" where
  "plan_authorize planning session_id tool args policy s =
     (let active = plan_mode planning session_id s; visibility = tk_visibility (tl_contract tool) in
      if visibility = PV_CONTROL
      then (if control_allowed (tool_name tool) active then (Inr None, s\<lparr>ev_plan_control := True\<rparr>)
        else (Inr (Some (Outcome (plan_denied ''plan control tool is unavailable in the current state''))), s))
      else if \<not> active then (Inr None, s)
      else if visibility \<noteq> PV_LOCAL_READ
      then (Inr (Some (Outcome (plan_denied ''tool is unavailable while Plan Mode is active''))), s)
      else if \<not> rp_read_only policy \<or> rp_destructive policy \<or> rp_external policy \<or> rp_open_world policy \<or> rp_context_mutation policy
      then (Inr (Some (Outcome (plan_denied ''tool is not deterministically local and read-only''))), s)
      else (Inr None, s))"

definition planning_boundary :: "bool \<Rightarrow> string \<Rightarrow> 'w middleware" where
  "planning_boundary planning session_id = \<lparr>mw_normalize = (\<lambda>tool args. ret args),
     mw_pre = Some (plan_pre_authorize planning session_id), mw_authorize = plan_authorize planning session_id,
     mw_after = (\<lambda>tool args policy out. ret out)\<rparr>"

section \<open>The permission middleware\<close>

definition action_tools :: "string list" where
  "action_tools = [''edit_file'', ''create_file'', ''shell'', ''run_check'', ''web_search'', ''web_fetch'', ''write_file'',
     ''edit_notebook'', ''create_worktree'', ''exit_worktree'']"

definition asks_by_action :: "string \<Rightarrow> bool" where
  "asks_by_action name \<longleftrightarrow> name \<in> set action_tools \<or> startswith name ''plugin__'' \<or> startswith name ''mcp__''"

definition hide_command :: "(string \<Rightarrow> string) \<Rightarrow> (json \<Rightarrow> string) \<Rightarrow> dict \<Rightarrow> dict" where
  "hide_command sha text cs = (case map_of cs ''command'' of
      None \<Rightarrow> cs
    | Some v \<Rightarrow> set_field ''command_sha256'' (JStr (sha (text v))) (filter (\<lambda>kv. fst kv \<noteq> ''command'') cs))"

definition audit_rule :: "(string \<Rightarrow> string) \<Rightarrow> PermissionRule \<Rightarrow> json" where
  "audit_rule sha rule = JObj [(''id'', jopt (ru_id rule)), (''behavior'', JStr (behavior_value (ru_behavior rule))),
     (''tool'', JStr (ru_tool rule)), (''source'', JStr (ru_source rule)), (''matcher_version'', JInt (ru_version rule)),
     (''constraints_summary'', JObj (hide_command sha (dumps_sorted '', '' '': '' json_ascii) (ru_constraints rule)))]"

fun operation_value :: "PermissionUpdateOperation \<Rightarrow> string" where
  "operation_value PU_ADD = ''add''"
| "operation_value PU_REMOVE = ''remove''"

definition update_dict :: "dict \<Rightarrow> PermissionUpdate \<Rightarrow> json" where
  "update_dict constraints u = JObj [(''operation'', JStr (operation_value (pu_operation u))),
     (''destination'', JStr (destination_value (pu_destination u))), (''behavior'', JStr (behavior_value (pu_allow u))),
     (''tool'', JStr (pu_name u)), (''constraints'', JObj constraints), (''rule_id'', jopt (pu_rule u))]"

definition suggestion_dict :: "PermissionUpdate \<Rightarrow> json" where
  "suggestion_dict u = update_dict (pu_limits u) u"

definition audit_suggestions :: "(string \<Rightarrow> string) \<Rightarrow> PermissionUpdate list \<Rightarrow> json list" where
  "audit_suggestions sha us = map (\<lambda>u. update_dict (hide_command sha py_str (pu_limits u)) u) us"

text \<open>What one call draws: the record's and the request's identifiers and the times; \<open>notify\<close> is
  \<open>permission_emit\<close>, \<open>classifier\<close> the shell classifier's verdict.\<close>

record 'w permission_setup =
  ps_env :: perm_env
  ps_cx :: perm_context
  ps_classifier :: "json option"
  ps_notify :: "PermissionDecision \<Rightarrow> ('w, unit) act"
  ps_record_id :: string
  ps_request_id :: string
  ps_now :: string

definition in_db :: "(py_error \<Rightarrow> string \<times> string) \<Rightarrow> (db \<Rightarrow> ('a \<times> db) res) \<Rightarrow> ('w, 'a) act" where
  "in_db describe f s = (case f (ev_db s) of
      Inl e \<Rightarrow> (Inl (of_py describe e), s) | Inr (x, d) \<Rightarrow> (Inr x, s\<lparr>ev_db := d\<rparr>))"

definition has_text :: "string option \<Rightarrow> bool" where
  "has_text t \<longleftrightarrow> (case t of None \<Rightarrow> False | Some s \<Rightarrow> s \<noteq> [])"

definition record_decision :: "'w permission_setup \<Rightarrow> PermissionDecision \<Rightarrow> ('w, unit) act" where
  "record_decision ps x = (let en = ps_env ps; i = cx_invocation (ps_cx ps) in
     if has_text i
     then tbind (in_db (en_describe en) (record_permission_decision (or_text i []) (behavior_value (de_behavior x)) (de_source x)
         (de_reason x) (de_reason_code x) (mode_value (de_mode x)) (de_digest x) (map_option (audit_rule (en_sha en)) (de_rule x))
         (ps_classifier ps) (Some (de_decided_by x)) (Some (audit_suggestions (en_sha en) (de_suggestions x)))
         (ps_record_id ps) (ps_now ps))) (\<lambda>_. ret ())
     else ret ())"

definition permission_request_id :: "'w permission_setup \<Rightarrow> string \<Rightarrow> PermissionDecision \<Rightarrow> ('w, string) act" where
  "permission_request_id ps name x = (let cx = ps_cx ps in
     if has_text (cx_invocation cx)
     then in_db (en_describe (ps_env ps)) (create_permission_request (cx_session cx) (cx_run cx) (or_text (cx_invocation cx) [])
         name (de_digest x) (de_reason x) (map suggestion_dict (de_suggestions x)) (ps_request_id ps) (ps_now ps))
     else ret (''permission:'' @ or_text (cx_invocation cx) name))"

definition answer_decision :: "'w permission_setup \<Rightarrow> string \<Rightarrow> dict \<Rightarrow> PermissionDecision \<Rightarrow> ('w, ToolExecution option) act" where
  "answer_decision ps name args x = (case de_behavior x of
      PB_DENY \<Rightarrow> ret (Some (Outcome ((tool_outcome OS_DENIED False)\<lparr>to_error := Some (de_reason x),
         to_code := Some ''permission_denied''\<rparr>)))
    | PB_ASK \<Rightarrow>
        if asks_by_action name then (\<lambda>s. (Inr None, s\<lparr>ev_manual := True\<rparr>))
        else tbind (permission_request_id ps name x) (\<lambda>request_id.
          tbind (of_tres (of_res (en_describe (ps_env ps)) (tool_pause ''approval'' request_id
            [(''tool'', JStr name), (''reason'', JStr (de_reason x)), (''reason_code'', JStr (de_reason_code x)),
             (''arguments'', JObj args), (''suggestions'', JList (map suggestion_dict (de_suggestions x)))]
            [(''permission_source'', JStr (de_source x))]))) (\<lambda>z. ret (Some (Pause z))))
    | PB_ALLOW \<Rightarrow> ret None)"

definition permission_authorize :: "'w permission_setup \<Rightarrow> 'w tool \<Rightarrow> dict \<Rightarrow> ResolvedToolPolicy \<Rightarrow> ('w, ToolExecution option) act" where
  "permission_authorize ps tool args policy s =
     (if ev_plan_control s then (Inr None, s\<lparr>ev_plan_control := False\<rparr>)
      else tbind (in_db (en_describe (ps_env ps)) (decide (ps_env ps) (ps_cx ps) (tool_name tool) args (engine_policy policy) (ps_now ps)))
        (\<lambda>x. tbind (ps_notify ps x) (\<lambda>_. tbind (record_decision ps x) (\<lambda>_. answer_decision ps (tool_name tool) args x))) s)"

definition permission_middleware :: "'w permission_setup \<Rightarrow> 'w middleware" where
  "permission_middleware ps = \<lparr>
     mw_normalize = (\<lambda>tool args. of_tres (of_res (en_describe (ps_env ps))
        (normalize_call (en_workspace (ps_env ps)) (en_url (ps_env ps)) (tool_name tool) args))),
     mw_pre = None, mw_authorize = permission_authorize ps, mw_after = (\<lambda>tool args policy out. ret out)\<rparr>"

text \<open>The chain of \<open>build_tool_runtime\<close>.\<close>

definition workspace_chain :: "bool \<Rightarrow> 'w permission_setup \<Rightarrow> 'w middleware list" where
  "workspace_chain planning ps = [planning_boundary planning (cx_session (ps_cx ps)), permission_middleware ps]"

section \<open>Which calls reach a handler\<close>

text \<open>The arguments, the policy and the surroundings with which the handler of a tool is started, if it is.\<close>

definition handler_call ::
  "validator \<Rightarrow> (string \<Rightarrow> ('w, unit) act) \<Rightarrow> 'w middleware list \<Rightarrow> 'w tool \<Rightarrow> dict \<Rightarrow> 'w surroundings
   \<Rightarrow> (dict \<times> ResolvedToolPolicy \<times> 'w surroundings) option" where
  "handler_call errors report mws tool args s =
     (case before_handler errors report mws tool args
         (\<lparr>pg_args = args, pg_policy = default_policy, pg_started = False, pg_completed = None\<rparr>, s) of
        (Inr None, p, s1) \<Rightarrow> (case report ''running'' s1 of
            (Inr _, s2) \<Rightarrow> Some (pg_args p, pg_policy p, s2) | (Inl _, _) \<Rightarrow> None)
      | _ \<Rightarrow> None)"

lemma tbind_InrE:
  assumes "tbind m f s = (Inr y, t)"
  obtains x u where "m s = (Inr x, u)" and "f x u = (Inr y, t)"
  using assms by (auto simp: tbind_def split: prod.splits sum.splits)

lemma tbind_Inr_iff: "tbind m f s = (Inr y, t) \<longleftrightarrow> (\<exists>x u. m s = (Inr x, u) \<and> f x u = (Inr y, t))"
  by (auto simp: tbind_def split: prod.splits sum.splits)

lemma tbind_simps [simp]:
  "m s = (Inr x, u) \<Longrightarrow> tbind m f s = f x u" "m s = (Inl e, u) \<Longrightarrow> tbind m f s = (Inl e, u)"
  by (simp_all add: tbind_def)

lemma step_simps [simp]: "ret x s = (Inr x, s)" "raise e s = (Inl e, s)" "of_tres r s = (r, s)"
  "note_progress f (p, t) = (Inr (), f p, t)"
  by (simp_all add: ret_def raise_def of_tres_def note_progress_def)

lemma on_env_Inr_iff: "on_env a ps = (Inr x, qt) \<longleftrightarrow> (\<exists>t. a (snd ps) = (Inr x, t) \<and> qt = (fst ps, t))"
  by (cases ps) (auto simp: on_env_def split: prod.splits)

lemma on_env_InrE:
  assumes "on_env a ps = (Inr x, qt)"
  obtains t where "a (snd ps) = (Inr x, t)" and "qt = (fst ps, t)"
  using assms by (cases ps) (auto simp: on_env_def split: prod.splits)

lemma normalize_all_args:
  assumes "normalize_all ms tool args (p, s) = (Inr a, q, t)" and "pg_args p = args"
  shows "q = p\<lparr>pg_args := a\<rparr>"
  using assms
proof (induction ms arbitrary: args p s)
  case (Cons m ms)
  then obtain b u where "on_env (mw_normalize m tool args) (p, s) = (Inr b, u)"
    and 1: "tbind (note_progress (\<lambda>p. p\<lparr>pg_args := b\<rparr>)) (\<lambda>_. normalize_all ms tool b) u = (Inr a, q, t)"
    by (auto elim: tbind_InrE)
  then obtain v where "u = (p, v)" by (auto elim: on_env_InrE)
  then have "normalize_all ms tool b (p\<lparr>pg_args := b\<rparr>, v) = (Inr a, q, t)" using 1 by simp
  from Cons.IH[OF this] show ?case by simp
qed auto

lemma before_handler_NoneE:
  assumes "before_handler errors report mws tool args (p0, s0) = (Inr None, p, s1)"
  obtains stripped normalized policy sa sb sc sd se sf p' p''
  where "report ''validating'' s0 = (Inr (), sa)"
    and "strip_optional_nulls (JObj args) (tk_input_schema (tl_contract tool)) = Inr (JObj stripped)"
    and "normalize_all mws tool stripped (p', sa) = (Inr normalized, p'', sb)"
    and "validate_schema errors (tk_input_schema (tl_contract tool)) (JObj normalized) = Inr ()"
    and "tl_validate tool normalized sb = (Inr (), sc)"
    and "first_decision (map (\<lambda>pre. pre tool normalized) (List.map_filter mw_pre mws)) sc = (Inr None, sd)"
    and "tl_policy tool normalized sd = (Inr policy, se)"
    and "report ''authorizing'' se = (Inr (), sf)"
    and "first_decision (map (\<lambda>m. mw_authorize m tool normalized policy) mws) sf = (Inr None, s1)"
    and "p = p0\<lparr>pg_args := normalized, pg_policy := policy\<rparr>"
proof -
  let ?ok = "\<lambda>r. case r of Inl e \<Rightarrow> Inl e | Inr (JObj kvs) \<Rightarrow> Inr kvs | Inr _ \<Rightarrow> Inl (Other ''AssertionError'' [] None)"
  have stripped: "r = Inr (JObj k)" if "?ok r = Inr k" for r :: "json tres" and k
    using that by (auto split: sum.splits json.splits)
  show thesis
    using assms
    by (auto simp: before_handler_def tbind_Inr_iff on_env_Inr_iff split: option.splits dest!: stripped
        intro!: that dest: normalize_all_args)
qed

text \<open>Steps that leave the plan mode, the flags and the permission rules alone.\<close>

definition quiet :: "'w permission_setup \<Rightarrow> ('w, 'a) act \<Rightarrow> bool" where
  "quiet ps a \<longleftrightarrow> (let sid = cx_session (ps_cx ps); en = ps_env ps in \<forall>s.
     planning_is_active sid (ev_db (snd (a s))) = planning_is_active sid (ev_db s)
     \<and> ev_plan_control (snd (a s)) = ev_plan_control s \<and> ev_manual (snd (a s)) = ev_manual s
     \<and> all_rules (en_sha en) (en_files en) sid (ev_db (snd (a s))) = all_rules (en_sha en) (en_files en) sid (ev_db s))"

definition quiet_tool :: "'w permission_setup \<Rightarrow> (string \<Rightarrow> ('w, unit) act) \<Rightarrow> 'w tool \<Rightarrow> bool" where
  "quiet_tool ps report tool \<longleftrightarrow> (\<forall>m. quiet ps (report m)) \<and> (\<forall>args. quiet ps (tl_validate tool args))
     \<and> (\<forall>args. quiet ps (tl_policy tool args))"

lemma quietD:
  assumes "quiet ps a" and "a s = (r, t)"
  shows "plan_mode planning (cx_session (ps_cx ps)) t = plan_mode planning (cx_session (ps_cx ps)) s"
    "ev_plan_control t = ev_plan_control s" "ev_manual t = ev_manual s"
    "all_rules (en_sha (ps_env ps)) (en_files (ps_env ps)) (cx_session (ps_cx ps)) (ev_db t)
     = all_rules (en_sha (ps_env ps)) (en_files (ps_env ps)) (cx_session (ps_cx ps)) (ev_db s)"
  using assms by (auto simp: quiet_def plan_mode_def Let_def dest!: spec[of _ s])

lemma chain_normalize_state:
  "normalize_all (workspace_chain planning ps) tool args (p, s) = (Inr a, q, t) \<Longrightarrow> t = s"
  by (auto simp: workspace_chain_def planning_boundary_def permission_middleware_def tbind_Inr_iff on_env_Inr_iff)

lemma chain_pre: "List.map_filter mw_pre (workspace_chain planning ps) = [plan_pre_authorize planning (cx_session (ps_cx ps))]"
  by (simp add: workspace_chain_def planning_boundary_def permission_middleware_def List.map_filter_def)

lemma plan_pre_state: "plan_pre_authorize planning sid tool args s = (r, t) \<Longrightarrow> t = s"
  by (auto simp: plan_pre_authorize_def Let_def split: if_splits)

text \<open>The state in which the chain is asked, and both of its answers.\<close>

lemma handler_callE:
  assumes "handler_call errors report (workspace_chain planning ps) tool args s = Some (a, pol, s2)" and "quiet_tool ps report tool"
  obtains sf s' s1 where "plan_mode planning (cx_session (ps_cx ps)) sf = plan_mode planning (cx_session (ps_cx ps)) s"
    and "ev_plan_control sf = ev_plan_control s"
    and "all_rules (en_sha (ps_env ps)) (en_files (ps_env ps)) (cx_session (ps_cx ps)) (ev_db sf)
      = all_rules (en_sha (ps_env ps)) (en_files (ps_env ps)) (cx_session (ps_cx ps)) (ev_db s)"
    and "plan_authorize planning (cx_session (ps_cx ps)) tool a pol sf = (Inr None, s')"
    and "permission_authorize ps tool a pol s' = (Inr None, s1)" and "report ''running'' s1 = (Inr (), s2)"
proof -
  let ?sid = "cx_session (ps_cx ps)"
  let ?p0 = "\<lparr>pg_args = args, pg_policy = default_policy, pg_started = False, pg_completed = None\<rparr>"
  obtain p s1 where b: "before_handler errors report (workspace_chain planning ps) tool args (?p0, s) = (Inr None, p, s1)"
    and r: "report ''running'' s1 = (Inr (), s2)" and ap: "a = pg_args p" "pol = pg_policy p"
    using assms(1) by (auto simp: handler_call_def split: prod.splits sum.splits option.splits)
  note quiet = assms(2)[unfolded quiet_tool_def]
  from b show thesis
  proof (rule before_handler_NoneE)
    fix stripped normalized policy sa sb sc sd se sf p' p''
    assume 1: "report ''validating'' s = (Inr (), sa)"
      and 2: "normalize_all (workspace_chain planning ps) tool stripped (p', sa) = (Inr normalized, p'', sb)"
      and 3: "tl_validate tool normalized sb = (Inr (), sc)"
      and 4: "first_decision (map (\<lambda>pre. pre tool normalized) (List.map_filter mw_pre (workspace_chain planning ps))) sc = (Inr None, sd)"
      and 5: "tl_policy tool normalized sd = (Inr policy, se)" and 6: "report ''authorizing'' se = (Inr (), sf)"
      and 7: "first_decision (map (\<lambda>m. mw_authorize m tool normalized policy) (workspace_chain planning ps)) sf = (Inr None, s1)"
      and eq: "p = ?p0\<lparr>pg_args := normalized, pg_policy := policy\<rparr>"
    have sb: "sb = sa" using chain_normalize_state[OF 2] .
    have sd: "sd = sc" using 4 by (auto simp: chain_pre tbind_Inr_iff split: option.splits dest: plan_pre_state)
    have q: "quiet ps (report m)" "quiet ps (tl_validate tool x)" "quiet ps (tl_policy tool x)" for m x using quiet by simp_all
    note k = quietD[OF q(1) 6] quietD[OF q(3) 5[unfolded sd]] quietD[OF q(2) 3[unfolded sb]] quietD[OF q(1) 1]
    obtain s' where "plan_authorize planning ?sid tool a pol sf = (Inr None, s')" "permission_authorize ps tool a pol s' = (Inr None, s1)"
      using 7 eq ap by (auto simp: workspace_chain_def planning_boundary_def permission_middleware_def tbind_Inr_iff split: option.splits)
    then show thesis using k r by (intro that) simp_all
  qed
qed

lemma plan_authorize_None:
  assumes "plan_authorize planning sid tool args pol s = (Inr None, t)"
  shows "tk_visibility (tl_contract tool) = PV_CONTROL \<and> control_allowed (tool_name tool) (plan_mode planning sid s)
    \<or> tk_visibility (tl_contract tool) \<noteq> PV_CONTROL \<and> t = s
      \<and> (plan_mode planning sid s \<longrightarrow> tk_visibility (tl_contract tool) = PV_LOCAL_READ \<and> rp_read_only pol \<and> \<not> has_side_effects pol
         \<and> \<not> rp_open_world pol)"
  using assms by (auto simp: plan_authorize_def has_side_effects_def Let_def split: if_splits)

text \<open>C13: While plan mode is active, the only handlers that run are those of the plan control tools and
  of local tools whose resolved policy is read-only, without side effects and closed to the outside.\<close>

theorem plan_mode_runs_only_local_reads:
  assumes "handler_call errors report (workspace_chain planning ps) tool args s = Some (a, pol, s2)" and "quiet_tool ps report tool"
    and "plan_mode planning (cx_session (ps_cx ps)) s"
  shows "tk_visibility (tl_contract tool) = PV_CONTROL \<and> tool_name tool \<in> {''get_plan'', ''update_plan'', ''submit_plan'', ''ask_user''}
    \<or> tk_visibility (tl_contract tool) = PV_LOCAL_READ \<and> rp_read_only pol \<and> \<not> has_side_effects pol \<and> \<not> rp_open_world pol"
proof -
  obtain sf s' where a: "plan_authorize planning (cx_session (ps_cx ps)) tool a pol sf = (Inr None, s')"
    and m: "plan_mode planning (cx_session (ps_cx ps)) sf"
    using handler_callE[OF assms(1,2)] assms(3) by metis
  show ?thesis using plan_authorize_None[OF a] m by (auto simp: control_allowed_def plan_tools_in_use_def)
qed

lemma decide_with_not_denied:
  assumes "decide_with en cx name args policy digest now matching d = Inr (x, d')" and "de_behavior x \<noteq> PB_DENY"
  shows "no_deny matching"
proof (rule ccontr)
  assume deny: "\<not> no_deny matching"
  then obtain r where r: "r \<in> set matching" "ru_behavior r = PB_DENY" by (auto simp: no_deny_def list_ex_iff)
  then obtain b where b: "select_rule matching = Some b" by (cases "select_rule matching") (auto simp: select_rule_None)
  have "ru_behavior b = PB_DENY" using select_rule_strictest(2)[OF b r(1)] r(2) by (cases "ru_behavior b") auto
  then have "de_behavior x = PB_DENY"
    using assms(1) b take_grant_denied[OF deny, of cx name digest now d] by (auto simp: decide_with_def rule_decision_def decision_def)
  then show False using assms(2) by simp
qed

lemma answer_None:
  assumes "answer_decision ps name args x s = (Inr None, t)"
  shows "de_behavior x = PB_ALLOW \<and> t = s \<or> de_behavior x = PB_ASK \<and> asks_by_action name \<and> ev_manual t"
  using assms by (auto simp: answer_decision_def tbind_Inr_iff split: PermissionBehavior.splits if_splits)

lemma permission_authorize_None:
  assumes "permission_authorize ps tool args pol s = (Inr None, t)" and "\<not> ev_plan_control s"
  obtains x d' where "decide (ps_env ps) (ps_cx ps) (tool_name tool) args (engine_policy pol) (ps_now ps) (ev_db s) = Inr (x, d')"
    and "de_behavior x = PB_ALLOW \<or> de_behavior x = PB_ASK \<and> asks_by_action (tool_name tool) \<and> ev_manual t"
proof -
  from assms obtain x u w where 1: "in_db (en_describe (ps_env ps)) (decide (ps_env ps) (ps_cx ps) (tool_name tool) args
      (engine_policy pol) (ps_now ps)) s = (Inr x, u)" and 2: "answer_decision ps (tool_name tool) args x w = (Inr None, t)"
    by (auto simp: permission_authorize_def tbind_Inr_iff)
  then obtain d' where "decide (ps_env ps) (ps_cx ps) (tool_name tool) args (engine_policy pol) (ps_now ps) (ev_db s) = Inr (x, d')"
    by (auto simp: in_db_def split: sum.splits)
  then show thesis using that answer_None[OF 2] by blast
qed


section \<open>What is reported of a handler's effects\<close>

lemma handler_call_progress:
  assumes "handler_call errors report mws tool args s = Some (a, pol, s2)"
  obtains s1 where "before_handler errors report mws tool args
      (\<lparr>pg_args = args, pg_policy = default_policy, pg_started = False, pg_completed = None\<rparr>, s)
      = (Inr None, \<lparr>pg_args = a, pg_policy = pol, pg_started = False, pg_completed = None\<rparr>, s1)"
    and "report ''running'' s1 = (Inr (), s2)"
proof -
  let ?p0 = "\<lparr>pg_args = args, pg_policy = default_policy, pg_started = False, pg_completed = None\<rparr>"
  obtain p s1 where b: "before_handler errors report mws tool args (?p0, s) = (Inr None, p, s1)"
    and r: "report ''running'' s1 = (Inr (), s2)" and ap: "a = pg_args p" "pol = pg_policy p"
    using assms(1) by (auto simp: handler_call_def split: prod.splits sum.splits option.splits)
  from b have "p = \<lparr>pg_args = a, pg_policy = pol, pg_started = False, pg_completed = None\<rparr>"
    by (rule before_handler_NoneE) (simp add: ap)
  then show thesis using b r that by simp
qed

text \<open>A run whose handler is started is the handler's, followed by \<open>finish_execution\<close>.\<close>

lemma run_body_handler:
  assumes "handler_call errors report mws tool args s = Some (a, pol, s2)"
  shows "run_body errors report course mws tool args how
      (\<lparr>pg_args = args, pg_policy = default_policy, pg_started = False, pg_completed = None\<rparr>, s)
    = tbind (on_env (await_handler course (rp_interrupt pol) (call_handler tool how a))) (finish_execution errors mws tool)
        (\<lparr>pg_args = a, pg_policy = pol, pg_started = True, pg_completed = None\<rparr>, s2)"
proof -
  obtain s1 where b: "before_handler errors report mws tool args
      (\<lparr>pg_args = args, pg_policy = default_policy, pg_started = False, pg_completed = None\<rparr>, s)
      = (Inr None, \<lparr>pg_args = a, pg_policy = pol, pg_started = False, pg_completed = None\<rparr>, s1)"
    and r: "report ''running'' s1 = (Inr (), s2)" using handler_call_progress[OF assms] .
  let ?p = "\<lparr>pg_args = a, pg_policy = pol, pg_started = False, pg_completed = None\<rparr>"
  have "on_env (report ''running'') (?p, s1) = (Inr (), ?p, s2)" using r by (simp add: on_env_def)
  then have "run_handler report course tool how (?p, s1)
      = on_env (await_handler course (rp_interrupt pol) (call_handler tool how a)) (?p\<lparr>pg_started := True\<rparr>, s2)"
    by (simp add: run_handler_def)
  moreover have "run_body errors report course mws tool args how
      (\<lparr>pg_args = args, pg_policy = default_policy, pg_started = False, pg_completed = None\<rparr>, s)
    = tbind (run_handler report course tool how) (finish_execution errors mws tool) (?p, s1)"
    unfolding run_body_def by (subst tbind_def) (simp add: b)
  ultimately show ?thesis by (simp add: tbind_def)
qed

text \<open>A call whose handler is not started has the same result whatever its handler is.\<close>

lemma unreached_handler:
  assumes "handler_call errors report mws tool args s = None"
  shows "\<exists>r. \<forall>course how. run_body errors report course mws tool args how
    (\<lparr>pg_args = args, pg_policy = default_policy, pg_started = False, pg_completed = None\<rparr>, s) = r"
proof (cases "before_handler errors report mws tool args
    (\<lparr>pg_args = args, pg_policy = default_policy, pg_started = False, pg_completed = None\<rparr>, s)")
  case (fields r p s1)
  show ?thesis
  proof (cases r)
    case (Inr d)
    show ?thesis
    proof (cases d)
      case None
      then obtain e t where "report ''running'' s1 = (Inl e, t)"
        using assms fields Inr by (auto simp: handler_call_def split: prod.splits sum.splits)
      then have "run_handler report course tool how (p, s1) = (Inl e, p, t)" for course how
        by (simp add: run_handler_def tbind_def on_env_def)
      then show ?thesis using fields Inr None by (simp add: run_body_def tbind_def)
    next
      case (Some x)
      then have "run_body errors report course mws tool args how
          (\<lparr>pg_args = args, pg_policy = default_policy, pg_started = False, pg_completed = None\<rparr>, s)
        = finish_execution errors mws tool x (p, s1)" for course how
        using fields Inr by (simp add: run_body_def tbind_def)
      then show ?thesis by blast
    qed
  qed (use fields in \<open>simp add: run_body_def tbind_def\<close>)
qed

lemma chain_after: "after_all (rev (workspace_chain planning ps)) tool args pol out s = (Inr out, s)"
  by (simp add: workspace_chain_def planning_boundary_def permission_middleware_def tbind_def)

lemma validate_output_ok: "\<not> outcome_ok out \<Longrightarrow> validate_output errors tool out = out"
  by (simp add: validate_output_def split: option.split)

lemma validate_output_cases:
  "validate_output errors tool out = out \<or>
   (\<exists>text. validate_output errors tool out = out\<lparr>to_status := OS_FAILED, to_error := Some text, to_code := Some ''invalid_tool_output''\<rparr>
     \<and> outcome_ok out)"
  by (auto simp: validate_output_def split: option.split sum.split tool_error.split)

lemma finish_chain:
  "finish_execution errors (workspace_chain planning ps) tool (Outcome c) (p, s)
    = (Inr (Outcome (validate_output errors tool (validate_output errors tool c))), p\<lparr>pg_completed := Some c\<rparr>, s)"
  by (simp add: finish_execution_def tbind_def on_env_def chain_after)

lemma reported_run:
  assumes "tools name = Some tool" and "how = None \<or> tl_resume tool \<noteq> None"
    and "handler_call errors report (workspace_chain planning ps) tool args s = Some (a, pol, s2)"
    and "await_handler course (rp_interrupt pol) (call_handler tool how a) s2 = (Inr (Outcome c), s3)"
  shows "\<exists>out. run_tool errors report course (workspace_chain planning ps) candidates tools name args how s
      = (Inr \<lparr>ir_execution = Outcome out, ir_args = a, ir_policy = pol\<rparr>, s3)
    \<and> effective_state out = effective_state c
    \<and> (out = c \<or> outcome_ok c \<and> \<not> outcome_ok out \<and> to_executed out = to_executed c
         \<and> to_code out = Some ''invalid_tool_output'' \<and> jget (to_data out) ''retryable'' \<noteq> Some (JBool True))"
proof -
  let ?p = "\<lparr>pg_args = a, pg_policy = pol, pg_started = True, pg_completed = Some c\<rparr>"
  let ?v = "validate_output errors tool (validate_output errors tool c)"
  define out where "out = keep_completed ?p False (mark_unknown ?p ?v)"
  have "run_body errors report course (workspace_chain planning ps) tool args how
      (\<lparr>pg_args = args, pg_policy = default_policy, pg_started = False, pg_completed = None\<rparr>, s) = (Inr (Outcome ?v), ?p, s3)"
    unfolding run_body_handler[OF assms(3)] using assms(4) by (simp add: tbind_def on_env_def finish_chain)
  then have run: "run_tool errors report course (workspace_chain planning ps) candidates tools name args how s
      = (Inr \<lparr>ir_execution = Outcome out, ir_args = a, ir_policy = pol\<rparr>, s3)"
    using assms(1,2) by (auto simp: run_tool_def out_def)
  have v: "?v = c \<or> (\<exists>text. ?v = c\<lparr>to_status := OS_FAILED, to_error := Some text, to_code := Some ''invalid_tool_output''\<rparr> \<and> outcome_ok c)"
    using validate_output_cases[of errors tool c] by (auto simp: validate_output_ok outcome_ok_def)
  have mark: "out = keep_completed ?p False ?v" by (simp add: out_def mark_unknown_def)
  from v show ?thesis
  proof
    assume "?v = c"
    then have "out = c" unfolding mark by (simp add: keep_completed_def)
    then show ?thesis using run by blast
  next
    assume "\<exists>text. ?v = c\<lparr>to_status := OS_FAILED, to_error := Some text, to_code := Some ''invalid_tool_output''\<rparr> \<and> outcome_ok c"
    then obtain msg where t: "?v = c\<lparr>to_status := OS_FAILED, to_error := Some msg, to_code := Some ''invalid_tool_output''\<rparr>"
      and ok: "outcome_ok c" by blast
    have "effective_state out = effective_state c \<and> \<not> outcome_ok out \<and> to_executed out = to_executed c
        \<and> to_code out = Some ''invalid_tool_output'' \<and> jget (to_data out) ''retryable'' \<noteq> Some (JBool True)"
      unfolding mark t using ok
      by (cases "to_data c") (auto simp: keep_completed_def outcome_ok_def effective_state_def not_retryable_def map_of_set_field)
    then show ?thesis using run ok by blast
  qed
qed

text \<open>C15: An effect that a handler has reported is never lost: the call returns the handler's own outcome, or,
  when the output breaks its schema, a failure with the same execution state that invites no retry.\<close>

theorem reported_effect_is_kept:
  assumes "tools name = Some tool" and "how = None \<or> tl_resume tool \<noteq> None"
    and "handler_call errors report (workspace_chain planning ps) tool args s = Some (a, pol, s2)"
    and "await_handler course (rp_interrupt pol) (call_handler tool how a) s2 = (Inr (Outcome c), s3)"
  shows "\<exists>out. run_tool errors report course (workspace_chain planning ps) candidates tools name args how s
      = (Inr \<lparr>ir_execution = Outcome out, ir_args = a, ir_policy = pol\<rparr>, s3)
    \<and> effective_state out = effective_state c
    \<and> (out = c \<or> outcome_ok c \<and> \<not> outcome_ok out \<and> to_executed out = to_executed c
         \<and> to_code out = Some ''invalid_tool_output'' \<and> jget (to_data out) ''retryable'' \<noteq> Some (JBool True))"
  using assms by (rule reported_run)

lemma raising_run:
  assumes "tools name = Some tool" and "how = None \<or> tl_resume tool \<noteq> None"
    and "handler_call errors report mws tool args s = Some (a, pol, s2)"
    and "await_handler course (rp_interrupt pol) (call_handler tool how a) s2 = (Inl e, s3)"
    and "e \<noteq> Cancelled" and "has_side_effects pol"
  shows "\<exists>out. run_tool errors report course mws candidates tools name args how s
      = (Inr \<lparr>ir_execution = Outcome out, ir_args = a, ir_policy = pol\<rparr>, s3)
    \<and> \<not> outcome_ok out \<and> to_code out = Some ''unknown_execution'' \<and> effective_state out = ES_UNKNOWN
    \<and> jget (to_data out) ''retryable'' = Some (JBool False)"
proof -
  let ?p = "\<lparr>pg_args = a, pg_policy = pol, pg_started = True, pg_completed = None\<rparr>"
  have "run_body errors report course mws tool args how
      (\<lparr>pg_args = args, pg_policy = default_policy, pg_started = False, pg_completed = None\<rparr>, s) = (Inl e, ?p, s3)"
    unfolding run_body_handler[OF assms(3)] using assms(4) by (simp add: tbind_def on_env_def)
  then have run: "run_tool errors report course mws candidates tools name args how s
      = (Inr \<lparr>ir_execution = Outcome (settle_error name ?p e), ir_args = a, ir_policy = pol\<rparr>, s3)"
    using assms(1,2,5) by (cases e) (auto simp: run_tool_def)
  have "\<not> outcome_ok (settle_error name ?p e) \<and> to_code (settle_error name ?p e) = Some ''unknown_execution''
    \<and> effective_state (settle_error name ?p e) = ES_UNKNOWN \<and> jget (to_data (settle_error name ?p e)) ''retryable'' = Some (JBool False)"
    using assms(5,6) by (cases e) (auto simp: settle_error_def keep_completed_def mark_unknown_def uncertain_def failure_def
        tool_outcome_def outcome_ok_def effective_state_def repair_data_def not_retryable_def)
  then show ?thesis using run by blast
qed

text \<open>C14: A handler with side effects that raises leaves an unknown state: whatever it raised, a timeout, a
  schema or path error or anything else, the call is reported as unknown execution and not to be retried.\<close>

theorem raising_effect_is_unknown:
  assumes "tools name = Some tool" and "how = None \<or> tl_resume tool \<noteq> None"
    and "handler_call errors report mws tool args s = Some (a, pol, s2)"
    and "await_handler course (rp_interrupt pol) (call_handler tool how a) s2 = (Inl e, s3)"
    and "e \<noteq> Cancelled" and "has_side_effects pol"
  shows "\<exists>out. run_tool errors report course mws candidates tools name args how s
      = (Inr \<lparr>ir_execution = Outcome out, ir_args = a, ir_policy = pol\<rparr>, s3)
    \<and> \<not> outcome_ok out \<and> to_code out = Some ''unknown_execution'' \<and> effective_state out = ES_UNKNOWN
    \<and> jget (to_data out) ''retryable'' = Some (JBool False)"
  using assms by (rule raising_run)

section \<open>Witnesses\<close>

text \<open>A tool whose handler answers at once or raises, on a database with an active plan and a full-access
  session without rules.\<close>

definition sample_contract :: "string \<Rightarrow> PlanToolVisibility \<Rightarrow> ToolContract" where
  "sample_contract name v = \<lparr>tk_name = name, tk_version = ''1'', tk_description = ''d'', tk_input_schema = JObj [(''type'', JStr ''object'')],
     tk_output_schema = Some (JObj []), tk_search_hint = None, tk_deferred = False, tk_inline_bytes = 16384,
     tk_capture_bytes = 5242880, tk_visibility = v, tk_aliases = [], tk_intent_tags = [], tk_group = None,
     tk_model_visible = True, tk_model_schema = None\<rparr>"

definition sample_tool :: "string \<Rightarrow> PlanToolVisibility \<Rightarrow> ResolvedToolPolicy \<Rightarrow> ToolExecution tres \<Rightarrow> unit tool" where
  "sample_tool name v pol r = \<lparr>tl_contract = sample_contract name v, tl_validate = (\<lambda>_. ret ()), tl_policy = (\<lambda>_. ret pol),
     tl_execute = (\<lambda>_. of_tres r), tl_resume = None\<rparr>"

definition sample_setup :: "permission_file list \<Rightarrow> unit permission_setup" where
  "sample_setup files = \<lparr>ps_env = sample_env files, ps_cx = (sample_context FULL_ACCESS)\<lparr>cx_invocation := Some ''inv_1''\<rparr>, ps_classifier = None,
     ps_notify = (\<lambda>_. ret ()), ps_record_id = ''n1'', ps_request_id = ''n2'', ps_now = ''t9''\<rparr>"

definition sample_surroundings :: "db \<Rightarrow> unit surroundings" where
  "sample_surroundings d = \<lparr>ev_db = d, ev_plan_control = False, ev_manual = False, ev_interrupt = False, ev_world = ()\<rparr>"

text \<open>A validator that rejects every output of the sample tools.\<close>

definition sample_errors :: validator where
  "sample_errors schema v = (if schema = JObj [] then [\<lparr>er_path = [], er_message = ''m'', er_validator = ''type'', er_value = ''v'',
     er_instance = ''dict''\<rparr>] else [])"

definition sample_handler_call :: "unit tool \<Rightarrow> db \<Rightarrow> (dict \<times> ResolvedToolPolicy \<times> unit surroundings) option" where
  "sample_handler_call tool d = handler_call sample_errors (\<lambda>_. ret ()) (workspace_chain True (sample_setup [])) tool [] (sample_surroundings d)"

definition sample_read :: "unit tool" where
  "sample_read = sample_tool ''look'' PV_LOCAL_READ (safe_read None) (Inr (Outcome (success JNull)))"

definition sample_write :: "unit tool" where
  "sample_write = sample_tool ''poke'' PV_HIDDEN (default_policy\<lparr>rp_destructive := True\<rparr>) (Inl (InvalidPath ''p''))"

lemma sample_quiet: "quiet_tool ps (\<lambda>_. ret ()) sample_read" "quiet_tool ps (\<lambda>_. ret ()) sample_write"
  by (simp_all add: quiet_tool_def quiet_def sample_read_def sample_write_def sample_tool_def)

lemma sample_fields: "tk_visibility (tl_contract sample_read) = PV_LOCAL_READ" "tool_name sample_read = ''look''"
  "cx_session (ps_cx (sample_setup files)) = ''s1''" "ev_db (sample_surroundings d) = d" "\<not> ev_plan_control (sample_surroundings d)"
  by (simp_all add: sample_read_def sample_tool_def tool_name_def sample_contract_def sample_setup_def sample_context_def sample_surroundings_def)

lemma sample_handler_calls:
  "map_option (\<lambda>c. (fst c, fst (snd c))) (sample_handler_call sample_read (sample_plan_db PS_DRAFT [])) = Some ([], safe_read None)"
  "map_option (\<lambda>c. (fst c, fst (snd c))) (sample_handler_call sample_write sample_db) = Some ([], default_policy\<lparr>rp_destructive := True\<rparr>)"
  by code_simp+

lemma sample_read_call: "\<exists>s2. handler_call sample_errors (\<lambda>_. ret ()) (workspace_chain True (sample_setup [])) sample_read []
    (sample_surroundings (sample_plan_db PS_DRAFT [])) = Some ([], safe_read None, s2)"
  using sample_handler_calls(1) by (auto simp: sample_handler_call_def)

lemma sample_write_call: "\<exists>s2. handler_call sample_errors (\<lambda>_. ret ()) (workspace_chain True (sample_setup [])) sample_write []
    (sample_surroundings sample_db) = Some ([], default_policy\<lparr>rp_destructive := True\<rparr>, s2)"
  using sample_handler_calls(2) by (auto simp: sample_handler_call_def)

lemma sample_plan_mode: "plan_mode True ''s1'' (sample_surroundings (sample_plan_db PS_DRAFT []))"
proof -
  have "planning_is_active ''s1'' (sample_plan_db PS_DRAFT [])" by code_simp
  then show ?thesis by (simp add: plan_mode_def sample_fields)
qed

theorem plan_mode_runs_only_local_reads_witness:
  "\<exists>s2. handler_call sample_errors (\<lambda>_. ret ()) (workspace_chain True (sample_setup [])) sample_read []
      (sample_surroundings (sample_plan_db PS_DRAFT [])) = Some ([], safe_read None, s2) \<and> rp_read_only (safe_read None)
    \<and> \<not> has_side_effects (safe_read None)"
proof -
  obtain s2 where c: "handler_call sample_errors (\<lambda>_. ret ()) (workspace_chain True (sample_setup [])) sample_read []
      (sample_surroundings (sample_plan_db PS_DRAFT [])) = Some ([], safe_read None, s2)" using sample_read_call by blast
  from plan_mode_runs_only_local_reads[OF c sample_quiet(1)] sample_plan_mode c show ?thesis by (simp add: sample_fields)
qed


theorem reported_effect_is_kept_witness:
  "\<exists>out s3. run_tool sample_errors (\<lambda>_. ret ()) Completes (workspace_chain True (sample_setup [])) (\<lambda>_. []) (\<lambda>_. Some sample_read)
      ''look'' [] None (sample_surroundings (sample_plan_db PS_DRAFT []))
      = (Inr \<lparr>ir_execution = Outcome out, ir_args = [], ir_policy = safe_read None\<rparr>, s3) \<and> effective_state out = ES_COMMITTED"
proof -
  obtain s2 where c: "handler_call sample_errors (\<lambda>_. ret ()) (workspace_chain True (sample_setup [])) sample_read []
      (sample_surroundings (sample_plan_db PS_DRAFT [])) = Some ([], safe_read None, s2)" using sample_read_call by blast
  have h: "await_handler Completes (rp_interrupt (safe_read None)) (call_handler sample_read None []) s2
      = (Inr (Outcome (success JNull)), s2)"
    by (simp add: await_handler_def call_handler_def sample_read_def sample_tool_def)
  have "effective_state (success JNull) = ES_COMMITTED" by (simp add: effective_state_def success_def tool_outcome_def)
  with reported_effect_is_kept[of "\<lambda>_. Some sample_read" "''look''" sample_read None, OF refl _ c h, of "\<lambda>_. []"] show ?thesis by auto
qed

theorem raising_effect_is_unknown_witness:
  "\<exists>out s3. run_tool sample_errors (\<lambda>_. ret ()) Completes (workspace_chain True (sample_setup [])) (\<lambda>_. []) (\<lambda>_. Some sample_write)
      ''poke'' [] None (sample_surroundings sample_db)
      = (Inr \<lparr>ir_execution = Outcome out, ir_args = [], ir_policy = default_policy\<lparr>rp_destructive := True\<rparr>\<rparr>, s3)
    \<and> effective_state out = ES_UNKNOWN"
proof -
  let ?pol = "default_policy\<lparr>rp_destructive := True\<rparr>"
  obtain s2 where c: "handler_call sample_errors (\<lambda>_. ret ()) (workspace_chain True (sample_setup [])) sample_write []
      (sample_surroundings sample_db) = Some ([], ?pol, s2)" using sample_write_call by blast
  have h: "await_handler Completes (rp_interrupt ?pol) (call_handler sample_write None []) s2 = (Inl (InvalidPath ''p''), s2)"
    by (simp add: await_handler_def call_handler_def sample_write_def sample_tool_def)
  have "has_side_effects ?pol" by (simp add: has_side_effects_def)
  with raising_effect_is_unknown[of "\<lambda>_. Some sample_write" "''poke''" sample_write None, OF refl _ c h, of "\<lambda>_. []"] show ?thesis by auto
qed

end
