(* ===== verification/Strict_Schema.thy ===== *)
theory Strict_Schema
  imports Tool_Contracts Permission_Safety
begin

text \<open>
  Provider schemas: \<open>strict_provider_schema\<close> of \<^verbatim>\<open>capslock/structured_output.py\<close>, which closes every
  object of a JSON schema and makes its optional properties required and nullable.  A schema is a
  JSON tree with distinct keys; the meta-schema check of the package \<open>jsonschema\<close> is the argument
  \<open>schema_fault\<close>, the message of the first fault.
\<close>

section \<open>Keywords\<close>

definition supported_keywords :: "string list" where
  "supported_keywords = [''type'', ''properties'', ''required'', ''additionalProperties'', ''items'', ''enum'', ''const'',
     ''anyOf'', ''oneOf'', ''allOf'', ''description'', ''minimum'', ''maximum'', ''exclusiveMinimum'', ''exclusiveMaximum'',
     ''minItems'', ''maxItems'', ''minLength'', ''maxLength'', ''pattern'', ''format'', ''uniqueItems'']"

definition variant_keywords :: "string list" where
  "variant_keywords = [''anyOf'', ''oneOf'', ''allOf'']"

definition strict_fault :: "string \<Rightarrow> py_error" where
  "strict_fault text = Raised ''StrictSchemaError'' (''strict_schema_incompatible: '' @ text)"

lemma each_ok_cong [fundef_cong]: "xs = ys \<Longrightarrow> (\<And>x. x \<in> set ys \<Longrightarrow> f x = g x) \<Longrightarrow> each_ok f xs = each_ok g ys"
  by (induction xs arbitrary: ys) (auto split: sum.split)

text \<open>Parts of a schema are smaller than it.\<close>

abbreviation fields_size :: "dict \<Rightarrow> nat" where
  "fields_size kvs \<equiv> size_list (size_prod (\<lambda>_. 0) size) kvs"

lemma field_size: "(k, JObj x) \<in> set kvs \<Longrightarrow> fields_size x < fields_size kvs" "(k, JList vs) \<in> set kvs \<Longrightarrow> size_list size vs < fields_size kvs"
  by (induction kvs) auto

lemma nested_size: "(a, JObj y) \<in> set x \<Longrightarrow> (k, JObj x) \<in> set kvs \<Longrightarrow> fields_size y < fields_size kvs"
  using field_size(1)[of a y x] field_size(1)[of k x kvs] by simp

lemma element_size: "JObj x \<in> set vs \<Longrightarrow> fields_size x < size_list size vs"
  by (induction vs) auto

lemma dget_Some: "dget kvs k = v \<Longrightarrow> v \<noteq> JNull \<Longrightarrow> (k, v) \<in> set kvs"
  by (auto simp: dget_def split: option.splits dest: map_of_SomeD)

lemma dget_size: "dget kvs k = JObj x \<Longrightarrow> fields_size x < fields_size kvs" "dget kvs k = JList vs \<Longrightarrow> size_list size vs < fields_size kvs"
  using dget_Some[of kvs k] field_size[of k] by fastforce+

lemma dget_or_size: "dget_or kvs k (JObj []) = JObj x \<Longrightarrow> x = [] \<or> fields_size x < fields_size kvs"
  by (auto simp: dget_or_def split: option.splits dest!: map_of_SomeD field_size)

function (sequential) reject_unsupported :: "json \<Rightarrow> string \<Rightarrow> unit res" where
  "reject_unsupported (JObj schema) path =
     (let unsupported = sort (remdups (filter (\<lambda>k. k \<notin> set supported_keywords) (map fst schema))) in
      if unsupported \<noteq> []
      then Inl (strict_fault (''schema at '' @ path @ '' uses unsupported keywords: '' @ py_join '', '' unsupported))
      else rbind (case dget_or schema ''properties'' (JObj []) of
          JNull \<Rightarrow> Inr ()
        | JObj properties \<Rightarrow> each_ok (\<lambda>kv. case snd kv of
              JObj child \<Rightarrow> reject_unsupported (JObj child) (path @ ''.'' @ fst kv)
            | _ \<Rightarrow> Inl (strict_fault (''property '' @ path @ ''.'' @ fst kv @ '' must be an object''))) properties
        | _ \<Rightarrow> Inl (strict_fault (''properties at '' @ path @ '' must be an object''))) (\<lambda>_.
      rbind (case dget schema ''items'' of
          JNull \<Rightarrow> Inr ()
        | JObj items \<Rightarrow> reject_unsupported (JObj items) (path @ ''[]'')
        | _ \<Rightarrow> Inl (strict_fault (''items at '' @ path @ '' must be an object''))) (\<lambda>_.
      each_ok (\<lambda>keyword. case dget schema keyword of
          JNull \<Rightarrow> Inr ()
        | JList variants \<Rightarrow>
            if variants = [] then Inl (strict_fault (keyword @ '' at '' @ path @ '' must be an array''))
            else each_ok (\<lambda>iv. let place = keyword @ ''['' @ py_int_str (int (fst iv)) @ '']'' in case snd iv of
                JObj child \<Rightarrow> reject_unsupported (JObj child) (path @ ''.'' @ place)
              | _ \<Rightarrow> Inl (strict_fault (place @ '' at '' @ path @ '' must be an object''))) (zip [0 ..< length variants] variants)
        | _ \<Rightarrow> Inl (strict_fault (keyword @ '' at '' @ path @ '' must be an array''))) variant_keywords)))"
| "reject_unsupported _ path = Inr ()"
  by pat_completeness auto

termination
  by (relation "measure (\<lambda>p. size (fst p))")
    (auto dest!: dget_size dget_or_size element_size set_zip_rightD dest: field_size(1) intro: less_trans[OF field_size(1)])

section \<open>Closing a schema\<close>

definition make_nullable :: "dict \<Rightarrow> dict" where
  "make_nullable schema =
     (let null = JStr ''null'';
          by_any_of = (case dget schema ''anyOf'' of
              JList vs \<Rightarrow> set_field ''anyOf'' (JList (vs @ [JObj [(''type'', null)]])) schema | _ \<Rightarrow> schema) in
      case dget schema ''type'' of
          JStr t \<Rightarrow> set_field ''type'' (JList [JStr t, null]) schema
        | JList ts \<Rightarrow> if null \<notin> set ts then set_field ''type'' (JList (ts @ [null])) schema else by_any_of
        | _ \<Rightarrow> by_any_of)"

text \<open>\<open>set(schema.get("required", ()))\<close>: the meta-schema has let only an array of strings through.\<close>

definition required_strings :: "dict \<Rightarrow> string list" where
  "required_strings schema = (case dget schema ''required'' of 
      JList vs \<Rightarrow> List.map_filter (\<lambda>v. case v of JStr s \<Rightarrow> Some s | _ \<Rightarrow> None) vs | _ \<Rightarrow> [])"

definition close_object :: "dict \<Rightarrow> dict" where
  "close_object schema = (let closed = set_field ''additionalProperties'' (JBool False) schema in
     case dget_or closed ''properties'' (JObj []) of
         JObj properties \<Rightarrow> set_field ''required'' (JList (map (JStr \<circ> fst) properties)) closed
       | _ \<Rightarrow> closed)"

text \<open>The code rewrites the nodes in place; the keys it visits are distinct, so one pass over the
  fields rewrites the children and \<open>close_object\<close> adds the two fields of an object node.\<close>

function make_strict :: "dict \<Rightarrow> dict" where
  "make_strict schema =
     (let is_object = (dget schema ''type'' = JStr ''object'');
          fields = map (\<lambda>kv. (fst kv,
            if fst kv = ''properties'' \<and> is_object then (case snd kv of
                JObj properties \<Rightarrow> JObj (map (\<lambda>p. (fst p, case snd p of
                    JObj child \<Rightarrow> JObj (if fst p \<in> set (required_strings schema) then make_strict child
                      else make_nullable (make_strict child))
                  | v \<Rightarrow> v)) properties)
              | v \<Rightarrow> v)
            else if fst kv = ''items'' then (case snd kv of JObj items \<Rightarrow> JObj (make_strict items) | v \<Rightarrow> v)
            else if fst kv \<in> set variant_keywords then (case snd kv of
                JList variants \<Rightarrow> JList (map (\<lambda>v. case v of JObj child \<Rightarrow> JObj (make_strict child) | v \<Rightarrow> v) variants)
              | v \<Rightarrow> v)
            else snd kv)) schema
      in if is_object then close_object fields else fields)"
  by pat_completeness auto

termination
  by (relation "measure fields_size")
    (auto dest!: element_size intro: nested_size field_size(1) less_trans[OF _ field_size(2)])

text \<open>\<open>strict_provider_schema\<close>.\<close>

definition check_schema :: "(json \<Rightarrow> string option) \<Rightarrow> json \<Rightarrow> unit res" where
  "check_schema schema_fault schema = (case schema_fault schema of
      None \<Rightarrow> Inr () | Some message \<Rightarrow> Inl (strict_fault message))"

definition strict_provider_schema :: "(json \<Rightarrow> string option) \<Rightarrow> dict \<Rightarrow> dict res" where
  "strict_provider_schema schema_fault schema =
     rbind (check_schema schema_fault (JObj schema)) (\<lambda>_.
     rbind (reject_unsupported (JObj schema) ''$'') (\<lambda>_.
     let output = make_strict schema in
     rbind (check_schema schema_fault (JObj output)) (\<lambda>_. Inr output)))"

declare make_strict.simps [simp del] reject_unsupported.simps [simp del]

text \<open>\<open>str.isalnum\<close> on code points below 256.\<close>

definition py_alnum :: "char \<Rightarrow> bool" where
  "py_alnum c = (let n = of_char c :: nat in (48 \<le> n \<and> n \<le> 57) \<or> (65 \<le> n \<and> n \<le> 90) \<or> (97 \<le> n \<and> n \<le> 122) \<or>
     n \<in> {170, 178, 179, 181, 185, 186, 188, 189, 190} \<or> (192 \<le> n \<and> n \<noteq> 215 \<and> n \<noteq> 247))"

definition schema_name_ok :: "string \<Rightarrow> bool" where
  "schema_name_ok name \<longleftrightarrow> (let letters = filter (\<lambda>c. c \<noteq> CHR ''_'') name in letters \<noteq> [] \<and> list_all py_alnum letters)"

definition json_schema_response_format :: "(json \<Rightarrow> string option) \<Rightarrow> string \<Rightarrow> dict \<Rightarrow> dict res" where
  "json_schema_response_format schema_fault name schema =
     (if \<not> schema_name_ok name then Inl (Raised ''StrictSchemaError'' ''structured output schema name is invalid'')
      else rbind (strict_provider_schema schema_fault schema) (\<lambda>output.
        Inr [(''type'', JStr ''json_schema''), (''json_schema'', JObj [(''name'', JStr name), (''strict'', JBool True),
          (''schema'', JObj output)])]))"

definition response_schema :: "dict \<Rightarrow> dict res" where
  "response_schema response_format =
     (case dget response_format ''json_schema'' of
        JObj definition \<Rightarrow> (case dget definition ''schema'' of
            JObj schema \<Rightarrow> Inr schema
          | _ \<Rightarrow> Inl (Raised ''StrictSchemaError'' ''invalid provider JSON Schema response format''))
      | _ \<Rightarrow> Inl (Raised ''StrictSchemaError'' ''invalid provider JSON Schema response format''))"

section \<open>Strict schemas\<close>

text \<open>What a strict provider asks of every node: an object node, nullable or not, admits no other
  properties and requires all of its own.\<close>

definition object_node :: "dict \<Rightarrow> bool" where
  "object_node schema \<longleftrightarrow> (case dget schema ''type'' of
      JStr t \<Rightarrow> t = ''object'' | JList ts \<Rightarrow> JStr ''object'' \<in> set ts | _ \<Rightarrow> False)"

definition properties_of :: "dict \<Rightarrow> dict" where
  "properties_of schema = (case dget schema ''properties'' of JObj properties \<Rightarrow> properties | _ \<Rightarrow> [])"

definition closed_node :: "dict \<Rightarrow> bool" where
  "closed_node schema \<longleftrightarrow> dget schema ''additionalProperties'' = JBool False \<and>
     dget schema ''required'' = JList (map (JStr \<circ> fst) (properties_of schema))"

definition objects_in :: "json list \<Rightarrow> dict list" where
  "objects_in vs = List.map_filter (\<lambda>v. case v of JObj x \<Rightarrow> Some x | _ \<Rightarrow> None) vs"

definition elements :: "json \<Rightarrow> json list" where
  "elements v = (case v of JList vs \<Rightarrow> vs | _ \<Rightarrow> [])"

definition subschemas :: "dict \<Rightarrow> dict list" where
  "subschemas schema = objects_in ((if object_node schema then map snd (properties_of schema) else [])
     @ [dget schema ''items''] @ concat (map (\<lambda>k. elements (dget schema k)) variant_keywords))"

inductive strict_schema :: "dict \<Rightarrow> bool" where
  node: "(object_node schema \<Longrightarrow> closed_node schema) \<Longrightarrow> (\<And>child. child \<in> set (subschemas schema) \<Longrightarrow> strict_schema child)
    \<Longrightarrow> strict_schema schema"

text \<open>The schemas the tools write: an object node says \<open>"type": "object"\<close> and its properties
  are an object.\<close>

inductive plain_schema :: "dict \<Rightarrow> bool" where
  plain: "(object_node schema \<Longrightarrow> dget schema ''type'' = JStr ''object'' \<and> (\<exists>ps. dget_or schema ''properties'' (JObj []) = JObj ps))
    \<Longrightarrow> (\<And>child. child \<in> set (subschemas schema) \<Longrightarrow> plain_schema child) \<Longrightarrow> plain_schema schema"

inductive_cases plain_schemaE: "plain_schema schema"

lemma in_objects_in: "x \<in> set (objects_in vs) \<longleftrightarrow> JObj x \<in> set vs"
  by (induction vs) (auto simp: objects_in_def List.map_filter_def split: json.splits)

lemma in_elements: "v \<in> set (elements w) \<longleftrightarrow> (\<exists>vs. w = JList vs \<and> v \<in> set vs)"
  by (cases w) (auto simp: elements_def)

lemma in_subschemas: "x \<in> set (subschemas schema) \<longleftrightarrow>
    (object_node schema \<and> (\<exists>n. (n, JObj x) \<in> set (properties_of schema))) \<or> dget schema ''items'' = JObj x \<or>
    (\<exists>k \<in> set variant_keywords. \<exists>vs. dget schema k = JList vs \<and> JObj x \<in> set vs)"
  by (force simp: subschemas_def in_objects_in in_elements)

text \<open>One pass over the fields seen through \<open>dget\<close>.\<close>

abbreviation strict_child :: "json \<Rightarrow> json" where
  "strict_child v \<equiv> (case v of JObj x \<Rightarrow> JObj (make_strict x) | v \<Rightarrow> v)"

definition strict_property :: "string list \<Rightarrow> string \<times> json \<Rightarrow> string \<times> json" where
  "strict_property required p = (fst p, case snd p of
     JObj child \<Rightarrow> JObj (if fst p \<in> set required then make_strict child else make_nullable (make_strict child)) | v \<Rightarrow> v)"

definition is_object :: "dict \<Rightarrow> bool" where
  "is_object schema \<longleftrightarrow> dget schema ''type'' = JStr ''object''"

definition strict_field :: "dict \<Rightarrow> string \<Rightarrow> json \<Rightarrow> json" where
  "strict_field schema k v =
     (if k = ''properties'' \<and> is_object schema
      then (case v of JObj properties \<Rightarrow> JObj (map (strict_property (required_strings schema)) properties) | v \<Rightarrow> v)
      else if k = ''items'' then strict_child v
      else if k \<in> set variant_keywords then (case v of JList vs \<Rightarrow> JList (map strict_child vs) | v \<Rightarrow> v)
      else v)"

definition strict_fields :: "dict \<Rightarrow> dict" where
  "strict_fields schema = map (\<lambda>kv. (fst kv, strict_field schema (fst kv) (snd kv))) schema"

lemma make_strict_fields:
  "make_strict schema = (if is_object schema then close_object (strict_fields schema) else strict_fields schema)"
  unfolding make_strict.simps[of schema] Let_def strict_fields_def strict_field_def is_object_def strict_property_def[abs_def] by (rule refl)

text \<open>The fields of the result.\<close>

lemma map_of_strict_fields: "map_of (strict_fields schema) k = map_option (strict_field schema k) (map_of schema k)"
proof -
  have "map_of (map (\<lambda>kv. (fst kv, f (fst kv) (snd kv))) kvs) k = map_option (f k) (map_of kvs k)" for f :: "string \<Rightarrow> json \<Rightarrow> json" and kvs
    by (induction kvs) auto
  then show ?thesis by (simp only: strict_fields_def)
qed

lemma strict_field_JNull [simp]: "strict_field schema k JNull = JNull"
  by (simp add: strict_field_def)

lemma dget_strict_fields: "dget (strict_fields schema) k = strict_field schema k (dget schema k)"
  by (auto simp: dget_def map_of_strict_fields split: option.splits)

lemma dget_make_strict:
  assumes "k \<noteq> ''additionalProperties''" and "k \<noteq> ''required''"
  shows "dget (make_strict schema) k = strict_field schema k (dget schema k)"
  using assms by (simp add: make_strict_fields close_object_def dget_set_field dget_strict_fields Let_def split: json.splits)

lemma make_strict_type: "dget (make_strict schema) ''type'' = dget schema ''type''"
  by (simp add: dget_make_strict strict_field_def variant_keywords_def)

lemma make_strict_properties:
  "is_object schema \<Longrightarrow> dget schema ''properties'' = JObj ps \<Longrightarrow>
   dget (make_strict schema) ''properties'' = JObj (map (strict_property (required_strings schema)) ps)"
  by (simp add: dget_make_strict strict_field_def)

lemma make_strict_items: "dget (make_strict schema) ''items'' = strict_child (dget schema ''items'')"
  by (simp add: dget_make_strict strict_field_def)

lemma make_strict_variants:
  "k \<in> set variant_keywords \<Longrightarrow> dget (make_strict schema) k = (case dget schema k of JList vs \<Rightarrow> JList (map strict_child vs) | v \<Rightarrow> v)"
  by (auto simp: dget_make_strict strict_field_def variant_keywords_def)

lemma strict_child_object: "strict_child v = JObj x \<longleftrightarrow> (\<exists>y. v = JObj y \<and> x = make_strict y)"
  by (cases v) auto

lemma object_node_make_strict [simp]: "object_node (make_strict schema) = object_node schema"
  by (simp add: object_node_def make_strict_type)

lemma closed_make_strict:
  assumes "is_object schema" and "dget_or schema ''properties'' (JObj []) = JObj ps"
  shows "closed_node (make_strict schema)"
proof -
  let ?props = "map (strict_property (required_strings schema)) ps"
  let ?closed = "set_field ''additionalProperties'' (JBool False) (strict_fields schema)"
  have or: "dget_or ?closed ''properties'' (JObj []) = JObj ?props"
    using assms by (auto simp: dget_or_def map_of_set_field map_of_strict_fields strict_field_def split: option.splits)
  have props: "properties_of (set_field ''required'' v ?closed) = ?props" for v
    using assms by (auto simp: dget_or_def dget_set_field dget_strict_fields properties_of_def strict_field_def
        dget_def[of schema] split: option.splits)
  have made: "make_strict schema = set_field ''required'' (JList (map (JStr \<circ> fst) ?props)) ?closed"
    using assms(1) or by (simp add: make_strict_fields close_object_def Let_def)
  show ?thesis unfolding closed_node_def made props by (simp add: dget_set_field)
qed

text \<open>Making a node nullable keeps it strict.\<close>

lemma object_node_nullable [simp]: "object_node (make_nullable schema) = object_node schema"
  by (auto simp: object_node_def make_nullable_def Let_def dget_set_field split: json.splits)

lemma dget_nullable: "k \<noteq> ''type'' \<Longrightarrow> k \<noteq> ''anyOf'' \<Longrightarrow> dget (make_nullable schema) k = dget schema k"
  by (auto simp: make_nullable_def Let_def dget_set_field split: json.splits)

lemma any_of_nullable: "dget (make_nullable schema) ''anyOf'' = dget schema ''anyOf'' \<or>
    (\<exists>vs. dget schema ''anyOf'' = JList vs \<and> dget (make_nullable schema) ''anyOf'' = JList (vs @ [JObj [(''type'', JStr ''null'')]]))"
  by (auto simp: make_nullable_def Let_def dget_set_field split: json.splits)

lemma subschemas_nullable:
  assumes "x \<in> set (subschemas (make_nullable schema))"
  shows "x \<in> set (subschemas schema) \<or> x = [(''type'', JStr ''null'')]"
  using assms any_of_nullable[of schema]
  by (auto simp: in_subschemas dget_nullable properties_of_def variant_keywords_def)

lemma strict_null: "strict_schema [(''type'', JStr ''null'')]"
  by (rule strict_schema.node) (auto simp: in_subschemas object_node_def dget_def variant_keywords_def)

lemma strict_nullable: "strict_schema schema \<Longrightarrow> strict_schema (make_nullable schema)"
proof (rule strict_schema.node)
  assume strict: "strict_schema schema"
  { assume "object_node (make_nullable schema)"
    with strict have "closed_node schema" by (auto elim: strict_schema.cases)
    then show "closed_node (make_nullable schema)" by (simp add: closed_node_def dget_nullable properties_of_def) }
  fix x assume "x \<in> set (subschemas (make_nullable schema))"
  then show "strict_schema x" using subschemas_nullable strict strict_null by (blast elim: strict_schema.cases)
qed

lemma strict_propertyE:
  assumes "(n, JObj x) = strict_property required p"
  obtains y where "p = (n, JObj y)" and "x = make_strict y \<or> x = make_nullable (make_strict y)"
  using assms by (cases p) (auto simp: strict_property_def split: json.splits if_splits)

lemma subschemas_make_strict:
  assumes "object_node schema \<Longrightarrow> is_object schema" and "x \<in> set (subschemas (make_strict schema))"
  shows "\<exists>y \<in> set (subschemas schema). x = make_strict y \<or> x = make_nullable (make_strict y)"
proof -
  from assms(2) consider (property) n where "object_node schema" "(n, JObj x) \<in> set (properties_of (make_strict schema))"
    | (items) "dget (make_strict schema) ''items'' = JObj x"
    | (variant) k vs where "k \<in> set variant_keywords" "dget (make_strict schema) k = JList vs" "JObj x \<in> set vs"
    by (auto simp: in_subschemas)
  then show ?thesis
  proof cases
    case property
    with assms(1) have obj: "is_object schema" by blast
    then obtain ps where ps: "dget schema ''properties'' = JObj ps"
      using property(2) by (cases "dget schema ''properties''") (auto simp: properties_of_def dget_make_strict strict_field_def)
    with property(2) obj obtain p where "p \<in> set ps" and "(n, JObj x) = strict_property (required_strings schema) p"
      by (auto simp: properties_of_def make_strict_properties)
    then obtain y where "(n, JObj y) \<in> set ps" and "x = make_strict y \<or> x = make_nullable (make_strict y)"
      by (metis strict_propertyE)
    moreover from this(1) property(1) ps have "y \<in> set (subschemas schema)" by (auto simp: in_subschemas properties_of_def)
    ultimately show ?thesis by blast
  next
    case items
    then show ?thesis by (auto simp: make_strict_items strict_child_object in_subschemas)
  next
    case variant
    then obtain us where "dget schema k = JList us" and "JObj x \<in> set (map strict_child us)"
      by (auto simp: make_strict_variants split: json.splits)
    moreover from this(2) obtain y where "JObj y \<in> set us" and "x = make_strict y"
      by (auto split: json.splits)
    moreover from \<open>dget schema k = JList us\<close> \<open>JObj y \<in> set us\<close> variant(1) have "y \<in> set (subschemas schema)"
      by (auto simp: in_subschemas)
    ultimately show ?thesis by blast
  qed
qed

lemma make_strict_strict: "plain_schema schema \<Longrightarrow> strict_schema (make_strict schema)"
proof (induction rule: plain_schema.induct)
  case (plain schema)
  then have obj: "object_node schema \<Longrightarrow> is_object schema" by (simp add: is_object_def)
  show ?case
  proof (rule strict_schema.node)
    assume "object_node (make_strict schema)"
    then show "closed_node (make_strict schema)" using plain(1) closed_make_strict by (auto simp: is_object_def)
  next
    fix x assume "x \<in> set (subschemas (make_strict schema))"
    with obj obtain y where "y \<in> set (subschemas schema)" and x: "x = make_strict y \<or> x = make_nullable (make_strict y)"
      using subschemas_make_strict by blast
    with plain.IH show "strict_schema x" using strict_nullable by blast
  qed
qed

text \<open>C16: every response format the runtime builds carries a schema in strict form.  If each object
  node of a tool's schema says \<open>"type": "object"\<close> and has an object of properties, then in the
  schema read back from the format every object node, nullable or not and at any depth, admits no other
  properties and requires all of its own.\<close>
theorem response_schema_strict:
  assumes "json_schema_response_format schema_fault name schema = Inr response" and "plain_schema schema"
  shows "\<exists>output. response_schema response = Inr output \<and> strict_schema output"
proof -
  from assms(1) have "response_schema response = Inr (make_strict schema)"
    by (auto simp: json_schema_response_format_def strict_provider_schema_def rbind_Inr_iff Let_def response_schema_def
        dget_def split: if_splits)
  with assms(2) show ?thesis using make_strict_strict by blast
qed

definition sample_optional :: dict where
  "sample_optional = [(''type'', JStr ''object''), (''properties'', JObj [
     (''path'', JObj [(''type'', JStr ''string'')]), (''range'', JObj [(''type'', JStr ''object''), (''properties'', JObj [])])]),
     (''required'', JList [JStr ''path''])]"

theorem response_schema_strict_witness:
  "\<exists>response output. json_schema_response_format (\<lambda>_. None) ''read_file'' sample_optional = Inr response \<and>
     response_schema response = Inr output \<and> strict_schema output"
proof -
  have "is_ok (json_schema_response_format (\<lambda>_. None) ''read_file'' sample_optional)" by code_simp
  then obtain response where r: "json_schema_response_format (\<lambda>_. None) ''read_file'' sample_optional = Inr response"
    by (auto simp: is_ok_iff)
  note defs = in_subschemas object_node_def properties_of_def dget_def dget_or_def variant_keywords_def
  have leaves: "plain_schema [(''type'', JStr ''string'')]" "plain_schema [(''type'', JStr ''object''), (''properties'', JObj [])]"
    by (rule plain_schema.plain; auto simp: defs)+
  have "plain_schema sample_optional"
    by (rule plain_schema.plain) (use leaves in \<open>auto simp: sample_optional_def defs\<close>)
  with r show ?thesis using response_schema_strict[OF r] by blast
qed

end
