(* ===== verification/Governance.thy ===== *)
theory Governance
  imports Permission_Engine
begin

text \<open>
  Run limits, budget snapshots and stop reasons (\<^verbatim>\<open>capslock/domain/governance.py\<close>) and the
  repository that keeps them (\<^verbatim>\<open>capslock/storage/repositories/governance.py\<close>).  Floats are
  rationals, without rounding errors.  A JSON column holds the value.
\<close>

section \<open>Python numbers\<close>

text \<open>\<open>round\<close> (half to even) and \<open>int\<close> (towards zero) of a float.\<close>

definition py_round :: "rat \<Rightarrow> int" where
  "py_round x = (let f = floor x; rest = x - of_int f in
     if rest < 1 / 2 \<or> (rest = 1 / 2 \<and> even f) then f else f + 1)"

definition py_int :: "rat \<Rightarrow> int" where
  "py_int x = (if x < 0 then - floor (- x) else floor x)"

definition take_last :: "nat \<Rightarrow> 'a list \<Rightarrow> 'a list" where
  "take_last n xs = drop (length xs - n) xs"

section \<open>Limits and snapshots\<close>

datatype RunMode = RM_INTERACTIVE | RM_EXEC

datatype StopReason = MAX_TOOL_ROUNDS | MAX_TOOL_CALLS | MAX_DURATION | MAX_TOKENS | MAX_BUDGET_USD | REPEATED_TOOL_CALL

fun stop_reason_value :: "StopReason \<Rightarrow> string" where
  "stop_reason_value MAX_TOOL_ROUNDS = ''max_tool_rounds''"
| "stop_reason_value MAX_TOOL_CALLS = ''max_tool_calls''"
| "stop_reason_value MAX_DURATION = ''max_duration''"
| "stop_reason_value MAX_TOKENS = ''max_tokens''"
| "stop_reason_value MAX_BUDGET_USD = ''max_budget_usd''"
| "stop_reason_value REPEATED_TOOL_CALL = ''repeated_tool_call''"

record RunLimits =
  lm_rounds :: int
  lm_calls :: "int option"
  lm_seconds :: "rat option"
  lm_tokens :: "int option"
  lm_budget :: "rat option"

definition positive :: "string \<Rightarrow> rat option \<Rightarrow> unit res" where
  "positive name v = check (case v of None \<Rightarrow> True | Some x \<Rightarrow> 0 < x) (name @ '' must be positive'')"

definition run_limits :: "RunLimits \<Rightarrow> RunLimits res" where
  "run_limits l =
     rbind (positive ''max_tool_rounds'' (Some (of_int (lm_rounds l)))) (\<lambda>_.
     rbind (positive ''max_tool_calls'' (map_option of_int (lm_calls l))) (\<lambda>_.
     rbind (positive ''max_duration_seconds'' (lm_seconds l)) (\<lambda>_.
     rbind (positive ''max_tokens'' (map_option of_int (lm_tokens l))) (\<lambda>_.
     rbind (positive ''max_budget_usd'' (lm_budget l)) (\<lambda>_. Inr l)))))"

record LoopDetectionSettings =
  ld_repeats :: int
  ld_failed :: int
  ld_cycles :: int
  ld_length :: int

definition at_least_two :: "string \<Rightarrow> int \<Rightarrow> unit res" where
  "at_least_two name v = check (2 \<le> v) (''loop_detection.'' @ name @ '' must be at least 2'')"

definition loop_settings :: "LoopDetectionSettings \<Rightarrow> LoopDetectionSettings res" where
  "loop_settings l =
     rbind (at_least_two ''consecutive_repeats'' (ld_repeats l)) (\<lambda>_.
     rbind (at_least_two ''failed_retries'' (ld_failed l)) (\<lambda>_.
     rbind (at_least_two ''cycle_repetitions'' (ld_cycles l)) (\<lambda>_.
     rbind (at_least_two ''max_cycle_length'' (ld_length l)) (\<lambda>_. Inr l))))"

definition default_loop_settings :: LoopDetectionSettings where
  "default_loop_settings = \<lparr>ld_repeats = 3, ld_failed = 3, ld_cycles = 3, ld_length = 4\<rparr>"

record BudgetSnapshot =
  sn_mode :: RunMode
  sn_root :: string
  sn_limits :: RunLimits
  sn_rounds :: int
  sn_calls :: int
  sn_ms :: int
  sn_in :: int
  sn_out :: int
  sn_cost :: rat
  sn_extensions :: int
  sn_stop :: "StopReason option"

definition sn_tokens :: "BudgetSnapshot \<Rightarrow> int" where
  "sn_tokens s = sn_in s + sn_out s"

definition new_snapshot :: "RunMode \<Rightarrow> string \<Rightarrow> RunLimits \<Rightarrow> BudgetSnapshot" where
  "new_snapshot mode run_id limits = \<lparr>sn_mode = mode, sn_root = run_id, sn_limits = limits, sn_rounds = 0, sn_calls = 0, sn_ms = 0,
     sn_in = 0, sn_out = 0, sn_cost = 0, sn_extensions = 0, sn_stop = None\<rparr>"

text \<open>The entry \<open>remaining\<close> of \<open>as_dict\<close>.\<close>

record remaining_budget =
  rm_rounds :: rat
  rm_calls :: "rat option"
  rm_ms :: "rat option"
  rm_tokens :: "rat option"
  rm_budget :: "rat option"

definition remaining :: "int option \<Rightarrow> int \<Rightarrow> rat option" where
  "remaining limit used = map_option (\<lambda>l. of_int (max 0 (l - used))) limit"

definition remaining_ms :: "rat option \<Rightarrow> int \<Rightarrow> rat option" where
  "remaining_ms limit used = map_option (\<lambda>l. of_int (max 0 (py_round (l * 1000) - used))) limit"

definition remaining_usd :: "rat option \<Rightarrow> rat \<Rightarrow> rat option" where
  "remaining_usd limit used = map_option (\<lambda>l. max 0 (l - used)) limit"

definition snapshot_remaining :: "BudgetSnapshot \<Rightarrow> remaining_budget" where
  "snapshot_remaining s = (let l = sn_limits s in
     \<lparr>rm_rounds = of_int (max 0 (lm_rounds l - sn_rounds s)), rm_calls = remaining (lm_calls l) (sn_calls s),
      rm_ms = remaining_ms (lm_seconds l) (sn_ms s), rm_tokens = remaining (lm_tokens l) (sn_tokens s),
      rm_budget = remaining_usd (lm_budget l) (sn_cost s)\<rparr>)"

section \<open>The two tables\<close>

text \<open>An entry of the history: an attempt, or the usage of child runs already counted.\<close>

record attempt_item =
  ai_id :: int
  ai_fingerprint :: string
  ai_ok :: "bool option"
  ai_poll :: bool

record child_usage =
  cu_run :: string
  cu_in :: rat
  cu_out :: rat
  cu_cost :: rat
  cu_rounds :: rat
  cu_calls :: rat

datatype history_item = Attempt attempt_item | Accounted child_usage

record governance_row =
  gr_run :: string
  gr_root :: string
  gr_mode :: RunMode
  gr_limits :: RunLimits
  gr_rounds :: int
  gr_calls :: int
  gr_elapsed :: int
  gr_in :: int
  gr_out :: int
  gr_cost :: rat
  gr_extensions :: int
  gr_history :: "history_item list"
  gr_stop :: "StopReason option"
  gr_updated_at :: string

definition governance_check :: "governance_row \<Rightarrow> bool" where
  "governance_check r \<longleftrightarrow> 0 \<le> gr_rounds r \<and> 0 \<le> gr_calls r \<and> 0 \<le> gr_elapsed r \<and> 0 \<le> gr_in r \<and> 0 \<le> gr_out r
     \<and> 0 \<le> gr_cost r \<and> 0 \<le> gr_extensions r"

record attempt_row =
  at_id :: int
  at_run :: string
  at_sequence :: int
  at_round :: int
  at_name :: string
  at_arguments :: dict
  at_fingerprint :: string
  at_ok :: "bool option"
  at_duration :: "int option"
  at_created_at :: string
  at_finished_at :: "string option"

definition attempt_check :: "attempt_row \<Rightarrow> bool" where
  "attempt_check r \<longleftrightarrow> 1 \<le> at_sequence r \<and> 1 \<le> at_round r \<and> optional_nonneg (at_duration r)"

record governance_store =
  gs_rows :: "governance_row list"
  gs_attempts :: "attempt_row list"

text \<open>The other tables are those of \<open>db\<close>; the repository reads only the runs.\<close>

definition insert_governance :: "db \<Rightarrow> governance_row \<Rightarrow> governance_store \<Rightarrow> governance_store res" where
  "insert_governance d r st = rbind
     (sql_insert (\<lambda>r. governance_check r \<and> has_run d (gr_run r) \<and> has_run d (gr_root r)) (\<lambda>r x. gr_run r = gr_run x) r (gs_rows st))
     (\<lambda>rows. Inr (st\<lparr>gs_rows := rows\<rparr>))"

definition insert_attempt :: "db \<Rightarrow> attempt_row \<Rightarrow> governance_store \<Rightarrow> governance_store res" where
  "insert_attempt d r st = rbind
     (sql_insert (\<lambda>r. attempt_check r \<and> has_run d (at_run r))
        (\<lambda>r x. at_id r = at_id x \<or> (at_run r = at_run x \<and> at_sequence r = at_sequence x)) r (gs_attempts st))
     (\<lambda>rows. Inr (st\<lparr>gs_attempts := rows\<rparr>))"

section \<open>Operations\<close>

definition governance_of :: "string \<Rightarrow> governance_store \<Rightarrow> governance_row option" where
  "governance_of run_id st = row_by gr_run run_id (gs_rows st)"

definition row_snapshot :: "governance_row \<Rightarrow> RunLimits \<Rightarrow> BudgetSnapshot" where
  "row_snapshot r limits = \<lparr>sn_mode = gr_mode r, sn_root = gr_root r, sn_limits = limits, sn_rounds = gr_rounds r,
     sn_calls = gr_calls r, sn_ms = gr_elapsed r, sn_in = gr_in r, sn_out = gr_out r, sn_cost = gr_cost r,
     sn_extensions = gr_extensions r, sn_stop = gr_stop r\<rparr>"

definition governance_load :: "string \<Rightarrow> governance_store \<Rightarrow> (BudgetSnapshot \<times> history_item list) option res" where
  "governance_load run_id st = (case governance_of run_id st of
      None \<Rightarrow> Inr None
    | Some r \<Rightarrow> rbind (run_limits (gr_limits r)) (\<lambda>limits. Inr (Some (row_snapshot r limits, gr_history r))))"

definition expanded :: "'a::linorder option \<Rightarrow> 'a option \<Rightarrow> 'a option" where
  "expanded old new = (case old of None \<Rightarrow> new | Some o' \<Rightarrow> (case new of None \<Rightarrow> old | Some n \<Rightarrow> Some (max o' n)))"

definition expanded_limits :: "RunLimits \<Rightarrow> RunLimits \<Rightarrow> RunLimits" where
  "expanded_limits previous requested = requested\<lparr>lm_rounds := max (lm_rounds previous) (lm_rounds requested),
     lm_calls := expanded (lm_calls previous) (lm_calls requested), lm_seconds := expanded (lm_seconds previous) (lm_seconds requested),
     lm_tokens := expanded (lm_tokens previous) (lm_tokens requested), lm_budget := expanded (lm_budget previous) (lm_budget requested)\<rparr>"

definition parent_snapshot :: "RunMode \<Rightarrow> governance_row \<Rightarrow> RunLimits \<Rightarrow> BudgetSnapshot" where
  "parent_snapshot mode p limits = (row_snapshot p limits)\<lparr>sn_mode := mode, sn_stop := None\<rparr>"

definition governance_start ::
  "db \<Rightarrow> string \<Rightarrow> string option \<Rightarrow> RunMode \<Rightarrow> RunLimits \<Rightarrow> string \<Rightarrow> governance_store
   \<Rightarrow> ((BudgetSnapshot \<times> history_item list) \<times> governance_store) res" where
  "governance_start d run_id parent_run_id mode limits now st =
     rbind (governance_load run_id st) (\<lambda>existing. case existing of
       Some (snapshot, history) \<Rightarrow> Inr ((snapshot\<lparr>sn_mode := mode\<rparr>, history), st)
     | None \<Rightarrow>
         rbind (case (if or_text parent_run_id [] = [] then None else governance_of (or_text parent_run_id []) st) of
             None \<Rightarrow> Inr (new_snapshot mode run_id limits, [])
           | Some p \<Rightarrow> rbind (run_limits (gr_limits p)) (\<lambda>previous.
               rbind (run_limits (expanded_limits previous limits)) (\<lambda>wider.
               Inr (parent_snapshot mode p wider, take_last 64 (gr_history p))))) (\<lambda>(snapshot, history).
         rbind (insert_governance d \<lparr>gr_run = run_id, gr_root = sn_root snapshot, gr_mode = mode, gr_limits = sn_limits snapshot,
             gr_rounds = sn_rounds snapshot, gr_calls = sn_calls snapshot, gr_elapsed = sn_ms snapshot, gr_in = sn_in snapshot,
             gr_out = sn_out snapshot, gr_cost = sn_cost snapshot, gr_extensions = sn_extensions snapshot, gr_history = history,
             gr_stop = None, gr_updated_at = now\<rparr> st) (\<lambda>st'. Inr ((snapshot, history), st'))))"

definition latest_for_session :: "db \<Rightarrow> string \<Rightarrow> governance_store \<Rightarrow> BudgetSnapshot option res" where
  "latest_for_session d session_id st =
     (case last_by r_started_at (\<lambda>r. r_session r = session_id \<and> governance_of (r_id r) st \<noteq> None) (d_runs d) of
        None \<Rightarrow> Inr None
      | Some r \<Rightarrow> rbind (governance_load (r_id r) st) (\<lambda>loaded. Inr (map_option fst loaded)))"

definition saved_row :: "BudgetSnapshot \<Rightarrow> history_item list \<Rightarrow> string \<Rightarrow> governance_row \<Rightarrow> governance_row" where
  "saved_row s history now r = r\<lparr>gr_limits := sn_limits s, gr_rounds := sn_rounds s, gr_calls := sn_calls s, gr_elapsed := sn_ms s,
     gr_in := sn_in s, gr_out := sn_out s, gr_cost := sn_cost s, gr_extensions := sn_extensions s,
     gr_history := take_last 64 history, gr_stop := sn_stop s, gr_updated_at := now\<rparr>"

definition governance_save :: "string \<Rightarrow> BudgetSnapshot \<Rightarrow> history_item list \<Rightarrow> string \<Rightarrow> governance_store \<Rightarrow> governance_store res" where
  "governance_save run_id s history now st =
     rbind (sql_set governance_check (\<lambda>r. gr_run r = run_id) (saved_row s history now) (gs_rows st))
       (\<lambda>rows. Inr (st\<lparr>gs_rows := rows\<rparr>))"

definition reserve_attempt ::
  "db \<Rightarrow> string \<Rightarrow> int \<Rightarrow> string \<Rightarrow> dict \<Rightarrow> string \<Rightarrow> string \<Rightarrow> governance_store \<Rightarrow> (int \<times> governance_store) res" where
  "reserve_attempt d run_id round_index name args fingerprint now st =
     (let attempt_id = max_or 0 at_id (\<lambda>_. True) (gs_attempts st) + 1 in
      rbind (insert_attempt d \<lparr>at_id = attempt_id, at_run = run_id,
          at_sequence = max_or 0 at_sequence (\<lambda>a. at_run a = run_id) (gs_attempts st) + 1, at_round = round_index, at_name = name,
          at_arguments = args, at_fingerprint = fingerprint, at_ok = None, at_duration = None, at_created_at = now,
          at_finished_at = None\<rparr> st)
        (\<lambda>st'. Inr (attempt_id, st')))"

definition finish_attempt :: "int \<Rightarrow> bool \<Rightarrow> int \<Rightarrow> string \<Rightarrow> governance_store \<Rightarrow> governance_store res" where
  "finish_attempt attempt_id ok duration_ms now st =
     rbind (sql_set attempt_check (\<lambda>a. at_id a = attempt_id \<and> at_ok a = None)
         (\<lambda>a. a\<lparr>at_ok := Some ok, at_duration := Some (max 0 duration_ms), at_finished_at := Some now\<rparr>) (gs_attempts st))
       (\<lambda>rows. Inr (st\<lparr>gs_attempts := rows\<rparr>))"

end
