(* ===== verification/Run_Governor.thy ===== *)
theory Run_Governor
  imports Governance
begin

text \<open>
  The governor of one run (\<^verbatim>\<open>capslock/runtime/governance.py\<close>): usage and limits, detection of
  repeated tool calls, and the stop of a run.  What the governor reads from outside at one moment is
  a \<open>reading\<close>: the usage of the model calls of the run, the settled and reserved budget of its
  child runs, the clock and the time stamp.  A stop is a value; an error of the storage ends the
  operation.
\<close>

section \<open>State\<close>

record reserved_budget =
  rv_rounds :: rat
  rv_calls :: rat
  rv_tokens :: rat
  rv_budget :: rat

definition nothing_reserved :: reserved_budget where
  "nothing_reserved = \<lparr>rv_rounds = 0, rv_calls = 0, rv_tokens = 0, rv_budget = 0\<rparr>"

text \<open>\<open>rd_settled\<close> is the entry \<open>settled\<close> of \<open>parent_budget\<close>; its run is the governor's own.\<close>

record reading =
  rd_in :: int
  rd_out :: int
  rd_cost :: rat
  rd_settled :: child_usage
  rd_reserved :: reserved_budget
  rd_clock :: rat
  rd_now :: string

record governor =
  go_run :: string
  go_snapshot :: BudgetSnapshot
  go_history :: "attempt_item list"
  go_loop :: LoopDetectionSettings
  go_started :: rat
  go_base_ms :: int
  go_base_in :: int
  go_base_out :: int
  go_base_cost :: rat
  go_seen_in :: int
  go_seen_out :: int
  go_collaboration :: bool
  go_child :: "child_usage option"
  go_reserved :: reserved_budget

text \<open>The detail of a stop.\<close>

datatype loop_detail =
    FailedRetry int string
  | Consecutive int string
  | Cycle int int string
  | ProcessStalled rat

record run_stopped =
  rs_reason :: StopReason
  rs_snapshot :: BudgetSnapshot
  rs_detail :: "loop_detail option"
  rs_summarize :: bool

type_synonym 'a governed = "((run_stopped + 'a) \<times> governor \<times> governance_store) res"

section \<open>Creation\<close>

definition attempts_in :: "history_item list \<Rightarrow> attempt_item list" where
  "attempts_in history = List.map_filter (\<lambda>i. case i of Attempt a \<Rightarrow> Some a | Accounted _ \<Rightarrow> None) history"

definition accounted_for :: "string \<Rightarrow> history_item list \<Rightarrow> child_usage option" where
  "accounted_for run_id history =
     (case List.map_filter (\<lambda>i. case i of Attempt _ \<Rightarrow> None | Accounted u \<Rightarrow> Some u) history of
        [] \<Rightarrow> None | u # _ \<Rightarrow> if cu_run u = run_id then Some u else None)"

definition new_governor :: "string \<Rightarrow> BudgetSnapshot \<Rightarrow> history_item list \<Rightarrow> LoopDetectionSettings \<Rightarrow> rat \<Rightarrow> governor" where
  "new_governor run_id s history loop_detection clock = (let child = accounted_for run_id history in
     \<lparr>go_run = run_id, go_snapshot = s, go_history = attempts_in history, go_loop = loop_detection, go_started = clock,
      go_base_ms = sn_ms s,
      go_base_in = sn_in s - (case child of None \<Rightarrow> 0 | Some u \<Rightarrow> py_int (cu_in u)),
      go_base_out = sn_out s - (case child of None \<Rightarrow> 0 | Some u \<Rightarrow> py_int (cu_out u)),
      go_base_cost = sn_cost s - (case child of None \<Rightarrow> 0 | Some u \<Rightarrow> cu_cost u),
      go_seen_in = 0, go_seen_out = 0, go_collaboration = False, go_child = child, go_reserved = nothing_reserved\<rparr>)"

definition create_governor ::
  "db \<Rightarrow> string \<Rightarrow> string option \<Rightarrow> RunMode \<Rightarrow> RunLimits \<Rightarrow> LoopDetectionSettings \<Rightarrow> rat \<Rightarrow> string \<Rightarrow> governance_store
   \<Rightarrow> (governor \<times> governance_store) res" where
  "create_governor d run_id parent_run_id mode limits loop_detection clock now st =
     rbind (governance_start d run_id parent_run_id mode limits now st)
       (\<lambda>((s, history), st'). Inr (new_governor run_id s history loop_detection clock, st'))"

definition attach_collaboration_budget :: "governor \<Rightarrow> governor" where
  "attach_collaboration_budget g = g\<lparr>go_collaboration := True\<rparr>"

section \<open>Usage\<close>

definition less_reserved :: "rat \<Rightarrow> rat option \<Rightarrow> rat option" where
  "less_reserved reserved v = map_option (\<lambda>x. max 0 (x - reserved)) v"

text \<open>Before the first \<open>current\<close> nothing is reserved and \<open>max(0, x - 0)\<close> is \<open>x\<close>, as the amounts are not
  negative.\<close>

definition available_remaining :: "governor \<Rightarrow> remaining_budget" where
  "available_remaining g = (let rm = snapshot_remaining (go_snapshot g); rv = go_reserved g in
     rm\<lparr>rm_rounds := max 0 (rm_rounds rm - rv_rounds rv), rm_calls := less_reserved (rv_calls rv) (rm_calls rm),
       rm_tokens := less_reserved (rv_tokens rv) (rm_tokens rm), rm_budget := less_reserved (rv_budget rv) (rm_budget rm)\<rparr>)"

definition saved_history :: "governor \<Rightarrow> history_item list" where
  "saved_history g = (case go_child g of
      None \<Rightarrow> map Attempt (go_history g)
    | Some u \<Rightarrow> map Attempt (take_last 63 (go_history g)) @ [Accounted u])"

definition save_governor :: "string \<Rightarrow> governor \<Rightarrow> governance_store \<Rightarrow> (governor \<times> governance_store) res" where
  "save_governor now g st =
     rbind (governance_save (go_run g) (go_snapshot g) (saved_history g) now st) (\<lambda>st'. Inr (g, st'))"

definition child_part :: "(child_usage \<Rightarrow> rat) \<Rightarrow> child_usage option \<Rightarrow> rat" where
  "child_part f u = (case u of None \<Rightarrow> 0 | Some u \<Rightarrow> f u)"

definition refreshed :: "reading \<Rightarrow> governor \<Rightarrow> governor" where
  "refreshed rd g =
     (let usage = (if go_collaboration g then Some (rd_settled rd) else None); s = go_snapshot g in
      g\<lparr>go_reserved := (if go_collaboration g then rd_reserved rd else go_reserved g),
        go_snapshot := s\<lparr>sn_ms := go_base_ms g + py_round ((rd_clock rd - go_started g) * 1000),
          sn_in := go_base_in g + max (rd_in rd) (go_seen_in g) + py_int (child_part cu_in usage),
          sn_out := go_base_out g + max (rd_out rd) (go_seen_out g) + py_int (child_part cu_out usage),
          sn_cost := go_base_cost g + rd_cost rd + child_part cu_cost usage,
          sn_rounds := sn_rounds s + py_int (child_part cu_rounds usage - child_part cu_rounds (go_child g)),
          sn_calls := sn_calls s + py_int (child_part cu_calls usage - child_part cu_calls (go_child g))\<rparr>,
        go_child := map_option (\<lambda>u. u\<lparr>cu_run := go_run g\<rparr>) usage\<rparr>)"

definition governor_current :: "reading \<Rightarrow> governor \<Rightarrow> governance_store \<Rightarrow> (governor \<times> governance_store) res" where
  "governor_current rd g st = save_governor (rd_now rd) (refreshed rd g) st"

definition with_snapshot :: "(BudgetSnapshot \<Rightarrow> BudgetSnapshot) \<Rightarrow> governor \<Rightarrow> governor" where
  "with_snapshot f g = g\<lparr>go_snapshot := f (go_snapshot g)\<rparr>"

definition observe_usage :: "int \<Rightarrow> int \<Rightarrow> governor \<Rightarrow> governor" where
  "observe_usage i j g = g\<lparr>go_seen_in := go_seen_in g + max 0 i, go_seen_out := go_seen_out g + max 0 j\<rparr>"

definition record_model_usage :: "int \<Rightarrow> int \<Rightarrow> reading \<Rightarrow> governor \<Rightarrow> governance_store \<Rightarrow> (governor \<times> governance_store) res" where
  "record_model_usage i j rd g st = governor_current rd (observe_usage i j g) st"

definition record_external_usage ::
  "int \<Rightarrow> int \<Rightarrow> rat \<Rightarrow> int \<Rightarrow> int \<Rightarrow> reading \<Rightarrow> governor \<Rightarrow> governance_store \<Rightarrow> (governor \<times> governance_store) res" where
  "record_external_usage i j cost rounds calls rd g st =
     rbind (governor_current rd ((observe_usage i j g)\<lparr>go_base_cost := go_base_cost g + max 0 cost\<rparr>) st) (\<lambda>(g1, st1).
       save_governor (rd_now rd) (with_snapshot (\<lambda>s. s\<lparr>sn_rounds := sn_rounds s + max 0 rounds, sn_calls := sn_calls s + max 0 calls\<rparr>) g1) st1)"

definition record_round :: "reading \<Rightarrow> governor \<Rightarrow> governance_store \<Rightarrow> (governor \<times> governance_store) res" where
  "record_round rd g st =
     rbind (governor_current rd g st) (\<lambda>(g1, st1).
       save_governor (rd_now rd) (with_snapshot (\<lambda>s. s\<lparr>sn_rounds := sn_rounds s + 1\<rparr>) g1) st1)"

definition extend_tool_rounds :: "int \<Rightarrow> reading \<Rightarrow> governor \<Rightarrow> governance_store \<Rightarrow> (governor \<times> governance_store) res" where
  "extend_tool_rounds increment rd g st =
     rbind (governor_current rd g st) (\<lambda>(g1, st1).
     rbind (run_limits ((sn_limits (go_snapshot g1))\<lparr>lm_rounds := lm_rounds (sn_limits (go_snapshot g1)) + increment\<rparr>)) (\<lambda>wider.
       save_governor (rd_now rd) (with_snapshot (\<lambda>s. s\<lparr>sn_limits := wider, sn_extensions := sn_extensions s + 1, sn_stop := None\<rparr>) g1) st1))"

definition remaining_seconds :: "rat \<Rightarrow> governor \<Rightarrow> rat option" where
  "remaining_seconds clock g = map_option
     (\<lambda>limit. max 0 (limit - (of_int (go_base_ms g) / 1000 + (clock - go_started g)))) (lm_seconds (sn_limits (go_snapshot g)))"

section \<open>Stops\<close>

definition governor_stop :: "StopReason \<Rightarrow> loop_detail option \<Rightarrow> reading \<Rightarrow> governor \<Rightarrow> governance_store \<Rightarrow> 'a governed" where
  "governor_stop reason detail rd g st =
     rbind (governor_current rd g st) (\<lambda>(g1, st1).
     rbind (save_governor (rd_now rd) (with_snapshot (\<lambda>s. s\<lparr>sn_stop := Some reason\<rparr>) g1) st1) (\<lambda>(g2, st2).
       Inr (Inl \<lparr>rs_reason = reason, rs_snapshot = go_snapshot g2, rs_detail = detail,
         rs_summarize = (sn_mode (go_snapshot g2) = RM_INTERACTIVE \<and> reason = MAX_TOOL_ROUNDS)\<rparr>, g2, st2)))"

definition spent :: "rat option \<Rightarrow> bool" where
  "spent v \<longleftrightarrow> (case v of None \<Rightarrow> False | Some x \<Rightarrow> x \<le> 0)"

text \<open>The limit that \<open>_check_common\<close> finds reached, in its order.\<close>

definition common_limit :: "governor \<Rightarrow> StopReason option" where
  "common_limit g = (let s = go_snapshot g in
     if (case lm_seconds (sn_limits s) of None \<Rightarrow> False | Some limit \<Rightarrow> py_round (limit * 1000) \<le> sn_ms s) then Some MAX_DURATION
     else if spent (rm_tokens (available_remaining g)) then Some MAX_TOKENS
     else if spent (rm_budget (available_remaining g)) then Some MAX_BUDGET_USD
     else None)"

text \<open>\<open>rd\<close> is what \<open>_check_common\<close> reads, \<open>rd'\<close> what a stop reads afterwards.\<close>

definition check_common :: "reading \<Rightarrow> reading \<Rightarrow> governor \<Rightarrow> governance_store \<Rightarrow> unit governed" where
  "check_common rd rd' g st =
     rbind (governor_current rd g st) (\<lambda>(g1, st1). case common_limit g1 of
       Some reason \<Rightarrow> governor_stop reason None rd' g1 st1
     | None \<Rightarrow> Inr (Inr (), g1, st1))"

definition go_on :: "'a governed \<Rightarrow> ('a \<Rightarrow> governor \<Rightarrow> governance_store \<Rightarrow> 'b governed) \<Rightarrow> 'b governed" where
  "go_on m f = rbind m (\<lambda>(r, g, st). case r of Inl stopped \<Rightarrow> Inr (Inl stopped, g, st) | Inr x \<Rightarrow> f x g st)"

definition before_model :: "reading \<Rightarrow> reading \<Rightarrow> governor \<Rightarrow> governance_store \<Rightarrow> unit governed" where
  "before_model rd rd' g st = go_on (check_common rd rd' g st) (\<lambda>_ g1 st1.
     if rm_rounds (available_remaining g1) \<le> 0 then governor_stop MAX_TOOL_ROUNDS None rd' g1 st1
     else Inr (Inr (), g1, st1))"

section \<open>Loop detection\<close>

definition item_fingerprint :: "attempt_item \<Rightarrow> string" where
  "item_fingerprint a = (if ai_poll a \<and> ai_ok a = Some True then ''running_poll:'' @ py_int_str (ai_id a) else ai_fingerprint a)"

definition failed_in_a_row :: "string \<Rightarrow> attempt_item list \<Rightarrow> nat" where
  "failed_in_a_row fingerprint history =
     length (takeWhile (\<lambda>a. ai_fingerprint a = fingerprint \<and> ai_ok a = Some False) (rev history))"

definition repeated :: "nat \<Rightarrow> string list \<Rightarrow> bool" where
  "repeated n fs \<longleftrightarrow> n \<le> length fs \<and> length (remdups (take_last n fs)) = 1"

definition cycles :: "nat \<Rightarrow> nat \<Rightarrow> string list \<Rightarrow> bool" where
  "cycles period n fs \<longleftrightarrow> period * n \<le> length fs \<and> take_last (period * n) fs = concat (replicate n (take_last period fs))"

definition loop_found :: "LoopDetectionSettings \<Rightarrow> attempt_item list \<Rightarrow> string \<Rightarrow> loop_detail option" where
  "loop_found settings history fingerprint =
     (let prospective = map item_fingerprint history @ [fingerprint]; failed = int (failed_in_a_row fingerprint history);
          n = nat (ld_cycles settings) in
      if ld_failed settings \<le> failed + 1 then Some (FailedRetry (failed + 1) fingerprint)
      else if repeated (nat (ld_repeats settings)) prospective then Some (Consecutive (ld_repeats settings) fingerprint)
      else map_option (\<lambda>period. Cycle (int period) (ld_cycles settings) fingerprint)
        (find (\<lambda>period. cycles period n prospective) [2 ..< nat (ld_length settings) + 1]))"

text \<open>\<open>trusted_poll\<close>: the process is running, and when it last made progress.\<close>

definition poll_detail :: "(bool \<times> rat) option \<Rightarrow> rat \<Rightarrow> loop_detail option \<Rightarrow> loop_detail option" where
  "poll_detail trusted_poll clock detail = (case trusted_poll of
      Some (True, last_progress) \<Rightarrow>
        (case detail of Some (FailedRetry n f) \<Rightarrow> detail
         | _ \<Rightarrow> if 120 \<le> clock - last_progress then Some (ProcessStalled (clock - last_progress)) else None)
    | _ \<Rightarrow> detail)"

definition casefold_char :: "char \<Rightarrow> string" where
  "casefold_char c = (let n = of_char c :: nat in
     if (65 \<le> n \<and> n \<le> 90) \<or> (192 \<le> n \<and> n \<le> 222 \<and> n \<noteq> 215) then [char_of (n + 32)]
     else if n = 223 then ''ss'' else [c])"

definition casefold :: "string \<Rightarrow> string" where
  "casefold s = concat (map casefold_char s)"

definition call_fingerprint :: "(string \<Rightarrow> string) \<Rightarrow> string \<Rightarrow> dict \<Rightarrow> string" where
  "call_fingerprint sha name args =
     sha (casefold (strip name) @ [char_of (10::nat)] @ dumps_sorted '','' '':'' json_string (JObj args))"

section \<open>Tool calls\<close>

definition admit_call ::
  "db \<Rightarrow> string \<Rightarrow> dict \<Rightarrow> string \<Rightarrow> bool \<Rightarrow> string \<Rightarrow> governor \<Rightarrow> governance_store \<Rightarrow> (int \<times> dict \<times> string) governed" where
  "admit_call d name args fingerprint poll now g st =
     rbind (reserve_attempt d (go_run g) (max 1 (sn_rounds (go_snapshot g))) name args fingerprint now st) (\<lambda>(attempt_id, st1).
     rbind (save_governor now (with_snapshot (\<lambda>s. s\<lparr>sn_calls := sn_calls s + 1\<rparr>)
         (g\<lparr>go_history := go_history g @ [\<lparr>ai_id = attempt_id, ai_fingerprint = fingerprint, ai_ok = None, ai_poll = poll\<rparr>]\<rparr>)) st1)
       (\<lambda>(g2, st2). Inr (Inr (attempt_id, args, fingerprint), g2, st2)))"

definition before_tool ::
  "db \<Rightarrow> (string \<Rightarrow> string) \<Rightarrow> (dict \<Rightarrow> dict) \<Rightarrow> string \<Rightarrow> dict \<Rightarrow> (bool \<times> rat) option \<Rightarrow> reading \<Rightarrow> reading \<Rightarrow> governor
   \<Rightarrow> governance_store \<Rightarrow> (int \<times> dict \<times> string) governed" where
  "before_tool d sha redact name args trusted_poll rd rd' g st =
     go_on (check_common rd rd' g st) (\<lambda>_ g1 st1.
       if spent (rm_calls (available_remaining g1)) then governor_stop MAX_TOOL_CALLS None rd' g1 st1
       else let safe = redact args; fingerprint = call_fingerprint sha name safe;
              detail = poll_detail trusted_poll (rd_clock rd') (loop_found (go_loop g1) (go_history g1) fingerprint) in
            if detail \<noteq> None then governor_stop REPEATED_TOOL_CALL detail rd' g1 st1
            else admit_call d (casefold (strip name)) safe fingerprint (case trusted_poll of Some (True, _) \<Rightarrow> True | _ \<Rightarrow> False)
              (rd_now rd') g1 st1)"

text \<open>The last entry of the attempt.\<close>

fun note_result :: "int \<Rightarrow> bool \<Rightarrow> attempt_item list \<Rightarrow> attempt_item list" where
  "note_result i ok [] = []"
| "note_result i ok (a # as) =
     (if i \<in> set (map ai_id as) then a # note_result i ok as
      else if ai_id a = i then a\<lparr>ai_ok := Some ok\<rparr> # as else a # as)"

definition finish_tool :: "int \<Rightarrow> bool \<Rightarrow> int \<Rightarrow> reading \<Rightarrow> governor \<Rightarrow> governance_store \<Rightarrow> (governor \<times> governance_store) res" where
  "finish_tool attempt_id ok duration_ms rd g st =
     rbind (finish_attempt attempt_id ok duration_ms (rd_now rd) st) (\<lambda>st1.
       governor_current rd (g\<lparr>go_history := note_result attempt_id ok (go_history g)\<rparr>) st1)"

end
