(* ===== verification/Tool_Invocation.thy ===== *)
theory Tool_Invocation
  imports Tool_Pipeline Run_Governor Journal_Inputs
begin

text \<open>
  One tool call of the model from its request to its journal entries: \<open>InvocationPreparer.prepare\<close> of
  \<^verbatim>\<open>capslock/runtime/tool_invocation.py\<close>.  The collaborators that are not modelled are fields of a
  setup record: \<open>json.loads\<close>, the event bus, the artifact store, the assessment of external text, the
  decoding of cut bytes, the clock and the identifiers.  The payloads of events, the presentation and
  the timings are left out.
\<close>

section \<open>Calls and outcomes\<close>

record ModelToolCall =
  mc_id :: string
  mc_name :: string
  mc_arguments :: string
  mc_repair :: int

record artifact =
  af_id :: string
  af_sha :: string
  af_size :: int
  af_preview :: string

text \<open>\<open>ToolCallOutcome\<close>; \<open>oc_attempt\<close> is the governor's attempt.\<close>

record ToolCallOutcome =
  oc_call :: ModelToolCall
  oc_step :: string
  oc_arguments :: dict
  oc_text :: string
  oc_ok :: bool
  oc_attempt :: "int option"
  oc_outcome :: ToolOutcome
  oc_policy :: ResolvedToolPolicy
  oc_artifact :: "string option"
  oc_invocation :: "string option"
  oc_run :: string
  oc_step_finalized :: bool
  oc_interrupt_after :: bool

record paused_call =
  pz_pause :: ToolPause
  pz_invocation :: string
  pz_step :: string
  pz_call :: string

datatype prepared_call = Prepared ToolCallOutcome | PausedAt paused_call

text \<open>Everything a call can change, with the local variables its \<open>except\<close> clauses read.\<close>

record 'w call_state =
  cs_env :: "'w surroundings"
  cs_governor :: "(governor \<times> governance_store) option"
  cs_arguments :: dict
  cs_attempt :: "int option"
  cs_policy :: ResolvedToolPolicy

type_synonym ('w, 'a) call_act = "'w call_state \<Rightarrow> 'a tres \<times> 'w call_state"

record 'w invocation_setup =
  iv_describe :: "py_error \<Rightarrow> string \<times> string"
  iv_loads :: "string \<Rightarrow> string + json"
  iv_emit :: "AgentEventKind \<Rightarrow> ('w, unit) act"
  iv_tools :: "string \<Rightarrow> 'w tool option"
  iv_candidates :: "string \<Rightarrow> string list"
  iv_errors :: validator
  iv_chain :: "string \<Rightarrow> 'w middleware list"
  iv_course :: "'w course"
  iv_deadline :: bool
  iv_artifacts :: "(bool \<Rightarrow> string \<Rightarrow> ('w, artifact) act) option"
  iv_assess :: "string \<Rightarrow> bool \<times> string list"
  iv_decode :: "string \<Rightarrow> string"
  iv_usage :: "dict \<Rightarrow> int \<times> int \<times> rat \<times> int \<times> int"
  iv_seconds :: "rat \<Rightarrow> string"
  iv_sha :: "string \<Rightarrow> string"
  iv_redact :: "dict \<Rightarrow> dict"
  iv_poll :: "(bool \<times> rat) option"
  iv_readings :: "nat \<Rightarrow> reading"
  iv_max_repairs :: int
  iv_session :: string
  iv_run :: string
  iv_step :: string
  iv_uuid :: string
  iv_now :: string
  iv_duration :: int

section \<open>Steps on the state\<close>

definition in_env :: "('w, 'a) act \<Rightarrow> ('w, 'a) call_act" where
  "in_env a s = (case a (cs_env s) of (r, e) \<Rightarrow> (r, s\<lparr>cs_env := e\<rparr>))"

text \<open>A repository call on the journal.\<close>

definition journal :: "'w invocation_setup \<Rightarrow> (db \<Rightarrow> ('a \<times> db) res) \<Rightarrow> ('w, 'a) call_act" where
  "journal iv f = in_env (in_db (iv_describe iv) f)"

definition journal_write :: "'w invocation_setup \<Rightarrow> (db \<Rightarrow> db res) \<Rightarrow> ('w, unit) call_act" where
  "journal_write iv f = journal iv (\<lambda>d. rbind (f d) (\<lambda>d'. Inr ((), d')))"

definition emit :: "'w invocation_setup \<Rightarrow> AgentEventKind \<Rightarrow> ('w, unit) call_act" where
  "emit iv kind = in_env (iv_emit iv kind)"

definition try_catch :: "('w, 'a) call_act \<Rightarrow> (tool_error \<Rightarrow> ('w, 'a) call_act) \<Rightarrow> ('w, 'a) call_act" where
  "try_catch m handle s = (case m s of (Inl e, s') \<Rightarrow> handle e s' | (Inr x, s') \<Rightarrow> (Inr x, s'))"

definition note_locals :: "('w call_state \<Rightarrow> 'w call_state) \<Rightarrow> ('w, unit) call_act" where
  "note_locals f s = (Inr (), f s)"

text \<open>Calls on the governor, when there is one.\<close>

definition run_stopped_error :: "run_stopped \<Rightarrow> tool_error" where
  "run_stopped_error r = Other ''RunStopped'' (stop_reason_value (rs_reason r)) None"

definition governed_call ::
  "'w invocation_setup \<Rightarrow> (db \<Rightarrow> governor \<Rightarrow> governance_store \<Rightarrow> 'a governed) \<Rightarrow> ('w, 'a option) call_act" where
  "governed_call iv f s = (case cs_governor s of
      None \<Rightarrow> (Inr None, s)
    | Some (g, st) \<Rightarrow> (case f (ev_db (cs_env s)) g st of
          Inl e \<Rightarrow> (Inl (of_py (iv_describe iv) e), s)
        | Inr (Inl stopped, g', st') \<Rightarrow> (Inl (run_stopped_error stopped), s\<lparr>cs_governor := Some (g', st')\<rparr>)
        | Inr (Inr x, g', st') \<Rightarrow> (Inr (Some x), s\<lparr>cs_governor := Some (g', st')\<rparr>)))"

definition governor_update ::
  "'w invocation_setup \<Rightarrow> (governor \<Rightarrow> governance_store \<Rightarrow> (governor \<times> governance_store) res) \<Rightarrow> ('w, unit) call_act" where
  "governor_update iv f = tbind (governed_call iv (\<lambda>_ g st. rbind (f g st) (\<lambda>(g', st'). Inr (Inr (), g', st')))) (\<lambda>_. ret ())"

definition error_name :: "tool_error \<Rightarrow> string" where
  "error_name e = (case e of TimedOut \<Rightarrow> ''TimeoutError'' | SchemaError _ _ _ _ \<Rightarrow> ''SchemaValidationError''
     | InvalidPath _ \<Rightarrow> ''InvalidPathError'' | PolicyViolation _ \<Rightarrow> ''PolicyError'' | Other n _ _ \<Rightarrow> n | Cancelled \<Rightarrow> ''CancelledError'')"

definition error_text :: "tool_error \<Rightarrow> string" where
  "error_text e = (let t = (case e of TimedOut \<Rightarrow> [] | SchemaError t _ _ _ \<Rightarrow> t | InvalidPath t \<Rightarrow> t | PolicyViolation t \<Rightarrow> t
       | Other _ t _ \<Rightarrow> t | Cancelled \<Rightarrow> []) in if t = [] then error_name e else t)"

section \<open>Arguments\<close>

definition call_arguments :: "'w invocation_setup \<Rightarrow> ModelToolCall \<Rightarrow> string + dict" where
  "call_arguments iv call = (case iv_loads iv (mc_arguments call) of
      Inl text \<Rightarrow> Inl text
    | Inr (JObj args) \<Rightarrow> Inr args
    | Inr _ \<Rightarrow> Inl ''tool arguments must be a JSON object'')"

definition may_repair :: "'w invocation_setup \<Rightarrow> ModelToolCall \<Rightarrow> bool" where
  "may_repair iv call \<longleftrightarrow> mc_repair call < iv_max_repairs iv"

definition repair_detail :: "ModelToolCall \<Rightarrow> string \<Rightarrow> string \<Rightarrow> string \<Rightarrow> bool \<Rightarrow> string list \<Rightarrow> json" where
  "repair_detail call path expected received can_retry suggested = JObj [(''path'', JStr path), (''expected'', JStr expected),
     (''received_type'', JStr received), (''retryable'', JBool can_retry), (''suggested_tools'', JList (map JStr suggested)),
     (''repair_attempt'', JInt (mc_repair call))]"

definition unparsed_outcome :: "'w invocation_setup \<Rightarrow> ModelToolCall \<Rightarrow> string \<Rightarrow> ToolOutcome" where
  "unparsed_outcome iv call text = failure (''invalid tool arguments: '' @ text) ''invalid_tool_arguments'' False
     (repair_detail call ''$'' ''valid JSON object'' ''invalid_json'' (may_repair iv call)
        (if iv_tools iv (mc_name call) \<noteq> None then [mc_name call] else [])) None"

definition unknown_tool_outcome :: "'w invocation_setup \<Rightarrow> ModelToolCall \<Rightarrow> ToolOutcome" where
  "unknown_tool_outcome iv call = (let suggestions = iv_candidates iv (mc_name call) in
     failure (''unsupported tool: '' @ mc_name call) ''unsupported_tool'' False
     (repair_detail call ''$.name'' ''registered tool name'' ''string'' (may_repair iv call \<and> suggestions \<noteq> []) suggestions) None)"

section \<open>The invocation\<close>

definition interrupt_value :: "InterruptBehavior \<Rightarrow> string" where
  "interrupt_value b = (case b of IB_CANCEL \<Rightarrow> ''cancel'' | IB_COMPLETE \<Rightarrow> ''complete'' | IB_SHIELD \<Rightarrow> ''shield'')"

definition policy_dict :: "(rat \<Rightarrow> string) \<Rightarrow> ResolvedToolPolicy \<Rightarrow> json" where
  "policy_dict seconds p = JObj [(''read_only'', JBool (rp_read_only p)), (''concurrency_safe'', JBool (rp_concurrency_safe p)),
     (''destructive'', JBool (rp_destructive p)), (''external_side_effects'', JBool (rp_external p)),
     (''open_world'', JBool (rp_open_world p)), (''context_mutation'', JBool (rp_context_mutation p)),
     (''interrupt_behavior'', JStr (interrupt_value (rp_interrupt p))),
     (''required_capabilities'', JList (map JStr (sort (remdups (rp_capabilities p))))),
     (''timeout_seconds'', (case rp_timeout p of None \<Rightarrow> JNull | Some t \<Rightarrow> JFloat (seconds t))),
     (''fail_fast'', JBool (rp_fail_fast p))]"

definition visibility_value :: "PlanToolVisibility \<Rightarrow> string" where
  "visibility_value v = (case v of PV_HIDDEN \<Rightarrow> ''hidden'' | PV_LOCAL_READ \<Rightarrow> ''local_read'' | PV_CONTROL \<Rightarrow> ''control'')"

definition contract_metadata :: "ToolContract \<Rightarrow> json" where
  "contract_metadata c = JObj [(''name'', JStr (tk_name c)), (''version'', JStr (tk_version c)), (''description'', JStr (tk_description c)),
     (''input_schema'', tk_input_schema c), (''output_schema'', (case tk_output_schema c of None \<Rightarrow> JNull | Some s \<Rightarrow> s)),
     (''search_hint'', jopt (tk_search_hint c)), (''deferred'', JBool (tk_deferred c)),
     (''inline_result_bytes'', JInt (tk_inline_bytes c)), (''max_capture_bytes'', JInt (tk_capture_bytes c)),
     (''plan_visibility'', JStr (visibility_value (tk_visibility c))), (''aliases'', JList (map JStr (tk_aliases c))),
     (''intent_tags'', JList (map JStr (tk_intent_tags c))), (''tool_group'', jopt (tk_group c)),
     (''model_visible'', JBool (tk_model_visible c)),
     (''model_input_schema'', (case tk_model_schema c of None \<Rightarrow> JNull | Some s \<Rightarrow> s))]"

text \<open>The reporter of a call: an event, and the phase in the journal.\<close>

definition report_phase :: "'w invocation_setup \<Rightarrow> string \<Rightarrow> string \<Rightarrow> ('w, unit) act" where
  "report_phase iv invocation phase = tbind (iv_emit iv EV_TOOL_PROGRESS) (\<lambda>_.
     in_db (iv_describe iv) (\<lambda>d. rbind (update_tool_invocation invocation
       (Some (if phase \<in> {''validating'', ''authorizing'', ''queued'', ''running''} then phase else ''running'')) None None d)
       (\<lambda>d'. Inr ((), d'))))"

text \<open>\<open>asyncio.timeout\<close> around the invocation turns the cancellation it causes into a timeout.\<close>

definition under_deadline :: "bool \<Rightarrow> ('w, 'a) act \<Rightarrow> ('w, 'a) act" where
  "under_deadline expires a s = (case a s of (Inl Cancelled, s') \<Rightarrow> (Inl (if expires then TimedOut else Cancelled), s') | x \<Rightarrow> x)"

definition invoke_tool :: "'w invocation_setup \<Rightarrow> string \<Rightarrow> ModelToolCall \<Rightarrow> dict \<Rightarrow> ('w, ToolExecution) call_act" where
  "invoke_tool iv invocation call args =
     tbind (in_env (under_deadline (iv_deadline iv) (run_tool (iv_errors iv) (report_phase iv invocation) (iv_course iv) (iv_chain iv invocation)
         (iv_candidates iv) (iv_tools iv) (mc_name call) args None))) (\<lambda>result.
     tbind (note_locals (\<lambda>s. s\<lparr>cs_arguments := ir_args result, cs_policy := ir_policy result\<rparr>)) (\<lambda>_.
     tbind (journal_write iv (update_tool_invocation invocation None (Some (policy_dict (iv_seconds iv) (ir_policy result))) (Some (JObj []))))
       (\<lambda>_. ret (ir_execution result))))"

definition admit :: "'w invocation_setup \<Rightarrow> string \<Rightarrow> dict \<Rightarrow> (bool \<times> rat) option \<Rightarrow> ('w, unit) call_act" where
  "admit iv name args poll =
     tbind (governed_call iv (\<lambda>d. before_tool d (iv_sha iv) (iv_redact iv) name args poll (iv_readings iv 0) (iv_readings iv 1))) (\<lambda>x.
       note_locals (\<lambda>s. s\<lparr>cs_attempt := map_option fst x\<rparr>))"

definition pause_call :: "'w invocation_setup \<Rightarrow> string \<Rightarrow> ModelToolCall \<Rightarrow> json list \<Rightarrow> ToolPause \<Rightarrow> ('w, prepared_call) call_act" where
  "pause_call iv invocation call messages z s =
     (let args = JObj (cs_arguments s); resume = JObj (tz_resume z) in
      tbind (journal_write iv (pause_tool_invocation invocation (tz_kind z) (tz_request z)
          (JObj [(''arguments'', args), (''resume_data'', resume)]))) (\<lambda>_.
      tbind (if tz_kind z = ''user_input''
          then journal_write iv (create_input_request (tz_request z) (iv_session iv) (iv_run iv) invocation
            (dget_or (tz_payload z) ''questions'' (JList [])) resume (iv_now iv))
          else ret ()) (\<lambda>_.
      tbind (journal_write iv (pause_step (iv_step iv) (tz_kind z) (JObj [(''messages'', JList messages),
          (''tool_call_id'', JStr (mc_id call)), (''name'', JStr (mc_name call)), (''arguments'', args),
          (''request_id'', JStr (tz_request z)), (''resume_data'', resume)]))) (\<lambda>_.
      ret (PausedAt \<lparr>pz_pause = z, pz_invocation = invocation, pz_step = iv_step iv, pz_call = mc_id call\<rparr>)))) s)"

text \<open>What the call does, before its result is worked on: a failure without an invocation, or the
  invocation.\<close>

definition perform :: "'w invocation_setup \<Rightarrow> string \<Rightarrow> ModelToolCall \<Rightarrow> ('w, ToolExecution) call_act" where
  "perform iv invocation call = (case call_arguments iv call of
      Inl text \<Rightarrow> tbind (admit iv (mc_name call) [(''invalid_arguments'', JStr (mc_arguments call))] None)
        (\<lambda>_. ret (Outcome (unparsed_outcome iv call text)))
    | Inr args \<Rightarrow>
        if iv_tools iv (mc_name call) = None then ret (Outcome (unknown_tool_outcome iv call))
        else tbind (admit iv (mc_name call) args (iv_poll iv)) (\<lambda>_. invoke_tool iv invocation call args))"

section \<open>Working on the result\<close>

definition dict_of :: "json \<Rightarrow> dict" where
  "dict_of v = (case v of JObj kvs \<Rightarrow> kvs | _ \<Rightarrow> [])"

text \<open>\<open>detail.update(...)\<close>.\<close>

definition updated :: "dict \<Rightarrow> dict \<Rightarrow> dict" where
  "updated detail new = foldl (\<lambda>d kv. set_field (fst kv) (snd kv) d) detail new"

definition invite_repair :: "'w invocation_setup \<Rightarrow> ModelToolCall \<Rightarrow> ToolOutcome \<Rightarrow> ToolOutcome" where
  "invite_repair iv call out =
     (if to_code out \<in> {Some ''invalid_tool_arguments'', Some ''invalid_path''}
      then out\<lparr>to_data := JObj (updated (dict_of (to_data out)) [(''retryable'', JBool (may_repair iv call)),
             (''suggested_tools'', JList [JStr (mc_name call)]), (''repair_attempt'', JInt (mc_repair call))]),
           to_state := Some ES_NOT_STARTED\<rparr>
      else out)"

definition exhaust_repair :: "'w invocation_setup \<Rightarrow> ModelToolCall \<Rightarrow> ToolOutcome \<Rightarrow> ToolOutcome" where
  "exhaust_repair iv call out =
     (if \<not> may_repair iv call
        \<and> to_code out \<in> {Some ''invalid_tool_arguments'', Some ''invalid_path'', Some ''unsupported_tool''}
      then out\<lparr>to_data := JObj (updated (dict_of (to_data out)) [(''original_error_code'', jopt (to_code out)),
             (''retryable'', JBool False), (''repair_attempt'', JInt (mc_repair call))]),
           to_code := Some ''argument_repair_exhausted''\<rparr>
      else out)"

definition utf8_encode :: "string \<Rightarrow> string" where
  "utf8_encode s = concat (map (\<lambda>c. let n = of_char c :: nat in
     if n < 128 then [c] else [char_of (192 + n div 64), char_of (128 + n mod 64)]) s)"

definition external_payload :: "string \<Rightarrow> ToolOutcome \<Rightarrow> string" where
  "external_payload source out = dumps_sorted '', '' '': '' json_string (JObj [(''source'', JStr source), (''data'', to_data out),
     (''content'', JList (map content_dict (to_content out)))])"

text \<open>A blocked result: quarantine is unavailable or has failed.\<close>

definition blocked_outcome :: "'w invocation_setup \<Rightarrow> string \<Rightarrow> string \<Rightarrow> string \<Rightarrow> string list \<Rightarrow> string \<Rightarrow> ToolOutcome" where
  "blocked_outcome iv error code source signals payload = (failure error code True
     (JObj [(''quarantined'', JBool True), (''source'', JStr source), (''bytes'', JInt (int (length (utf8_encode payload)))),
        (''sha256'', JStr (iv_sha iv (utf8_encode payload))), (''risk_signals'', JList (map JStr signals)),
        (''content_available'', JBool False)]) None)
     \<lparr>to_trust := ''untrusted_external'', to_source := Some source, to_suspicious := True, to_signals := signals,
      to_delivery := DS_DELIVERY_FAILED\<rparr>"

definition quarantine :: "'w invocation_setup \<Rightarrow> string \<Rightarrow> string list \<Rightarrow> string \<Rightarrow> ToolOutcome \<Rightarrow> ('w, ToolOutcome \<times> string option) call_act" where
  "quarantine iv source signals payload out = (case iv_artifacts iv of
      None \<Rightarrow> ret (blocked_outcome iv ''suspicious tool content was blocked because quarantine storage is unavailable''
        ''quarantine_unavailable'' source signals payload, None)
    | Some put \<Rightarrow> (\<lambda>s. case in_env (put False (utf8_encode payload)) s of
          (Inl Cancelled, s') \<Rightarrow> (Inl Cancelled, s')
        | (Inl e, s') \<Rightarrow> (Inr (blocked_outcome iv ''suspicious tool content could not be quarantined'' ''quarantine_failed''
            source signals payload, None), s')
        | (Inr af, s') \<Rightarrow> (let descriptor = JObj [(''quarantined'', JBool True), (''source'', JStr source),
              (''bytes'', JInt (int (length (utf8_encode payload)))), (''sha256'', JStr (af_sha af)),
              (''risk_signals'', JList (map JStr signals)), (''artifact_id'', JStr (af_id af)), (''read_with'', JStr ''read_tool_artifact'')] in
            (Inr (out\<lparr>to_data := descriptor, to_content := [artifact_content descriptor], to_delivery := DS_ARTIFACT\<rparr>, Some (af_id af)), s'))))"

text \<open>External text: the outcome, what is audited of it, and the artifact it went to.\<close>

definition screen_external ::
  "'w invocation_setup \<Rightarrow> ModelToolCall \<Rightarrow> ToolOutcome \<Rightarrow> ('w, ToolOutcome \<times> ToolOutcome \<times> string option) call_act" where
  "screen_external iv call out s =
     (if rp_open_world (cs_policy s) \<and> to_executed out
      then (let source = or_text (to_source out) (mc_name call); payload = external_payload source out;
              (bad, signals) = iv_assess iv payload;
              marked = out\<lparr>to_trust := (if to_trust out \<noteq> ''tool_data'' then to_trust out else ''untrusted_external''),
                to_source := Some source, to_suspicious := bad, to_signals := signals\<rparr> in
            if bad then tbind (quarantine iv source signals payload marked) (\<lambda>(out', artifact). ret (out', marked, artifact)) s
            else (Inr (marked, marked, None), s))
      else (Inr (out, out, None), s))"

text \<open>A result above the inline limit of its contract.\<close>

definition deliver :: "'w invocation_setup \<Rightarrow> ModelToolCall \<Rightarrow> ToolOutcome \<Rightarrow> string option
    \<Rightarrow> ('w, ToolOutcome \<times> string option) call_act" where
  "deliver iv call out artifact =
     (let encoded = utf8_encode (for_model out) in
      case iv_tools iv (mc_name call) of
        None \<Rightarrow> ret (out, artifact)
      | Some tool \<Rightarrow>
          if int (length encoded) \<le> tk_inline_bytes (tl_contract tool) then ret (out, artifact)
          else let captured = take (nat (tk_capture_bytes (tl_contract tool))) encoded;
                 original = (''original_bytes'', JInt (int (length encoded)));
                 preview = (''preview'', JStr (iv_decode iv (take 4096 captured)));
                 lost = (\<lambda>warning. out\<lparr>to_data := JObj [preview, original, (''truncated'', JBool True), (''warning'', JStr warning)],
                   to_delivery := DS_DELIVERY_FAILED\<rparr>) in
            (case iv_artifacts iv of
               None \<Rightarrow> ret (lost ''tool artifact storage is unavailable'', artifact)
             | Some put \<Rightarrow> (\<lambda>s. case in_env (put True captured) s of
                   (Inl Cancelled, s') \<Rightarrow> (Inl Cancelled, s')
                 | (Inl e, s') \<Rightarrow> (Inr (lost (''artifact delivery failed: '' @ error_name e), artifact), s')
                 | (Inr af, s') \<Rightarrow> (let cut = length captured < length encoded; descriptor = JObj [(''artifact_id'', JStr (af_id af)),
                       (''sha256'', JStr (af_sha af)), (''captured_bytes'', JInt (af_size af)), original, (''preview'', JStr (af_preview af)),
                       (''truncated'', JBool cut), (''read_with'', JStr ''read_tool_artifact'')] in
                     (Inr (out\<lparr>to_data := descriptor, to_content := [artifact_content descriptor],
                        to_delivery := (if cut then DS_TRUNCATED else DS_ARTIFACT)\<rparr>, Some (af_id af)), s')))))"

text \<open>The audit text; the journal keeps its first thousand characters.\<close>

definition audit_text :: "ToolOutcome \<Rightarrow> string" where
  "audit_text out = (let t = for_audit out in if 100000 < int (length t) then take 100000 t @ ''...[audit truncated]'' else t)"

definition end_status :: "ToolOutcome \<Rightarrow> string" where
  "end_status out = (case to_status out of OS_SUCCEEDED \<Rightarrow> ''completed'' | OS_CANCELLED \<Rightarrow> ''cancelled'' | _ \<Rightarrow> ''failed'')"

definition external_usage :: "'w invocation_setup \<Rightarrow> ToolOutcome \<Rightarrow> ('w, unit) call_act" where
  "external_usage iv out = (case to_usage out of
      Some (kv # kvs) \<Rightarrow> (case iv_usage iv (kv # kvs) of (i, j, cost, rounds, calls) \<Rightarrow>
        governor_update iv (record_external_usage i j cost rounds calls (iv_readings iv 2)))
    | _ \<Rightarrow> ret ())"

definition finish_attempted :: "'w invocation_setup \<Rightarrow> bool \<Rightarrow> ('w, unit) call_act" where
  "finish_attempted iv ok s = (case cs_attempt s of
      None \<Rightarrow> (Inr (), s) | Some i \<Rightarrow> governor_update iv (finish_tool i ok (iv_duration iv) (iv_readings iv 3)) s)"

definition finish_row :: "'w invocation_setup \<Rightarrow> string \<Rightarrow> string \<Rightarrow> string \<Rightarrow> string \<Rightarrow> string \<Rightarrow> string option \<Rightarrow> string option
    \<Rightarrow> ('w, unit) call_act" where
  "finish_row iv invocation status execution delivery preview artifact code =
     journal_write iv (finish_tool_invocation invocation status execution delivery preview (iv_duration iv) artifact code (iv_now iv))"

text \<open>From the outcome of the tool to the journal.\<close>

definition conclude :: "'w invocation_setup \<Rightarrow> string \<Rightarrow> ModelToolCall \<Rightarrow> ToolOutcome \<Rightarrow> ('w, prepared_call) call_act" where
  "conclude iv invocation call out0 =
     (let out1 = exhaust_repair iv call (invite_repair iv call out0) in
      tbind (external_usage iv out1) (\<lambda>_.
      tbind (screen_external iv call out1) (\<lambda>(out2, audited, artifact2).
      tbind (deliver iv call out2 artifact2) (\<lambda>(out3, artifact3).
      let text = for_model out3 in
      tbind (if to_delivery out3 \<noteq> DS_INLINE
          then journal_write iv (store_result_replacement (mc_id call) (iv_session iv) invocation (outcome_json out3)) else ret ()) (\<lambda>_.
      tbind (\<lambda>s. journal_write iv (record_tool_call (iv_run iv) (mc_name call)
          (JObj (case to_audit_arguments audited of None \<Rightarrow> cs_arguments s | Some a \<Rightarrow> a)) (outcome_ok out3) (audit_text audited)
          (iv_duration iv) invocation) s) (\<lambda>_.
      tbind (finish_attempted iv (outcome_ok out3)) (\<lambda>_.
      tbind (finish_row iv invocation (end_status out3) (outcome_status_value (to_status out3)) (delivery_value (to_delivery out3)) text
          artifact3 (to_code out3)) (\<lambda>_.
      (\<lambda>s. (Inr (Prepared \<lparr>oc_call = call, oc_step = iv_step iv, oc_arguments = cs_arguments s, oc_text = text,
          oc_ok = outcome_ok out3, oc_attempt = cs_attempt s, oc_outcome = out3, oc_policy = cs_policy s, oc_artifact = artifact3,
          oc_invocation = Some invocation, oc_run = iv_run iv, oc_step_finalized = False,
          oc_interrupt_after = ev_interrupt (cs_env s)\<rparr>), s))))))))))"

section \<open>The whole call\<close>

definition cancelled_outcome :: ToolOutcome where
  "cancelled_outcome = (tool_outcome OS_CANCELLED False)\<lparr>to_error := Some ''tool execution cancelled'', to_code := Some ''cancelled''\<rparr>"

definition on_cancelled :: "'w invocation_setup \<Rightarrow> string \<Rightarrow> ModelToolCall \<Rightarrow> bool \<Rightarrow> ('w, prepared_call) call_act" where
  "on_cancelled iv invocation call cancellation_result =
     tbind (finish_row iv invocation ''cancelled'' ''cancelled'' ''inline'' (for_model cancelled_outcome) None (Some ''cancelled'')) (\<lambda>_.
     tbind (journal iv (finish_step (iv_step iv) ST_CANCELLED None (Some ''tool execution cancelled'') (iv_now iv))) (\<lambda>_.
     if cancellation_result
     then (\<lambda>s. (Inr (Prepared \<lparr>oc_call = call, oc_step = iv_step iv, oc_arguments = cs_arguments s, oc_text = for_model cancelled_outcome,
         oc_ok = False, oc_attempt = cs_attempt s, oc_outcome = cancelled_outcome, oc_policy = cs_policy s, oc_artifact = None,
         oc_invocation = Some invocation, oc_run = iv_run iv, oc_step_finalized = True, oc_interrupt_after = False\<rparr>), s))
     else raise Cancelled))"

definition on_failed :: "'w invocation_setup \<Rightarrow> string \<Rightarrow> tool_error \<Rightarrow> ('w, prepared_call) call_act" where
  "on_failed iv invocation e =
     tbind (finish_row iv invocation ''failed'' ''failed'' ''delivery_failed'' (error_text e) None (Some (error_name e))) (\<lambda>_.
     tbind (journal iv (finish_step (iv_step iv) ST_FAILED None (Some (error_text e)) (iv_now iv))) (\<lambda>_. raise e))"

definition call_body :: "'w invocation_setup \<Rightarrow> string \<Rightarrow> ModelToolCall \<Rightarrow> json list \<Rightarrow> bool \<Rightarrow> ('w, prepared_call) call_act" where
  "call_body iv invocation call messages cancellation_result =
     try_catch (tbind (perform iv invocation call) (\<lambda>execution. case execution of
         Pause z \<Rightarrow> pause_call iv invocation call messages z | Outcome out \<Rightarrow> conclude iv invocation call out))
       (\<lambda>e. if e = Cancelled then on_cancelled iv invocation call cancellation_result else on_failed iv invocation e)"

definition call_spec :: "'w invocation_setup \<Rightarrow> ModelToolCall \<Rightarrow> json" where
  "call_spec iv call = (case iv_tools iv (mc_name call) of
      Some tool \<Rightarrow> contract_metadata (tl_contract tool) | None \<Rightarrow> JObj [(''name'', JStr (mc_name call))])"

definition start_row :: "'w invocation_setup \<Rightarrow> ModelToolCall \<Rightarrow> dict \<Rightarrow> ('w, string) call_act" where
  "start_row iv call args = journal iv (start_tool_invocation (iv_run iv) (iv_session iv) (mc_id call) (mc_name call)
     (call_spec iv call) (JObj []) (JObj args) ''validating'' (iv_uuid iv) (iv_now iv))"

text \<open>The step, the two events and the row of a call.\<close>

definition parsed_arguments :: "'w invocation_setup \<Rightarrow> ModelToolCall \<Rightarrow> dict" where
  "parsed_arguments iv call = (case call_arguments iv call of Inl _ \<Rightarrow> [] | Inr args \<Rightarrow> args)"

definition open_call :: "'w invocation_setup \<Rightarrow> ModelToolCall \<Rightarrow> ('w, string) call_act" where
  "open_call iv call =
     tbind (journal iv (create_step (iv_run iv) SK_TOOL (iv_step iv) (iv_now iv))) (\<lambda>_.
     tbind (emit iv EV_TOOL_QUEUED) (\<lambda>_. tbind (emit iv EV_TOOL_RUNNING) (\<lambda>_.
     start_row iv call (parsed_arguments iv call))))"

definition prepare_call :: "'w invocation_setup \<Rightarrow> ModelToolCall \<Rightarrow> json list \<Rightarrow> bool \<Rightarrow> ('w, prepared_call) call_act" where
  "prepare_call iv call messages cancellation_result =
     tbind (open_call iv call) (\<lambda>invocation.
     tbind (note_locals (\<lambda>s. s\<lparr>cs_arguments := parsed_arguments iv call, cs_attempt := None, cs_policy := default_policy\<rparr>)) (\<lambda>_.
     call_body iv invocation call messages cancellation_result))"

end
