(* ===== verification/Tool_Turn.thy ===== *)
theory Tool_Turn
  imports Tool_Invocation
begin

text \<open>
  The calls of one turn: how a model answer is assembled from its stream, how its calls are split into
  batches, run, delivered and committed, and what follows a pause or a repairable failure
  (\<^verbatim>\<open>capslock/runtime/tool_loop.py\<close> and \<^verbatim>\<open>capslock/runtime/tool_delivery.py\<close>).
\<close>

section \<open>The streamed answer\<close>

record ModelUsage =
  mu_in :: int
  mu_out :: int

record ModelMessage =
  mm_content :: "string option"
  mm_calls :: "ModelToolCall list"
  mm_reasoning :: "string option"

record ModelDelta =
  dl_content :: string
  dl_reasoning :: string
  dl_index :: "int option"
  dl_id :: "string option"
  dl_name :: "string option"
  dl_arguments :: string
  dl_usage :: "ModelUsage option"

record partial_call =
  pl_id :: string
  pl_name :: string
  pl_arguments :: string

record partial_message =
  pm_content :: string
  pm_reasoning :: string
  pm_calls :: "(int \<times> partial_call) list"
  pm_usage :: ModelUsage

definition no_message :: partial_message where
  "no_message = \<lparr>pm_content = [], pm_reasoning = [], pm_calls = [], pm_usage = \<lparr>mu_in = 0, mu_out = 0\<rparr>\<rparr>"

text \<open>\<open>calls.setdefault\<close> and the updates of the entry.\<close>

fun add_to_call :: "int \<Rightarrow> ModelDelta \<Rightarrow> (int \<times> partial_call) list \<Rightarrow> (int \<times> partial_call) list" where
  "add_to_call i d [] = [(i, \<lparr>pl_id = or_text (dl_id d) [], pl_name = or_text (dl_name d) [], pl_arguments = dl_arguments d\<rparr>)]"
| "add_to_call i d ((j, c) # cs) =
     (if i = j then (j, c\<lparr>pl_id := or_text (dl_id d) (pl_id c), pl_name := pl_name c @ or_text (dl_name d) [],
          pl_arguments := pl_arguments c @ dl_arguments d\<rparr>) # cs
      else (j, c) # add_to_call i d cs)"

definition add_delta :: "ModelDelta \<Rightarrow> partial_message \<Rightarrow> partial_message" where
  "add_delta d m = m\<lparr>pm_content := pm_content m @ dl_content d, pm_reasoning := pm_reasoning m @ dl_reasoning d,
     pm_calls := (case dl_index d of None \<Rightarrow> pm_calls m | Some i \<Rightarrow> add_to_call i d (pm_calls m)),
     pm_usage := (case dl_usage d of None \<Rightarrow> pm_usage m | Some u \<Rightarrow> u)\<rparr>"

definition streamed_call :: "int \<times> partial_call \<Rightarrow> ModelToolCall" where
  "streamed_call ic = \<lparr>mc_id = or_text (Some (pl_id (snd ic))) (''call_'' @ py_int_str (fst ic)), mc_name = pl_name (snd ic),
     mc_arguments = pl_arguments (snd ic), mc_repair = 0\<rparr>"

definition not_empty :: "string \<Rightarrow> string option" where
  "not_empty s = (if s = [] then None else Some s)"

definition assemble :: "ModelDelta list \<Rightarrow> ModelMessage \<times> ModelUsage" where
  "assemble ds = (let m = fold add_delta ds no_message in
     (\<lparr>mm_content = not_empty (pm_content m), mm_calls = map streamed_call (sort_key fst (pm_calls m)),
       mm_reasoning = not_empty (pm_reasoning m)\<rparr>, pm_usage m))"

section \<open>Batches\<close>

text \<open>The loop of \<open>flush\<close>; it may not end, so it is a partial function.\<close>

partial_function (option) flush_loop :: "nat \<Rightarrow> 'c list \<Rightarrow> 'c list list \<Rightarrow> 'c list list option" where
  "flush_loop n pending batches =
     (if pending = [] then Some batches else flush_loop n (drop n pending) (batches @ [take n pending]))"

text \<open>\<open>ToolLoop.__init__\<close>.\<close>

definition read_concurrency :: "int \<Rightarrow> nat" where
  "read_concurrency configured = nat (max 1 configured)"

text \<open>Whether the policy of a call makes it safe to run beside others.  \<open>value_error n\<close> says that the class
  \<open>n\<close> is a \<open>ValueError\<close>; any other exception ends the turn.\<close>

definition call_is_safe ::
  "'w invocation_setup \<Rightarrow> (string \<Rightarrow> bool) \<Rightarrow> ModelToolCall \<Rightarrow> ('w, bool) act" where
  "call_is_safe iv value_error call s = (case call_arguments iv call of
      Inl _ \<Rightarrow> (Inr False, s)
    | Inr args \<Rightarrow> (case resolve_tool (iv_errors iv) (iv_tools iv) (mc_name call) args s of
          (Inr policy, s') \<Rightarrow> (Inr (rp_concurrency_safe policy), s')
        | (Inl (SchemaError a b c d), s') \<Rightarrow> (Inr False, s')
        | (Inl (InvalidPath t), s') \<Rightarrow> (Inr False, s')
        | (Inl (PolicyViolation t), s') \<Rightarrow> (Inr False, s')
        | (Inl (Other n t c), s') \<Rightarrow> (if value_error n then (Inr False, s') else (Inl (Other n t c), s'))
        | (Inl e, s') \<Rightarrow> (Inl e, s')))"

text \<open>The batches; \<open>None\<close> when \<open>flush\<close> does not return.\<close>

fun split_calls ::
  "('c \<Rightarrow> 's \<Rightarrow> bool tres \<times> 's) \<Rightarrow> nat \<Rightarrow> 'c list \<Rightarrow> 'c list \<Rightarrow> 'c list list \<Rightarrow> 's \<Rightarrow> ('c list list option) tres \<times> 's" where
  "split_calls safe n [] pending batches s = (Inr (flush_loop n pending batches), s)"
| "split_calls safe n (call # calls) pending batches s = (case safe call s of
      (Inl e, s') \<Rightarrow> (Inl e, s')
    | (Inr True, s') \<Rightarrow> split_calls safe n calls (pending @ [call]) batches s'
    | (Inr False, s') \<Rightarrow> (case flush_loop n pending batches of
          None \<Rightarrow> (Inr None, s') | Some bs \<Rightarrow> split_calls safe n calls [] (bs @ [[call]]) s'))"

definition execution_batches ::
  "'w invocation_setup \<Rightarrow> (string \<Rightarrow> bool) \<Rightarrow> int \<Rightarrow> ModelToolCall list \<Rightarrow> ('w, ModelToolCall list list option) act" where
  "execution_batches iv value_error configured calls =
     split_calls (call_is_safe iv value_error) (read_concurrency configured) calls [] []"

section \<open>Delivery\<close>

definition aggregate_limit :: "int \<Rightarrow> int" where
  "aggregate_limit configured = max 1024 configured"

definition replaced_outcome :: "ToolOutcome \<Rightarrow> json \<Rightarrow> bool \<Rightarrow> DeliveryStatus \<Rightarrow> ToolOutcome" where
  "replaced_outcome out descriptor stored status = out\<lparr>to_data := descriptor,
     to_content := (if stored then [artifact_content descriptor] else []), to_delivery := status\<rparr>"

text \<open>The descriptor that takes the place of a result, with the artifact that holds it.\<close>

definition aggregate_descriptor :: "'w invocation_setup \<Rightarrow> ToolCallOutcome \<Rightarrow> ('w, json \<times> string option) call_act" where
  "aggregate_descriptor iv item =
     (let encoded = utf8_encode (oc_text item); preview = (''preview'', JStr (iv_decode iv (take 4096 encoded)));
          original = (''original_bytes'', JInt (int (length encoded))) in
      case iv_artifacts iv of
        None \<Rightarrow> ret (JObj [preview, original, (''warning'', JStr ''aggregate tool result budget exceeded'')], None)
      | Some put \<Rightarrow>
          if oc_invocation item = None
          then ret (JObj [preview, original, (''warning'', JStr ''aggregate tool result budget exceeded'')], None)
          else (\<lambda>s. case in_env (put True encoded) s of
              (Inl Cancelled, s') \<Rightarrow> (Inl Cancelled, s')
            | (Inl e, s') \<Rightarrow> (Inr (JObj [preview, original,
                (''warning'', JStr (''aggregate artifact delivery failed: '' @ error_name e))], None), s')
            | (Inr af, s') \<Rightarrow> (Inr (JObj [(''artifact_id'', JStr (af_id af)), (''sha256'', JStr (af_sha af)), original,
                (''preview'', JStr (af_preview af)), (''read_with'', JStr ''read_tool_artifact''),
                (''reason'', JStr ''aggregate_tool_result_budget'')], Some (af_id af)), s')))"

text \<open>\<open>enforce\<close>: the item and the bytes used so far.\<close>

definition enforce_aggregate ::
  "'w invocation_setup \<Rightarrow> int \<Rightarrow> int \<Rightarrow> ToolCallOutcome \<Rightarrow> ('w, ToolCallOutcome \<times> int) call_act" where
  "enforce_aggregate iv limit used item =
     (let size = int (length (utf8_encode (oc_text item))) in
      if used + size \<le> limit then ret (item, used + size)
      else tbind (aggregate_descriptor iv item) (\<lambda>(descriptor, artifact).
        let status = (if artifact = None then DS_DELIVERY_FAILED else DS_ARTIFACT);
            out = replaced_outcome (oc_outcome item) descriptor (artifact \<noteq> None) status; text = for_model out;
            item' = item\<lparr>oc_outcome := out, oc_text := text, oc_artifact := artifact\<rparr> in
        tbind (case oc_invocation item of
            None \<Rightarrow> ret ()
          | Some i \<Rightarrow> tbind (journal_write iv (store_result_replacement (mc_id (oc_call item)) (iv_session iv) i (outcome_json out))) (\<lambda>_.
              journal_write iv (replace_tool_delivery i (delivery_value status) text artifact))) (\<lambda>_.
        ret (item', used + int (length (utf8_encode text))))))"

section \<open>Commits\<close>

definition tool_result_message :: "ToolCallOutcome \<Rightarrow> json" where
  "tool_result_message item = JObj [(''role'', JStr ''tool''), (''tool_call_id'', JStr (mc_id (oc_call item))),
     (''content'', (if to_content (oc_outcome item) = [] then JStr (oc_text item)
        else JList (JObj [(''type'', JStr ''text''), (''value'', JStr (oc_text item))] # map content_dict (to_content (oc_outcome item)))))]"

text \<open>The messages and the aggregate budget of a turn.\<close>

record turn_state =
  tu_messages :: "json list"
  tu_used :: int

definition commit_call ::
  "'w invocation_setup \<Rightarrow> int \<Rightarrow> ToolCallOutcome \<Rightarrow> turn_state \<Rightarrow> ('w, ToolCallOutcome \<times> turn_state) call_act" where
  "commit_call iv limit item tu =
     tbind (enforce_aggregate iv limit (tu_used tu) item) (\<lambda>(item', used).
       let messages = tu_messages tu @ [tool_result_message item'] in
       tbind (if oc_step_finalized item' then ret ()
          else tbind (journal iv (finish_step (oc_step item')
              (if oc_ok item' then ST_COMPLETED else if to_status (oc_outcome item') = OS_CANCELLED then ST_CANCELLED else ST_FAILED)
              (if oc_ok item' then Some (JObj [(''messages'', JList messages)]) else None)
              (if oc_ok item' then None else Some ''tool call failed'') (iv_now iv))) (\<lambda>_. ret ())) (\<lambda>_.
       tbind (emit iv (if to_status (oc_outcome item') = OS_CANCELLED then EV_TOOL_CANCELLED else EV_TOOL_COMPLETED)) (\<lambda>_.
       tbind (\<lambda>s. case cs_governor s of
           None \<Rightarrow> (Inr (), s)
         | Some _ \<Rightarrow> tbind (governor_update iv (governor_current (iv_readings iv 4))) (\<lambda>_. emit iv EV_BUDGET_UPDATED) s) (\<lambda>_.
       ret (item', tu\<lparr>tu_messages := messages, tu_used := used\<rparr>)))))"

section \<open>Batches of calls\<close>

text \<open>How one task of a batch ends: an outcome, a pause, or another exception.  A task that ends with
  \<open>CancelledError\<close> is \<open>task.cancelled()\<close>.\<close>

datatype batch_stop = PausedBy paused_call | RaisedBy tool_error
datatype task_end = Finished ToolCallOutcome | Ended batch_stop

definition stops_batch :: "ToolCallOutcome \<Rightarrow> bool" where
  "stops_batch out \<longleftrightarrow> rp_fail_fast (oc_policy out) \<and> \<not> oc_ok out"

text \<open>\<open>any(...)\<close> over the tasks that one \<open>asyncio.wait\<close> reports; \<open>task.result()\<close> raises.\<close>

fun any_stops :: "task_end list \<Rightarrow> batch_stop + bool" where
  "any_stops [] = Inr False"
| "any_stops (Ended stop # es) = Inl stop"
| "any_stops (Finished out # es) = (if stops_batch out then Inr True else any_stops es)"

text \<open>\<open>rounds\<close> lists the tasks that the waits report, in their order; \<open>fate i\<close> is how task \<open>i\<close> ends by itself
  and \<open>cutoff i\<close> how it ends when it is cancelled.  The result is how every task ended, or what ends the batch.\<close>

fun wait_loop :: "(nat \<Rightarrow> task_end) \<Rightarrow> (nat \<Rightarrow> task_end) \<Rightarrow> nat list \<Rightarrow> nat list list \<Rightarrow> batch_stop + (nat \<Rightarrow> task_end)" where
  "wait_loop fate cutoff seen [] = Inr fate"
| "wait_loop fate cutoff seen (now # rounds) = (case any_stops (map fate now) of
      Inl stop \<Rightarrow> Inl stop
    | Inr True \<Rightarrow> Inr (\<lambda>i. if i \<in> set seen \<union> set now then fate i else cutoff i)
    | Inr False \<Rightarrow> wait_loop fate cutoff (seen @ now) rounds)"

text \<open>The commits, in the order of the calls.  An exception that a task kept ends them; the messages keep what
  was committed before.\<close>

fun commit_all ::
  "'w invocation_setup \<Rightarrow> int \<Rightarrow> task_end list \<Rightarrow> turn_state \<Rightarrow> ('w, (batch_stop + ToolCallOutcome list) \<times> turn_state) call_act" where
  "commit_all iv limit [] tu = ret (Inr [], tu)"
| "commit_all iv limit (Finished out # es) tu = tbind (commit_call iv limit out tu) (\<lambda>(out', tu1).
     tbind (commit_all iv limit es tu1) (\<lambda>(r, tu2). ret (case r of Inl stop \<Rightarrow> Inl stop | Inr outs \<Rightarrow> Inr (out' # outs), tu2)))"
| "commit_all iv limit (Ended stop # es) tu =
     (if stop = RaisedBy Cancelled then commit_all iv limit es tu else ret (Inl stop, tu))"

text \<open>\<open>BatchScheduler.run\<close> over tasks that end in this way.\<close>

definition run_batch ::
  "'w invocation_setup \<Rightarrow> int \<Rightarrow> nat \<Rightarrow> (nat \<Rightarrow> task_end) \<Rightarrow> (nat \<Rightarrow> task_end) \<Rightarrow> nat list list \<Rightarrow> turn_state
   \<Rightarrow> ('w, (batch_stop + ToolCallOutcome list) \<times> turn_state) call_act" where
  "run_batch iv limit n fate cutoff rounds tu = (case wait_loop fate cutoff [] rounds of
      Inl stop \<Rightarrow> ret (Inl stop, tu)
    | Inr how \<Rightarrow> commit_all iv limit (map how [0..<n]) tu)"

text \<open>A batch of one call: \<open>ToolCallExecutor.execute\<close>.  The cancellation that a shielded handler held back is
  raised after the commit.\<close>

definition execute_call ::
  "'w invocation_setup \<Rightarrow> int \<Rightarrow> ModelToolCall \<Rightarrow> turn_state \<Rightarrow> ('w, (batch_stop + ToolCallOutcome list) \<times> turn_state) call_act" where
  "execute_call iv limit call tu = tbind (prepare_call iv call (tu_messages tu) False) (\<lambda>prepared. case prepared of
      PausedAt paused \<Rightarrow> ret (Inl (PausedBy paused), tu)
    | Prepared out \<Rightarrow> tbind (commit_call iv limit out tu) (\<lambda>(out', tu').
        ret (if oc_interrupt_after out' then (Inl (RaisedBy Cancelled), tu') else (Inr [out'], tu'))))"

section \<open>After a pause\<close>

definition barrier_outcome :: ToolOutcome where
  "barrier_outcome = (tool_outcome OS_CANCELLED False)\<lparr>to_error := Some ''cancelled after an interactive tool barrier'',
     to_code := Some ''interaction_barrier''\<rparr>"

text \<open>What the journal draws for one cancelled call: the step's identifier, the invocation's and the time.\<close>

type_synonym drawn = "string \<times> string \<times> string"

definition cancel_after_barrier ::
  "'w invocation_setup \<Rightarrow> drawn \<Rightarrow> ModelToolCall \<Rightarrow> json list \<Rightarrow> ('w, json list) call_act" where
  "cancel_after_barrier iv drawn call messages = (case drawn of (step, uuid, now) \<Rightarrow>
     tbind (journal iv (create_step (iv_run iv) SK_TOOL step now)) (\<lambda>_.
     tbind (journal iv (start_tool_invocation (iv_run iv) (iv_session iv) (mc_id call) (mc_name call) (call_spec iv call) (JObj []) (JObj [])
         ''queued'' uuid now)) (\<lambda>invocation.
     tbind (journal_write iv (finish_tool_invocation invocation ''cancelled'' ''cancelled'' ''inline'' (for_model barrier_outcome) 0 None
         (Some ''interaction_barrier'') now)) (\<lambda>_.
     tbind (journal iv (finish_step step ST_CANCELLED None (Some ''cancelled after an interactive tool barrier'') now)) (\<lambda>_.
     tbind (emit iv EV_TOOL_CANCELLED) (\<lambda>_.
     ret (messages @ [JObj [(''role'', JStr ''tool''), (''tool_call_id'', JStr (mc_id call)),
        (''content'', JStr (for_model barrier_outcome))]])))))))"

fun cancel_calls :: "'w invocation_setup \<Rightarrow> drawn list \<Rightarrow> ModelToolCall list \<Rightarrow> json list \<Rightarrow> ('w, json list) call_act" where
  "cancel_calls iv (x # xs) (call # calls) messages =
     tbind (cancel_after_barrier iv x call messages) (\<lambda>messages'. cancel_calls iv xs calls messages')"
| "cancel_calls iv xs calls messages = ret messages"

text \<open>\<open>except ToolLoopPaused\<close>: the calls after the paused one are cancelled and the paused step keeps the
  messages.\<close>

definition after_paused :: "string \<Rightarrow> ModelToolCall list \<Rightarrow> ModelToolCall list" where
  "after_paused paused calls = tl (dropWhile (\<lambda>c. mc_id c \<noteq> paused) calls)"

definition settle_pause ::
  "'w invocation_setup \<Rightarrow> (nat \<Rightarrow> drawn) \<Rightarrow> ModelToolCall list \<Rightarrow> paused_call \<Rightarrow> json list \<Rightarrow> ('w, json list) call_act" where
  "settle_pause iv draw calls paused messages =
     (let rest = after_paused (pz_call paused) calls in
      tbind (cancel_calls iv (map draw [0..<length rest]) rest messages) (\<lambda>messages'.
      tbind (journal_write iv (update_step_checkpoint (pz_step paused) (JObj [(''messages'', JList messages')]))) (\<lambda>_.
      ret messages')))"

section \<open>Repair\<close>

record repair_directive =
  rp_candidates :: "string list"
  rp_failures :: "json list"

definition repair_prompt :: "repair_directive \<Rightarrow> json" where
  "repair_prompt r = JObj [(''role'', JStr ''system''), (''content'', JStr (''The previous tool invocation was rejected before execution. Correct it once using only the advertised repair tools. Do not change user intent, paths, commands, URLs, or business values by guessing. If a safe correction is impossible, answer without a tool. Failures: '' @ json_dumps (JList (rp_failures r))))]"

text \<open>\<open>ToolLoop.__init__\<close>.\<close>

definition argument_repairs :: "int \<Rightarrow> int" where
  "argument_repairs configured = max 0 (min 2 configured)"

definition repairable :: "ToolOutcome \<Rightarrow> bool" where
  "repairable out \<longleftrightarrow> to_code out \<in> {Some ''invalid_tool_arguments'', Some ''invalid_path'', Some ''unsupported_tool''}
     \<and> effective_state out = ES_NOT_STARTED \<and> jget (to_data out) ''retryable'' = Some (JBool True)"

text \<open>The suggested tools that exist.\<close>

definition valid_suggestions :: "(string \<Rightarrow> bool) \<Rightarrow> ToolOutcome \<Rightarrow> string list" where
  "valid_suggestions exists out = (case jget (to_data out) ''suggested_tools'' of
      Some (JList vs) \<Rightarrow> List.map_filter (\<lambda>v. case v of JStr n \<Rightarrow> if exists n then Some n else None | _ \<Rightarrow> None) vs
    | _ \<Rightarrow> [])"

definition to_repair :: "(string \<Rightarrow> bool) \<Rightarrow> ToolCallOutcome list \<Rightarrow> ToolCallOutcome list" where
  "to_repair exists items = filter (\<lambda>i. repairable (oc_outcome i) \<and> valid_suggestions exists (oc_outcome i) \<noteq> []) items"

definition repair_failure :: "ToolCallOutcome \<Rightarrow> json" where
  "repair_failure i = JObj [(''tool_call_id'', JStr (mc_id (oc_call i))), (''tool'', JStr (mc_name (oc_call i))),
     (''error_code'', jopt (to_code (oc_outcome i))), (''detail'', to_data (oc_outcome i))]"

fun add_new :: "string list \<Rightarrow> string list \<Rightarrow> string list" where
  "add_new seen [] = seen"
| "add_new seen (n # ns) = add_new (if n \<in> set seen then seen else seen @ [n]) ns"

definition build_directive :: "(string \<Rightarrow> bool) \<Rightarrow> ToolCallOutcome list \<Rightarrow> repair_directive option" where
  "build_directive exists items = (let chosen = to_repair exists items in
     if chosen = [] then None
     else Some \<lparr>rp_candidates = take 3 (add_new [] (concat (map (valid_suggestions exists \<circ> oc_outcome) chosen))),
       rp_failures = map repair_failure chosen\<rparr>)"

end
