(* ===== verification/Tool_Loop.thy ===== *)
theory Tool_Loop
  imports Tool_Turn Planning
begin

text \<open>
  The loop of a run: \<open>ToolLoop.run\<close> and \<open>ModelStepExecutor.invoke\<close> of
  \<^verbatim>\<open>capslock/runtime/tool_loop.py\<close>, one pass at a time.  What the model, the mailbox, the
  compaction, the user and the concurrent tasks of a batch do in a pass is the record \<open>pass_input\<close>.  The
  choice of the advertised tools, the evidence and the telemetry are left out.
\<close>

section \<open>The plan attachment\<close>

definition is_plan_note :: "json \<Rightarrow> bool" where
  "is_plan_note m \<longleftrightarrow> jget m ''role'' = Some (JStr ''system'') \<and> (case jget m ''content'' of
      Some (JStr c) \<Rightarrow> startswith c ''<capslock-plan-mode>'' \<or> startswith c ''<capslock-plan-context>'' | _ \<Rightarrow> False)"

definition system_note :: "string \<Rightarrow> json" where
  "system_note text = JObj [(''role'', JStr ''system''), (''content'', JStr text)]"

definition place_note :: "string \<Rightarrow> json list \<Rightarrow> json list" where
  "place_note text messages = (case messages of
      m # ms \<Rightarrow> if jget m ''role'' = Some (JStr ''system'') then m # system_note text # ms else system_note text # m # ms
    | [] \<Rightarrow> [system_note text])"

definition refresh_plan_attachment :: "bool \<Rightarrow> string \<Rightarrow> json list \<Rightarrow> db \<Rightarrow> ((json list \<times> bool) \<times> db) res" where
  "refresh_plan_attachment planning session_id messages d =
     (let kept = filter (\<lambda>m. \<not> is_plan_note m) messages in
      if \<not> planning then Inr ((kept, False), d)
      else rbind (attachment session_id d) (\<lambda>active.
        rbind (case active of Some text \<Rightarrow> Inr (Some text) | None \<Rightarrow> context_attachment session_id d) (\<lambda>note.
          Inr ((case note of None \<Rightarrow> (kept, False) | Some text \<Rightarrow> (place_note text kept, active \<noteq> None)), d))))"

section \<open>What a pass is given\<close>

text \<open>One stream: what arrived, and the error that ended it with the partial content and reasoning that the
  error carries.\<close>

record model_stream =
  ms_deltas :: "ModelDelta list"
  ms_error :: "(tool_error \<times> string option \<times> string option) option"

record 'w pass_input =
  pi_iv :: "'w invocation_setup"
  pi_limit :: int
  pi_rounds :: int
  pi_concurrency :: int
  pi_repairs :: int
  pi_arrive :: "json list \<Rightarrow> ('w, json list) act"
  pi_compact :: "(bool \<Rightarrow> json list \<Rightarrow> ('w, json list) act) option"
  pi_planning :: bool
  pi_authorize :: bool
  pi_stream :: "nat \<Rightarrow> json list \<Rightarrow> model_stream"
  pi_readings :: "nat \<Rightarrow> reading"
  pi_step :: "nat \<Rightarrow> string"
  pi_schema_error :: "string \<Rightarrow> bool"
  pi_barrier :: "(json list \<Rightarrow> ('w, bool \<times> json list) call_act) option"
  pi_finish :: "(json list \<Rightarrow> ('w, bool \<times> json list) act) option"
  pi_confirm :: "json list \<Rightarrow> ('w, json list) act"
  pi_value_error :: "string \<Rightarrow> bool"
  pi_call :: "nat \<Rightarrow> 'w invocation_setup"
  pi_tasks :: "nat \<Rightarrow> 'w call_state \<Rightarrow> 'w call_state"
  pi_fate :: "nat \<Rightarrow> nat \<Rightarrow> ModelToolCall \<Rightarrow> task_end"
  pi_cutoff :: "nat \<Rightarrow> nat \<Rightarrow> ModelToolCall \<Rightarrow> task_end"
  pi_waits :: "nat \<Rightarrow> nat list list"
  pi_draw :: "nat \<Rightarrow> drawn"

text \<open>The local variables of \<open>run\<close> between two passes, and the ways a pass ends.\<close>

record loop_state =
  lp_messages :: "json list"
  lp_in :: int
  lp_out :: int
  lp_turn :: int
  lp_repair :: "repair_directive option"
  lp_attempt :: int

datatype loop_exit =
    Again loop_state
  | Answer string loop_state "StopReason option"
  | PausedLoop paused_call loop_state
  | LoopError string loop_state

section \<open>The model step\<close>

definition partial_note :: "string \<Rightarrow> string \<Rightarrow> json list" where
  "partial_note content reasoning =
     (if content = [] \<and> reasoning = [] then []
      else [JObj ([(''role'', JStr ''assistant''), (''content'', JStr content)] @
        (if reasoning = [] then [] else [(''reasoning_content'', JStr reasoning)]))])"

definition overflow :: "tool_error \<Rightarrow> bool" where
  "overflow e \<longleftrightarrow> (case e of Other _ _ (Some code) \<Rightarrow> code = ''model_context_overflow'' | _ \<Rightarrow> False)"

definition suppressed :: tool_error where
  "suppressed = Other ''ModelRoutingError'' ''model stream failed after output started; retry suppressed'' (Some ''model_unavailable'')"

text \<open>\<open>str(exc)\<close>, and the stop of the governor when the deadline of the run has passed.\<close>

definition str_error :: "tool_error \<Rightarrow> string" where
  "str_error e = (case e of SchemaError t _ _ _ \<Rightarrow> t | InvalidPath t \<Rightarrow> t | PolicyViolation t \<Rightarrow> t | Other _ t _ \<Rightarrow> t | _ \<Rightarrow> [])"

definition stop_for_time :: "'w pass_input \<Rightarrow> tool_error \<Rightarrow> ('w, unit) call_act" where
  "stop_for_time p e s = (if e = TimedOut
     then tbind (governed_call (pi_iv p) (\<lambda>_ g st. governor_stop MAX_DURATION None (pi_readings p 0) g st :: unit governed)) (\<lambda>_. ret ()) s
     else (Inr (), s))"

definition invoke_model ::
  "'w pass_input \<Rightarrow> nat \<Rightarrow> json list \<Rightarrow> ('w, string \<times> ModelMessage \<times> ModelUsage) call_act" where
  "invoke_model p n messages =
     tbind (journal (pi_iv p) (create_step (iv_run (pi_iv p)) SK_MODEL (pi_step p n) (iv_now (pi_iv p)))) (\<lambda>_.
     let stream = pi_stream p n messages; got = fold add_delta (ms_deltas stream) no_message in
     case ms_error stream of
       None \<Rightarrow> (case assemble (ms_deltas stream) of (message, usage) \<Rightarrow> ret (pi_step p n, message, usage))
     | Some (e, partial_content, partial_reasoning) \<Rightarrow>
         (let content = (if pm_content got = [] then or_text partial_content [] else pm_content got);
              reasoning = (if pm_reasoning got = [] then or_text partial_reasoning [] else pm_reasoning got) in
          tbind (journal (pi_iv p) (finish_step (pi_step p n) ST_FAILED
              (Some (JObj [(''messages'', JList (messages @ partial_note content reasoning))])) (Some (str_error e)) (iv_now (pi_iv p)))) (\<lambda>_.
          tbind (stop_for_time p e) (\<lambda>_.
          if overflow e \<and> (content \<noteq> [] \<or> reasoning \<noteq> [] \<or> pm_calls got \<noteq> []) then raise suppressed else raise e))))"

text \<open>A context overflow is answered once, by a forced compaction.\<close>

definition with_repair :: "repair_directive option \<Rightarrow> json list \<Rightarrow> json list" where
  "with_repair repair messages = (case repair of None \<Rightarrow> messages | Some r \<Rightarrow> messages @ [repair_prompt r])"

definition ask_model ::
  "'w pass_input \<Rightarrow> repair_directive option \<Rightarrow> json list \<Rightarrow> ('w, json list \<times> string \<times> ModelMessage \<times> ModelUsage) call_act" where
  "ask_model p repair messages s = (case invoke_model p 0 (with_repair repair messages) s of
      (Inr answer, s1) \<Rightarrow> (Inr (messages, answer), s1)
    | (Inl e, s1) \<Rightarrow>
        if \<not> overflow e then (Inl e, s1)
        else (case pi_compact p of
            None \<Rightarrow> (Inl e, s1)
          | Some shorten \<Rightarrow> (case in_env (shorten True messages) s1 of
                (Inl Cancelled, s2) \<Rightarrow> (Inl Cancelled, s2)
              | (Inl e', s2) \<Rightarrow> (Inl e, s2)
              | (Inr shorter, s2) \<Rightarrow> tbind (invoke_model p 1 (with_repair repair shorter)) (\<lambda>answer. ret (shorter, answer)) s2)))"

section \<open>Limits\<close>

text \<open>\<open>governor.before_model()\<close>: the stop it raises, if it does.\<close>

definition ask_governor :: "'w pass_input \<Rightarrow> ('w, run_stopped option) call_act" where
  "ask_governor p s = (case cs_governor s of
      None \<Rightarrow> (Inr None, s)
    | Some (g, st) \<Rightarrow> (case before_model (pi_readings p 1) (pi_readings p 2) g st of
          Inl e \<Rightarrow> (Inl (of_py (iv_describe (pi_iv p)) e), s)
        | Inr (Inl stopped, g', st') \<Rightarrow> (Inr (Some stopped), s\<lparr>cs_governor := Some (g', st')\<rparr>)
        | Inr (Inr _, g', st') \<Rightarrow> (Inr None, s\<lparr>cs_governor := Some (g', st')\<rparr>)))"

definition stop_summary_note :: json where
  "stop_summary_note = system_note ''The user stopped at the tool-round soft limit. Summarize the work completed so far. Do not request or imply any new tool use.''"

text \<open>A failed stream keeps the content that has arrived; a cancellation is raised.\<close>

definition summarize_stop :: "'w pass_input \<Rightarrow> run_stopped \<Rightarrow> loop_state \<Rightarrow> ('w, loop_exit) call_act" where
  "summarize_stop p stopped lp =
     (let messages = lp_messages lp @ [stop_summary_note]; stream = pi_stream p 0 messages;
          got = fold add_delta (ms_deltas stream) no_message; usage = pm_usage got in
      case ms_error stream of
        Some (Cancelled, _) \<Rightarrow> raise Cancelled
      | _ \<Rightarrow> tbind (governor_update (pi_iv p) (record_model_usage (mu_in usage) (mu_out usage) (pi_readings p 3))) (\<lambda>_.
          ret (Answer (strip (pm_content got)) (lp\<lparr>lp_messages := messages, lp_in := lp_in lp + mu_in usage, lp_out := lp_out lp + mu_out usage\<rparr>)
            (Some (rs_reason stopped)))))"

definition on_stop :: "'w pass_input \<Rightarrow> run_stopped \<Rightarrow> loop_state \<Rightarrow> ('w, loop_exit) call_act" where
  "on_stop p stopped lp =
     tbind (emit (pi_iv p) EV_LIMIT_REACHED) (\<lambda>_.
     if rs_reason stopped = MAX_TOOL_ROUNDS \<and> sn_mode (rs_snapshot stopped) = RM_INTERACTIVE \<and> pi_authorize p
     then tbind (governor_update (pi_iv p) (extend_tool_rounds 32 (pi_readings p 3))) (\<lambda>_.
          tbind (emit (pi_iv p) EV_BUDGET_EXTENDED) (\<lambda>_. ret (Again lp)))
     else if rs_summarize stopped then summarize_stop p stopped lp
     else raise (run_stopped_error stopped))"

section \<open>A final answer\<close>

definition answer_note :: "ModelMessage \<Rightarrow> json" where
  "answer_note m = JObj [(''role'', JStr ''assistant''), (''content'', jopt (mm_content m))]"

definition end_step ::
  "'w pass_input \<Rightarrow> string \<Rightarrow> RunStepStatus \<Rightarrow> json list option \<Rightarrow> string option \<Rightarrow> ('w, unit) call_act" where
  "end_step p step status messages error = tbind (journal (pi_iv p) (finish_step step status
     (map_option (\<lambda>ms. JObj [(''messages'', JList ms)]) messages) error (iv_now (pi_iv p)))) (\<lambda>_. ret ())"

definition count_round :: "'w pass_input \<Rightarrow> loop_state \<Rightarrow> ('w, loop_exit) call_act" where
  "count_round p lp s = (case cs_governor s of
      Some _ \<Rightarrow> tbind (governor_update (pi_iv p) (record_round (pi_readings p 4))) (\<lambda>_. ret (Again lp)) s
    | None \<Rightarrow> (let lp' = lp\<lparr>lp_turn := lp_turn lp + 1\<rparr> in
        (Inr (if pi_rounds p < lp_turn lp' then LoopError ''mailbox continuation exceeded round budget'' lp' else Again lp'), s)))"

text \<open>The barrier and the mailbox may hold an answer back.\<close>

definition settle_answer :: "'w pass_input \<Rightarrow> string \<Rightarrow> loop_state \<Rightarrow> ('w, loop_exit) call_act" where
  "settle_answer p text lp =
     tbind (case pi_barrier p of None \<Rightarrow> ret (True, lp_messages lp) | Some barrier \<Rightarrow> barrier (lp_messages lp)) (\<lambda>(done, ms).
     if \<not> done then ret (Again (lp\<lparr>lp_messages := ms\<rparr>))
     else tbind (case pi_finish p of None \<Rightarrow> ret (True, ms) | Some finish \<Rightarrow> in_env (finish ms)) (\<lambda>(finished, ms').
       if finished then ret (Answer text (lp\<lparr>lp_messages := ms'\<rparr>) None)
       else count_round p (lp\<lparr>lp_messages := ms'\<rparr>)))"

definition no_calls :: "'w pass_input \<Rightarrow> string \<Rightarrow> ModelMessage \<Rightarrow> loop_state \<Rightarrow> ('w, loop_exit) call_act" where
  "no_calls p step message lp =
     (let text = strip (or_text (mm_content message) []) in
      if text = [] then tbind (end_step p step ST_FAILED None (Some ''model returned an empty answer'')) (\<lambda>_.
        ret (LoopError ''model returned an empty answer'' lp))
      else let lp' = lp\<lparr>lp_messages := lp_messages lp @ [answer_note message]\<rparr> in
        if pi_schema_error p text
        then tbind (end_step p step ST_FAILED (Some (lp_messages lp')) (Some ''structured output validation failed'')) (\<lambda>_.
          raise (Other ''ValueError'' [] None))
        else tbind (end_step p step ST_COMPLETED (Some (lp_messages lp')) None) (\<lambda>_. settle_answer p text lp'))"

section \<open>A turn of calls\<close>

definition call_json :: "ModelToolCall \<Rightarrow> json" where
  "call_json call = JObj [(''id'', JStr (mc_id call)), (''type'', JStr ''function''),
     (''function'', JObj [(''name'', JStr (mc_name call)), (''arguments'', JStr (mc_arguments call))])]"

definition calls_note :: "ModelMessage \<Rightarrow> ModelToolCall list \<Rightarrow> json" where
  "calls_note m calls = JObj ([(''role'', JStr ''assistant''), (''content'', jopt (mm_content m)),
     (''tool_calls'', JList (map call_json calls))] @
     (case mm_reasoning m of None \<Rightarrow> [] | Some r \<Rightarrow> [(''reasoning_content'', JStr r)]))"

text \<open>\<open>n\<close> is the number of the batch and \<open>k\<close> the number of calls before it.\<close>

fun run_batches ::
  "'w pass_input \<Rightarrow> nat \<Rightarrow> nat \<Rightarrow> ModelToolCall list list \<Rightarrow> turn_state
   \<Rightarrow> ('w, (batch_stop + ToolCallOutcome list) \<times> turn_state) call_act" where
  "run_batches p n k [] tu = ret (Inr [], tu)"
| "run_batches p n k (batch # batches) tu =
     tbind (case batch of
         [call] \<Rightarrow> execute_call (pi_call p k) (aggregate_limit (pi_limit p)) call tu
       | _ \<Rightarrow> (\<lambda>s. run_batch (pi_iv p) (aggregate_limit (pi_limit p)) (length batch) (\<lambda>i. pi_fate p n i (batch ! i))
           (\<lambda>i. pi_cutoff p n i (batch ! i)) (pi_waits p n) tu
           (pi_tasks p n s))) (\<lambda>(r, tu1). case r of
       Inl stop \<Rightarrow> ret (Inl stop, tu1)
     | Inr outs \<Rightarrow> tbind (run_batches p (Suc n) (k + length batch) batches tu1) (\<lambda>(r', tu2).
         ret (case r' of Inl stop \<Rightarrow> Inl stop | Inr outs' \<Rightarrow> Inr (outs @ outs'), tu2)))"

definition run_calls :: "'w pass_input \<Rightarrow> ModelToolCall list \<Rightarrow> json list \<Rightarrow> ('w, (batch_stop + ToolCallOutcome list) \<times> turn_state) call_act" where
  "run_calls p calls messages =
     tbind (in_env (execution_batches (pi_iv p) (pi_value_error p) (pi_concurrency p) calls)) (\<lambda>batches. case batches of
       None \<Rightarrow> raise (Other ''never returns'' [] None)
     | Some bs \<Rightarrow> run_batches p 0 0 bs \<lparr>tu_messages = messages, tu_used = 0\<rparr>)"

definition next_repair :: "'w pass_input \<Rightarrow> ToolCallOutcome list \<Rightarrow> int \<Rightarrow> repair_directive option \<times> int" where
  "next_repair p outs attempt =
     (if pi_repairs p = 0 then (None, 0)
      else let r = build_directive (\<lambda>n. iv_tools (pi_iv p) n \<noteq> None) outs in (r, if r = None then 0 else attempt))"

text \<open>From the step's checkpoint to the next repair.\<close>

definition run_turn ::
  "'w pass_input \<Rightarrow> string \<Rightarrow> ModelMessage \<Rightarrow> loop_state \<Rightarrow> int \<Rightarrow> ModelToolCall list \<Rightarrow> ('w, loop_exit) call_act" where
  "run_turn p step message lp attempt calls =
     (let messages = lp_messages lp @ [calls_note message calls] in
      tbind (end_step p step ST_COMPLETED (Some messages) None) (\<lambda>_.
      tbind (run_calls p calls messages) (\<lambda>(r, tu). case r of
          Inl (RaisedBy e) \<Rightarrow> raise e
        | Inl (PausedBy paused) \<Rightarrow> tbind (settle_pause (pi_iv p) (pi_draw p) (mm_calls message) paused (tu_messages tu)) (\<lambda>ms.
            ret (PausedLoop paused (lp\<lparr>lp_messages := ms\<rparr>)))
        | Inr outs \<Rightarrow> tbind (in_env (pi_confirm p (tu_messages tu))) (\<lambda>ms. case next_repair p outs attempt of (repair, attempt') \<Rightarrow>
            ret (Again (lp\<lparr>lp_messages := ms, lp_turn := lp_turn lp + 1, lp_repair := repair, lp_attempt := attempt'\<rparr>))))))"

definition repair_calls :: "loop_state \<Rightarrow> ModelToolCall list \<Rightarrow> int \<times> ModelToolCall list" where
  "repair_calls lp calls =
     (if lp_repair lp = None then (0, calls) else (lp_attempt lp + 1, map (\<lambda>c. c\<lparr>mc_repair := lp_attempt lp + 1\<rparr>) calls))"

definition with_calls ::
  "'w pass_input \<Rightarrow> string \<Rightarrow> ModelMessage \<Rightarrow> loop_state \<Rightarrow> ('w, loop_exit) call_act" where
  "with_calls p step message lp s = (case repair_calls lp (mm_calls message) of (attempt, calls) \<Rightarrow>
     if cs_governor s = None
     then if lp_turn lp = pi_rounds p
       then tbind (end_step p step ST_FAILED None (Some ''maximum tool-call rounds exceeded'')) (\<lambda>_.
         ret (LoopError ''agent exceeded the maximum number of tool-call rounds'' lp)) s
       else run_turn p step message lp attempt calls s
     else tbind (governor_update (pi_iv p) (record_round (pi_readings p 4))) (\<lambda>_. tbind (emit (pi_iv p) EV_BUDGET_UPDATED) (\<lambda>_.
       run_turn p step message lp attempt calls)) s)"

section \<open>The loop\<close>

text \<open>One pass of \<open>while True\<close>.\<close>

definition loop_pass :: "'w pass_input \<Rightarrow> loop_state \<Rightarrow> ('w, loop_exit) call_act" where
  "loop_pass p lp =
     tbind (in_env (pi_arrive p (lp_messages lp))) (\<lambda>ms0.
     tbind (case pi_compact p of None \<Rightarrow> ret ms0 | Some shorten \<Rightarrow> in_env (shorten False ms0)) (\<lambda>ms1.
     tbind (journal (pi_iv p) (refresh_plan_attachment (pi_planning p) (iv_session (pi_iv p)) ms1)) (\<lambda>(ms2, planning).
     tbind (ask_governor p) (\<lambda>stopped. case stopped of
         Some stop \<Rightarrow> on_stop p stop (lp\<lparr>lp_messages := ms2\<rparr>)
       | None \<Rightarrow>
           tbind (emit (pi_iv p) EV_THINKING) (\<lambda>_.
           tbind (ask_model p (lp_repair lp) ms2) (\<lambda>(ms3, step, message, usage).
           let lp' = lp\<lparr>lp_messages := ms3, lp_in := lp_in lp + mu_in usage, lp_out := lp_out lp + mu_out usage\<rparr> in
           tbind (governor_update (pi_iv p) (record_model_usage (mu_in usage) (mu_out usage) (pi_readings p 5))) (\<lambda>_.
           if mm_calls message = [] then no_calls p step message lp' else with_calls p step message lp')))))))"

text \<open>\<open>run\<close> for at most \<open>n\<close> passes; \<open>None\<close> when it has not ended by then.\<close>

fun tool_loop :: "nat \<Rightarrow> (nat \<Rightarrow> 'w pass_input) \<Rightarrow> loop_state \<Rightarrow> 'w call_state \<Rightarrow> (loop_exit tres \<times> 'w call_state) option" where
  "tool_loop 0 inputs lp s = None"
| "tool_loop (Suc n) inputs lp s = (case loop_pass (inputs 0) lp s of
      (Inr (Again lp'), s') \<Rightarrow> tool_loop n (inputs \<circ> Suc) lp' s'
    | (r, s') \<Rightarrow> Some (r, s'))"

definition loop_start :: "json list \<Rightarrow> loop_state" where
  "loop_start messages = \<lparr>lp_messages = messages, lp_in = 0, lp_out = 0, lp_turn = 0, lp_repair = None, lp_attempt = 0\<rparr>"

end
