(* ===== verification/Tool_Call_Safety.thy ===== *)
theory Tool_Call_Safety
  imports Tool_Invocation
begin

text \<open>
  What one call leaves in the journal, on every way out of \<open>prepare\<close>.
\<close>

section \<open>Journal effects\<close>

definition invocations :: "'w call_state \<Rightarrow> invocation_row list" where
  "invocations s = d_invocations (ev_db (cs_env s))"

definition closed_row :: "string \<Rightarrow> invocation_row list \<Rightarrow> bool" where
  "closed_row i rows \<longleftrightarrow> (\<forall>r \<in> set rows. i_id r = i \<longrightarrow> i_status r \<notin> set invocation_open)"

lemma closed_update:
  assumes "\<And>r. i_id (f r) = i_id r \<and> i_status (f r) \<notin> set invocation_open"
  shows "closed_row i (sql_update (\<lambda>r. i_id r = i \<and> i_status r \<in> set invocation_open) f rows)"
  using assms by (auto simp: closed_row_def sql_update_def)

lemma closed_finish:
  assumes "finish_tool_invocation i st ex dl pv ms art ec now d = Inr d'" and "st \<notin> set invocation_open"
  shows "closed_row i (d_invocations d')"
  unfolding finish_effect[OF assms(1)] using assms(2) by (simp add: closed_update)

lemma closed_pause: "pause_tool_invocation i k q c d = Inr d' \<Longrightarrow> closed_row i (d_invocations d')"
  unfolding pause_tool_invocation_def Let_def by (auto split: if_splits intro!: closed_update) (simp_all add: invocation_open_def)

lemma finish_refused:
  assumes "finish_tool_invocation i st ex dl pv ms art ec now d = Inl e" and "list_all invocation_check (d_invocations d)"
    and "st \<in> set invocation_statuses" "ex \<in> {''succeeded'', ''failed'', ''denied'', ''cancelled''}"
    and "dl \<in> {''inline'', ''artifact'', ''truncated'', ''delivery_failed''}" and "0 \<le> ms"
  shows False
  using assms unfolding finish_tool_invocation_def
  by (auto simp: rbind_Inl_iff sql_set_def list_all_iff invocation_check_def optional_in_def optional_nonneg_def split: if_splits)

lemma journal_cases:
  obtains d' x where "f (ev_db (cs_env s)) = Inr (x, d')" and "journal iv f s = (Inr x, s\<lparr>cs_env := (cs_env s)\<lparr>ev_db := d'\<rparr>\<rparr>)"
  | e where "f (ev_db (cs_env s)) = Inl e" and "journal iv f s = (Inl (of_py (iv_describe iv) e), s)"
proof (cases "f (ev_db (cs_env s))")
  case (Inl e)
  then have "journal iv f s = (Inl (of_py (iv_describe iv) e), s)" by (simp add: journal_def in_env_def in_db_def)
  with Inl that(2) show ?thesis by blast
next
  case (Inr y)
  then show ?thesis using that(1)[of "fst y" "snd y"] by (cases y) (simp add: journal_def in_env_def in_db_def)
qed

lemma journal_write_Inr:
  "journal_write iv f s = (Inr u, s') \<longleftrightarrow> (\<exists>d'. f (ev_db (cs_env s)) = Inr d' \<and> s' = s\<lparr>cs_env := (cs_env s)\<lparr>ev_db := d'\<rparr>\<rparr>)"
  by (cases "f (ev_db (cs_env s))") (auto simp: journal_write_def journal_def in_env_def in_db_def)

lemma journal_write_Inl:
  "journal_write iv f s = (Inl e, s') \<longleftrightarrow> (\<exists>e'. f (ev_db (cs_env s)) = Inl e' \<and> e = of_py (iv_describe iv) e' \<and> s' = s)"
  by (cases "f (ev_db (cs_env s))") (auto simp: journal_write_def journal_def in_env_def in_db_def)

lemma steps_only:
  assumes "\<And>d x d'. f d = Inr (x, d') \<Longrightarrow> d_invocations d' = d_invocations d"
  shows "invocations (snd (journal iv f s)) = invocations s"
  by (rule journal_cases[of f s iv]) (use assms in \<open>auto simp: invocations_def\<close>)

lemma prune_rows [simp]: "d_invocations (prune_before_step i d) = d_invocations d"
  by (simp add: prune_before_step_def prune_checkpoints_def split: option.splits)

lemma finish_step_rows: "finish_step i st c e t d = Inr (x, d') \<Longrightarrow> d_invocations d' = d_invocations d"
  by (auto simp: finish_step_def Let_def rbind_Inr_iff split: if_splits)

lemma pause_step_rows: "pause_step i k c d = Inr d' \<Longrightarrow> d_invocations d' = d_invocations d"
  by (auto simp: pause_step_def Let_def split: if_splits)

lemma create_input_rows: "create_input_request q s r i qs rd now d = Inr d' \<Longrightarrow> d_invocations d' = d_invocations d"
  by (auto simp: create_input_request_def insert_input_def rbind_Inr_iff)

section \<open>No call is left open\<close>

lemma finish_row_closes:
  assumes "finish_row iv i st ex dl pv art ec s = (Inr u, s')" and "st \<notin> set invocation_open"
  shows "closed_row i (invocations s')"
  using assms by (auto simp: finish_row_def journal_write_Inr invocations_def dest: closed_finish)

lemma end_status_ends: "end_status out \<notin> set invocation_open"
  by (cases "to_status out") (simp_all add: end_status_def invocation_open_def)

lemma conclude_closes:
  assumes "conclude iv i call out s = (Inr p, s')"
  shows "closed_row i (invocations s')"
  using assms unfolding conclude_def Let_def
  by (elim tbind_InrE) (clarsimp split: prod.splits elim!: tbind_InrE; erule finish_row_closes; rule end_status_ends)

lemma pause_call_row: "journal_write iv (pause_tool_invocation i k q c) s = (Inr u, s') \<Longrightarrow> closed_row i (invocations s')"
  by (auto simp: journal_write_Inr invocations_def dest: closed_pause)

lemma keeps_rows:
  "journal_write iv (create_input_request q se r i qs rd now) s = (Inr u, s') \<Longrightarrow> invocations s' = invocations s"
  "journal_write iv (pause_step st k c) s = (Inr u, s') \<Longrightarrow> invocations s' = invocations s"
  by (auto simp: journal_write_Inr invocations_def dest: create_input_rows pause_step_rows)

lemma pause_closes:
  assumes "pause_call iv i call messages z s = (Inr p, s')"
  shows "closed_row i (invocations s')"
  using assms unfolding pause_call_def Let_def
  by (elim tbind_InrE) (auto dest!: keeps_rows pause_call_row split: if_splits)

lemma handled_closes:
  assumes "tbind (finish_row iv i st ex dl pv art ec) (\<lambda>_. tbind (journal iv (finish_step p q c t n)) (\<lambda>_. k)) s = (r, s')"
    and "list_all invocation_check (invocations s')" and "0 \<le> iv_duration iv" and "\<And>u. snd (k u) = u"
    and "st \<in> {''cancelled'', ''failed''}" "ex \<in> {''failed'', ''cancelled''}" "dl \<in> {''inline'', ''delivery_failed''}"
  shows "closed_row i (invocations s')"
proof (cases "finish_row iv i st ex dl pv art ec s")
  case (Pair a u)
  show ?thesis
  proof (cases a)
    case (Inl e)
    with Pair assms(1) have "s' = u" by (simp add: tbind_def)
    moreover have "u = s" and "\<exists>e. finish_tool_invocation i st ex dl pv (iv_duration iv) art ec (iv_now iv) (ev_db (cs_env s)) = Inl e"
      using Pair Inl by (auto simp: finish_row_def journal_write_Inl)
    moreover have "st \<in> set invocation_statuses" "ex \<in> {''succeeded'', ''failed'', ''denied'', ''cancelled''}"
      "dl \<in> {''inline'', ''artifact'', ''truncated'', ''delivery_failed''}"
      using assms(5-7) by (auto simp: invocation_statuses_def)
    ultimately have False using finish_refused assms(2,3) unfolding invocations_def by metis
    then show ?thesis ..
  next
    case (Inr x)
    then obtain d' where "finish_tool_invocation i st ex dl pv (iv_duration iv) art ec (iv_now iv) (ev_db (cs_env s)) = Inr d'"
      and "invocations u = d_invocations d'"
      using Pair by (auto simp: finish_row_def journal_write_Inr invocations_def)
    moreover have "st \<notin> set invocation_open" using assms(5) by (auto simp: invocation_open_def)
    ultimately have "closed_row i (invocations u)" using closed_finish by metis
    moreover have "invocations (snd (journal iv (finish_step p q c t n) u)) = invocations u"
      by (rule steps_only) (rule finish_step_rows)
    moreover have "s' = snd (journal iv (finish_step p q c t n) u)"
    proof -
      obtain b v where j: "journal iv (finish_step p q c t n) u = (b, v)" by (cases "journal iv (finish_step p q c t n) u")
      have "tbind (journal iv (finish_step p q c t n)) (\<lambda>_. k) u = (r, s')" using assms(1) Pair Inr by (simp add: tbind_def)
      with j assms(4)[of v] show ?thesis by (cases b) (simp_all add: tbind_def)
    qed
    ultimately show ?thesis by simp
  qed
qed

lemma body_closes:
  assumes "call_body iv i call messages c s = (r, s')" and "list_all invocation_check (invocations s')" and "0 \<le> iv_duration iv"
  shows "closed_row i (invocations s')"
proof (cases "tbind (perform iv i call) (\<lambda>execution. case execution of
     Pause z \<Rightarrow> pause_call iv i call messages z | Outcome out \<Rightarrow> conclude iv i call out) s")
  case (Pair a u)
  show ?thesis
  proof (cases a)
    case (Inr p)
    with assms(1) Pair have "s' = u" by (simp add: call_body_def try_catch_def)
    from Pair Inr obtain x t where "(case x of Pause z \<Rightarrow> pause_call iv i call messages z | Outcome out \<Rightarrow> conclude iv i call out) t = (Inr p, u)"
      by (auto elim: tbind_InrE)
    then show ?thesis using \<open>s' = u\<close> by (cases x) (auto intro: conclude_closes pause_closes)
  next
    case (Inl e)
    with assms(1) Pair have "(if e = Cancelled then on_cancelled iv i call c else on_failed iv i e) u = (r, s')"
      by (simp add: call_body_def try_catch_def)
    then show ?thesis using assms(2,3)
      by (auto simp: on_cancelled_def on_failed_def raise_def split: if_splits elim!: handled_closes)
  qed
qed

text \<open>C23: No call of the model is left open in the journal.  Whatever the tool, the middlewares, the governor and
  the event bus do, once the row of a call has been started every way out of \<open>prepare\<close> (a result, a pause, a
  cancellation, any exception) leaves it ended or waiting for the user.\<close>
theorem no_call_left_open:
  assumes "prepare_call iv call messages cancellation_result s = (r, s')" and "open_call iv call s = (Inr i, t)"
    and "list_all invocation_check (invocations s')" and "0 \<le> iv_duration iv"
  shows "\<forall>x \<in> set (invocations s'). i_id x = i \<longrightarrow> i_status x \<notin> {''received'', ''validating'', ''authorizing'', ''queued'', ''running''}"
proof -
  from assms(1,2) have "call_body iv i call messages cancellation_result
      (t\<lparr>cs_arguments := parsed_arguments iv call, cs_attempt := None, cs_policy := default_policy\<rparr>) = (r, s')"
    by (simp add: prepare_call_def tbind_def note_locals_def)
  from body_closes[OF this assms(3,4)] show ?thesis by (simp add: closed_row_def invocation_open_def)
qed

section \<open>Witnesses\<close>

definition sample_iv :: "unit invocation_setup" where
  "sample_iv = \<lparr>iv_describe = (\<lambda>e. (''IntegrityError'', [])), iv_loads = (\<lambda>t. if t = ''{}'' then Inr (JObj []) else Inl ''bad''),
     iv_emit = (\<lambda>_. ret ()), iv_tools = (\<lambda>n. if n = ''look'' then Some sample_read else None), iv_candidates = (\<lambda>_. []),
     iv_errors = (\<lambda>_ _. []), iv_chain = (\<lambda>_. []), iv_course = Completes, iv_deadline = False, iv_artifacts = None,
     iv_assess = (\<lambda>_. (False, [])), iv_decode = (\<lambda>s. s), iv_usage = (\<lambda>_. (0, 0, 0, 0, 0)), iv_seconds = (\<lambda>_. ''1.0''),
     iv_sha = (\<lambda>s. s), iv_redact = (\<lambda>a. a), iv_poll = None, iv_readings = (\<lambda>_. undefined), iv_max_repairs = 1,
     iv_session = ''s1'', iv_run = ''r1'', iv_step = ''p9'', iv_uuid = ''u'', iv_now = ''t9'', iv_duration = 0\<rparr>"

definition sample_model_call :: "string \<Rightarrow> ModelToolCall" where
  "sample_model_call i = \<lparr>mc_id = i, mc_name = ''look'', mc_arguments = ''{}'', mc_repair = 0\<rparr>"

definition sample_call_state :: "unit call_state" where
  "sample_call_state = \<lparr>cs_env = sample_surroundings sample_db, cs_governor = None, cs_arguments = [], cs_attempt = None,
     cs_policy = default_policy\<rparr>"

text \<open>A tool that is cancelled.\<close>

definition sample_iv_stop :: "unit invocation_setup" where
  "sample_iv_stop = sample_iv\<lparr>iv_tools := (\<lambda>_. Some (sample_tool ''look'' PV_LOCAL_READ (safe_read None) (Inl Cancelled)))\<rparr>"

definition sample_call_begun :: "unit call_state" where
  "sample_call_begun = (snd (open_call sample_iv_stop (sample_model_call ''c9'') sample_call_state))\<lparr>cs_arguments :=
     parsed_arguments sample_iv_stop (sample_model_call ''c9''), cs_attempt := None, cs_policy := default_policy\<rparr>"

definition sample_call_cut :: "unit call_state" where
  "sample_call_cut = snd (perform sample_iv_stop ''inv_u'' (sample_model_call ''c9'') sample_call_begun)"

lemma finish_row_valid:
  assumes "finish_row iv i st ex dl pv art ec s = (r, s')" and "list_all invocation_check (invocations s)"
  shows "list_all invocation_check (invocations s')"
proof (cases r)
  case (Inl e)
  then show ?thesis using assms by (auto simp: finish_row_def journal_write_Inl)
next
  case (Inr u)
  then show ?thesis using assms
    by (auto simp: finish_row_def journal_write_Inr finish_tool_invocation_def rbind_Inr_iff sql_set_Inr invocations_def
        list_all_iff sql_update_def)
qed

lemma on_cancelled_valid:
  assumes "list_all invocation_check (invocations s)"
  shows "list_all invocation_check (invocations (snd (on_cancelled iv i call False s)))"
proof -
  obtain a u where f: "finish_row iv i ''cancelled'' ''cancelled'' ''inline'' (for_model cancelled_outcome) None (Some ''cancelled'') s = (a, u)"
    by (cases "finish_row iv i ''cancelled'' ''cancelled'' ''inline'' (for_model cancelled_outcome) None (Some ''cancelled'') s")
  have u: "list_all invocation_check (invocations u)" by (rule finish_row_valid[OF f assms])
  let ?j = "journal iv (finish_step (iv_step iv) ST_CANCELLED None (Some ''tool execution cancelled'') (iv_now iv)) u"
  have "invocations (snd ?j) = invocations u" by (rule steps_only) (rule finish_step_rows)
  then show ?thesis using f u by (cases a; cases "fst ?j") (auto simp: on_cancelled_def tbind_def raise_def split: prod.splits)
qed

lemma sample_cut:
  "open_call sample_iv_stop (sample_model_call ''c9'') sample_call_state
     = (Inr ''inv_u'', snd (open_call sample_iv_stop (sample_model_call ''c9'') sample_call_state))"
  "perform sample_iv_stop ''inv_u'' (sample_model_call ''c9'') sample_call_begun = (Inl Cancelled, sample_call_cut)"
  "list_all invocation_check (invocations sample_call_cut)"
proof -
  have "fst (open_call sample_iv_stop (sample_model_call ''c9'') sample_call_state) = Inr ''inv_u''"
    "fst (perform sample_iv_stop ''inv_u'' (sample_model_call ''c9'') sample_call_begun) = Inl Cancelled"
    by code_simp+
  then show "open_call sample_iv_stop (sample_model_call ''c9'') sample_call_state
     = (Inr ''inv_u'', snd (open_call sample_iv_stop (sample_model_call ''c9'') sample_call_state))"
    and "perform sample_iv_stop ''inv_u'' (sample_model_call ''c9'') sample_call_begun = (Inl Cancelled, sample_call_cut)"
    by (simp_all add: prod_eq_iff sample_call_cut_def)
  show "list_all invocation_check (invocations sample_call_cut)" by code_simp
qed

lemma prepare_cancelled:
  assumes "open_call iv call s = (Inr i, t)"
    and "perform iv i call (t\<lparr>cs_arguments := parsed_arguments iv call, cs_attempt := None, cs_policy := default_policy\<rparr>) = (Inl Cancelled, u)"
  shows "prepare_call iv call messages c s = on_cancelled iv i call c u"
  using assms by (simp add: prepare_call_def note_locals_def call_body_def try_catch_def tbind_def)

theorem no_call_left_open_witness:
  "set (map i_status (filter (\<lambda>x. i_id x = ''inv_u'') (invocations (snd (prepare_call sample_iv_stop (sample_model_call ''c9'') [] False
     sample_call_state))))) \<inter> {''received'', ''validating'', ''authorizing'', ''queued'', ''running''} = {}"
proof -
  let ?p = "prepare_call sample_iv_stop (sample_model_call ''c9'') [] False sample_call_state"
  have p: "?p = on_cancelled sample_iv_stop ''inv_u'' (sample_model_call ''c9'') False sample_call_cut"
    by (rule prepare_cancelled[OF sample_cut(1) sample_cut(2)[unfolded sample_call_begun_def]])
  have "0 \<le> iv_duration sample_iv_stop" by (simp add: sample_iv_stop_def sample_iv_def)
  moreover have "list_all invocation_check (invocations (snd ?p))" unfolding p by (rule on_cancelled_valid) (rule sample_cut(3))
  ultimately show ?thesis using no_call_left_open[OF _ sample_cut(1), of "[]" False "fst ?p" "snd ?p"] by auto
qed

end
