(* ===== verification/Tool_Turn_Safety.thy ===== *)
theory Tool_Turn_Safety
  imports Tool_Turn Tool_Call_Safety
begin

text \<open>
  What holds of the calls of one turn: how they are split and ordered, what their results may take of the
  context, when a repair is offered, and what a pause leaves behind.
\<close>

section \<open>Batches\<close>

fun chunks :: "nat \<Rightarrow> 'c list \<Rightarrow> 'c list list" where
  "chunks 0 xs = []"
| "chunks (Suc n) [] = []"
| "chunks (Suc n) (x # xs) = (x # take n xs) # chunks (Suc n) (drop n xs)"

lemma flush_loop_chunks: "flush_loop (Suc n) pending batches = Some (batches @ chunks (Suc n) pending)"
proof (induction "Suc n" pending arbitrary: batches rule: chunks.induct)
  case (2 n)
  then show ?case by (simp add: flush_loop.simps)
next
  case (3 n x xs)
  then show ?case by (subst flush_loop.simps) simp
qed

lemma chunks_concat: "concat (chunks (Suc n) xs) = xs"
  by (induction "Suc n" xs rule: chunks.induct) simp_all

lemma chunks_sizes: "b \<in> set (chunks (Suc n) xs) \<Longrightarrow> b \<noteq> [] \<and> length b \<le> Suc n \<and> set b \<subseteq> set xs"
  by (induction "Suc n" xs rule: chunks.induct) (auto dest: in_set_dropD in_set_takeD)

definition good_batches :: "('c \<Rightarrow> 's \<Rightarrow> bool tres \<times> 's) \<Rightarrow> nat \<Rightarrow> 'c list list \<Rightarrow> bool" where
  "good_batches safe n bs \<longleftrightarrow> (\<forall>b \<in> set bs. b \<noteq> [] \<and> length b \<le> n
     \<and> (length b \<noteq> 1 \<longrightarrow> (\<forall>c \<in> set b. \<exists>t. fst (safe c t) = Inr True)))"

lemma good_chunks:
  assumes "\<forall>c \<in> set pending. \<exists>t. fst (safe c t) = Inr True"
  shows "good_batches safe (Suc n) (chunks (Suc n) pending)"
  using assms chunks_sizes[of _ n pending] unfolding good_batches_def by blast

lemma split_calls_good:
  assumes "good_batches safe (Suc n) batches" and "\<forall>c \<in> set pending. \<exists>t. fst (safe c t) = Inr True"
  shows "case fst (split_calls safe (Suc n) calls pending batches s) of
      Inl e \<Rightarrow> \<exists>c \<in> set calls. \<exists>t. fst (safe c t) = Inl e
    | Inr None \<Rightarrow> False
    | Inr (Some bs) \<Rightarrow> concat bs = concat batches @ pending @ calls \<and> good_batches safe (Suc n) bs"
  using assms
proof (induction calls arbitrary: pending batches s)
  case Nil
  then show ?case using good_chunks[OF Nil(2), of n] by (auto simp: flush_loop_chunks chunks_concat good_batches_def)
next
  case (Cons call calls)
  obtain r s' where safe: "safe call s = (r, s')" by (cases "safe call s")
  consider (fails) e where "r = Inl e" | (safe) "r = Inr True" | (alone) "r = Inr False" by (cases r) auto
  then show ?case
  proof cases
    case fails
    then show ?thesis using safe by (auto intro: exI[of _ s] disjI1)
  next
    case safe': safe
    have "\<forall>c \<in> set (pending @ [call]). \<exists>t. fst (safe c t) = Inr True" using Cons.prems(2) safe safe' by (auto intro: exI[of _ s])
    from Cons.IH[OF Cons.prems(1) this, of s'] safe safe' show ?thesis by (auto split: sum.splits option.splits)
  next
    case alone
    have "good_batches safe (Suc n) ((batches @ chunks (Suc n) pending) @ [[call]])"
      using Cons.prems(1) good_chunks[OF Cons.prems(2), of n] by (auto simp: good_batches_def)
    from Cons.IH[OF this, of "[]" s'] safe alone show ?thesis
      by (auto simp: flush_loop_chunks chunks_concat split: sum.splits option.splits)
  qed
qed

lemma read_concurrency_pos: "\<exists>n. read_concurrency configured = Suc n"
  by (rule exI[of _ "nat (max 1 configured) - 1"]) (simp add: read_concurrency_def)

text \<open>C25: Splitting the calls of a turn always ends, whatever limit is configured: only an exception of a
  tool's policy can stop it.  The batches hold every call once and in the order of the model, none is empty or
  exceeds the limit, and only calls whose policy was found safe share one.\<close>
theorem batches_keep_the_calls:
  assumes "fst (execution_batches iv value_error configured calls s) = r"
    and "\<forall>call \<in> set calls. \<forall>t e. fst (call_is_safe iv value_error call t) \<noteq> Inl e"
  shows "\<exists>bs. r = Inr (Some bs) \<and> concat bs = calls
    \<and> (\<forall>b \<in> set bs. b \<noteq> [] \<and> int (length b) \<le> max 1 configured
         \<and> (length b \<noteq> 1 \<longrightarrow> (\<forall>c \<in> set b. \<exists>t. fst (call_is_safe iv value_error c t) = Inr True)))"
proof -
  obtain n where n: "read_concurrency configured = Suc n" using read_concurrency_pos by blast
  then have len: "int (Suc n) = max 1 configured" by (simp add: read_concurrency_def)
  have "good_batches (call_is_safe iv value_error) (Suc n) []" by (simp add: good_batches_def)
  from split_calls_good[OF this, of "[]" calls s] assms n
  have "\<exists>bs. r = Inr (Some bs) \<and> concat bs = calls \<and> good_batches (call_is_safe iv value_error) (Suc n) bs"
    by (auto simp: execution_batches_def split: sum.splits option.splits)
  then show ?thesis unfolding good_batches_def len[symmetric] of_nat_le_iff .
qed

section \<open>The bytes of a turn\<close>

definition result_bytes :: "ToolCallOutcome \<Rightarrow> int" where
  "result_bytes item = int (length (utf8_encode (oc_text item)))"

definition cut_short :: "ToolCallOutcome \<Rightarrow> ToolCallOutcome \<Rightarrow> bool" where
  "cut_short item item' \<longleftrightarrow> jget (to_data (oc_outcome item')) ''original_bytes'' = Some (JInt (result_bytes item))
     \<and> to_delivery (oc_outcome item') \<in> {DS_ARTIFACT, DS_DELIVERY_FAILED}"

lemma descriptor_bytes:
  "aggregate_descriptor iv item s = (Inr (descriptor, artifact), s')
    \<Longrightarrow> jget descriptor ''original_bytes'' = Some (JInt (result_bytes item))"
  by (auto simp: aggregate_descriptor_def result_bytes_def Let_def ret_def split: option.splits if_splits sum.splits prod.splits
      tool_error.splits)

lemma enforce_cases:
  assumes "enforce_aggregate iv limit used item s = (Inr (item', used'), s')"
  shows "oc_call item' = oc_call item \<and> used' = used + result_bytes item'
    \<and> (if used + result_bytes item \<le> limit then item' = item else cut_short item item')"
proof (cases "used + result_bytes item \<le> limit")
  case True
  then show ?thesis using assms by (auto simp: enforce_aggregate_def result_bytes_def Let_def ret_def)
next
  case False
  then have "tbind (aggregate_descriptor iv item) (\<lambda>(descriptor, artifact).
        let status = (if artifact = None then DS_DELIVERY_FAILED else DS_ARTIFACT);
            out = replaced_outcome (oc_outcome item) descriptor (artifact \<noteq> None) status; text = for_model out;
            item' = item\<lparr>oc_outcome := out, oc_text := text, oc_artifact := artifact\<rparr> in
        tbind (case oc_invocation item of
            None \<Rightarrow> ret ()
          | Some i \<Rightarrow> tbind (journal_write iv (store_result_replacement (mc_id (oc_call item)) (iv_session iv) i (outcome_json out))) (\<lambda>_.
              journal_write iv (replace_tool_delivery i (delivery_value status) text artifact))) (\<lambda>_.
        ret (item', used + int (length (utf8_encode text))))) s = (Inr (item', used'), s')"
    using assms by (simp add: enforce_aggregate_def result_bytes_def Let_def)
  then obtain descriptor artifact t where d: "aggregate_descriptor iv item s = (Inr (descriptor, artifact), t)"
    and item': "item' = item\<lparr>oc_outcome := replaced_outcome (oc_outcome item) descriptor (artifact \<noteq> None)
        (if artifact = None then DS_DELIVERY_FAILED else DS_ARTIFACT), oc_text := for_model (replaced_outcome (oc_outcome item) descriptor
        (artifact \<noteq> None) (if artifact = None then DS_DELIVERY_FAILED else DS_ARTIFACT)), oc_artifact := artifact\<rparr>"
    and used': "used' = used + int (length (utf8_encode (oc_text item')))"
    by (auto simp: Let_def ret_def elim!: tbind_InrE)
  from descriptor_bytes[OF d] show ?thesis using False unfolding used' by (simp add: item' cut_short_def replaced_outcome_def result_bytes_def)
qed

lemma commit_cases:
  assumes "commit_call iv limit item tu s = (Inr (item', tu'), s')"
  shows "oc_call item' = oc_call item" and "tu_used tu' = tu_used tu + result_bytes item'"
    and "tu_messages tu' = tu_messages tu @ [tool_result_message item']"
    and "if tu_used tu + result_bytes item \<le> limit then item' = item else cut_short item item'"
proof -
  from assms obtain used' t where e: "enforce_aggregate iv limit (tu_used tu) item s = (Inr (item', used'), t)"
    and tu': "tu' = tu\<lparr>tu_messages := tu_messages tu @ [tool_result_message item'], tu_used := used'\<rparr>"
    unfolding commit_call_def Let_def by (auto simp: ret_def split: prod.splits elim!: tbind_InrE)
  from enforce_cases[OF e] show "oc_call item' = oc_call item" and "tu_used tu' = tu_used tu + result_bytes item'"
    and "tu_messages tu' = tu_messages tu @ [tool_result_message item']"
    and "if tu_used tu + result_bytes item \<le> limit then item' = item else cut_short item item'" by (simp_all add: tu')
qed

definition kept_bytes :: "bool list \<Rightarrow> ToolCallOutcome list \<Rightarrow> int" where
  "kept_bytes kept items = sum_list (map (\<lambda>(k, item). if k then result_bytes item else 0) (zip kept items))"

lemma result_bytes_nonneg: "0 \<le> result_bytes item"
  by (simp add: result_bytes_def)

lemma commit_all_keeps:
  assumes "commit_all iv limit (map Finished items) tu s = (Inr (Inr outs, tu'), s')"
  shows "map oc_call outs = map oc_call items \<and> tu_messages tu' = tu_messages tu @ map tool_result_message outs
    \<and> (\<exists>kept. list_all2 (\<lambda>k (item, out). if k then out = item else cut_short item out) kept (zip items outs)
         \<and> length kept = length items \<and> kept_bytes kept items \<le> max 0 (limit - tu_used tu))"
  using assms
proof (induction items arbitrary: tu outs s)
  case Nil
  then show ?case by (simp add: ret_def kept_bytes_def)
next
  case (Cons item items)
  then obtain out tu1 s1 outs' where c: "commit_call iv limit item tu s = (Inr (out, tu1), s1)"
    and r: "commit_all iv limit (map Finished items) tu1 s1 = (Inr (Inr outs', tu'), s')" and outs: "outs = out # outs'"
    by (auto simp: ret_def split: sum.splits elim!: tbind_InrE)
  note one = commit_cases[OF c]
  from Cons.IH[OF r] obtain kept where rest: "map oc_call outs' = map oc_call items"
    "tu_messages tu' = tu_messages tu1 @ map tool_result_message outs'"
    "list_all2 (\<lambda>k (item, out). if k then out = item else cut_short item out) kept (zip items outs')"
    "length kept = length items" "kept_bytes kept items \<le> max 0 (limit - tu_used tu1)" by blast
  let ?k = "tu_used tu + result_bytes item \<le> limit"
  have "kept_bytes (?k # kept) (item # items) = (if ?k then result_bytes item else 0) + kept_bytes kept items"
    by (simp add: kept_bytes_def)
  moreover have "tu_used tu1 = tu_used tu + result_bytes out" "?k \<longrightarrow> out = item" using one by (simp_all split: if_splits)
  ultimately have "kept_bytes (?k # kept) (item # items) \<le> max 0 (limit - tu_used tu)"
    using rest(5) result_bytes_nonneg[of item] result_bytes_nonneg[of out] by (auto split: if_splits)
  moreover have "list_all2 (\<lambda>k (item, out). if k then out = item else cut_short item out) (?k # kept) (zip (item # items) outs)"
    using rest(3) one(4) outs by simp
  ultimately show ?case using rest one outs by (intro conjI exI[of _ "?k # kept"]) simp_all
qed


section \<open>Repair\<close>

definition repair_codes :: "string option set" where
  "repair_codes = {Some ''invalid_tool_arguments'', Some ''invalid_path'', Some ''unsupported_tool''}"

lemma screen_code:
  assumes "screen_external iv call out s = (Inr (out', audited, artifact), s')"
  shows "to_code out' = to_code out \<or> to_code out' \<notin> repair_codes"
  using assms by (auto simp: screen_external_def quarantine_def blocked_outcome_def failure_def tool_outcome_def Let_def ret_def
      repair_codes_def tbind_def split: if_splits prod.splits option.splits sum.splits tool_error.splits)

lemma deliver_code: "deliver iv call out artifact s = (Inr (out', artifact'), s') \<Longrightarrow> to_code out' = to_code out"
  by (auto simp: deliver_def Let_def ret_def split: if_splits option.splits sum.splits prod.splits tool_error.splits)

lemma invite_code: "to_code (invite_repair iv call out) = to_code out"
  by (simp add: invite_repair_def)

lemma exhaust_code:
  "to_code (exhaust_repair iv call out) \<in> repair_codes \<Longrightarrow> to_code (exhaust_repair iv call out) = to_code out \<and> may_repair iv call"
  by (auto simp: exhaust_repair_def repair_codes_def split: if_splits)

lemma repair_needs_code:
  assumes "conclude iv invocation call out s = (Inr (Prepared item), s')" and "repairable (oc_outcome item)"
  shows "to_code out \<in> repair_codes \<and> may_repair iv call"
proof -
  let ?out1 = "exhaust_repair iv call (invite_repair iv call out)"
  obtain out2 out3 audited artifact artifact3 t1 t2 t3 where
    "screen_external iv call ?out1 t1 = (Inr (out2, audited, artifact), t2)"
    "deliver iv call out2 artifact t2 = (Inr (out3, artifact3), t3)" "oc_outcome item = out3"
    using assms(1) unfolding conclude_def Let_def by (auto elim!: tbind_InrE split: prod.splits)
  moreover have "to_code (oc_outcome item) \<in> repair_codes" using assms(2) by (simp add: repairable_def repair_codes_def)
  ultimately have "to_code ?out1 \<in> repair_codes" using screen_code deliver_code by metis
  then show ?thesis using exhaust_code invite_code by metis
qed

text \<open>C26: No call is repeated for its arguments once its handler may have changed something.  When a handler
  with side effects has been started, whatever it raises and however its output is checked afterwards, the
  outcome is not one of those the model is asked to repair, unless the handler itself answers with such a code.\<close>
theorem no_repair_after_effects:
  assumes "tools name = Some tool" and "how = None \<or> tl_resume tool \<noteq> None"
    and "handler_call errors report (workspace_chain planning ps) tool args s = Some (a, pol, s2)" and "has_side_effects pol"
    and "\<And>c s3. await_handler course (rp_interrupt pol) (call_handler tool how a) s2 = (Inr (Outcome c), s3) \<Longrightarrow> to_code c \<notin> repair_codes"
    and "run_tool errors report course (workspace_chain planning ps) candidates tools name args how s = (Inr x, s1)"
    and "ir_execution x = Outcome out" and "conclude iv invocation call out t = (Inr (Prepared item), t')"
  shows "\<not> repairable (oc_outcome item) \<and> item \<notin> set (to_repair exists items)"
proof -
  obtain r s3 where aw: "await_handler course (rp_interrupt pol) (call_handler tool how a) s2 = (r, s3)"
    by (cases "await_handler course (rp_interrupt pol) (call_handler tool how a) s2")
  have "to_code out \<notin> repair_codes"
  proof (cases r)
    case (Inl e)
    show ?thesis
    proof (cases "e = Cancelled")
      case True
      have "run_body errors report course (workspace_chain planning ps) tool args how
          (\<lparr>pg_args = args, pg_policy = default_policy, pg_started = False, pg_completed = None\<rparr>, s)
        = (Inl Cancelled, \<lparr>pg_args = a, pg_policy = pol, pg_started = True, pg_completed = None\<rparr>, s3)"
        unfolding run_body_handler[OF assms(3)] using aw Inl True by (simp add: tbind_def on_env_def)
      then show ?thesis using assms(1,2,6) by (auto simp: run_tool_def split: if_splits)
    next
      case False
      have "\<exists>out. run_tool errors report course (workspace_chain planning ps) candidates tools name args how s
          = (Inr \<lparr>ir_execution = Outcome out, ir_args = a, ir_policy = pol\<rparr>, s3) \<and> to_code out = Some ''unknown_execution''"
        using raising_run[where tools = tools and tool = tool, OF assms(1-3) _ False assms(4)] aw Inl by blast
      then show ?thesis using assms(6,7) by (auto simp: repair_codes_def)
    qed
  next
    case (Inr execution)
    show ?thesis
    proof (cases execution)
      case (Outcome c)
      have "\<exists>out. run_tool errors report course (workspace_chain planning ps) candidates tools name args how s
          = (Inr \<lparr>ir_execution = Outcome out, ir_args = a, ir_policy = pol\<rparr>, s3)
        \<and> (out = c \<or> to_code out = Some ''invalid_tool_output'')"
        using reported_run[where tools = tools and tool = tool, OF assms(1-3)] aw Inr Outcome by blast
      moreover have "to_code c \<notin> repair_codes" using assms(5) aw Inr Outcome by blast
      ultimately show ?thesis using assms(6,7) by (auto simp: repair_codes_def)
    next
      case (Pause z)
      have "run_body errors report course (workspace_chain planning ps) tool args how
          (\<lparr>pg_args = args, pg_policy = default_policy, pg_started = False, pg_completed = None\<rparr>, s)
        = (Inr (Pause z), \<lparr>pg_args = a, pg_policy = pol, pg_started = True, pg_completed = None\<rparr>, s3)"
        unfolding run_body_handler[OF assms(3)] using aw Inr Pause by (simp add: tbind_def on_env_def finish_execution_def ret_def)
      then show ?thesis using assms(1,2,6,7) by (auto simp: run_tool_def split: if_splits)
    qed
  qed
  then show ?thesis using repair_needs_code[OF assms(8)] by (auto simp: to_repair_def)
qed

section \<open>A pause inside a batch\<close>

lemma start_again:
  assumes "r \<in> set (d_invocations d)" and "i_run r = run" and "i_call r = c"
  shows "start_tool_invocation run session c name spec caps args status u n d = Inl IntegrityError"
  using assms by (auto simp: start_tool_invocation_def insert_invocation_def sql_insert_def Let_def list_ex_iff rbind_Inl_iff
      intro!: bexI[of _ r])

lemma create_step_invocations: "create_step run k u n d = Inr (st, d') \<Longrightarrow> d_invocations d' = d_invocations d"
  by (auto simp: create_step_def insert_step_def require_step_def Let_def rbind_Inr_iff sql_insert_Inr split: option.splits)

lemma barrier_repeats:
  assumes "r \<in> set (invocations s)" and "i_run r = iv_run iv" and "i_call r = mc_id call"
    and "create_step (iv_run iv) SK_TOOL step now (ev_db (cs_env s)) = Inr (st, d)"
  shows "cancel_after_barrier iv (step, uuid, now) call messages s
    = (Inl (of_py (iv_describe iv) IntegrityError), s\<lparr>cs_env := (cs_env s)\<lparr>ev_db := d\<rparr>\<rparr>)"
proof -
  have "d_invocations d = invocations s" using create_step_invocations[OF assms(4)] by (simp add: invocations_def)
  then have "start_tool_invocation (iv_run iv) (iv_session iv) (mc_id call) (mc_name call) (call_spec iv call) (JObj []) (JObj [])
      ''queued'' uuid now d = Inl IntegrityError" using assms(1-3) by (intro start_again[of r]) simp_all
  then show ?thesis using assms(4)
    by (simp add: cancel_after_barrier_def tbind_def journal_def in_env_def in_db_def)
qed

lemma wait_loop_before:
  assumes "\<forall>now \<in> set earlier. \<forall>i \<in> set now. \<exists>out. fate i = Finished out \<and> \<not> stops_batch out"
  shows "wait_loop fate cutoff seen (earlier @ rounds) = wait_loop fate cutoff (seen @ concat earlier) rounds"
  using assms
proof (induction earlier arbitrary: seen)
  case (Cons now earlier)
  have "any_stops (map fate is) = Inr False" if "\<forall>i \<in> set is. \<exists>out. fate i = Finished out \<and> \<not> stops_batch out" for "is"
    using that by (induction "is") auto
  then have "any_stops (map fate now) = Inr False" using Cons.prems by simp
  then show ?case using Cons by simp
qed simp

text \<open>C28: A pause inside a concurrent batch breaks the turn.  The results of the calls that finished before it are
  not committed, so their answers never reach the messages; and when the next call of the turn ran in the same
  batch, cancelling it behind the barrier starts its journal row a second time, and the storage's integrity
  error takes the place of the pause.\<close>
theorem pause_in_batch_breaks_turn:
  assumes "\<forall>now \<in> set earlier. \<forall>j \<in> set now. \<exists>out. fate j = Finished out \<and> \<not> stops_batch out"
    and "fate i = Ended (PausedBy paused)" and "after_paused (pz_call paused) calls = call # later"
    and "r \<in> set (invocations s)" and "i_run r = iv_run iv" and "i_call r = mc_id call"
    and "draw 0 = (step, uuid, now)" and "create_step (iv_run iv) SK_TOOL step now (ev_db (cs_env s)) = Inr (st, d)"
  shows "run_batch iv limit n fate cutoff (earlier @ [i] # rounds) tu s = (Inr (Inl (PausedBy paused), tu), s)
    \<and> (\<exists>s'. settle_pause iv draw calls paused (tu_messages tu) s = (Inl (of_py (iv_describe iv) IntegrityError), s'))"
proof
  show "run_batch iv limit n fate cutoff (earlier @ [i] # rounds) tu s = (Inr (Inl (PausedBy paused), tu), s)"
    unfolding run_batch_def wait_loop_before[OF assms(1)] using assms(2) by (simp add: ret_def)
  have "map draw [0..<length (call # later)] = draw 0 # map draw [Suc 0..<Suc (length later)]"
    by (simp add: upt_conv_Cons del: upt_Suc)
  then show "\<exists>s'. settle_pause iv draw calls paused (tu_messages tu) s = (Inl (of_py (iv_describe iv) IntegrityError), s')"
    using barrier_repeats[OF assms(4-6,8), of uuid] assms(3,7) by (simp add: settle_pause_def Let_def tbind_def)
qed

section \<open>Calls without identifiers\<close>

lemma or_text_empty: "or_text x [] = [] \<Longrightarrow> or_text x y = y"
  by (cases x) (auto simp: or_text_def)

lemma add_to_call_ids:
  assumes "or_text (dl_id d) [] = []" and "\<forall>c \<in> set cs. pl_id (snd c) = []"
  shows "\<forall>c \<in> set (add_to_call i d cs). pl_id (snd c) = []"
  using assms(2)
proof (induction cs)
  case (Cons c cs)
  then show ?case using or_text_empty[OF assms(1)] by (cases c) simp
qed (simp add: assms(1))

lemma assembled_ids:
  assumes "\<forall>d \<in> set ds. or_text (dl_id d) [] = []" and "\<forall>c \<in> set (pm_calls m). pl_id (snd c) = []"
  shows "\<forall>c \<in> set (pm_calls (fold add_delta ds m)). pl_id (snd c) = []"
  using assms
proof (induction ds arbitrary: m)
  case (Cons d ds)
  have d: "or_text (dl_id d) [] = []" using Cons.prems(1) by simp
  have "\<forall>c \<in> set (pm_calls (add_delta d m)). pl_id (snd c) = []"
  proof (cases "dl_index d")
    case None
    then show ?thesis using Cons.prems(2) by (simp add: add_delta_def)
  next
    case (Some i)
    then show ?thesis using add_to_call_ids[OF d Cons.prems(2), of i] by (simp add: add_delta_def)
  qed
  then have "\<forall>c \<in> set (pm_calls (fold add_delta ds (add_delta d m))). pl_id (snd c) = []"
    by (rule Cons.IH[rotated]) (simp add: Cons.prems(1))
  then show ?case by simp
qed simp

text \<open>A model that sends no call identifiers cannot call tools in two rounds of a run: the identifiers made up
  for it only count the position in the answer, so the first call of the next answer repeats the one that the
  journal has already recorded, and the call fails with the storage's integrity error.\<close>
lemma made_up_ids_repeat:
  assumes "\<forall>d \<in> set ds. or_text (dl_id d) [] = []" and "call \<in> set (mm_calls (fst (assemble ds)))"
    and "create_step (iv_run iv) SK_TOOL (iv_step iv) (iv_now iv) (ev_db (cs_env s)) = Inr (st, d)"
    and "\<And>k e. iv_emit iv k e = (Inr (), e)"
    and "r \<in> set (invocations s)" and "i_run r = iv_run iv" and "i_call r = mc_id call"
  shows "(\<exists>i. mc_id call = ''call_'' @ py_int_str i)
    \<and> (\<exists>s'. prepare_call iv call messages c s = (Inl (of_py (iv_describe iv) IntegrityError), s'))"
proof
  have "\<forall>c \<in> set (pm_calls (fold add_delta ds no_message)). pl_id (snd c) = []"
    by (rule assembled_ids[OF assms(1)]) (simp add: no_message_def)
  then show "\<exists>i. mc_id call = ''call_'' @ py_int_str i"
    using assms(2) by (auto simp: assemble_def Let_def streamed_call_def or_text_def)
next
  have "d_invocations d = invocations s" using create_step_invocations[OF assms(3)] by (simp add: invocations_def)
  then have "start_tool_invocation (iv_run iv) (iv_session iv) (mc_id call) (mc_name call) (call_spec iv call) (JObj [])
      (JObj (parsed_arguments iv call)) ''validating'' (iv_uuid iv) (iv_now iv) d = Inl IntegrityError"
    using assms(5-7) by (intro start_again[of r]) simp_all
  then show "\<exists>s'. prepare_call iv call messages c s = (Inl (of_py (iv_describe iv) IntegrityError), s')"
    using assms(3,4) by (simp add: prepare_call_def open_call_def start_row_def journal_def in_env_def in_db_def emit_def tbind_def)
qed

section \<open>Witnesses\<close>

lemma sample_call_safe: "call_is_safe sample_iv value_error (sample_model_call i) t = (Inr True, t)"
proof -
  have "strip_optional_nulls (JObj []) (JObj [(''type'', JStr ''object'')]) = Inr (JObj [])" by code_simp
  then have "resolve_tool (iv_errors sample_iv) (iv_tools sample_iv) (mc_name (sample_model_call i)) [] t = (Inr (safe_read None), t)"
    by (simp add: resolve_tool_def sample_iv_def sample_model_call_def sample_read_def sample_tool_def sample_contract_def
        tbind_def of_tres_def ret_def validate_schema_def)
  moreover have "call_arguments sample_iv (sample_model_call i) = Inr []" by (simp add: call_arguments_def sample_iv_def sample_model_call_def)
  ultimately show ?thesis by (simp add: call_is_safe_def safe_read_def)
qed

theorem batches_keep_the_calls_witness:
  "\<exists>bs. fst (execution_batches sample_iv (\<lambda>_. False) 2 (map sample_model_call [''a'', ''b'', ''c'']) (sample_surroundings sample_db)) = Inr (Some bs)
     \<and> concat bs = map sample_model_call [''a'', ''b'', ''c''] \<and> list_all (\<lambda>b. b \<noteq> [] \<and> length b \<le> 2) bs"
  using batches_keep_the_calls[of sample_iv "\<lambda>_. False" 2 "map sample_model_call [''a'', ''b'', ''c'']" "sample_surroundings sample_db", OF refl]
  by (auto simp: sample_call_safe list_all_iff)

definition sample_outcome :: "string \<Rightarrow> string \<Rightarrow> ToolCallOutcome" where
  "sample_outcome i text = \<lparr>oc_call = sample_model_call i, oc_step = ''p2'', oc_arguments = [], oc_text = text, oc_ok = True, oc_attempt = None,
     oc_outcome = success (JStr text), oc_policy = safe_read None, oc_artifact = None, oc_invocation = None, oc_run = ''r1'',
     oc_step_finalized = True, oc_interrupt_after = False\<rparr>"

definition sample_items :: "ToolCallOutcome list" where
  "sample_items = [sample_outcome ''a'' ''yes'', sample_outcome ''b'' ''no'']"

definition sample_commits :: "((batch_stop + ToolCallOutcome list) \<times> turn_state) tres \<times> unit call_state" where
  "sample_commits = commit_all sample_iv (aggregate_limit 0) (map Finished sample_items) \<lparr>tu_messages = [JNull], tu_used = 0\<rparr> sample_call_state"

lemma sample_commits_done: "case fst sample_commits of Inr (Inr outs, tu) \<Rightarrow> True | _ \<Rightarrow> False"
  by code_simp


definition sample_started :: progress where
  "sample_started = \<lparr>pg_args = [], pg_policy = default_policy\<lparr>rp_destructive := True\<rparr>, pg_started = True, pg_completed = None\<rparr>"

text \<open>A call of a tool that has gone since, on the row of \<open>inv_1\<close>.\<close>

definition sample_gone :: ModelToolCall where
  "sample_gone = \<lparr>mc_id = ''inv_1'', mc_name = ''gone'', mc_arguments = ''{}'', mc_repair = 0\<rparr>"

lemma record_sample_call: "is_ok (record_tool_call ''r1'' ''gone'' a ok text 0 ''inv_1'' sample_db)"
proof -
  have "has_run sample_db ''r1''" "has_invocation sample_db ''inv_1''" "d_tool_calls sample_db = []" by code_simp+
  then show ?thesis by (simp add: record_tool_call_def insert_tool_call_def sql_insert_def tool_call_check_def optional_ref_def is_ok_def)
qed

lemma finish_sample_call:
  assumes "d_invocations d = d_invocations sample_db" and "st \<in> set invocation_statuses"
    and "ex \<in> {''succeeded'', ''failed'', ''denied'', ''cancelled''}"
  shows "is_ok (finish_tool_invocation ''inv_1'' st ex ''inline'' text 0 None code now d)"
proof -
  have "list_all invocation_check (d_invocations sample_db)" by code_simp
  then show ?thesis using assms
    by (auto simp: finish_tool_invocation_def sql_set_def list_all_iff invocation_check_def optional_in_def optional_nonneg_def is_ok_def)
qed

definition sample_concluded :: "prepared_call tres \<times> unit call_state" where
  "sample_concluded = conclude sample_iv ''inv_1'' sample_gone (settle_error ''poke'' sample_started (InvalidPath ''p'')) sample_call_state"

lemma sample_concludes: "\<exists>item. fst sample_concluded = Inr (Prepared item)"
proof -
  let ?out = "settle_error ''poke'' sample_started (InvalidPath ''p'')"
  have out: "to_usage ?out = None" "to_delivery ?out = DS_INLINE" "to_code ?out = Some ''unknown_execution''" "to_status ?out = OS_FAILED"
    "to_audit_arguments ?out = None" by code_simp+
  obtain d where d: "record_tool_call ''r1'' ''gone'' (JObj []) (outcome_ok ?out)
      (audit_text ?out) 0 ''inv_1'' sample_db = Inr d" using record_sample_call is_ok_iff by metis
  then have rows: "d_invocations d = d_invocations sample_db" by (auto simp: record_tool_call_def insert_tool_call_def rbind_Inr_iff)
  then obtain d' where d': "finish_tool_invocation ''inv_1'' ''failed'' ''failed'' ''inline'' (for_model ?out) 0 None
      (Some ''unknown_execution'') ''t9'' d = Inr d'"
    using finish_sample_call[OF rows, of "''failed''" "''failed''" "for_model ?out" "Some ''unknown_execution''" "''t9''"]
    by (auto simp: is_ok_iff invocation_statuses_def)
  show ?thesis unfolding sample_concluded_def conclude_def
    using d d' out
    by (simp add: invite_repair_def exhaust_repair_def external_usage_def screen_external_def deliver_def finish_attempted_def
        finish_row_def end_status_def journal_write_def journal_def in_env_def in_db_def tbind_def ret_def sample_iv_def sample_gone_def
        sample_call_state_def sample_surroundings_def default_policy_def Let_def)
qed

theorem no_repair_after_effects_witness:
  "\<exists>item. fst sample_concluded = Inr (Prepared item) \<and> \<not> repairable (oc_outcome item)"
proof -
  let ?pol = "default_policy\<lparr>rp_destructive := True\<rparr>"
  obtain item where f: "fst sample_concluded = Inr (Prepared item)"
    using sample_concludes by blast
  then have item: "sample_concluded = (Inr (Prepared item), snd sample_concluded)" by (simp add: prod_eq_iff)
  obtain s2 where c: "handler_call sample_errors (\<lambda>_. ret ()) (workspace_chain True (sample_setup [])) sample_write []
      (sample_surroundings sample_db) = Some ([], ?pol, s2)" using sample_write_call by blast
  have aw: "await_handler Completes (rp_interrupt ?pol) (call_handler sample_write None []) s2 = (Inl (InvalidPath ''p''), s2)"
    by (simp add: await_handler_def call_handler_def sample_write_def sample_tool_def of_tres_def)
  have "run_body sample_errors (\<lambda>_. ret ()) Completes (workspace_chain True (sample_setup [])) sample_write [] None
      (\<lparr>pg_args = [], pg_policy = default_policy, pg_started = False, pg_completed = None\<rparr>, sample_surroundings sample_db)
    = (Inl (InvalidPath ''p''), sample_started, s2)"
    unfolding run_body_handler[OF c] using aw by (simp add: tbind_def on_env_def sample_started_def)
  then have run: "run_tool sample_errors (\<lambda>_. ret ()) Completes (workspace_chain True (sample_setup [])) (\<lambda>_. []) (\<lambda>_. Some sample_write)
      ''poke'' [] None (sample_surroundings sample_db)
    = (Inr \<lparr>ir_execution = Outcome (settle_error ''poke'' sample_started (InvalidPath ''p'')), ir_args = [], ir_policy = ?pol\<rparr>, s2)"
    by (simp add: run_tool_def) (simp add: sample_started_def)
  have "has_side_effects ?pol" by (simp add: has_side_effects_def)
  with no_repair_after_effects[OF _ _ c _ _ run _ item[unfolded sample_concluded_def], of ] aw f show ?thesis by auto
qed

text \<open>Two calls of one batch; the first pauses while the second, whose row is \<open>inv_1\<close>, is running.\<close>

definition sample_paused :: paused_call where
  "sample_paused = \<lparr>pz_pause = \<lparr>tz_kind = ''user_input'', tz_request = ''q1'', tz_payload = [], tz_resume = []\<rparr>,
     pz_invocation = ''inv_0'', pz_step = ''p2'', pz_call = ''c0''\<rparr>"

lemma sample_step_made: "is_ok (create_step (iv_run sample_iv) SK_TOOL ''p9'' ''t9'' (ev_db (cs_env sample_call_state)))"
  by code_simp

lemma sample_row: "sample_invocation ''inv_1'' 1 ''running'' \<in> set (invocations sample_call_state)"
  "i_run (sample_invocation ''inv_1'' 1 ''running'') = iv_run sample_iv"
  by (simp_all add: invocations_def sample_call_state_def sample_surroundings_def sample_db_def sample_invocation_def sample_iv_def)

theorem pause_in_batch_breaks_turn_witness:
  "\<exists>s'. settle_pause sample_iv (\<lambda>_. (''p9'', ''u9'', ''t9'')) [sample_model_call ''c0'', sample_gone] sample_paused [] sample_call_state
     = (Inl (Other ''IntegrityError'' [] None), s')"
proof -
  obtain st d where step: "create_step (iv_run sample_iv) SK_TOOL ''p9'' ''t9'' (ev_db (cs_env sample_call_state)) = Inr (st, d)"
    using sample_step_made by (auto simp: is_ok_iff)
  have "after_paused (pz_call sample_paused) [sample_model_call ''c0'', sample_gone] = [sample_gone]"
    by (simp add: after_paused_def sample_paused_def sample_model_call_def)
  moreover have "i_call (sample_invocation ''inv_1'' 1 ''running'') = mc_id sample_gone" by (simp add: sample_invocation_def sample_gone_def)
  moreover have "of_py (iv_describe sample_iv) IntegrityError = Other ''IntegrityError'' [] None" by (simp add: sample_iv_def of_py_def)
  ultimately show ?thesis
    using pause_in_batch_breaks_turn[where earlier = "[]" and fate = "\<lambda>_. Ended (PausedBy sample_paused)" and i = 0
        and paused = sample_paused and r = "sample_invocation ''inv_1'' 1 ''running''" and s = sample_call_state and iv = sample_iv
        and draw = "\<lambda>_. (''p9'', ''u9'', ''t9'')" and tu = "\<lparr>tu_messages = [], tu_used = 0\<rparr>",
        OF _ refl _ sample_row(1) sample_row(2) _ refl step] by auto
qed

text \<open>The second answer of a model without identifiers.\<close>

definition sample_deltas :: "ModelDelta list" where
  "sample_deltas = [\<lparr>dl_content = [], dl_reasoning = [], dl_index = Some 0, dl_id = None, dl_name = Some ''look'', dl_arguments = ''{'', dl_usage = None\<rparr>,
     \<lparr>dl_content = [], dl_reasoning = [], dl_index = Some 0, dl_id = None, dl_name = None, dl_arguments = ''}'', dl_usage = None\<rparr>]"

definition sample_row_0 :: invocation_row where
  "sample_row_0 = (sample_invocation ''inv_1'' 1 ''completed'')\<lparr>i_call := ''call_0''\<rparr>"

definition sample_second_round :: "unit call_state" where
  "sample_second_round = sample_call_state\<lparr>cs_env := sample_surroundings (sample_db\<lparr>d_invocations := [sample_row_0]\<rparr>)\<rparr>"

lemma sample_assembled: "mm_calls (fst (assemble sample_deltas)) = [sample_model_call ''call_0'']"
  by code_simp

lemma sample_second_step: "is_ok (create_step (iv_run sample_iv) SK_TOOL (iv_step sample_iv) (iv_now sample_iv) (ev_db (cs_env sample_second_round)))"
  by code_simp

theorem made_up_ids_repeat_witness:
  "\<exists>s'. prepare_call sample_iv (sample_model_call ''call_0'') [] False sample_second_round = (Inl (Other ''IntegrityError'' [] None), s')"
proof -
  obtain st d where step: "create_step (iv_run sample_iv) SK_TOOL (iv_step sample_iv) (iv_now sample_iv) (ev_db (cs_env sample_second_round)) = Inr (st, d)"
    using sample_second_step by (auto simp: is_ok_iff)
  have "\<forall>d \<in> set sample_deltas. or_text (dl_id d) [] = []" by (simp add: sample_deltas_def or_text_def)
  moreover have "sample_model_call ''call_0'' \<in> set (mm_calls (fst (assemble sample_deltas)))" by (simp add: sample_assembled)
  moreover have "\<And>k e. iv_emit sample_iv k e = (Inr (), e)" "of_py (iv_describe sample_iv) IntegrityError = Other ''IntegrityError'' [] None"
    by (simp_all add: sample_iv_def of_py_def ret_def)
  moreover have "sample_row_0 \<in> set (invocations sample_second_round)" "i_run sample_row_0 = iv_run sample_iv"
    "i_call sample_row_0 = mc_id (sample_model_call ''call_0'')"
    by (simp_all add: invocations_def sample_second_round_def sample_surroundings_def sample_row_0_def sample_invocation_def sample_iv_def
        sample_model_call_def)
  ultimately show ?thesis using made_up_ids_repeat[OF _ _ step, where r = sample_row_0] by metis
qed

end
