(* ===== verification/Governor_Safety.thy ===== *)
theory Governor_Safety
  imports Run_Governor
begin

text \<open>
  What the governor guarantees: the limits of a run that works alone are kept, no sequence of calls
  repeats itself, a saved snapshot reads back, and what happens when the governor of a run is opened
  a second time.
\<close>

section \<open>Effects\<close>

lemma save_governor_Inr: "save_governor now g st = Inr (g', st') \<Longrightarrow> g' = g"
  by (auto simp: save_governor_def rbind_Inr_iff)

lemma governor_current_Inr: "governor_current rd g st = Inr (g', st') \<Longrightarrow> g' = refreshed rd g"
  unfolding governor_current_def by (rule save_governor_Inr)

lemma governor_stop_stops: "governor_stop reason detail rd g st \<noteq> Inr (Inr x, g', st')"
  by (auto simp: governor_stop_def rbind_Inr_iff)

lemma go_on_Inr: "go_on m f = Inr (Inr y, g', st') \<longleftrightarrow> (\<exists>x g1 st1. m = Inr (Inr x, g1, st1) \<and> f x g1 st1 = Inr (Inr y, g', st'))"
  by (cases m) (auto simp: go_on_def split: sum.splits prod.splits)

lemma check_common_Inr: "check_common rd rd' g st = Inr (Inr u, g', st') \<Longrightarrow> g' = refreshed rd g"
  by (auto simp: check_common_def rbind_Inr_iff governor_stop_stops split: option.splits dest!: governor_current_Inr)

lemma before_model_Inr:
  "before_model rd rd' g st = Inr (Inr u, g', st') \<Longrightarrow> g' = refreshed rd g \<and> 0 < rm_rounds (available_remaining g')"
  by (auto simp: before_model_def go_on_Inr governor_stop_stops not_le split: if_splits dest!: check_common_Inr)

lemma record_model_usage_Inr: "record_model_usage i j rd g st = Inr (g', st') \<Longrightarrow> g' = refreshed rd (observe_usage i j g)"
  by (auto simp: record_model_usage_def dest: governor_current_Inr)

lemma record_round_Inr:
  "record_round rd g st = Inr (g', st') \<Longrightarrow> g' = with_snapshot (\<lambda>s. s\<lparr>sn_rounds := sn_rounds s + 1\<rparr>) (refreshed rd g)"
  by (auto simp: record_round_def rbind_Inr_iff dest!: governor_current_Inr save_governor_Inr)

lemma extend_tool_rounds_Inr:
  assumes "extend_tool_rounds n rd g st = Inr (g', st')"
  shows "g' = with_snapshot (\<lambda>s. s\<lparr>sn_limits := (sn_limits s)\<lparr>lm_rounds := lm_rounds (sn_limits s) + n\<rparr>,
      sn_extensions := sn_extensions s + 1, sn_stop := None\<rparr>) (refreshed rd g)"
proof -
  have "run_limits l = Inr l' \<Longrightarrow> l' = l" for l l' by (auto simp: run_limits_def rbind_Inr_iff)
  with assms show ?thesis
    by (auto simp: extend_tool_rounds_def rbind_Inr_iff with_snapshot_def dest!: governor_current_Inr save_governor_Inr)
qed

lemma finish_tool_Inr:
  "finish_tool i ok ms rd g st = Inr (g', st') \<Longrightarrow> g' = refreshed rd (g\<lparr>go_history := note_result i ok (go_history g)\<rparr>)"
  by (auto simp: finish_tool_def rbind_Inr_iff dest: governor_current_Inr)

text \<open>An admitted call.\<close>

definition admitted :: "int \<Rightarrow> string \<Rightarrow> bool \<Rightarrow> governor \<Rightarrow> governor" where
  "admitted i fingerprint poll g = with_snapshot (\<lambda>s. s\<lparr>sn_calls := sn_calls s + 1\<rparr>)
     (g\<lparr>go_history := go_history g @ [\<lparr>ai_id = i, ai_fingerprint = fingerprint, ai_ok = None, ai_poll = poll\<rparr>]\<rparr>)"

lemma before_tool_Inr:
  assumes "before_tool d sha redact name args trusted_poll rd rd' g st = Inr (Inr (i, safe, fingerprint), g', st')"
  obtains g1 where "g1 = refreshed rd g" and "fingerprint = call_fingerprint sha name (redact args)" and "safe = redact args"
    and "\<not> spent (rm_calls (available_remaining g1))"
    and "poll_detail trusted_poll (rd_clock rd') (loop_found (go_loop g1) (go_history g1) fingerprint) = None"
    and "g' = admitted i fingerprint (case trusted_poll of Some (True, _) \<Rightarrow> True | _ \<Rightarrow> False) g1"
  using assms
  by (auto simp: before_tool_def go_on_Inr governor_stop_stops admit_call_def Let_def rbind_Inr_iff admitted_def split: if_splits
      dest!: check_common_Inr save_governor_Inr)

section \<open>A run that works alone\<close>

text \<open>Without child runs a refresh changes only the usage that is measured.\<close>

definition alone :: "governor \<Rightarrow> bool" where
  "alone g \<longleftrightarrow> \<not> go_collaboration g \<and> go_child g = None \<and> go_reserved g = nothing_reserved"

lemma refreshed_alone:
  assumes "alone g"
  shows "alone (refreshed rd g)" "sn_rounds (go_snapshot (refreshed rd g)) = sn_rounds (go_snapshot g)"
    "sn_calls (go_snapshot (refreshed rd g)) = sn_calls (go_snapshot g)"
  using assms by (simp_all add: alone_def refreshed_def child_part_def py_int_def Let_def)

lemma refreshed_fields [simp]:
  "sn_limits (go_snapshot (refreshed rd g)) = sn_limits (go_snapshot g)" "go_history (refreshed rd g) = go_history g"
  "go_loop (refreshed rd g) = go_loop g" "go_run (refreshed rd g) = go_run g"
  by (simp_all add: refreshed_def Let_def)

lemma available_alone:
  assumes "alone g"
  shows "rm_rounds (available_remaining g) = of_int (max 0 (lm_rounds (sn_limits (go_snapshot g)) - sn_rounds (go_snapshot g)))"
    and "rm_calls (available_remaining g) =
      map_option (\<lambda>l. of_int (max 0 (l - sn_calls (go_snapshot g)))) (lm_calls (sn_limits (go_snapshot g)))"
  using assms by (cases "lm_calls (sn_limits (go_snapshot g))"; simp add: alone_def available_remaining_def nothing_reserved_def
      snapshot_remaining_def Let_def less_reserved_def remaining_def)+

text \<open>The steps of a governed run: a turn with tool calls, a turn that only answers, a call that is
  admitted, its end, a granted extension, and any other look at the budget.\<close>

inductive governor_step :: "db \<Rightarrow> (string \<Rightarrow> string) \<Rightarrow> (dict \<Rightarrow> dict) \<Rightarrow> governor \<times> governance_store \<Rightarrow> governor \<times> governance_store \<Rightarrow> bool"
  for d sha redact where
  turn: "before_model rd rd' g st = Inr (Inr u, g1, st1) \<Longrightarrow> record_model_usage i j rd1 g1 st1 = Inr (g2, st2)
    \<Longrightarrow> record_round rd2 g2 st2 = Inr (g3, st3) \<Longrightarrow> governor_step d sha redact (g, st) (g3, st3)"
| answer: "before_model rd rd' g st = Inr (Inr u, g1, st1) \<Longrightarrow> record_model_usage i j rd1 g1 st1 = Inr (g2, st2)
    \<Longrightarrow> governor_step d sha redact (g, st) (g2, st2)"
| call: "before_tool d sha redact name args None rd rd' g st = Inr (Inr (i, safe, fingerprint), g1, st1)
    \<Longrightarrow> governor_step d sha redact (g, st) (g1, st1)"
| finish: "finish_tool i ok ms rd g st = Inr (g1, st1) \<Longrightarrow> governor_step d sha redact (g, st) (g1, st1)"
| extend: "extend_tool_rounds n rd g st = Inr (g1, st1) \<Longrightarrow> 0 \<le> n \<Longrightarrow> governor_step d sha redact (g, st) (g1, st1)"
| look: "governor_current rd g st = Inr (g1, st1) \<Longrightarrow> governor_step d sha redact (g, st) (g1, st1)"

text \<open>The sequence of fingerprints never ends, at any moment, in a repetition.\<close>

definition repetition_free :: "LoopDetectionSettings \<Rightarrow> string list \<Rightarrow> bool" where
  "repetition_free settings fs \<longleftrightarrow>
     (\<forall>f. \<not> sublist (replicate (nat (ld_repeats settings)) f) fs) \<and>
     (\<forall>c. 2 \<le> length c \<and> int (length c) \<le> ld_length settings \<longrightarrow> \<not> sublist (concat (replicate (nat (ld_cycles settings)) c)) fs)"

definition fingerprints :: "governor \<Rightarrow> string list" where
  "fingerprints g = map ai_fingerprint (go_history g)"

definition within_limits :: "governor \<Rightarrow> bool" where
  "within_limits g \<longleftrightarrow> (let s = go_snapshot g in sn_rounds s \<le> lm_rounds (sn_limits s) \<and>
     (case lm_calls (sn_limits s) of None \<Rightarrow> True | Some n \<Rightarrow> sn_calls s \<le> n) \<and> sn_calls s = int (length (go_history g)))"

definition governed_ok :: "governor \<Rightarrow> bool" where
  "governed_ok g \<longleftrightarrow> alone g \<and> within_limits g \<and> list_all (\<lambda>a. \<not> ai_poll a) (go_history g)
     \<and> 2 \<le> ld_repeats (go_loop g) \<and> 2 \<le> ld_cycles (go_loop g) \<and> repetition_free (go_loop g) (fingerprints g)"

lemma take_last_append: "length ys = n \<Longrightarrow> take_last n (xs @ ys) = ys"
  by (simp add: take_last_def)

lemma sublist_snoc: "sublist xs (ys @ [y]) \<longleftrightarrow> sublist xs ys \<or> suffix xs (ys @ [y])"
  unfolding sublist_def suffix_def
  by (metis append_is_Nil_conv append.assoc append.right_neutral butlast_append butlast_snoc)

lemma suffix_repeated:
  assumes "suffix (replicate n f) fs" and "0 < n"
  shows "repeated n fs"
proof -
  obtain xs where fs: "fs = xs @ replicate n f" using assms(1) by (auto simp: suffix_def)
  have "remdups (replicate (Suc k) f) = [f]" for k by (induction k) auto
  then show ?thesis using assms(2) unfolding repeated_def fs by (cases n) (simp_all add: take_last_append)
qed

lemma suffix_cycles:
  assumes "suffix (concat (replicate n c)) fs" and "0 < n"
  shows "cycles (length c) n fs"
proof -
  obtain xs where fs: "fs = xs @ concat (replicate n c)" using assms(1) by (auto simp: suffix_def)
  have len: "length (concat (replicate n c)) = length c * n" by (simp add: length_concat sum_list_replicate mult.commute)
  obtain k where n: "n = Suc k" using assms(2) by (cases n) auto
  have "concat (replicate n c) = concat (replicate k c) @ c" unfolding n by (simp only: replicate_Suc replicate_append_same[symmetric] concat_append) simp
  then have "take_last (length c) fs = c" unfolding fs by (simp add: take_last_append flip: append_assoc)
  then show ?thesis unfolding cycles_def using len by (simp add: fs take_last_append)
qed

lemma fingerprint_no_poll: "list_all (\<lambda>a. \<not> ai_poll a) as \<Longrightarrow> map item_fingerprint as = map ai_fingerprint as"
  by (auto simp: list_all_iff item_fingerprint_def)

lemma loop_found_None:
  assumes "loop_found settings history f = None" and "list_all (\<lambda>a. \<not> ai_poll a) history"
    and "repetition_free settings (map ai_fingerprint history)" and "2 \<le> ld_repeats settings" "2 \<le> ld_cycles settings"
  shows "repetition_free settings (map ai_fingerprint history @ [f])"
proof -
  let ?fs = "map ai_fingerprint history @ [f]"
  have "\<not> repeated (nat (ld_repeats settings)) ?fs"
    and "find (\<lambda>period. cycles period (nat (ld_cycles settings)) ?fs) [2 ..< nat (ld_length settings) + 1] = None"
    using assms(1) fingerprint_no_poll[OF assms(2)] by (auto simp: loop_found_def Let_def split: if_splits)
  then have "\<not> suffix (replicate (nat (ld_repeats settings)) g) ?fs"
    and "\<lbrakk>2 \<le> length c; int (length c) \<le> ld_length settings\<rbrakk> \<Longrightarrow> \<not> suffix (concat (replicate (nat (ld_cycles settings)) c)) ?fs" for g c
    using assms(4,5) suffix_repeated[of "nat (ld_repeats settings)" g ?fs] suffix_cycles[of "nat (ld_cycles settings)" c ?fs]
    by (auto simp: find_None_iff)
  with assms(3) show ?thesis by (auto simp: repetition_free_def sublist_snoc)
qed

lemma governed_refreshed: "governed_ok g \<Longrightarrow> governed_ok (refreshed rd g)"
  by (simp add: governed_ok_def refreshed_alone within_limits_def Let_def fingerprints_def split: option.splits)

lemma observed_fields [simp]: "go_snapshot (observe_usage i j g) = go_snapshot g" "alone (observe_usage i j g) = alone g"
  by (simp_all add: observe_usage_def alone_def)

lemma governed_observed: "governed_ok g \<Longrightarrow> governed_ok (observe_usage i j g)"
  by (simp add: governed_ok_def observe_usage_def alone_def within_limits_def fingerprints_def)

lemma governed_extended:
  "governed_ok g \<Longrightarrow> 0 \<le> n \<Longrightarrow> governed_ok (with_snapshot (\<lambda>s. s\<lparr>sn_limits := (sn_limits s)\<lparr>lm_rounds := lm_rounds (sn_limits s) + n\<rparr>,
      sn_extensions := sn_extensions s + 1, sn_stop := None\<rparr>) g)"
  by (simp add: governed_ok_def with_snapshot_def alone_def within_limits_def fingerprints_def Let_def split: option.splits)

lemma note_result_keeps: "map ai_fingerprint (note_result i ok as) = map ai_fingerprint as" "length (note_result i ok as) = length as"
  "list_all (\<lambda>a. \<not> ai_poll a) (note_result i ok as) = list_all (\<lambda>a. \<not> ai_poll a) as"
  by (induction as) auto

lemma governed_noted: "governed_ok g \<Longrightarrow> governed_ok (g\<lparr>go_history := note_result i ok (go_history g)\<rparr>)"
  by (simp add: governed_ok_def alone_def within_limits_def fingerprints_def note_result_keeps)

lemma governed_round:
  assumes "governed_ok g" and "sn_rounds (go_snapshot g) < lm_rounds (sn_limits (go_snapshot g))"
  shows "governed_ok (with_snapshot (\<lambda>s. s\<lparr>sn_rounds := sn_rounds s + 1\<rparr>) g)"
  using assms by (simp add: governed_ok_def with_snapshot_def alone_def within_limits_def fingerprints_def Let_def split: option.splits)

lemma governed_admitted:
  assumes ok: "governed_ok g" and calls: "\<not> spent (rm_calls (available_remaining g))"
    and free: "loop_found (go_loop g) (go_history g) f = None"
  shows "governed_ok (admitted i f False g)"
proof -
  let ?s = "go_snapshot g"
  have g: "alone g" "within_limits g" "list_all (\<lambda>a. \<not> ai_poll a) (go_history g)" "2 \<le> ld_repeats (go_loop g)" "2 \<le> ld_cycles (go_loop g)"
    "repetition_free (go_loop g) (map ai_fingerprint (go_history g))" using ok by (simp_all add: governed_ok_def fingerprints_def)
  have "case lm_calls (sn_limits ?s) of None \<Rightarrow> True | Some n \<Rightarrow> sn_calls ?s < n"
    using calls available_alone(2)[OF g(1)] by (auto simp: spent_def split: option.splits)
  then have "within_limits (admitted i f False g)"
    using g(2) by (auto simp: within_limits_def admitted_def with_snapshot_def Let_def split: option.splits)
  then show ?thesis using g loop_found_None[OF free g(3,6,4,5)]
    by (simp add: governed_ok_def fingerprints_def admitted_def with_snapshot_def alone_def)
qed

lemma before_model_room:
  assumes "alone g" and "0 < rm_rounds (available_remaining g)"
  shows "sn_rounds (go_snapshot g) < lm_rounds (sn_limits (go_snapshot g))"
  using assms(2) available_alone(1)[OF assms(1)] by (simp split: if_splits)

lemma governed_step:
  assumes "governor_step d sha redact (g, st) (g', st')" and "governed_ok g"
  shows "governed_ok g'"
  using assms
proof cases
  case (turn rd rd' u g1 st1 i j rd1 g2 st2 rd2)
  let ?g2 = "refreshed rd1 (observe_usage i j (refreshed rd g))"
  have ok: "governed_ok (refreshed rd2 ?g2)" using assms(2) by (simp add: governed_refreshed governed_observed)
  have "alone (refreshed rd g)" using assms(2) by (simp add: governed_ok_def refreshed_alone)
  with before_model_Inr[OF turn(1)] have "sn_rounds (go_snapshot (refreshed rd g)) < lm_rounds (sn_limits (go_snapshot (refreshed rd g)))"
    using before_model_room[of "refreshed rd g"] by auto
  moreover have "alone (observe_usage i j (refreshed rd g))" "alone ?g2"
    using \<open>alone (refreshed rd g)\<close> by (simp_all add: refreshed_alone)
  ultimately have "sn_rounds (go_snapshot (refreshed rd2 ?g2)) < lm_rounds (sn_limits (go_snapshot (refreshed rd2 ?g2)))"
    by (simp add: refreshed_alone)
  with governed_round[OF ok] show ?thesis
    using before_model_Inr[OF turn(1)] record_model_usage_Inr[OF turn(2)] record_round_Inr[OF turn(3)] by simp
next
  case (answer rd rd' u g1 st1 i j rd1)
  then show ?thesis using assms(2) by (auto dest!: before_model_Inr record_model_usage_Inr intro!: governed_refreshed governed_observed)
next
  case (call name args rd rd' i safe fingerprint)
  then obtain g1 where g1: "g1 = refreshed rd g" and "\<not> spent (rm_calls (available_remaining g1))"
    and "poll_detail None (rd_clock rd') (loop_found (go_loop g1) (go_history g1) fingerprint) = None" and g': "g' = admitted i fingerprint False g1"
    by (rule before_tool_Inr) auto
  then have "governed_ok (admitted i fingerprint False g1)"
    using assms(2) by (intro governed_admitted) (simp_all add: governed_refreshed poll_detail_def)
  then show ?thesis using g' by simp
next
  case (finish i ok ms rd)
  then show ?thesis using assms(2) by (auto dest!: finish_tool_Inr intro!: governed_refreshed governed_noted)
next
  case (extend n rd)
  then show ?thesis using assms(2) by (auto dest!: extend_tool_rounds_Inr intro!: governed_extended governed_refreshed)
next
  case (look rd)
  then show ?thesis using assms(2) by (auto dest!: governor_current_Inr intro!: governed_refreshed)
qed

inductive governor_reach for d sha redact s where
  stay: "governor_reach d sha redact s s"
| go: "governor_reach d sha redact s t \<Longrightarrow> governor_step d sha redact t u \<Longrightarrow> governor_reach d sha redact s u"

lemma governed_reach: "governor_reach d sha redact s t \<Longrightarrow> governed_ok (fst s) \<Longrightarrow> governed_ok (fst t)"
  by (induction rule: governor_reach.induct) (auto dest: governed_step)

lemma new_run_governed:
  assumes "create_governor d run None mode limits settings clock now st = Inr (g, st')" and "governance_of run st = None"
    and "is_ok (run_limits limits)" and "is_ok (loop_settings settings)"
  shows "governed_ok g"
proof -
  have "g = new_governor run (new_snapshot mode run limits) [] settings clock"
    using assms(1,2) by (auto simp: create_governor_def governance_start_def governance_load_def rbind_Inr_iff or_text_def)
  moreover have "0 < lm_rounds limits" "\<And>n. lm_calls limits = Some n \<Longrightarrow> 0 < n"
    using assms(3) by (auto simp: is_ok_iff run_limits_def rbind_Inr_iff positive_def)
  moreover have "2 \<le> ld_repeats settings" "2 \<le> ld_cycles settings"
    using assms(4) by (auto simp: is_ok_iff loop_settings_def rbind_Inr_iff at_least_two_def)
  ultimately show ?thesis
    by (auto simp: governed_ok_def new_governor_def new_snapshot_def alone_def accounted_for_def attempts_in_def within_limits_def
        fingerprints_def repetition_free_def Let_def List.map_filter_def split: option.splits)
qed

text \<open>C24: A new run without child runs and without polling never exceeds its limits and never loops.  After any
  sequence of turns, calls, ends of calls and granted extensions: the rounds stay within the limit of rounds, the
  admitted calls within the limit of calls, nowhere in the admitted calls is one call repeated
  \<open>consecutive_repeats\<close> times in a row, and nowhere is a sequence of at least two and at most \<open>max_cycle_length\<close>
  calls repeated \<open>cycle_repetitions\<close> times.\<close>
theorem governed_run_stays_within_limits:
  assumes "create_governor d run None mode limits settings clock now st = Inr (g0, st0)" and "governance_of run st = None"
    and "is_ok (run_limits limits)" and "is_ok (loop_settings settings)"
    and "governor_reach d sha redact (g0, st0) (g, st')"
  shows "sn_rounds (go_snapshot g) \<le> lm_rounds (sn_limits (go_snapshot g)) \<and>
    (\<forall>n. lm_calls (sn_limits (go_snapshot g)) = Some n \<longrightarrow> int (length (go_history g)) \<le> n) \<and>
    repetition_free (go_loop g) (fingerprints g)"
proof -
  have "governed_ok g" using governed_reach[OF assms(5)] new_run_governed[OF assms(1-4)] by simp
  then show ?thesis by (auto simp: governed_ok_def within_limits_def Let_def)
qed

section \<open>Reading a snapshot back\<close>

lemma saved_snapshot_lemma:
  assumes "governance_save run s history now st = Inr st'" and "unique_by gr_run (gs_rows st)"
    and "governance_of run st = Some r" and "gr_mode r = sn_mode s" and "gr_root r = sn_root s" and "is_ok (run_limits (sn_limits s))"
  shows "governance_load run st' = Inr (Some (s, take_last 64 history))"
proof -
  have "gs_rows st' = sql_update (\<lambda>r. gr_run r = run) (saved_row s history now) (gs_rows st)"
    using assms(1) by (auto simp: governance_save_def rbind_Inr_iff sql_set_Inr)
  then have row: "governance_of run st' = Some (saved_row s history now r)"
    using assms(3) row_by_Some[of gr_run run "gs_rows st" r] by (simp add: governance_of_def row_by_update saved_row_def)
  have "run_limits (sn_limits s) = Inr (sn_limits s)"
    using assms(6) by (auto simp: is_ok_iff run_limits_def rbind_Inr_iff)
  with row show ?thesis using assms(4,5) by (simp add: governance_load_def saved_row_def row_snapshot_def)
qed


section \<open>Opening the governor of a run again\<close>

text \<open>C30: Opening the governor of a run a second time, as resuming a paused run does, counts its model calls twice.
  The snapshot that is loaded already holds the usage of the run's model calls, and the first look adds the usage of
  the same calls again, so tokens and cost grow without a model call.\<close>
theorem reopened_run_counts_twice:
  assumes "governor_current rd g st = Inr (g1, st1)" and "alone g" and "unique_by gr_run (gs_rows st)"
    and "governance_of (go_run g) st = Some r" and "gr_mode r = sn_mode (go_snapshot g)" and "gr_root r = sn_root (go_snapshot g)"
    and "is_ok (run_limits (sn_limits (go_snapshot g)))" and "go_seen_in g \<le> rd_in rd" "go_seen_out g \<le> rd_out rd"
    and "create_governor d (go_run g) parent mode limits settings clock now st1 = Inr (g2, st2)"
    and "governor_current rd' g2 st2 = Inr (g3, st3)" and "rd_in rd' = rd_in rd" "rd_out rd' = rd_out rd" "rd_cost rd' = rd_cost rd"
    and "0 \<le> rd_in rd" "0 \<le> rd_out rd"
  shows "sn_tokens (go_snapshot g3) = sn_tokens (go_snapshot g1) + rd_in rd + rd_out rd
    \<and> sn_cost (go_snapshot g3) = sn_cost (go_snapshot g1) + rd_cost rd"
proof -
  have g1: "g1 = refreshed rd g" by (rule governor_current_Inr[OF assms(1)])
  have save: "governance_save (go_run g) (go_snapshot g1) (saved_history g1) (rd_now rd) st = Inr st1"
    using assms(1) by (auto simp: governor_current_def save_governor_def rbind_Inr_iff)
  have same: "sn_mode (go_snapshot g1) = sn_mode (go_snapshot g)" "sn_root (go_snapshot g1) = sn_root (go_snapshot g)"
    by (simp_all add: g1 refreshed_def Let_def)
  have "governance_load (go_run g) st1 = Inr (Some (go_snapshot g1, take_last 64 (saved_history g1)))"
    by (rule saved_snapshot_lemma[OF save assms(3,4)]) (use assms(5-7) same g1 in simp_all)
  then have g2: "g2 = new_governor (go_run g) ((go_snapshot g1)\<lparr>sn_mode := mode\<rparr>) (take_last 64 (saved_history g1)) settings clock"
    using assms(10) by (auto simp: create_governor_def governance_start_def)
  have "saved_history g1 = map Attempt (go_history g1)"
    using assms(2) by (simp add: g1 saved_history_def refreshed_def alone_def Let_def)
  then have "accounted_for (go_run g) (take_last 64 (saved_history g1)) = None"
    by (simp add: accounted_for_def take_last_def drop_map List.map_filter_def comp_def filter_empty_conv)
  moreover have g3: "g3 = refreshed rd' g2" by (rule governor_current_Inr[OF assms(11)])
  ultimately show ?thesis using assms(12-16)
    by (simp add: g2 new_governor_def refreshed_def sn_tokens_def child_part_def py_int_def Let_def max_def)
qed

section \<open>Witnesses\<close>

definition sample_limits :: RunLimits where
  "sample_limits = \<lparr>lm_rounds = 2, lm_calls = Some 3, lm_seconds = None, lm_tokens = Some 100, lm_budget = None\<rparr>"

definition sample_reading :: reading where
  "sample_reading = \<lparr>rd_in = 10, rd_out = 5, rd_cost = 1, rd_settled = \<lparr>cu_run = [], cu_in = 0, cu_out = 0, cu_cost = 0,
     cu_rounds = 0, cu_calls = 0\<rparr>, rd_reserved = nothing_reserved, rd_clock = 0, rd_now = ''t1''\<rparr>"

definition sample_created :: "(governor \<times> governance_store) res" where
  "sample_created = create_governor sample_db ''r1'' None RM_EXEC sample_limits default_loop_settings 0 ''t0'' \<lparr>gs_rows = [], gs_attempts = []\<rparr>"

definition sample_governor :: "governor \<times> governance_store" where
  "sample_governor = (case sample_created of Inr x \<Rightarrow> x | Inl _ \<Rightarrow> undefined)"

definition sample_seen :: "governor \<times> governance_store" where
  "sample_seen = (case governor_current sample_reading (fst sample_governor) (snd sample_governor) of Inr x \<Rightarrow> x | Inl _ \<Rightarrow> undefined)"

lemma sample_created: "sample_created = Inr sample_governor"
proof -
  have "is_ok sample_created" by code_simp
  then obtain x where x: "sample_created = Inr x" by (auto simp only: is_ok_iff)
  show ?thesis unfolding sample_governor_def x by simp
qed

lemma sample_seen: "governor_current sample_reading (fst sample_governor) (snd sample_governor) = Inr sample_seen"
proof -
  have "is_ok (governor_current sample_reading (fst sample_governor) (snd sample_governor))" by code_simp
  then show ?thesis by (auto simp: sample_seen_def is_ok_iff)
qed

lemma sample_limits_ok: "is_ok (run_limits sample_limits)" "is_ok (loop_settings default_loop_settings)"
  by code_simp+

lemma sample_call: "\<exists>g st i. before_tool sample_db (\<lambda>s. s) (\<lambda>a. a) ''read_file'' [] None sample_reading sample_reading
    (fst sample_governor) (snd sample_governor) = Inr (Inr (i, [], call_fingerprint (\<lambda>s. s) ''read_file'' []), g, st)
    \<and> length (go_history g) = 1"
proof -
  let ?r = "before_tool sample_db (\<lambda>s. s) (\<lambda>a. a) ''read_file'' [] None sample_reading sample_reading (fst sample_governor) (snd sample_governor)"
  have "(case ?r of Inr (Inr (i, a, f), g, st) \<Rightarrow> a = [] \<and> f = call_fingerprint (\<lambda>s. s) ''read_file'' [] \<and> length (go_history g) = 1 | _ \<Rightarrow> False)"
    by code_simp
  moreover obtain a g st where "?r = Inr (a, g, st)" using calculation by (cases ?r) auto
  ultimately show ?thesis by (cases a) auto
qed

theorem governed_run_stays_within_limits_witness:
  "\<exists>g st'. governor_reach sample_db (\<lambda>s. s) (\<lambda>a. a) sample_governor (g, st') \<and> length (go_history g) = 1
     \<and> repetition_free (go_loop g) (fingerprints g)"
proof -
  obtain g st' i where c: "before_tool sample_db (\<lambda>s. s) (\<lambda>a. a) ''read_file'' [] None sample_reading sample_reading
      (fst sample_governor) (snd sample_governor) = Inr (Inr (i, [], call_fingerprint (\<lambda>s. s) ''read_file'' []), g, st')"
    and one: "length (go_history g) = 1" using sample_call by blast
  have reach: "governor_reach sample_db (\<lambda>s. s) (\<lambda>a. a) (fst sample_governor, snd sample_governor) (g, st')"
    by (rule governor_reach.go[OF governor_reach.stay governor_step.call[OF c]])
  have "create_governor sample_db ''r1'' None RM_EXEC sample_limits default_loop_settings 0 ''t0'' \<lparr>gs_rows = [], gs_attempts = []\<rparr>
      = Inr (fst sample_governor, snd sample_governor)"
    using sample_created by (simp add: sample_created_def)
  from governed_run_stays_within_limits[OF this _ sample_limits_ok reach] have "repetition_free (go_loop g) (fingerprints g)"
    by (simp add: governance_of_def row_by_def)
  with reach one show ?thesis by auto
qed


theorem reopened_run_counts_twice_witness:
  "\<exists>g2 st2 g3 st3. create_governor sample_db ''r1'' None RM_EXEC sample_limits default_loop_settings 0 ''t3'' (snd sample_seen) = Inr (g2, st2)
     \<and> governor_current sample_reading g2 st2 = Inr (g3, st3) \<and> sn_tokens (go_snapshot (fst sample_seen)) = 15 \<and> sn_tokens (go_snapshot g3) = 30"
proof -
  let ?c = "create_governor sample_db ''r1'' None RM_EXEC sample_limits default_loop_settings 0 ''t3'' (snd sample_seen)"
  let ?g = "fst sample_governor"
  have "is_ok (rbind ?c (\<lambda>(g2, st2). governor_current sample_reading g2 st2))" by code_simp
  then obtain g2 st2 g3 st3 where c: "?c = Inr (g2, st2)" and look: "governor_current sample_reading g2 st2 = Inr (g3, st3)"
    by (auto simp: is_ok_iff rbind_Inr_iff)
  have seen: "governor_current sample_reading ?g (snd sample_governor) = Inr (fst sample_seen, snd sample_seen)"
    using sample_seen by simp
  have facts: "alone ?g" "unique_by gr_run (gs_rows (snd sample_governor))" "is_ok (run_limits (sn_limits (go_snapshot ?g)))"
    "go_run ?g = ''r1''" "go_seen_in ?g \<le> rd_in sample_reading" "go_seen_out ?g \<le> rd_out sample_reading" "0 \<le> rd_in sample_reading"
    "0 \<le> rd_out sample_reading" "sn_tokens (go_snapshot (fst sample_seen)) = 15" "rd_in sample_reading = 10" "rd_out sample_reading = 5"
    by code_simp+
  have "(case governance_of (go_run ?g) (snd sample_governor) of None \<Rightarrow> False
      | Some r \<Rightarrow> gr_mode r = sn_mode (go_snapshot ?g) \<and> gr_root r = sn_root (go_snapshot ?g))" by code_simp
  then obtain r where r: "governance_of (go_run ?g) (snd sample_governor) = Some r" "gr_mode r = sn_mode (go_snapshot ?g)"
    "gr_root r = sn_root (go_snapshot ?g)" by (auto split: option.splits)
  from reopened_run_counts_twice[OF seen facts(1,2) r facts(3,5,6) c[folded facts(4)] look refl refl refl facts(7,8)]
  show ?thesis using c look facts(9-11) by auto
qed

end
