(* ===== verification/Tool_Loop_Safety.thy ===== *)
theory Tool_Loop_Safety
  imports Tool_Loop Tool_Turn_Safety Governor_Safety
begin

text \<open>
  What holds of the loop of a run: without a completion barrier and without granted extensions it ends
  within the round limit, and the transcript it hands to the model always answers every call.
\<close>

named_theorems steadying

section \<open>The governor only moves on\<close>

text \<open>A governor that works alone keeps its limits, and its rounds do not decrease.\<close>

definition grows :: "governor \<Rightarrow> governor \<Rightarrow> bool" where
  "grows g g' \<longleftrightarrow> alone g \<longrightarrow> alone g' \<and> sn_limits (go_snapshot g') = sn_limits (go_snapshot g)
     \<and> sn_mode (go_snapshot g') = sn_mode (go_snapshot g) \<and> sn_rounds (go_snapshot g) \<le> sn_rounds (go_snapshot g')"

lemma grows_refl: "grows g g"
  by (simp add: grows_def)

lemma grows_trans: "grows g g1 \<Longrightarrow> grows g1 g2 \<Longrightarrow> grows g g2"
  by (auto simp: grows_def)

lemma grows_fields:
  assumes "go_collaboration g' = go_collaboration g" "go_child g' = go_child g" "go_reserved g' = go_reserved g"
    and "sn_limits (go_snapshot g') = sn_limits (go_snapshot g)" "sn_mode (go_snapshot g') = sn_mode (go_snapshot g)"
    and "sn_rounds (go_snapshot g) \<le> sn_rounds (go_snapshot g')"
  shows "grows g g'"
  using assms by (simp add: grows_def alone_def)

lemma grows_refreshed: "grows g (refreshed rd g)"
  by (simp add: grows_def refreshed_alone) (simp add: refreshed_def Let_def)

lemma grows_with:
  assumes "grows g g'" and "\<And>s. sn_limits (f s) = sn_limits s \<and> sn_mode (f s) = sn_mode s \<and> sn_rounds s \<le> sn_rounds (f s)"
  shows "grows g (with_snapshot f g')"
  by (rule grows_trans[OF assms(1)]) (rule grows_fields; simp add: with_snapshot_def assms(2))

lemma grows_current: "governor_current rd g st = Inr (g', st') \<Longrightarrow> grows g g'"
  using governor_current_Inr grows_refreshed by blast

lemma grows_model_usage: "record_model_usage i j rd g st = Inr (g', st') \<Longrightarrow> grows g g'"
  unfolding record_model_usage_def by (erule grows_trans[OF grows_fields grows_current, rotated -1]) (simp_all add: observe_usage_def)

lemma grows_round: "record_round rd g st = Inr (g', st') \<Longrightarrow> grows g g'"
  by (drule record_round_Inr) (auto intro!: grows_with grows_refreshed)

lemma grows_external: "record_external_usage i j cost rounds calls rd g st = Inr (g', st') \<Longrightarrow> grows g g'"
  by (auto simp: record_external_usage_def rbind_Inr_iff observe_usage_def dest!: governor_current_Inr save_governor_Inr
      intro!: grows_with grows_trans[OF grows_fields grows_refreshed])

lemma grows_finish: "finish_tool i ok ms rd g st = Inr (g', st') \<Longrightarrow> grows g g'"
  by (drule finish_tool_Inr) (auto intro: grows_trans[OF grows_fields grows_refreshed])

lemma grows_stop: "governor_stop reason detail rd g st = Inr (r, g', st') \<Longrightarrow> grows g g'"
  by (auto simp: governor_stop_def rbind_Inr_iff dest!: governor_current_Inr save_governor_Inr intro!: grows_with grows_refreshed)

lemma grows_common: "check_common rd rd' g st = Inr (r, g', st') \<Longrightarrow> grows g g'"
  unfolding check_common_def rbind_Inr_iff
  by (auto split: option.splits dest!: grows_stop governor_current_Inr intro: grows_refreshed grows_trans)

lemma grows_go_on:
  assumes "go_on m f = Inr (r, g', st')" and "\<And>r g1 st1. m = Inr (r, g1, st1) \<Longrightarrow> grows g g1"
    and "\<And>x g1 st1. f x g1 st1 = Inr (r, g', st') \<Longrightarrow> grows g1 g'"
  shows "grows g g'"
  using assms by (cases m) (auto simp: go_on_def split: sum.splits prod.splits intro: grows_trans)

lemma grows_before_model: "before_model rd rd' g st = Inr (r, g', st') \<Longrightarrow> grows g g'"
  unfolding before_model_def by (erule grows_go_on) (auto split: if_splits intro: grows_refl dest: grows_common grows_stop)

lemma grows_admit: "admit_call d name args fingerprint poll now g st = Inr (r, g', st') \<Longrightarrow> grows g g'"
  by (auto simp: admit_call_def rbind_Inr_iff with_snapshot_def dest!: save_governor_Inr intro!: grows_fields)

lemma grows_before_tool: "before_tool d sha redact name args poll rd rd' g st = Inr (r, g', st') \<Longrightarrow> grows g g'"
  unfolding before_tool_def by (erule grows_go_on) (auto simp: Let_def split: if_splits dest: grows_common grows_stop grows_admit)

section \<open>Steady steps\<close>

fun onward :: "(governor \<times> governance_store) option \<Rightarrow> (governor \<times> governance_store) option \<Rightarrow> bool" where
  "onward None None = True"
| "onward (Some (g, _)) (Some (g', _)) = grows g g'"
| "onward _ _ = False"

lemma onward_refl [simp]: "onward x x"
  by (cases x) (auto simp: grows_refl)

lemma onward_trans: "onward x y \<Longrightarrow> onward y z \<Longrightarrow> onward x z"
  by (cases "(x, y)" rule: onward.cases; cases "(y, z)" rule: onward.cases) (auto intro: grows_trans)

definition steady :: "('w, 'a) call_act \<Rightarrow> bool" where
  "steady m \<longleftrightarrow> (\<forall>s r t. m s = (r, t) \<longrightarrow> onward (cs_governor s) (cs_governor t))"

lemma steadyD: "steady m \<Longrightarrow> m s = (r, t) \<Longrightarrow> onward (cs_governor s) (cs_governor t)"
  by (simp add: steady_def)

lemma steady_tbind [steadying]:
  assumes "steady m" and "\<And>x. steady (f x)"
  shows "steady (tbind m f)"
  unfolding steady_def
proof (intro allI impI)
  fix s r t assume "tbind m f s = (r, t)"
  then show "onward (cs_governor s) (cs_governor t)" using assms
    by (cases "m s"; cases "fst (m s)") (auto simp: tbind_def dest: steadyD intro: onward_trans)
qed

lemma steady_basic [steadying]:
  "steady (ret x)" "steady (Pair r)" "steady (raise e)" "steady (in_env a)" "steady (journal iv f)" "steady (journal_write iv f')" "steady (emit iv k)"
  by (auto simp: steady_def ret_def raise_def in_env_def journal_def journal_write_def emit_def split: prod.splits)

lemma steady_note [steadying]: "(\<And>s. cs_governor (f s) = cs_governor s) \<Longrightarrow> steady (note_locals f)"
  by (auto simp: steady_def note_locals_def)

lemma steady_governed:
  assumes "\<And>d g st r g' st'. f d g st = Inr (r, g', st') \<Longrightarrow> grows g g'"
  shows "steady (governed_call iv f)"
  unfolding steady_def
proof (intro allI impI)
  fix s r t assume a: "governed_call iv f s = (r, t)"
  then show "onward (cs_governor s) (cs_governor t)"
  proof (cases "cs_governor s")
    case (Some x)
    with a assms show ?thesis
      by (cases x; cases "f (ev_db (cs_env s)) (fst x) (snd x)") (auto simp: governed_call_def split: sum.splits prod.splits)
  qed (simp add: governed_call_def)
qed

lemma steady_update:
  assumes "\<And>g st g' st'. f g st = Inr (g', st') \<Longrightarrow> grows g g'"
  shows "steady (governor_update iv f)"
  unfolding governor_update_def using assms
  by (intro steady_tbind steady_governed) (auto simp: rbind_Inr_iff steady_basic)

lemma steady_updates [steadying]:
  "steady (governor_update iv (governor_current rd))" "steady (governor_update iv (record_model_usage i j rd))"
  "steady (governor_update iv (record_external_usage i j c rounds calls rd))" "steady (governor_update iv (finish_tool k ok ms rd))"
  "steady (governor_update iv (record_round rd))"
  by (rule steady_update; erule grows_current grows_model_usage grows_external grows_finish grows_round)+

lemma steady_if [steadying]: "steady m \<Longrightarrow> steady m' \<Longrightarrow> steady (if b then m else m')"
  by simp

lemma steady_prod [steadying]: "(\<And>x y. steady (f x y)) \<Longrightarrow> steady (case p of (x, y) \<Rightarrow> f x y)"
  by (cases p) simp

lemma steady_option [steadying]: "steady m \<Longrightarrow> (\<And>x. steady (f x)) \<Longrightarrow> steady (case v of None \<Rightarrow> m | Some x \<Rightarrow> f x)"
  by (cases v) auto

lemma steady_sum [steadying]: "(\<And>x. steady (f x)) \<Longrightarrow> (\<And>x. steady (g x)) \<Longrightarrow> steady (case v of Inl x \<Rightarrow> f x | Inr x \<Rightarrow> g x)"
  by (cases v) auto

lemma steady_state: "(\<And>s. steady (f s)) \<Longrightarrow> steady (\<lambda>s. f s s)"
  by (simp add: steady_def)

lemma steady_catch [steadying]:
  assumes "steady m" and "\<And>e. steady (h e)"
  shows "steady (try_catch m h)"
  unfolding steady_def
proof (intro allI impI)
  fix s r t assume "try_catch m h s = (r, t)"
  then show "onward (cs_governor s) (cs_governor t)" using assms
    by (cases "m s"; cases "fst (m s)") (auto simp: try_catch_def dest: steadyD intro: onward_trans)
qed


lemma steady_choice:
  assumes "steady m" and "\<And>s. h s = m s \<or> (\<exists>r. h s = (r, s))"
  shows "steady h"
  using assms unfolding steady_def by (metis onward_refl prod.inject)

section \<open>Calls are steady\<close>

lemma steady_finish_row [steadying]: "steady (finish_row iv i st ex dl pv art ec)"
  unfolding finish_row_def by (rule steadying)

lemma steady_perform [steadying]: "steady (perform iv i call)"
  unfolding perform_def admit_def invoke_tool_def
  by (auto intro!: steadying steady_governed grows_before_tool split: sum.splits)

lemma steady_pause [steadying]: "steady (pause_call iv i call messages z)"
  unfolding pause_call_def Let_def by (rule steady_state) (intro steadying)

lemma steady_external_usage: "steady (external_usage iv out)"
  unfolding external_usage_def by (auto intro!: steadying split: option.splits list.splits prod.splits)

lemma steady_screen: "steady (screen_external iv call out)"
  unfolding steady_def screen_external_def quarantine_def Let_def
  by (auto simp: in_env_def ret_def tbind_def split: if_splits option.splits prod.splits sum.splits tool_error.splits)

lemma steady_deliver: "steady (deliver iv call out artifact)"
  unfolding steady_def deliver_def Let_def
  by (auto simp: in_env_def ret_def split: if_splits option.splits prod.splits sum.splits tool_error.splits)

lemma steady_attempted: "steady (finish_attempted iv ok)"
  unfolding steady_def finish_attempted_def
  by (auto split: option.splits dest: steadyD[OF steady_updates(4)])

lemma steady_last: "steady (\<lambda>s. (Inr (f s), s))"
  by (simp add: steady_def)

lemma steady_journal_state: "steady (\<lambda>s. journal_write iv (f s) s)"
  by (rule steady_state) (rule steadying)

lemma steady_conclude [steadying]: "steady (conclude iv i call out)"
  unfolding conclude_def Let_def
  by (intro steadying steady_external_usage steady_screen steady_deliver steady_attempted steady_last steady_journal_state)

lemma steady_prepare [steadying]: "steady (prepare_call iv call messages c)"
  unfolding prepare_call_def open_call_def start_row_def call_body_def on_cancelled_def on_failed_def
  by (auto intro!: steadying steady_last split: ToolExecution.splits)

section \<open>Turns are steady\<close>

lemma steady_enforce: "steady (enforce_aggregate iv limit used item)"
proof -
  have "steady (aggregate_descriptor iv item)"
    unfolding steady_def aggregate_descriptor_def Let_def
    by (auto simp: in_env_def ret_def split: if_splits option.splits prod.splits sum.splits tool_error.splits)
  then show ?thesis unfolding enforce_aggregate_def Let_def by (intro steadying)
qed

lemma steady_shown: "steady (\<lambda>s. case cs_governor s of None \<Rightarrow> (Inr (), s)
    | Some _ \<Rightarrow> tbind (governor_update iv (governor_current rd)) (\<lambda>_. emit iv k) s)"
proof -
  have "steady (tbind (governor_update iv (governor_current rd)) (\<lambda>_. emit iv k))" by (intro steadying)
  then show ?thesis by (rule steady_choice) (simp split: option.splits)
qed

lemma steady_commit [steadying]: "steady (commit_call iv limit item tu)"
  unfolding commit_call_def Let_def by (intro steadying steady_enforce steady_shown)

lemma steady_commits: "steady (commit_all iv limit es tu)"
proof (induction iv limit es tu rule: commit_all.induct)
  case (2 iv limit out es tu)
  then show ?case by (auto intro!: steadying)
qed (auto intro!: steadying)

lemma steady_batch [steadying]: "steady (run_batch iv limit n fate cutoff rounds tu)"
  unfolding run_batch_def by (auto intro!: steadying steady_commits split: sum.splits)

lemma steady_execute [steadying]: "steady (execute_call iv limit call tu)"
  unfolding execute_call_def by (auto intro!: steadying split: prepared_call.splits)

lemma steady_cancel [steadying]: "steady (cancel_after_barrier iv drawn call messages)"
  unfolding cancel_after_barrier_def by (auto intro!: steadying split: prod.splits)

lemma steady_cancels [steadying]: "steady (cancel_calls iv xs calls messages)"
  by (induction iv xs calls messages rule: cancel_calls.induct) (auto intro!: steadying)

lemma steady_settle [steadying]: "steady (settle_pause iv draw calls paused messages)"
  unfolding settle_pause_def Let_def by (intro steadying)

section \<open>Passes are steady\<close>

definition tasks_steady :: "'w pass_input \<Rightarrow> bool" where
  "tasks_steady p \<longleftrightarrow> (\<forall>n s. onward (cs_governor s) (cs_governor (pi_tasks p n s)))"

lemma steady_after_tasks: "tasks_steady p \<Longrightarrow> steady m \<Longrightarrow> steady (\<lambda>s. m (pi_tasks p n s))"
  unfolding steady_def tasks_steady_def by (metis onward_trans)

lemma steady_batches:
  assumes "tasks_steady p"
  shows "steady (run_batches p n k bs tu)"
proof (induction bs arbitrary: n k tu)
  case (Cons b bs)
  show ?case using Cons
    by (auto intro!: steadying steady_after_tasks[OF assms] split: list.splits)
qed (auto intro!: steadying)

lemma steady_calls: "tasks_steady p \<Longrightarrow> steady (run_calls p calls messages)"
  unfolding run_calls_def by (intro steadying steady_batches)

lemma steady_end_step [steadying]: "steady (end_step p step st ms e)"
  unfolding end_step_def by (intro steadying)

lemma steady_stop_time [steadying]: "steady (stop_for_time p e)"
proof -
  have "steady (tbind (governed_call (pi_iv p) (\<lambda>_ g st. governor_stop MAX_DURATION None (pi_readings p 0) g st :: unit governed)) (\<lambda>_. ret ()))"
    by (auto intro!: steadying steady_governed dest: grows_stop)
  then show ?thesis by (rule steady_choice) (simp add: stop_for_time_def)
qed

lemma steady_invoke [steadying]: "steady (invoke_model p n messages)"
  unfolding invoke_model_def Let_def by (intro steadying)

lemma steady_ask [steadying]: "steady (ask_model p repair messages)"
  unfolding steady_def ask_model_def
  by (auto split: prod.splits sum.splits option.splits if_splits tool_error.splits intro: onward_trans steadyD[OF steady_invoke]
      dest!: steadyD[OF steady_invoke] steadyD[OF steady_basic(4)] steadyD[OF steady_tbind[OF steady_invoke steady_basic(1)]])

section \<open>Every pass that goes on takes a round\<close>

text \<open>\<open>advanced R s turn t turn'\<close>: without a governor the turn counts up below \<open>R\<close>; a governor that works
  alone has recorded a round.\<close>

fun advanced :: "int \<Rightarrow> (governor \<times> governance_store) option \<Rightarrow> int \<Rightarrow> (governor \<times> governance_store) option \<Rightarrow> int \<Rightarrow> bool" where
  "advanced R None turn None turn' \<longleftrightarrow> turn < R \<and> turn' = turn + 1"
| "advanced R (Some (g, _)) turn (Some (g', _)) turn' \<longleftrightarrow> grows g g' \<and> (alone g \<longrightarrow> sn_rounds (go_snapshot g) + 1 \<le> sn_rounds (go_snapshot g'))"
| "advanced R _ turn _ turn' = False"

lemma onward_advanced: "onward x y \<Longrightarrow> advanced R y turn z turn' \<Longrightarrow> advanced R x turn z turn'"
  by (cases "(x, y)" rule: onward.cases; cases "(R, y, turn, z, turn')" rule: advanced.cases) (auto simp: grows_def)

lemma advanced_onward: "advanced R x turn y turn' \<Longrightarrow> onward y z \<Longrightarrow> advanced R x turn z turn'"
  by (cases "(y, z)" rule: onward.cases; cases "(R, x, turn, y, turn')" rule: advanced.cases) (auto simp: grows_def)

lemma round_advances:
  assumes "record_round rd g st = Inr (g', st')" and "alone g"
  shows "sn_rounds (go_snapshot g') = sn_rounds (go_snapshot g) + 1"
  using record_round_Inr[OF assms(1)] assms(2) by (simp add: with_snapshot_def refreshed_alone)

lemma update_advances:
  assumes "governor_update iv (record_round rd) s = (Inr u, t)" and "cs_governor s = Some x"
  shows "advanced R (cs_governor s) turn (cs_governor t) turn'"
proof -
  obtain g st where x: "x = (g, st)" by (cases x)
  then obtain g' st' where r: "record_round rd g st = Inr (g', st')" and t: "cs_governor t = Some (g', st')"
    using assms by (cases "record_round rd g st") (auto simp: governor_update_def governed_call_def tbind_def ret_def)
  then show ?thesis using assms(2) x grows_round[OF r] round_advances[OF r] by simp
qed

lemma count_round_advances:
  assumes "count_round p lp s = (Inr (Again lp'), t)"
  shows "advanced (pi_rounds p) (cs_governor s) (lp_turn lp) (cs_governor t) (lp_turn lp')"
proof (cases "cs_governor s")
  case None
  then show ?thesis using assms by (auto simp: count_round_def Let_def split: if_splits)
next
  case (Some x)
  then have "tbind (governor_update (pi_iv p) (record_round (pi_readings p 4))) (\<lambda>_. ret (Again lp)) s = (Inr (Again lp'), t)"
    using assms by (simp add: count_round_def)
  then obtain u where "governor_update (pi_iv p) (record_round (pi_readings p 4)) s = (Inr u, t)"
    by (auto simp: ret_def elim!: tbind_InrE)
  from update_advances[OF this Some] show ?thesis .
qed

lemma no_calls_advances:
  assumes "no_calls p step message lp s = (Inr (Again lp'), t)" and "pi_barrier p = None"
  shows "advanced (pi_rounds p) (cs_governor s) (lp_turn lp) (cs_governor t) (lp_turn lp')"
proof -
  obtain ms u where "onward (cs_governor s) (cs_governor u)" and c: "count_round p (lp\<lparr>lp_messages := ms\<rparr>) u = (Inr (Again lp'), t)"
    using assms unfolding no_calls_def settle_answer_def Let_def
    by (auto simp: ret_def raise_def split: if_splits option.splits prod.splits elim!: tbind_InrE
        dest!: steadyD[OF steady_end_step] steadyD[OF steady_basic(4)]) (blast intro: onward_trans)
  with count_round_advances[OF c] onward_advanced show ?thesis by fastforce
qed

lemma steady_run_turn: "tasks_steady p \<Longrightarrow> steady (run_turn p step message lp attempt calls)"
  unfolding run_turn_def Let_def by (auto intro!: steadying steady_calls split: sum.splits batch_stop.splits)

lemma run_turn_counts:
  "run_turn p step message lp attempt calls s = (Inr (Again lp'), t) \<Longrightarrow> lp_turn lp' = lp_turn lp + 1"
  by (auto simp: run_turn_def Let_def ret_def raise_def split: sum.splits batch_stop.splits prod.splits elim!: tbind_InrE)

lemma with_calls_advances:
  assumes "with_calls p step message lp s = (Inr (Again lp'), t)" and "tasks_steady p" and "cs_governor s = None \<longrightarrow> lp_turn lp \<le> pi_rounds p"
  shows "advanced (pi_rounds p) (cs_governor s) (lp_turn lp) (cs_governor t) (lp_turn lp')"
proof -
  obtain attempt calls where c: "repair_calls lp (mm_calls message) = (attempt, calls)" by (cases "repair_calls lp (mm_calls message)")
  note turn = steadyD[OF steady_run_turn[OF assms(2)]]
  show ?thesis
  proof (cases "cs_governor s")
    case None
    then have r: "run_turn p step message lp attempt calls s = (Inr (Again lp'), t)" and "lp_turn lp \<noteq> pi_rounds p"
      using assms(1) c by (auto simp: with_calls_def ret_def split: if_splits elim!: tbind_InrE)
    with None turn[OF r] run_turn_counts[OF r] assms(3) show ?thesis by (cases "cs_governor t") auto
  next
    case (Some x)
    then obtain u1 u2 w1 w2 where r: "governor_update (pi_iv p) (record_round (pi_readings p 4)) s = (Inr w1, u1)"
      "emit (pi_iv p) EV_BUDGET_UPDATED u1 = (Inr w2, u2)" "run_turn p step message lp attempt calls u2 = (Inr (Again lp'), t)"
      using assms(1) c by (auto simp: with_calls_def elim!: tbind_InrE)
    have "onward (cs_governor u1) (cs_governor t)" using onward_trans[OF steadyD[OF steady_basic(7) r(2)] turn[OF r(3)]] .
    then show ?thesis using advanced_onward update_advances[OF r(1) Some] by blast
  qed
qed

lemma ask_governor_steady: "ask_governor p s = (r, t) \<Longrightarrow> onward (cs_governor s) (cs_governor t)"
  by (auto simp: ask_governor_def dest: grows_before_model split: option.splits prod.splits sum.splits)

lemma ask_governor_room:
  assumes "ask_governor p s = (Inr None, t)" and "cs_governor s = Some (g, st)" and "alone g"
  shows "sn_rounds (go_snapshot g) < lm_rounds (sn_limits (go_snapshot g))"
proof -
  obtain g' st' where b: "before_model (pi_readings p 1) (pi_readings p 2) g st = Inr (Inr (), g', st')"
    using assms(1,2) by (auto simp: ask_governor_def split: sum.splits prod.splits)
  from before_model_Inr[OF b] have "0 < rm_rounds (available_remaining (refreshed (pi_readings p 1) g))" by blast
  then show ?thesis using available_alone(1)[OF refreshed_alone(1)[OF assms(3)]] assms(3) by (simp add: refreshed_alone)
qed

text \<open>The rounds that are left.\<close>

definition rounds_left :: "int \<Rightarrow> (governor \<times> governance_store) option \<Rightarrow> int \<Rightarrow> int" where
  "rounds_left R g turn = (case g of None \<Rightarrow> R - turn | Some (g, _) \<Rightarrow> lm_rounds (sn_limits (go_snapshot g)) - sn_rounds (go_snapshot g))"

definition works_alone :: "(governor \<times> governance_store) option \<Rightarrow> bool" where
  "works_alone g \<longleftrightarrow> (case g of None \<Rightarrow> True | Some (g, _) \<Rightarrow> alone g)"

lemma stop_never_goes_on: "\<not> pi_authorize p \<Longrightarrow> on_stop p stopped lp s \<noteq> (Inr (Again lp'), t)"
  by (auto simp: on_stop_def summarize_stop_def Let_def raise_def ret_def split: if_splits option.splits prod.splits tool_error.splits
      elim!: tbind_InrE)

lemma pass_advances:
  assumes "loop_pass p lp s = (Inr (Again lp'), t)" and "pi_barrier p = None" and "\<not> pi_authorize p" and "tasks_steady p"
    and "cs_governor s = None \<longrightarrow> lp_turn lp \<le> pi_rounds p"
  shows "advanced (pi_rounds p) (cs_governor s) (lp_turn lp) (cs_governor t) (lp_turn lp')"
    and "works_alone (cs_governor s) \<Longrightarrow> 1 \<le> rounds_left (pi_rounds p) (cs_governor s) (lp_turn lp)"
proof -
  obtain ms s1 s2 rest where a: "onward (cs_governor s) (cs_governor s1)" "ask_governor p s1 = (Inr None, s2)"
    and r: "tbind (emit (pi_iv p) EV_THINKING) (\<lambda>_.
       tbind (ask_model p (lp_repair lp) ms) (\<lambda>(ms3, step, message, usage).
       let lp' = lp\<lparr>lp_messages := ms3, lp_in := lp_in lp + mu_in usage, lp_out := lp_out lp + mu_out usage\<rparr> in
       tbind (governor_update (pi_iv p) (record_model_usage (mu_in usage) (mu_out usage) (pi_readings p 5))) (\<lambda>_.
       if mm_calls message = [] then no_calls p step message lp' else with_calls p step message lp'))) s2 = (Inr (Again lp'), t)"
  proof -
    from assms(1) obtain ms0 ms1 ms2 planning u0 u1 u2 u3 stopped where
      u: "in_env (pi_arrive p (lp_messages lp)) s = (Inr ms0, u0)"
      "(case pi_compact p of None \<Rightarrow> ret ms0 | Some shorten \<Rightarrow> in_env (shorten False ms0)) u0 = (Inr ms1, u1)"
      "journal (pi_iv p) (refresh_plan_attachment (pi_planning p) (iv_session (pi_iv p)) ms1) u1 = (Inr (ms2, planning), u2)"
      "ask_governor p u2 = (Inr stopped, u3)"
      and rest: "(case stopped of Some stop \<Rightarrow> on_stop p stop (lp\<lparr>lp_messages := ms2\<rparr>)
       | None \<Rightarrow>
           tbind (emit (pi_iv p) EV_THINKING) (\<lambda>_.
           tbind (ask_model p (lp_repair lp) ms2) (\<lambda>(ms3, step, message, usage).
           let lp' = lp\<lparr>lp_messages := ms3, lp_in := lp_in lp + mu_in usage, lp_out := lp_out lp + mu_out usage\<rparr> in
           tbind (governor_update (pi_iv p) (record_model_usage (mu_in usage) (mu_out usage) (pi_readings p 5))) (\<lambda>_.
           if mm_calls message = [] then no_calls p step message lp' else with_calls p step message lp')))) u3 = (Inr (Again lp'), t)"
      unfolding loop_pass_def by (elim tbind_InrE) (auto elim!: tbind_InrE)
    have "stopped = None" using rest stop_never_goes_on[OF assms(3)] by (cases stopped) auto
    moreover have "steady (case pi_compact p of None \<Rightarrow> ret ms0 | Some shorten \<Rightarrow> in_env (shorten False ms0))" by (intro steadying)
    from onward_trans[OF onward_trans[OF steadyD[OF steady_basic(4) u(1)] steadyD[OF this u(2)]] steadyD[OF steady_basic(5) u(3)]]
    have "onward (cs_governor s) (cs_governor u2)" .
    ultimately show thesis using that u(4) rest by simp
  qed
  from r obtain step message usage ms3 u1 u2 u3 w1 w2 where e: "emit (pi_iv p) EV_THINKING s2 = (Inr w1, u1)"
    "ask_model p (lp_repair lp) ms u1 = (Inr (ms3, step, message, usage), u2)"
    "governor_update (pi_iv p) (record_model_usage (mu_in usage) (mu_out usage) (pi_readings p 5)) u2 = (Inr w2, u3)"
    and fin: "(if mm_calls message = [] then no_calls p step message else with_calls p step message)
      (lp\<lparr>lp_messages := ms3, lp_in := lp_in lp + mu_in usage, lp_out := lp_out lp + mu_out usage\<rparr>) u3 = (Inr (Again lp'), t)"
    by (auto simp: Let_def elim!: tbind_InrE split: if_splits)
  have o: "onward (cs_governor s) (cs_governor u3)"
    using onward_trans[OF onward_trans[OF a(1) ask_governor_steady[OF a(2)]]
      onward_trans[OF onward_trans[OF steadyD[OF steady_basic(7) e(1)] steadyD[OF steady_ask e(2)]] steadyD[OF steady_updates(2) e(3)]]] .
  have "cs_governor u3 = None \<longrightarrow> lp_turn lp \<le> pi_rounds p" using o assms(5) by (cases "cs_governor s") auto
  then have "advanced (pi_rounds p) (cs_governor u3) (lp_turn lp) (cs_governor t) (lp_turn lp')"
    using fin no_calls_advances[OF _ assms(2)] with_calls_advances[OF _ assms(4)] by (fastforce split: if_splits)
  with o show adv: "advanced (pi_rounds p) (cs_governor s) (lp_turn lp) (cs_governor t) (lp_turn lp')" by (rule onward_advanced)
  show "1 \<le> rounds_left (pi_rounds p) (cs_governor s) (lp_turn lp)" if "works_alone (cs_governor s)"
  proof (cases "cs_governor s")
    case None
    then show ?thesis using adv by (cases "cs_governor t") (auto simp: rounds_left_def)
  next
    case (Some x)
    then obtain g st g1 st1 where g: "cs_governor s = Some (g, st)" "cs_governor s1 = Some (g1, st1)" "grows g g1"
      using a(1) by (cases x; cases "cs_governor s1") auto
    moreover have "alone g" using g(1) that by (simp add: works_alone_def)
    ultimately show ?thesis using ask_governor_room[OF a(2) g(2)] by (simp add: rounds_left_def grows_def)
  qed
qed

lemma advanced_left:
  assumes "advanced R g turn g' turn'" and "works_alone g"
  shows "works_alone g' \<and> rounds_left R g' turn' \<le> rounds_left R g turn - 1 \<and> (g' = None \<longrightarrow> turn' \<le> R)"
  using assms by (cases "(R, g, turn, g', turn')" rule: advanced.cases) (auto simp: works_alone_def rounds_left_def grows_def)

text \<open>No barrier can hold the answer back, and nobody grants more rounds.\<close>

definition bounded_input :: "int \<Rightarrow> 'w pass_input \<Rightarrow> bool" where
  "bounded_input R p \<longleftrightarrow> pi_barrier p = None \<and> \<not> pi_authorize p \<and> tasks_steady p \<and> pi_rounds p = R"

lemma loop_ends_within:
  assumes "\<forall>k. bounded_input R (inputs k)" and "works_alone (cs_governor s)" and "cs_governor s = None \<longrightarrow> lp_turn lp \<le> R"
    and "rounds_left R (cs_governor s) (lp_turn lp) \<le> int n"
  shows "tool_loop (Suc n) inputs lp s \<noteq> None"
  using assms
proof (induction n arbitrary: inputs lp s)
  case 0
  then have "\<nexists>lp' t. loop_pass (inputs 0) lp s = (Inr (Again lp'), t)"
    using pass_advances(2)[of "inputs 0" lp s] by (fastforce simp: bounded_input_def)
  then show ?case by (auto split: prod.splits sum.splits loop_exit.splits)
next
  case (Suc n)
  show ?case
  proof (cases "\<exists>lp' t. loop_pass (inputs 0) lp s = (Inr (Again lp'), t)")
    case True
    then obtain lp' t where p: "loop_pass (inputs 0) lp s = (Inr (Again lp'), t)" by blast
    have b: "bounded_input R (inputs 0)" using Suc.prems(1) by blast
    then have "advanced R (cs_governor s) (lp_turn lp) (cs_governor t) (lp_turn lp')"
      using pass_advances(1)[OF p] Suc.prems(3) by (auto simp: bounded_input_def)
    from advanced_left[OF this Suc.prems(2)] Suc.prems(1,4)
    have "tool_loop (Suc n) (inputs \<circ> Suc) lp' t \<noteq> None" by (intro Suc.IH) auto
    then show ?thesis using p by simp
  next
    case False
    then show ?thesis by (auto split: prod.splits sum.splits loop_exit.splits)
  qed
qed

text \<open>C18: The loop of a run ends.  Whatever the model streams and the tools do, and with or without a governor,
  a run that works alone comes to an answer, a pause, a limit or an error after at most one pass more than the
  rounds its limit leaves it, when no completion barrier holds the answer back and no further rounds are
  granted.\<close>
theorem loop_ends:
  assumes "\<forall>k. bounded_input R (inputs k)" and "0 \<le> R" and "works_alone (cs_governor s)"
  shows "\<exists>r t. tool_loop (Suc (nat (rounds_left R (cs_governor s) 0))) inputs (loop_start messages) s = Some (r, t)"
proof -
  have "tool_loop (Suc (nat (rounds_left R (cs_governor s) 0))) inputs (loop_start messages) s \<noteq> None"
    by (rule loop_ends_within[OF assms(1,3)]) (simp_all add: assms(2) loop_start_def)
  then show ?thesis by auto
qed

end
