(* ===== verification/Transcript.thy ===== *)
theory Transcript
  imports Tool_Loop_Safety
begin

text \<open>
  The transcript of a run: every message that calls tools is followed by the results of exactly its
  calls, in their order, and every pass of the loop keeps it so.
\<close>

section \<open>Answered transcripts\<close>

definition role_of :: "json \<Rightarrow> json option" where
  "role_of m = jget m ''role''"

definition calls_of :: "json \<Rightarrow> json option list" where
  "calls_of m = (case jget m ''tool_calls'' of Some (JList cs) \<Rightarrow> map (\<lambda>c. jget c ''id'') cs | _ \<Rightarrow> [])"

definition result_for :: "json option \<Rightarrow> json \<Rightarrow> bool" where
  "result_for i m \<longleftrightarrow> role_of m = Some (JStr ''tool'') \<and> jget m ''tool_call_id'' = i"

fun answered :: "json list \<Rightarrow> bool" where
  "answered [] \<longleftrightarrow> True"
| "answered (m # ms) \<longleftrightarrow> role_of m \<noteq> Some (JStr ''tool'') \<and> (calls_of m \<noteq> [] \<longrightarrow> role_of m = Some (JStr ''assistant''))
     \<and> list_all2 result_for (calls_of m) (take (length (calls_of m)) ms) \<and> answered (drop (length (calls_of m)) ms)"

lemma answered_append: "answered xs \<Longrightarrow> answered ys \<Longrightarrow> answered (xs @ ys)"
proof (induction xs rule: answered.induct)
  case (2 m ms)
  then have "length (calls_of m) \<le> length ms" by (auto dest: list_all2_lengthD)
  with 2 show ?case by simp
qed simp

lemma answered_plain: "role_of m \<noteq> Some (JStr ''tool'') \<Longrightarrow> calls_of m = [] \<Longrightarrow> answered [m]"
  by simp

lemma answered_turn:
  assumes "role_of m = Some (JStr ''assistant'')" and "list_all2 result_for (calls_of m) results"
  shows "answered (m # results)"
  using assms list_all2_lengthD[OF assms(2)] by simp

section \<open>The plan attachment\<close>

lemma results_kept: "list_all2 result_for is ms \<Longrightarrow> filter (\<lambda>m. \<not> is_plan_note m) ms = ms"
  by (induction rule: list_all2_induct) (auto simp: result_for_def is_plan_note_def role_of_def)

lemma answered_without_notes: "answered ms \<Longrightarrow> answered (filter (\<lambda>m. \<not> is_plan_note m) ms)"
proof (induction ms rule: answered.induct)
  case (2 m ms)
  let ?n = "length (calls_of m)"
  have split: "filter (\<lambda>m. \<not> is_plan_note m) ms = take ?n ms @ filter (\<lambda>m. \<not> is_plan_note m) (drop ?n ms)"
    using 2(2) results_kept[of "calls_of m" "take ?n ms"] by (metis answered.simps(2) append_take_drop_id filter_append)
  have len: "length (take ?n ms) = ?n" using 2(2) by (auto dest: list_all2_lengthD)
  have "answered (drop ?n ms)" using 2(2) by simp
  then have rest: "answered (filter (\<lambda>m. \<not> is_plan_note m) (drop ?n ms))" by (rule 2(1))
  show ?case
  proof (cases "is_plan_note m")
    case True
    then have "?n = 0" using 2(2) by (auto simp: is_plan_note_def role_of_def)
    with True rest show ?thesis by simp
  next
    case False
    have "take ?n (take ?n ms @ filter (\<lambda>m. \<not> is_plan_note m) (drop ?n ms)) = take ?n ms" using len by simp
    moreover have "drop ?n (take ?n ms @ filter (\<lambda>m. \<not> is_plan_note m) (drop ?n ms)) = filter (\<lambda>m. \<not> is_plan_note m) (drop ?n ms)"
      using len by simp
    moreover have "filter (\<lambda>m. \<not> is_plan_note m) (m # ms) = m # take ?n ms @ filter (\<lambda>m. \<not> is_plan_note m) (drop ?n ms)"
      using False split by simp
    ultimately show ?thesis using 2(2) rest by (simp only: answered.simps simp_thms) blast
  qed
qed simp

lemma system_note_plain [simp]: "role_of (system_note text) = Some (JStr ''system'')" "calls_of (system_note text) = []"
  by (simp_all add: system_note_def role_of_def calls_of_def)

lemma answered_system: "answered (m # ms) \<Longrightarrow> role_of m = Some (JStr ''system'') \<Longrightarrow> calls_of m = []"
  by auto

lemma answered_placed:
  assumes "answered ms"
  shows "answered (place_note text ms)"
proof (cases ms)
  case (Cons m rest)
  show ?thesis
  proof (cases "role_of m = Some (JStr ''system'')")
    case True
    have "calls_of m = []" using answered_system assms Cons True by blast
    then show ?thesis using assms True Cons by (simp add: place_note_def role_of_def[symmetric])
  next
    case False
    then have "place_note text ms = system_note text # ms" using Cons by (simp add: place_note_def role_of_def)
    then show ?thesis using assms by (simp del: answered.simps(2) add: answered.simps(2)[of "system_note text"])
  qed
qed (simp add: place_note_def)

lemma answered_attachment:
  "answered ms \<Longrightarrow> refresh_plan_attachment planning session ms d = Inr ((ms', active), d') \<Longrightarrow> answered ms'"
  by (auto simp: refresh_plan_attachment_def Let_def rbind_Inr_iff split: if_splits option.splits
      intro!: answered_without_notes answered_placed)

section \<open>A turn\<close>

lemma result_message_for: "result_for (Some (JStr (mc_id (oc_call item)))) (tool_result_message item)"
  by (simp add: result_for_def role_of_def tool_result_message_def)

lemma calls_note_fields: "role_of (calls_note m calls) = Some (JStr ''assistant'')"
  "calls_of (calls_note m calls) = map (\<lambda>c. Some (JStr (mc_id c))) calls"
  by (simp_all add: calls_note_def role_of_def calls_of_def call_json_def comp_def)

text \<open>The results of \<open>calls\<close> are what a turn has added.\<close>

definition adds_results :: "ModelToolCall list \<Rightarrow> turn_state \<Rightarrow> turn_state \<Rightarrow> bool" where
  "adds_results calls tu tu' \<longleftrightarrow> (\<exists>rs. tu_messages tu' = tu_messages tu @ rs \<and> list_all2 (\<lambda>c. result_for (Some (JStr (mc_id c)))) calls rs)"

lemma adds_nothing: "adds_results [] tu tu"
  by (simp add: adds_results_def)

lemma adds_more: "adds_results cs tu tu1 \<Longrightarrow> adds_results cs' tu1 tu2 \<Longrightarrow> adds_results (cs @ cs') tu tu2"
  unfolding adds_results_def by (metis append.assoc list_all2_appendI)

lemma commit_adds: "commit_call iv limit item tu s = (Inr (item', tu'), t) \<Longrightarrow> adds_results [oc_call item] tu tu'"
  using commit_cases(1,3) result_message_for[of item'] by (fastforce simp: adds_results_def)

lemma commit_all_adds:
  assumes "commit_all iv limit es tu s = (Inr (Inr outs, tu'), t)" and "list_all2 (\<lambda>e c. \<exists>out. e = Finished out \<and> oc_call out = c) es calls"
  shows "adds_results calls tu tu'"
  using assms(2,1)
proof (induction arbitrary: tu s outs rule: list_all2_induct)
  case (Cons e es c cs)
  then obtain out where e: "e = Finished out" "oc_call out = c" by blast
  with Cons.prems obtain out' tu1 s1 outs' where "commit_call iv limit out tu s = (Inr (out', tu1), s1)"
    "commit_all iv limit es tu1 s1 = (Inr (Inr outs', tu'), t)"
    by (auto simp: ret_def split: sum.splits elim!: tbind_InrE)
  with Cons.IH commit_adds[of iv limit out tu s out' tu1 s1] e(2) adds_more[of "[c]"] show ?case by fastforce
qed (simp add: ret_def adds_nothing)

lemma wait_loop_ends:
  "wait_loop fate cutoff seen rounds = Inr how \<Longrightarrow> how i = fate i \<or> how i = cutoff i"
  by (induction fate cutoff seen rounds rule: wait_loop.induct) (auto split: sum.splits bool.splits)

text \<open>Every task of a batch answers its call, also when it is cancelled.\<close>

definition tasks_answer :: "'w pass_input \<Rightarrow> bool" where
  "tasks_answer p \<longleftrightarrow> (\<forall>n i c. (\<exists>out. pi_fate p n i c = Finished out \<and> oc_call out = c)
     \<and> (\<exists>out. pi_cutoff p n i c = Finished out \<and> oc_call out = c))"

lemma batch_adds:
  assumes "run_batch iv limit (length b) (\<lambda>i. pi_fate p n i (b ! i)) (\<lambda>i. pi_cutoff p n i (b ! i)) waits tu s = (Inr (Inr outs, tu'), t)"
    and "tasks_answer p"
  shows "adds_results b tu tu'"
proof -
  obtain how where how: "wait_loop (\<lambda>i. pi_fate p n i (b ! i)) (\<lambda>i. pi_cutoff p n i (b ! i)) [] waits = Inr how"
    and c: "commit_all iv limit (map how [0..<length b]) tu s = (Inr (Inr outs, tu'), t)"
    using assms(1) by (auto simp: run_batch_def ret_def split: sum.splits)
  have "\<exists>out. how i = Finished out \<and> oc_call out = b ! i" for i
    using wait_loop_ends[OF how, of i] assms(2) unfolding tasks_answer_def by metis
  then have "list_all2 (\<lambda>e c. \<exists>out. e = Finished out \<and> oc_call out = c) (map how [0..<length b]) b"
    by (simp add: list_all2_conv_all_nth)
  with c show ?thesis by (rule commit_all_adds)
qed

lemma prepared_for:
  assumes "prepare_call iv call messages c s = (Inr (Prepared out), t)"
  shows "oc_call out = call"
  using assms unfolding prepare_call_def call_body_def try_catch_def
  by (auto simp: conclude_def pause_call_def on_cancelled_def on_failed_def Let_def ret_def raise_def
      split: prod.splits sum.splits if_splits ToolExecution.splits elim!: tbind_InrE)

lemma execute_adds:
  assumes "execute_call iv limit call tu s = (Inr (Inr outs, tu'), t)"
  shows "adds_results [call] tu tu'"
proof -
  obtain out out' s1 where "prepare_call iv call (tu_messages tu) False s = (Inr (Prepared out), s1)"
    "commit_call iv limit out tu s1 = (Inr (out', tu'), t)"
    using assms unfolding execute_call_def
    by (auto simp: ret_def split: prepared_call.splits prod.splits if_splits elim!: tbind_InrE)
  then show ?thesis using commit_adds prepared_for by metis
qed

lemma batches_add:
  assumes "run_batches p n k bs tu s = (Inr (Inr outs, tu'), t)" and "tasks_answer p"
  shows "adds_results (concat bs) tu tu'"
  using assms(1)
proof (induction bs arbitrary: n k tu s outs)
  case Nil
  then show ?case by (simp add: ret_def adds_nothing)
next
  case (Cons b bs)
  then obtain outs1 tu1 s1 outs2 where b: "(case b of [call] \<Rightarrow> execute_call (pi_call p k) (aggregate_limit (pi_limit p)) call tu
       | _ \<Rightarrow> (\<lambda>s. run_batch (pi_iv p) (aggregate_limit (pi_limit p)) (length b) (\<lambda>i. pi_fate p n i (b ! i))
           (\<lambda>i. pi_cutoff p n i (b ! i)) (pi_waits p n) tu (pi_tasks p n s))) s = (Inr (Inr outs1, tu1), s1)"
    and r: "run_batches p (Suc n) (k + length b) bs tu1 s1 = (Inr (Inr outs2, tu'), t)"
    by (auto simp: ret_def split: sum.splits elim!: tbind_InrE)
  have "adds_results b tu tu1"
  proof (cases "\<exists>call. b = [call]")
    case True
    then show ?thesis using b execute_adds by auto
  next
    case False
    then have "run_batch (pi_iv p) (aggregate_limit (pi_limit p)) (length b) (\<lambda>i. pi_fate p n i (b ! i))
        (\<lambda>i. pi_cutoff p n i (b ! i)) (pi_waits p n) tu (pi_tasks p n s) = (Inr (Inr outs1, tu1), s1)"
      using b by (auto split: list.splits)
    then show ?thesis by (rule batch_adds[OF _ assms(2)])
  qed
  with Cons.IH[OF r] show ?case using adds_more by auto
qed

lemma calls_add:
  assumes "run_calls p calls messages s = (Inr (Inr outs, tu), t)" and "tasks_answer p"
  shows "\<exists>rs. tu_messages tu = messages @ rs \<and> list_all2 (\<lambda>c. result_for (Some (JStr (mc_id c)))) calls rs"
proof -
  obtain bs s1 s2 where e: "execution_batches (pi_iv p) (pi_value_error p) (pi_concurrency p) calls s1 = (Inr (Some bs), s2)"
    and r: "\<exists>s3. run_batches p 0 0 bs \<lparr>tu_messages = messages, tu_used = 0\<rparr> s3 = (Inr (Inr outs, tu), t)"
    using assms(1) unfolding run_calls_def
    by (auto simp: in_env_def raise_def split: prod.splits option.splits elim!: tbind_InrE) blast
  obtain n where n: "read_concurrency (pi_concurrency p) = Suc n" using read_concurrency_pos by blast
  have "good_batches (call_is_safe (pi_iv p) (pi_value_error p)) (Suc n) []" by (simp add: good_batches_def)
  from split_calls_good[OF this, of "[]" calls s1] e n have "concat bs = calls" by (simp add: execution_batches_def)
  with r batches_add[OF _ assms(2)] show ?thesis by (fastforce simp: adds_results_def)
qed

section \<open>A pass\<close>

definition keeps :: "(json list \<Rightarrow> 's \<Rightarrow> json list tres \<times> 's) \<Rightarrow> bool" where
  "keeps f \<longleftrightarrow> (\<forall>ms s ms' t. answered ms \<longrightarrow> f ms s = (Inr ms', t) \<longrightarrow> answered ms')"

definition keeps_done :: "(json list \<Rightarrow> 's \<Rightarrow> (bool \<times> json list) tres \<times> 's) \<Rightarrow> bool" where
  "keeps_done f \<longleftrightarrow> (\<forall>ms s b ms' t. answered ms \<longrightarrow> f ms s = (Inr (b, ms'), t) \<longrightarrow> answered ms')"

text \<open>The mailbox, the compaction, the barrier and the confirmation leave the transcript answered.\<close>

definition hooks_keep :: "'w pass_input \<Rightarrow> bool" where
  "hooks_keep p \<longleftrightarrow> keeps (pi_arrive p) \<and> pred_option (\<lambda>f. \<forall>b. keeps (f b)) (pi_compact p) \<and> pred_option keeps_done (pi_barrier p)
     \<and> pred_option keeps_done (pi_finish p) \<and> keeps (pi_confirm p)"

lemma keepsD: "keeps f \<Longrightarrow> answered ms \<Longrightarrow> f ms s = (Inr ms', t) \<Longrightarrow> answered ms'"
  unfolding keeps_def by blast

lemma keeps_doneD: "keeps_done f \<Longrightarrow> answered ms \<Longrightarrow> f ms s = (Inr (b, ms'), t) \<Longrightarrow> answered ms'"
  unfolding keeps_done_def by blast

lemma keeps_env: "keeps f \<Longrightarrow> answered ms \<Longrightarrow> in_env (f ms) s = (Inr ms', t) \<Longrightarrow> answered ms'"
  by (auto simp: in_env_def split: prod.splits dest: keepsD)

lemma keeps_env_all: "\<forall>b. keeps (f b) \<Longrightarrow> answered ms \<Longrightarrow> in_env (f b ms) s = (Inr ms', t) \<Longrightarrow> answered ms'"
  using keeps_env by blast

lemma keeps_done_env: "keeps_done f \<Longrightarrow> answered ms \<Longrightarrow> in_env (f ms) s = (Inr (b, ms'), t) \<Longrightarrow> answered ms'"
  by (auto simp: in_env_def split: prod.splits dest: keeps_doneD)

lemma answered_answer: "answered ms \<Longrightarrow> answered (ms @ [answer_note m])"
  by (rule answered_append) (simp_all add: answer_note_def role_of_def calls_of_def)

text \<open>The transcript that a pass hands on.\<close>

fun handed_on :: "loop_exit \<Rightarrow> json list option" where
  "handed_on (Again lp) = Some (lp_messages lp)"
| "handed_on (Answer text lp reason) = Some (lp_messages lp)"
| "handed_on _ = None"

lemma count_round_keeps: "count_round p lp s = (Inr x, t) \<Longrightarrow> handed_on x = Some ms \<Longrightarrow> ms = lp_messages lp"
  by (auto simp: count_round_def Let_def ret_def split: option.splits if_splits elim!: tbind_InrE)

lemma hook_keeps:
  assumes "answered ms" and "(case hook of None \<Rightarrow> ret (True, ms) | Some f \<Rightarrow> f ms) s = (Inr (b, ms'), t)" and "pred_option keeps_done hook"
  shows "answered ms'"
  using assms by (cases hook) (auto simp: ret_def dest: keeps_doneD)

lemma hook_keeps_env:
  assumes "answered ms" and "(case hook of None \<Rightarrow> ret (True, ms) | Some f \<Rightarrow> in_env (f ms)) s = (Inr (b, ms'), t)"
    and "pred_option keeps_done hook"
  shows "answered ms'"
  using assms by (cases hook) (auto simp: ret_def dest: keeps_done_env)

lemma settle_answer_keeps:
  assumes "settle_answer p text lp s = (Inr x, t)" and "handed_on x = Some ms" and "answered (lp_messages lp)" and "hooks_keep p"
  shows "answered ms"
proof -
  obtain b ms1 s1 where h: "(case pi_barrier p of None \<Rightarrow> ret (True, lp_messages lp) | Some barrier \<Rightarrow> barrier (lp_messages lp)) s
      = (Inr (b, ms1), s1)"
    and rest: "(if \<not> b then ret (Again (lp\<lparr>lp_messages := ms1\<rparr>))
      else tbind (case pi_finish p of None \<Rightarrow> ret (True, ms1) | Some finish \<Rightarrow> in_env (finish ms1)) (\<lambda>(finished, ms').
        if finished then ret (Answer text (lp\<lparr>lp_messages := ms'\<rparr>) None)
        else count_round p (lp\<lparr>lp_messages := ms'\<rparr>))) s1 = (Inr x, t)"
    using assms(1) unfolding settle_answer_def by (rule tbind_InrE) auto
  have ms1: "answered ms1" using hook_keeps[OF assms(3) h] assms(4) by (simp add: hooks_keep_def)
  show ?thesis
  proof (cases b)
    case False
    then show ?thesis using rest assms(2) ms1 by (auto simp: ret_def)
  next
    case True
    then obtain f ms2 s3 where f: "(case pi_finish p of None \<Rightarrow> ret (True, ms1) | Some finish \<Rightarrow> in_env (finish ms1)) s1 = (Inr (f, ms2), s3)"
      and fin: "(if f then ret (Answer text (lp\<lparr>lp_messages := ms2\<rparr>) None) else count_round p (lp\<lparr>lp_messages := ms2\<rparr>)) s3 = (Inr x, t)"
      using rest by (auto elim!: tbind_InrE)
    have "answered ms2" using hook_keeps_env[OF ms1 f] assms(4) by (simp add: hooks_keep_def)
    moreover have "ms = ms2" using fin assms(2) count_round_keeps by (cases f) (fastforce simp: ret_def)+
    ultimately show ?thesis by simp
  qed
qed

lemma no_calls_keeps:
  assumes "no_calls p step message lp s = (Inr x, t)" and "handed_on x = Some ms" and "answered (lp_messages lp)" and "hooks_keep p"
  shows "answered ms"
proof -
  obtain shown s1 where "settle_answer p shown (lp\<lparr>lp_messages := lp_messages lp @ [answer_note message]\<rparr>) s1 = (Inr x, t)"
    using assms(1,2) unfolding no_calls_def Let_def
    by (auto simp: ret_def raise_def split: if_splits elim!: tbind_InrE)
  then show ?thesis using settle_answer_keeps assms(2,4) answered_answer[OF assms(3)] by fastforce
qed

lemma run_turn_keeps:
  assumes "run_turn p step message lp attempt calls s = (Inr x, t)" and "handed_on x = Some ms" and "answered (lp_messages lp)"
    and "hooks_keep p" and "tasks_answer p"
  shows "answered ms"
proof -
  obtain outs tu s1 s2 s3 where r: "run_calls p calls (lp_messages lp @ [calls_note message calls]) s1 = (Inr (Inr outs, tu), s2)"
    and c: "in_env (pi_confirm p (tu_messages tu)) s2 = (Inr ms, s3)"
    using assms(1,2) unfolding run_turn_def Let_def
    by (auto simp: ret_def raise_def split: sum.splits batch_stop.splits prod.splits elim!: tbind_InrE)
  from calls_add[OF r assms(5)] obtain rs where "tu_messages tu = lp_messages lp @ calls_note message calls # rs"
    and "list_all2 result_for (calls_of (calls_note message calls)) rs" by (auto simp: calls_note_fields list_all2_map1)
  then have "answered (tu_messages tu)" using answered_append[OF assms(3) answered_turn] calls_note_fields(1) by metis
  then show ?thesis using keeps_env[where f = "pi_confirm p", OF _ _ c] assms(4) by (simp add: hooks_keep_def)
qed

lemma with_calls_keeps:
  assumes "with_calls p step message lp s = (Inr x, t)" and "handed_on x = Some ms" and "answered (lp_messages lp)"
    and "hooks_keep p" and "tasks_answer p"
  shows "answered ms"
proof -
  have "\<exists>attempt calls s1. run_turn p step message lp attempt calls s1 = (Inr x, t)"
    using assms(1,2) unfolding with_calls_def
    by (auto simp: ret_def split: prod.splits if_splits elim!: tbind_InrE)
  then show ?thesis using run_turn_keeps assms(2-5) by blast
qed

lemma on_stop_keeps:
  assumes "on_stop p stopped lp s = (Inr x, t)" and "handed_on x = Some ms" and "answered (lp_messages lp)"
  shows "answered ms"
proof -
  have "ms = lp_messages lp \<or> ms = lp_messages lp @ [stop_summary_note]"
    using assms(1,2) by (auto simp: on_stop_def summarize_stop_def Let_def raise_def ret_def
        split: if_splits option.splits prod.splits tool_error.splits elim!: tbind_InrE)
  moreover have "answered [stop_summary_note]" by (simp add: stop_summary_note_def)
  ultimately show ?thesis using assms(3) answered_append by auto
qed

lemma ask_model_keeps:
  assumes "ask_model p repair ms s = (Inr (ms', answer), t)" and "answered ms" and "hooks_keep p"
  shows "answered ms'"
  using assms unfolding ask_model_def hooks_keep_def
  by (auto simp: ret_def split: prod.splits sum.splits if_splits option.splits tool_error.splits elim!: tbind_InrE dest: keeps_env_all)


section \<open>Witnesses\<close>

text \<open>An answer, after which the mailbox has a late message.\<close>

definition sample_hello :: ModelDelta where
  "sample_hello = \<lparr>dl_content = ''hello'', dl_reasoning = [], dl_index = None, dl_id = None, dl_name = None, dl_arguments = [], dl_usage = None\<rparr>"

definition sample_pass :: "bool \<Rightarrow> unit pass_input" where
  "sample_pass finished = \<lparr>pi_iv = sample_iv, pi_limit = 0, pi_rounds = 1, pi_concurrency = 1, pi_repairs = 1, pi_arrive = ret, pi_compact = None,
     pi_planning = False, pi_authorize = False, pi_stream = (\<lambda>_ _. \<lparr>ms_deltas = [sample_hello], ms_error = None\<rparr>),
     pi_readings = (\<lambda>_. undefined), pi_step = (\<lambda>_. ''p9''), pi_schema_error = (\<lambda>_. False), pi_barrier = None,
     pi_finish = Some (\<lambda>ms. ret (finished, ms)), pi_confirm = ret, pi_value_error = (\<lambda>_. False), pi_call = (\<lambda>_. sample_iv),
     pi_tasks = (\<lambda>_ s. s), pi_fate = (\<lambda>_ _ c. Finished ((sample_outcome [] [])\<lparr>oc_call := c\<rparr>)),
     pi_cutoff = (\<lambda>_ _ c. Finished ((sample_outcome [] [])\<lparr>oc_call := c\<rparr>)), pi_waits = (\<lambda>_. []), pi_draw = (\<lambda>_. ([], [], []))\<rparr>"

definition sample_start :: "json list" where
  "sample_start = [system_note ''be brief'', JObj [(''role'', JStr ''user''), (''content'', JStr ''hi'')]]"

definition sample_passed :: "loop_exit tres \<times> unit call_state" where
  "sample_passed = loop_pass (sample_pass False) (loop_start sample_start) sample_call_state"

lemma sample_goes_on: "case fst sample_passed of Inr (Again lp) \<Rightarrow> length (lp_messages lp) = 3 | _ \<Rightarrow> False"
  by code_simp

lemma sample_pass_ok: "hooks_keep (sample_pass b)" "tasks_answer (sample_pass b)" "bounded_input 1 (sample_pass b)"
  by (simp_all add: sample_pass_def hooks_keep_def keeps_def keeps_done_def tasks_answer_def bounded_input_def tasks_steady_def ret_def)

lemma sample_start_answered: "answered sample_start"
  by code_simp


theorem loop_ends_witness:
  "\<exists>r t. tool_loop 2 (\<lambda>_. sample_pass False) (loop_start sample_start) sample_call_state = Some (r, t)"
proof -
  have "works_alone (cs_governor sample_call_state)" "rounds_left 1 (cs_governor sample_call_state) 0 = 1"
    by (simp_all add: works_alone_def rounds_left_def sample_call_state_def)
  with loop_ends[of 1 "\<lambda>_. sample_pass False" sample_call_state sample_start] sample_pass_ok(3) show ?thesis by (simp add: numeral_2_eq_2)
qed

end
