(* ===== verification/Sequence_Match.thy ===== *)
theory Sequence_Match
  imports Prelude
begin

text \<open>
  \<open>difflib.SequenceMatcher(None, a, b).ratio()\<close> of the standard library, which the tool catalog ranks its
  candidates by.  There is no junk; of a long second text the popular characters start no block.
\<close>

section \<open>The longest block\<close>

definition popular :: "string \<Rightarrow> char \<Rightarrow> bool" where
  "popular b c \<longleftrightarrow> 200 \<le> length b \<and> length b div 100 + 1 < length (filter (\<lambda>x. x = c) b)"

text \<open>One round of the outer loop of \<open>find_longest_match\<close>: the lengths of the blocks that end at each
  position of \<open>b\<close>.\<close>

fun block_row :: "(char \<Rightarrow> bool) \<Rightarrow> char \<Rightarrow> nat \<Rightarrow> nat list \<Rightarrow> string \<Rightarrow> nat list" where
  "block_row pop a left (x # row) (c # b) = (if c = a \<and> \<not> pop c then left + 1 else 0) # block_row pop a x row b"
| "block_row pop a left row b = []"

fun best_block :: "nat \<Rightarrow> nat \<Rightarrow> nat list \<Rightarrow> nat \<times> nat \<times> nat \<Rightarrow> nat \<times> nat \<times> nat" where
  "best_block i j [] best = best"
| "best_block i j (k # row) (bi, bj, n) = best_block i (j + 1) row (if n < k then (i + 1 - k, j + 1 - k, k) else (bi, bj, n))"

fun scan_blocks :: "(char \<Rightarrow> bool) \<Rightarrow> nat \<Rightarrow> string \<Rightarrow> string \<Rightarrow> nat list \<Rightarrow> nat \<times> nat \<times> nat \<Rightarrow> nat \<times> nat \<times> nat" where
  "scan_blocks pop i [] b row best = best"
| "scan_blocks pop i (c # a) b row best =
     (let row' = block_row pop c 0 row b in scan_blocks pop (i + 1) a b row' (best_block i 0 row' best))"

fun common_prefix :: "string \<Rightarrow> string \<Rightarrow> nat" where
  "common_prefix (x # xs) (y # ys) = (if x = y then 1 + common_prefix xs ys else 0)"
| "common_prefix _ _ = 0"

text \<open>The block, extended by equal characters on both sides.\<close>

definition longest_match :: "(char \<Rightarrow> bool) \<Rightarrow> string \<Rightarrow> string \<Rightarrow> nat \<times> nat \<times> nat" where
  "longest_match pop a b =
     (let (i, j, n) = scan_blocks pop 0 a b (replicate (length b) 0) (0, 0, 0);
          back = common_prefix (rev (take i a)) (rev (take j b));
          ahead = common_prefix (drop (i + n) a) (drop (j + n) b) in
      (i - back, j - back, n + back + ahead))"

section \<open>It lies in the texts\<close>

lemma block_row_bounds:
  "\<lbrakk>left \<le> i; \<forall>x \<in> set row. x \<le> i\<rbrakk> \<Longrightarrow> \<forall>x \<in> set (block_row pop a left row b). x \<le> Suc i"
  by (induction pop a left row b rule: block_row.induct) auto

lemma best_block_bounds:
  assumes "\<forall>k \<in> set row. k \<le> Suc i" and "best_block i j row (bi, bj, n) = (bi', bj', n')" and "bi + n \<le> Suc i"
  shows "bi' + n' \<le> Suc i"
  using assms by (induction i j row "(bi, bj, n)" arbitrary: bi bj n rule: best_block.induct) (auto split: if_splits)

lemma scan_blocks_bounds:
  assumes "scan_blocks pop i a b row (bi, bj, n) = (bi', bj', n')" and "\<forall>x \<in> set row. x \<le> i" and "bi + n \<le> i"
  shows "bi' + n' \<le> i + length a"
  using assms
proof (induction a arbitrary: i row bi bj n)
  case (Cons c a)
  let ?row = "block_row pop c 0 row b"
  obtain ci cj m where best: "best_block i 0 ?row (bi, bj, n) = (ci, cj, m)" by (cases "best_block i 0 ?row (bi, bj, n)")
  have row: "\<forall>x \<in> set ?row. x \<le> Suc i" using block_row_bounds[of 0 i row] Cons.prems(2) by simp
  have "ci + m \<le> Suc i" using best_block_bounds[OF row best] Cons.prems(3) by simp
  with Cons.IH[of "Suc i" ?row ci cj m] Cons.prems(1) row best show ?case by (simp add: Let_def)
qed simp

lemma common_prefix_le: "common_prefix xs ys \<le> length xs" "common_prefix xs ys \<le> length ys"
  by (induction xs ys rule: common_prefix.induct) auto

lemma longest_match_bounds:
  assumes "longest_match pop a b = (i, j, n)"
  shows "i + n \<le> length a"
proof -
  obtain bi bj m where s: "scan_blocks pop 0 a b (replicate (length b) 0) (0, 0, 0) = (bi, bj, m)"
    by (cases "scan_blocks pop 0 a b (replicate (length b) 0) (0, 0, 0)")
  have "bi + m \<le> length a" using scan_blocks_bounds[OF s] by simp
  moreover have "common_prefix (rev (take bi a)) (rev (take bj b)) \<le> bi"
    using common_prefix_le(1)[of "rev (take bi a)"] by (simp add: le_trans)
  moreover have "common_prefix (drop (bi + m) a) (drop (bj + m) b) \<le> length a - (bi + m)"
    using common_prefix_le(1)[of "drop (bi + m) a"] by simp
  ultimately show ?thesis using assms s by (auto simp: longest_match_def Let_def)
qed

section \<open>The ratio\<close>

text \<open>The sum of the sizes of the matching blocks.\<close>

function matched :: "(char \<Rightarrow> bool) \<Rightarrow> string \<Rightarrow> string \<Rightarrow> nat" where
  "matched pop a b = (case longest_match pop a b of (i, j, n) \<Rightarrow>
     if n = 0 then 0 else n + matched pop (take i a) (take j b) + matched pop (drop (i + n) a) (drop (j + n) b))"
  by pat_completeness auto

termination
  by (relation "measure (\<lambda>(pop, a, b). length a)") (auto dest!: longest_match_bounds[OF sym])

declare matched.simps [simp del]

definition match_ratio :: "string \<Rightarrow> string \<Rightarrow> rat" where
  "match_ratio a b = (if a = [] \<and> b = [] then 1
     else of_nat (2 * matched (popular b) a b) / of_nat (length a + length b))"

lemma matched_le: "matched pop a b \<le> length a"
proof (induction pop a b rule: matched.induct)
  case (1 pop a b)
  obtain i j n where m: "longest_match pop a b = (i, j, n)" by (cases "longest_match pop a b")
  show ?case
  proof (cases "n = 0")
    case False
    with 1[OF m[symmetric] refl] longest_match_bounds[OF m] show ?thesis
      by (subst matched.simps) (simp add: m)
  qed (simp add: m matched.simps)
qed

lemma match_ratio_nonneg: "0 \<le> match_ratio a b"
  by (simp add: match_ratio_def)

lemma sample_ratio: "match_ratio ''abcd'' ''bcde'' = 3 / 4"
  by code_simp

end
