(* ===== verification/Tool_Catalog.thy ===== *)
theory Tool_Catalog
  imports Tool_Invocation Strict_Schema Sequence_Match
begin

text \<open>
  The tool catalog (\<^verbatim>\<open>capslock/tooling/catalog.py\<close>), the choice of the tools a model is shown
  (\<open>ToolRuntime.model_schemas\<close> of \<^verbatim>\<open>executor.py\<close>) and the state the choice rests on
  (\<^verbatim>\<open>selection.py\<close>).  The dynamic provider is an argument of each refresh.
\<close>

section \<open>State\<close>

record catalog_diagnostic =
  cd_code :: string
  cd_tool :: "string option"
  cd_error :: string
  cd_type :: string

text \<open>\<open>cg_tools\<close> is the dictionary of tools in its order; the provider is only noted as configured.\<close>

record 'w catalog =
  cg_tools :: "(string \<times> 'w tool) list"
  cg_generation :: int
  cg_found :: "string set"
  cg_provider :: bool
  cg_dynamic :: "string set"
  cg_diagnostics :: "catalog_diagnostic list"
  cg_budget :: int

definition tools_in :: "'w catalog \<Rightarrow> 'w tool list" where
  "tools_in cg = map snd (cg_tools cg)"

definition visible_tool :: "'w tool \<Rightarrow> bool" where
  "visible_tool t \<longleftrightarrow> tk_model_visible (tl_contract t)"

definition catalog_names :: "'w catalog \<Rightarrow> string set" where
  "catalog_names cg = fst ` set (filter (\<lambda>(n, t). visible_tool t) (cg_tools cg))"

definition catalog_get :: "string \<Rightarrow> 'w catalog \<Rightarrow> 'w tool option" where
  "catalog_get name cg = map_of (cg_tools cg) name"

section \<open>Replacing the tools\<close>

fun by_name :: "(string \<times> 'w tool) list \<Rightarrow> 'w tool list \<Rightarrow> (string \<times> 'w tool) list res" where
  "by_name values [] = Inr values"
| "by_name values (t # ts) =
     (if tool_name t \<in> fst ` set values then Inl (ValueError (''duplicate tool name: '' @ tool_name t))
      else by_name (values @ [(tool_name t, t)]) ts)"

definition catalog_metadata :: "(string \<times> 'w tool) list \<Rightarrow> json list" where
  "catalog_metadata tools = map (contract_metadata \<circ> tl_contract \<circ> snd) tools"

text \<open>\<open>_replace\<close> of an existing catalog.\<close>

definition catalog_replace :: "'w tool list \<Rightarrow> 'w catalog \<Rightarrow> 'w catalog res" where
  "catalog_replace tools cg = rbind (by_name [] tools) (\<lambda>values.
     let ordered = sort_key fst values in
     Inr (cg\<lparr>cg_tools := ordered,
       cg_generation := (if catalog_metadata ordered \<noteq> catalog_metadata (cg_tools cg) then cg_generation cg + 1 else cg_generation cg)\<rparr>))"

text \<open>The schema a tool shows to a model must be accepted by strict providers.  With \<open>quarantine\<close> a tool that
  is not is left out with a diagnostic.\<close>

definition shown_schema :: "ToolContract \<Rightarrow> dict" where
  "shown_schema c = (case tk_model_schema c of
      Some (JObj (kv # kvs)) \<Rightarrow> kv # kvs | _ \<Rightarrow> dict_of (tk_input_schema c))"

definition strict_ok :: "(json \<Rightarrow> string option) \<Rightarrow> 'w tool \<Rightarrow> unit res" where
  "strict_ok fault t = (if visible_tool t then rbind (strict_provider_schema fault (shown_schema (tl_contract t))) (\<lambda>_. Inr ()) else Inr ())"

fun provider_compatible ::
  "(json \<Rightarrow> string option) \<Rightarrow> bool \<Rightarrow> 'w tool list \<Rightarrow> catalog_diagnostic list \<Rightarrow> 'w tool list res \<times> catalog_diagnostic list" where
  "provider_compatible fault quarantined [] ds = (Inr [], ds)"
| "provider_compatible fault quarantined (t # ts) ds = (case strict_ok fault t of
      Inr _ \<Rightarrow> (case provider_compatible fault quarantined ts ds of
          (Inl e, ds') \<Rightarrow> (Inl e, ds') | (Inr ts', ds') \<Rightarrow> (Inr (t # ts'), ds'))
    | Inl (Raised class text) \<Rightarrow>
        if quarantined \<and> class = ''StrictSchemaError''
        then provider_compatible fault quarantined ts (ds @ [\<lparr>cd_code = ''strict_schema_incompatible'', cd_tool = Some (tool_name t),
          cd_error = text, cd_type = class\<rparr>])
        else (Inl (Raised class text), ds)
    | Inl e \<Rightarrow> (Inl e, ds))"

text \<open>\<open>ToolCatalog(tools)\<close>.\<close>

definition new_catalog :: "(json \<Rightarrow> string option) \<Rightarrow> 'w tool list \<Rightarrow> int \<Rightarrow> 'w catalog res" where
  "new_catalog fault tools budget =
     rbind (fst (provider_compatible fault False tools [])) (\<lambda>ts. rbind (by_name [] ts) (\<lambda>values.
       Inr \<lparr>cg_tools = sort_key fst values, cg_generation = 1, cg_found = {}, cg_provider = False, cg_dynamic = {},
         cg_diagnostics = [], cg_budget = max 1 budget\<rparr>))"

definition catalog_refresh :: "(json \<Rightarrow> string option) \<Rightarrow> 'w tool list \<Rightarrow> 'w catalog \<Rightarrow> 'w catalog res" where
  "catalog_refresh fault tools cg =
     rbind (fst (provider_compatible fault False tools (cg_diagnostics cg))) (\<lambda>ts. rbind (catalog_replace ts cg) (\<lambda>cg'.
       Inr (cg'\<lparr>cg_found := cg_found cg' \<inter> fst ` set (cg_tools cg')\<rparr>)))"

text \<open>\<open>configure_dynamic\<close>: the provider and its names are noted before the tools are replaced, and stay when
  that fails.\<close>

definition configure_dynamic :: "(json \<Rightarrow> string option) \<Rightarrow> 'w tool list \<Rightarrow> 'w catalog \<Rightarrow> unit res \<times> 'w catalog" where
  "configure_dynamic fault initial cg =
     (case provider_compatible fault True initial (cg_diagnostics cg) of
        (Inl e, ds) \<Rightarrow> (Inl e, cg\<lparr>cg_diagnostics := ds\<rparr>)
      | (Inr dynamic, ds) \<Rightarrow>
          (let cg' = cg\<lparr>cg_diagnostics := ds, cg_provider := True, cg_dynamic := tool_name ` set dynamic\<rparr> in
           case catalog_replace (tools_in cg' @ dynamic) cg' of Inl e \<Rightarrow> (Inl e, cg') | Inr cg'' \<Rightarrow> (Inr (), cg'')))"

definition static_tools :: "'w catalog \<Rightarrow> 'w tool list" where
  "static_tools cg = map snd (filter (\<lambda>(n, t). n \<notin> cg_dynamic cg) (cg_tools cg))"

definition refresh_failed :: "tool_error \<Rightarrow> 'w catalog \<Rightarrow> 'w catalog" where
  "refresh_failed e cg = cg\<lparr>cg_diagnostics := cg_diagnostics cg @ [\<lparr>cd_code = ''catalog_refresh_failed'', cd_tool = None,
     cd_error = error_text e, cd_type = error_name e\<rparr>]\<rparr>"

text \<open>\<open>refresh_dynamic\<close>; \<open>provided\<close> is what the provider returns or raises.  Only a cancellation passes.\<close>

definition refresh_dynamic ::
  "(py_error \<Rightarrow> string \<times> string) \<Rightarrow> (json \<Rightarrow> string option) \<Rightarrow> 'w tool list tres \<Rightarrow> 'w catalog \<Rightarrow> unit tres \<times> 'w catalog" where
  "refresh_dynamic describe fault provided cg =
     (if \<not> cg_provider cg then (Inr (), cg)
      else case provided of
        Inl Cancelled \<Rightarrow> (Inl Cancelled, cg)
      | Inl e \<Rightarrow> (Inr (), refresh_failed e cg)
      | Inr tools \<Rightarrow> (case provider_compatible fault True tools (cg_diagnostics cg) of
            (Inl e, ds) \<Rightarrow> (Inr (), refresh_failed (of_py describe e) (cg\<lparr>cg_diagnostics := ds\<rparr>))
          | (Inr ts, ds) \<Rightarrow> (let cg' = cg\<lparr>cg_diagnostics := ds\<rparr> in
              case catalog_replace (static_tools cg' @ ts) cg' of
                Inl e \<Rightarrow> (Inr (), refresh_failed (of_py describe e) cg')
              | Inr cg'' \<Rightarrow> (Inr (), cg''\<lparr>cg_dynamic := tool_name ` set ts, cg_found := cg_found cg'' \<inter> fst ` set (cg_tools cg'')\<rparr>))))"

definition pop_refresh_diagnostics :: "'w catalog \<Rightarrow> catalog_diagnostic list \<times> 'w catalog" where
  "pop_refresh_diagnostics cg = (cg_diagnostics cg, cg\<lparr>cg_diagnostics := []\<rparr>)"

definition combined :: "(json \<Rightarrow> string option) \<Rightarrow> 'w tool list \<Rightarrow> 'w catalog \<Rightarrow> 'w catalog res" where
  "combined fault tools cg = new_catalog fault (tools_in cg @ tools) (cg_budget cg)"

definition filtered :: "(json \<Rightarrow> string option) \<Rightarrow> string set \<Rightarrow> 'w catalog \<Rightarrow> 'w catalog res" where
  "filtered fault names cg = new_catalog fault (map snd (filter (\<lambda>(n, t). n \<in> names) (cg_tools cg))) (cg_budget cg)"

section \<open>Discovery\<close>

definition discover :: "string set \<Rightarrow> 'w catalog \<Rightarrow> string list \<times> 'w catalog" where
  "discover names cg = (let selected = names \<inter> catalog_names cg in
     (filter (\<lambda>n. n \<in> selected) (sort (remdups (map fst (cg_tools cg)))), cg\<lparr>cg_found := cg_found cg \<union> selected\<rparr>))"

text \<open>\<open>xs[:limit]\<close> for any limit.\<close>

definition up_to :: "int \<Rightarrow> 'a list \<Rightarrow> 'a list" where
  "up_to limit xs = take (nat (if limit < 0 then int (length xs) + limit else limit)) xs"

definition local_read :: "'w tool \<Rightarrow> bool" where
  "local_read t \<longleftrightarrow> tk_visibility (tl_contract t) = PV_LOCAL_READ"

definition search_score :: "string list \<Rightarrow> string \<Rightarrow> 'w tool \<Rightarrow> int" where
  "search_score terms name t =
     (let haystack = casefold (py_join '' '' (filter (\<lambda>x. x \<noteq> []) [name, or_text (tk_search_hint (tl_contract t)) [],
            tk_description (tl_contract t)])) in
      sum_list (map (\<lambda>term. if contains_text term (casefold name) then 4 else 1) (filter (\<lambda>term. contains_text term haystack) terms)))"

definition catalog_search :: "string \<Rightarrow> int \<Rightarrow> bool \<Rightarrow> 'w catalog \<Rightarrow> string list \<times> 'w catalog" where
  "catalog_search query limit plan_only cg =
     (let terms = map casefold (py_split query);
          able = filter (\<lambda>(n, t). visible_tool t \<and> tk_deferred (tl_contract t) \<and> (plan_only \<longrightarrow> local_read t)) (cg_tools cg);
          scored = filter (\<lambda>(score, n). score \<noteq> 0) (map (\<lambda>(n, t). (search_score terms n t, n)) able) in
      discover (snd ` set (up_to limit (sort_key (\<lambda>(score, n). (- score, n)) scored))) cg)"

fun split_double :: "string \<Rightarrow> string" where
  "split_double (c # d # cs) = (if c = CHR ''_'' \<and> d = CHR ''_'' then CHR '' '' # split_double cs else c # split_double (d # cs))"
| "split_double cs = cs"

definition candidate_metadata :: "string \<Rightarrow> ToolContract \<Rightarrow> string list" where
  "candidate_metadata name c = [name] @ tk_aliases c @ tk_intent_tags c @ [or_text (tk_group c) [], or_text (tk_search_hint c) [],
     tk_description c] @ (case jget (tk_input_schema c) ''properties'' of Some (JObj kvs) \<Rightarrow> map fst kvs | _ \<Rightarrow> [])"

text \<open>How well a tool fits: the terms found, and the best similarity.\<close>

definition lexical_score :: "string list \<Rightarrow> string \<Rightarrow> string list \<Rightarrow> int" where
  "lexical_score terms name metadata = (let haystack = casefold (py_join '' '' metadata) in
     sum_list (map (\<lambda>term. if contains_text term (casefold name) then 6 else 2) (filter (\<lambda>term. contains_text term haystack) terms)))"

definition best_similarity :: "string \<Rightarrow> string list \<Rightarrow> rat" where
  "best_similarity normalized metadata =
     fold max (map (\<lambda>item. match_ratio normalized (casefold item)) (filter (\<lambda>item. item \<noteq> []) metadata)) 0"

definition candidate_score :: "string \<Rightarrow> string \<times> 'w tool \<Rightarrow> (rat \<times> string) option" where
  "candidate_score normalized nt = (case nt of (name, t) \<Rightarrow>
     (let metadata = candidate_metadata name (tl_contract t); lexical = lexical_score (py_split (split_double normalized)) name metadata;
          similarity = best_similarity normalized metadata in
      if lexical \<noteq> 0 \<or> 35 / 100 \<le> similarity then Some (of_int lexical + similarity, name) else None))"

definition catalog_candidates :: "string \<Rightarrow> int \<Rightarrow> bool \<Rightarrow> bool \<Rightarrow> 'w catalog \<Rightarrow> string list" where
  "catalog_candidates query limit deferred_only plan_only cg =
     (let able = filter (\<lambda>(n, t). visible_tool t \<and> (deferred_only \<longrightarrow> tk_deferred (tl_contract t)) \<and> (plan_only \<longrightarrow> local_read t)) (cg_tools cg);
          scored = List.map_filter (candidate_score (strip (casefold query))) able in
      map snd (up_to (max 1 limit) (sort_key (\<lambda>(score, n). (- score, n)) scored)))"

section \<open>What the model is shown\<close>

definition shown_tools :: "'w catalog \<Rightarrow> 'w tool list" where
  "shown_tools cg = filter (\<lambda>t. visible_tool t \<and> (tk_deferred (tl_contract t) \<longrightarrow> tool_name t \<in> cg_found cg)) (tools_in cg)"

definition tool_schema :: "'w tool \<Rightarrow> json" where
  "tool_schema t = model_schema (tl_contract t)"

record 'w catalog_snapshot =
  cs_generation :: int
  cs_fingerprint :: string
  cs_tools :: "'w tool list"
  cs_schemas :: "json list"

definition catalog_snapshot :: "(string \<Rightarrow> string) \<Rightarrow> 'w catalog \<Rightarrow> 'w catalog_snapshot" where
  "catalog_snapshot sha cg = \<lparr>cs_generation = cg_generation cg,
     cs_fingerprint = sha (dumps_sorted '','' '':'' json_ascii (JList (map tool_schema (shown_tools cg)))),
     cs_tools = shown_tools cg, cs_schemas = map tool_schema (shown_tools cg)\<rparr>"

definition normal_tools :: "'w catalog \<Rightarrow> 'w tool list" where
  "normal_tools cg = filter (\<lambda>t. tk_visibility (tl_contract t) \<noteq> PV_CONTROL \<or> tool_name t \<in> {''enter_plan_mode'', ''ask_user''})
     (shown_tools cg)"

definition plan_tools :: "'w catalog \<Rightarrow> 'w tool list" where
  "plan_tools cg = filter (\<lambda>t. tk_visibility (tl_contract t) \<noteq> PV_HIDDEN \<and> tool_name t \<noteq> ''enter_plan_mode'') (shown_tools cg)"

definition advertised :: "bool \<Rightarrow> 'w catalog \<Rightarrow> 'w tool list" where
  "advertised planning cg = (if planning then plan_tools cg else normal_tools cg)"

definition schemas_for :: "string set \<Rightarrow> bool \<Rightarrow> 'w catalog \<Rightarrow> json list" where
  "schemas_for names planning cg = map tool_schema (filter (\<lambda>t. tool_name t \<in> names) (advertised planning cg))"

definition schema_tokens :: "json \<Rightarrow> int" where
  "schema_tokens schema = max 1 (int (length (dumps_sorted '', '' '': '' json_ascii schema)) div 4)"

definition always_shown :: "bool \<Rightarrow> string set \<Rightarrow> string set" where
  "always_shown planning found = {''search_tools'', ''ask_user''} \<union> found
     \<union> (if planning then {''get_plan'', ''update_plan'', ''submit_plan''} else {''enter_plan_mode''})"

text \<open>The loop over the ranked names: what has been selected and the tokens it takes.\<close>

fun pick_ranked :: "(string \<Rightarrow> int option) \<Rightarrow> int \<Rightarrow> int \<Rightarrow> string list \<Rightarrow> string list \<Rightarrow> int \<Rightarrow> string list" where
  "pick_ranked cost limit budget [] selected used = selected"
| "pick_ranked cost limit budget (n # ns) selected used =
     (if limit \<le> int (length selected) then selected
      else case cost n of
        None \<Rightarrow> pick_ranked cost limit budget ns selected used
      | Some tokens \<Rightarrow>
          if n \<in> set selected \<or> budget < used + tokens then pick_ranked cost limit budget ns selected used
          else pick_ranked cost limit budget ns (selected @ [n]) (used + tokens))"

definition visible_cost :: "bool \<Rightarrow> 'w catalog \<Rightarrow> string \<Rightarrow> int option" where
  "visible_cost planning cg name =
     map_option (\<lambda>t. schema_tokens (tool_schema t)) (find (\<lambda>t. tool_name t = name) (advertised planning cg))"

definition selected_names :: "string \<Rightarrow> int \<Rightarrow> bool \<Rightarrow> 'w catalog \<Rightarrow> string list" where
  "selected_names query limit planning cg =
     (let ranked = catalog_candidates query (max limit 1) False planning cg; cost = visible_cost planning cg;
          selected = filter (\<lambda>n. n \<in> always_shown planning (cg_found cg)) (sort (remdups (map tool_name (advertised planning cg))));
          used = sum_list (map (\<lambda>n. case cost n of None \<Rightarrow> 0 | Some tokens \<Rightarrow> tokens) selected) in
      pick_ranked cost limit (cg_budget cg) ranked selected used)"

section \<open>The runtime's choice\<close>

datatype ToolSelectionMode = SM_FULL | SM_SHADOW | SM_FILTERED

definition model_schemas :: "ToolSelectionMode \<Rightarrow> int \<Rightarrow> string \<Rightarrow> bool \<Rightarrow> 'w catalog \<Rightarrow> json list \<times> string list" where
  "model_schemas mode limit query planning cg =
     (let selected = selected_names query (max 3 limit) planning cg in
      (if mode = SM_FILTERED then schemas_for (set selected) planning cg else map tool_schema (advertised planning cg), selected))"

record selection_state =
  se_goal :: string
  se_recent :: "(string \<times> bool) list"

definition observe_outcomes :: "(string \<times> bool) list \<Rightarrow> string set \<Rightarrow> selection_state \<Rightarrow> selection_state" where
  "observe_outcomes outcomes allowed s = s\<lparr>se_recent := take_last 12 (filter (\<lambda>(n, ok). n \<in> allowed) outcomes)\<rparr>"

definition selection_query :: "bool \<Rightarrow> selection_state \<Rightarrow> string" where
  "selection_query planning s = take 8192 (se_goal s) @ [newline] @ ''mode='' @ (if planning then ''planning'' else ''execution'') @ '' ''
     @ py_join '' '' (map (\<lambda>(n, ok). n @ '' '' @ (if ok then ''succeeded'' else ''failed'')) (se_recent s))"

end
