(* ===== verification/Tool_Catalog_Safety.thy ===== *)
theory Tool_Catalog_Safety
  imports Tool_Catalog Tool_Pipeline
begin

text \<open>
  What the tool catalog promises: its invariant over every sequence of its operations, a provider that cannot
  take the static tools away, the bounds of the selection, and where the catalog and the planning boundary
  disagree.
\<close>

section \<open>The invariant\<close>

text \<open>One entry per name, in the order of the names; every tool a model may see has a strict schema.\<close>

definition catalog_ok :: "(json \<Rightarrow> string option) \<Rightarrow> 'w catalog \<Rightarrow> bool" where
  "catalog_ok fault cg \<longleftrightarrow> sorted_wrt (<) (map fst (cg_tools cg)) \<and> list_all (\<lambda>(n, t). n = tool_name t) (cg_tools cg)
     \<and> list_all (\<lambda>(n, t). is_ok (strict_ok fault t)) (cg_tools cg) \<and> cg_found cg \<subseteq> fst ` set (cg_tools cg) \<and> 1 \<le> cg_budget cg
     \<and> 1 \<le> cg_generation cg"

definition named :: "(string \<times> 'w tool) list \<Rightarrow> bool" where
  "named nts \<longleftrightarrow> list_all (\<lambda>(n, t). n = tool_name t) nts"

lemma named_append: "named (xs @ ys) \<longleftrightarrow> named xs \<and> named ys"
  by (simp add: named_def)

lemma named_names: "named nts \<Longrightarrow> map tool_name (map snd nts) = map fst nts"
  by (induction nts) (auto simp: named_def)

lemma named_set: "named nts \<Longrightarrow> fst ` set nts = tool_name ` snd ` set nts"
  by (induction nts) (auto simp: named_def)

lemma by_name_Inr:
  "by_name vs ts = Inr out \<Longrightarrow> out = vs @ map (\<lambda>t. (tool_name t, t)) ts \<and> (distinct (map fst vs) \<longrightarrow> distinct (map fst out))"
  by (induction vs ts rule: by_name.induct) (force split: if_splits)+

lemma sorted_by_name:
  assumes "by_name [] ts = Inr out"
  shows "sorted_wrt (<) (map fst (sort_key fst out))" "named (sort_key fst out)" "set (sort_key fst out) = (\<lambda>t. (tool_name t, t)) ` set ts"
proof -
  have out: "out = map (\<lambda>t. (tool_name t, t)) ts" and d: "distinct (map fst out)" using by_name_Inr[OF assms] by auto
  have "distinct (map fst (sort_key fst out))"
    using distinct_card[OF d] by (intro card_distinct) simp
  then show "sorted_wrt (<) (map fst (sort_key fst out))" by (simp add: strict_sorted_iff)
  show "named (sort_key fst out)" by (simp add: out named_def list_all_iff)
  show "set (sort_key fst out) = (\<lambda>t. (tool_name t, t)) ` set ts" by (simp add: out)
qed

lemma provider_compatible_Inr:
  "provider_compatible fault q ts ds = (Inr out, ds') \<Longrightarrow> list_all (\<lambda>t. is_ok (strict_ok fault t)) out \<and> set out \<subseteq> set ts"
proof (induction ts arbitrary: out ds)
  case (Cons t ts)
  then show ?case by (fastforce simp: is_ok_def split: sum.splits prod.splits py_error.splits if_splits)
qed simp

lemma catalog_replace_Inr:
  assumes "catalog_replace ts cg = Inr cg'"
  shows "sorted_wrt (<) (map fst (cg_tools cg'))" "named (cg_tools cg')" "set (cg_tools cg') = (\<lambda>t. (tool_name t, t)) ` set ts"
    "cg_found cg' = cg_found cg" "cg_budget cg' = cg_budget cg" "cg_generation cg \<le> cg_generation cg'" "cg_dynamic cg' = cg_dynamic cg"
    "cg_provider cg' = cg_provider cg" "cg_diagnostics cg' = cg_diagnostics cg"
proof -
  obtain out where out: "by_name [] ts = Inr out"
    and cg': "cg' = cg\<lparr>cg_tools := sort_key fst out,
      cg_generation := (if catalog_metadata (sort_key fst out) \<noteq> catalog_metadata (cg_tools cg) then cg_generation cg + 1 else cg_generation cg)\<rparr>"
    using assms by (auto simp: catalog_replace_def rbind_Inr_iff Let_def)
  show "sorted_wrt (<) (map fst (cg_tools cg'))" "named (cg_tools cg')" "set (cg_tools cg') = (\<lambda>t. (tool_name t, t)) ` set ts"
    using sorted_by_name[OF out] by (simp_all add: cg' del: set_sort)
qed (use assms in \<open>auto simp: catalog_replace_def rbind_Inr_iff Let_def\<close>)

lemma catalog_ok_named: "catalog_ok fault cg \<Longrightarrow> named (cg_tools cg)"
  by (simp add: catalog_ok_def named_def)

lemma catalog_ok_tools: "catalog_ok fault cg \<Longrightarrow> t \<in> set (tools_in cg) \<Longrightarrow> is_ok (strict_ok fault t)"
  by (auto simp: catalog_ok_def tools_in_def list_all_iff)

lemma found_named: "catalog_ok fault cg \<Longrightarrow> cg_found cg \<subseteq> tool_name ` set (tools_in cg)"
  using named_set[OF catalog_ok_named] by (fastforce simp: catalog_ok_def tools_in_def)

lemma catalog_okI:
  assumes "sorted_wrt (<) (map fst (cg_tools cg))" "named (cg_tools cg)" "set (cg_tools cg) = (\<lambda>t. (tool_name t, t)) ` set ts"
    "list_all (\<lambda>t. is_ok (strict_ok fault t)) ts" "cg_found cg \<subseteq> fst ` set (cg_tools cg)" "1 \<le> cg_budget cg" "1 \<le> cg_generation cg"
  shows "catalog_ok fault cg"
  using assms by (auto simp: catalog_ok_def named_def list_all_iff)

lemma new_catalog_ok: "new_catalog fault ts budget = Inr cg \<Longrightarrow> catalog_ok fault cg"
  by (cases "provider_compatible fault False ts []")
    (auto simp: new_catalog_def rbind_Inr_iff intro!: catalog_okI dest!: provider_compatible_Inr dest: sorted_by_name)

lemma catalog_refresh_ok: "catalog_refresh fault ts cg = Inr cg' \<Longrightarrow> catalog_ok fault cg \<Longrightarrow> catalog_ok fault cg'"
  by (cases "provider_compatible fault False ts (cg_diagnostics cg)")
    (auto simp: catalog_refresh_def rbind_Inr_iff catalog_ok_def[of fault cg] intro!: catalog_okI dest!: provider_compatible_Inr
      dest: catalog_replace_Inr intro: order_trans)

lemma same_tools_ok:
  "catalog_ok fault cg \<Longrightarrow> catalog_ok fault (cg\<lparr>cg_diagnostics := ds\<rparr>)"
  "catalog_ok fault cg \<Longrightarrow> catalog_ok fault (cg\<lparr>cg_provider := b\<rparr>)"
  "catalog_ok fault cg \<Longrightarrow> catalog_ok fault (cg\<lparr>cg_dynamic := ns\<rparr>)"
  by (simp_all add: catalog_ok_def)

lemma configure_dynamic_ok:
  assumes "catalog_ok fault cg"
  shows "catalog_ok fault (snd (configure_dynamic fault initial cg))"
proof (cases "provider_compatible fault True initial (cg_diagnostics cg)")
  case (Pair r ds)
  show ?thesis
  proof (cases r)
    case (Inl e)
    then show ?thesis using Pair assms by (simp add: configure_dynamic_def same_tools_ok)
  next
    case (Inr dynamic)
    let ?cg = "cg\<lparr>cg_diagnostics := ds, cg_provider := True, cg_dynamic := tool_name ` set dynamic\<rparr>"
    have same: "tools_in ?cg = tools_in cg" by (simp add: tools_in_def)
    show ?thesis
    proof (cases "catalog_replace (tools_in ?cg @ dynamic) ?cg")
      case (Inl e)
      then show ?thesis using Pair Inr assms by (simp add: configure_dynamic_def same_tools_ok)
    next
      case r: (Inr cg')
      have "catalog_ok fault cg'"
      proof (rule catalog_okI[OF catalog_replace_Inr(1-3)[OF r]])
        show "list_all (\<lambda>t. is_ok (strict_ok fault t)) (tools_in ?cg @ dynamic)"
          using catalog_ok_tools[OF assms] provider_compatible_Inr[OF Pair[unfolded Inr]] same by (simp add: list_all_iff ball_Un)
        show "cg_found cg' \<subseteq> fst ` set (cg_tools cg')"
          using found_named[OF assms] catalog_replace_Inr(3,4)[OF r] same by (auto simp: image_image image_Un)
      qed (use assms catalog_replace_Inr[OF r] in \<open>auto simp: catalog_ok_def\<close>)
      then show ?thesis using Pair Inr r by (simp add: configure_dynamic_def)
    qed
  qed
qed

lemma static_tools_in: "set (static_tools cg) \<subseteq> set (tools_in cg)"
  by (auto simp: static_tools_def tools_in_def)

text \<open>What a refresh does: nothing, a diagnostic, or the static tools with what the provider returned.\<close>

lemma refresh_dynamic_cases:
  obtains (same) ds where "snd (refresh_dynamic describe fault provided cg) = cg\<lparr>cg_diagnostics := ds\<rparr>"
  | (replaced) tools ts ds cg' where "provided = Inr tools" "provider_compatible fault True tools (cg_diagnostics cg) = (Inr ts, ds)"
      "catalog_replace (static_tools cg @ ts) (cg\<lparr>cg_diagnostics := ds\<rparr>) = Inr cg'"
      "snd (refresh_dynamic describe fault provided cg)
         = cg'\<lparr>cg_dynamic := tool_name ` set ts, cg_found := cg_found cg' \<inter> fst ` set (cg_tools cg')\<rparr>"
proof -
  let ?out = "snd (refresh_dynamic describe fault provided cg)"
  have same0: "\<exists>ds. cg = cg\<lparr>cg_diagnostics := ds\<rparr>" by (rule exI[of _ "cg_diagnostics cg"]) simp
  have static: "static_tools (cg\<lparr>cg_diagnostics := ds\<rparr>) = static_tools cg" for ds by (simp add: static_tools_def)
  consider "\<exists>ds. ?out = cg\<lparr>cg_diagnostics := ds\<rparr>"
    | tools ts ds cg' where "provided = Inr tools" "provider_compatible fault True tools (cg_diagnostics cg) = (Inr ts, ds)"
      "catalog_replace (static_tools cg @ ts) (cg\<lparr>cg_diagnostics := ds\<rparr>) = Inr cg'"
      "?out = cg'\<lparr>cg_dynamic := tool_name ` set ts, cg_found := cg_found cg' \<inter> fst ` set (cg_tools cg')\<rparr>"
    using same0 static
    by (fastforce simp: refresh_dynamic_def refresh_failed_def Let_def split: sum.splits prod.splits tool_error.splits if_splits)
  then show ?thesis using same replaced by cases blast+
qed

lemma refresh_dynamic_ok:
  assumes "catalog_ok fault cg"
  shows "catalog_ok fault (snd (refresh_dynamic describe fault provided cg))"
proof (cases rule: refresh_dynamic_cases[of describe fault provided cg])
  case (same ds)
  then show ?thesis using assms by (simp add: same_tools_ok)
next
  case (replaced tools ts ds cg')
  have "catalog_ok fault (cg'\<lparr>cg_found := cg_found cg' \<inter> fst ` set (cg_tools cg')\<rparr>)"
  proof (rule catalog_okI)
    show "list_all (\<lambda>t. is_ok (strict_ok fault t)) (static_tools cg @ ts)"
      using catalog_ok_tools[OF assms] provider_compatible_Inr[OF replaced(2)] static_tools_in[of cg] by (auto simp: list_all_iff)
  qed (use catalog_replace_Inr[OF replaced(3)] assms in \<open>auto simp: catalog_ok_def\<close>)
  then show ?thesis by (simp add: replaced(4) catalog_ok_def)
qed

lemma discover_ok: "catalog_ok fault cg \<Longrightarrow> catalog_ok fault (snd (discover names cg))"
  by (auto simp: discover_def catalog_ok_def catalog_names_def Let_def)

lemma catalog_search_ok: "catalog_ok fault cg \<Longrightarrow> catalog_ok fault (snd (catalog_search query limit plan_only cg))"
  by (simp add: catalog_search_def discover_ok Let_def)

lemma pop_diagnostics_ok: "catalog_ok fault cg \<Longrightarrow> catalog_ok fault (snd (pop_refresh_diagnostics cg))"
  by (simp add: pop_refresh_diagnostics_def same_tools_ok)

text \<open>The catalogs a process can hold.\<close>

inductive catalog_reachable :: "(json \<Rightarrow> string option) \<Rightarrow> 'w catalog \<Rightarrow> bool" for fault where
  created: "new_catalog fault tools budget = Inr cg \<Longrightarrow> catalog_reachable fault cg"
| refreshed: "catalog_reachable fault cg \<Longrightarrow> catalog_refresh fault tools cg = Inr cg' \<Longrightarrow> catalog_reachable fault cg'"
| configured: "catalog_reachable fault cg \<Longrightarrow> catalog_reachable fault (snd (configure_dynamic fault tools cg))"
| polled: "catalog_reachable fault cg \<Longrightarrow> catalog_reachable fault (snd (refresh_dynamic describe fault provided cg))"
| discovered: "catalog_reachable fault cg \<Longrightarrow> catalog_reachable fault (snd (discover names cg))"
| searched: "catalog_reachable fault cg \<Longrightarrow> catalog_reachable fault (snd (catalog_search query limit plan_only cg))"
| reported: "catalog_reachable fault cg \<Longrightarrow> catalog_reachable fault (snd (pop_refresh_diagnostics cg))"

text \<open>C19: whatever tools a catalog is built with, refreshed with or offered by its dynamic provider, and whatever is
  discovered or searched in between, the catalog keeps one entry per name in the order of the names, shows no model
  a tool whose schema a strict provider would refuse, and remembers no discovered name that it has no tool for.\<close>
theorem catalog_stays_consistent:
  "catalog_reachable fault cg \<Longrightarrow> catalog_ok fault cg"
proof (induction rule: catalog_reachable.induct)
  case (created tools budget cg)
  then show ?case by (rule new_catalog_ok)
next
  case (refreshed cg tools cg')
  then show ?case using catalog_refresh_ok by blast
qed (simp_all add: configure_dynamic_ok refresh_dynamic_ok discover_ok catalog_search_ok pop_diagnostics_ok)

section \<open>The static tools\<close>

lemma sorted_lists_equal:
  assumes "sorted_wrt (<) (map fst xs)" "sorted_wrt (<) (map fst ys)" "set xs = set ys"
  shows "xs = (ys :: (string \<times> 'a) list)"
proof (rule map_sorted_distinct_set_unique[where f = fst])
  show "inj_on fst (set xs \<union> set ys)" using assms by (auto simp: strict_sorted_iff distinct_map)
qed (use assms in \<open>auto simp: strict_sorted_iff distinct_map\<close>)

lemma sorted_filter_names: "sorted_wrt (<) (map fst nts) \<Longrightarrow> sorted_wrt (<) (map fst (filter P nts))"
  by (simp add: sorted_wrt_map sorted_wrt_filter)

lemma named_pairs: "named nts \<Longrightarrow> map (\<lambda>t. (tool_name t, t)) (map snd nts) = nts"
  by (induction nts) (auto simp: named_def)

lemma distinct_map_fst_pairs: "distinct (map fst (map (\<lambda>t. (tool_name t, t)) ts)) \<longleftrightarrow> distinct (map tool_name ts)"
  by (simp add: comp_def)

text \<open>C20: a refresh of the dynamic tools never fails but by a cancellation, and whatever the provider returns or
  raises the tools that were not dynamic are the same, in the same order, afterwards; a provider that raises leaves
  the tools, the generation and the discovered names as they were.\<close>
theorem refresh_keeps_static_tools:
  assumes "catalog_ok fault cg"
  shows "static_tools (snd (refresh_dynamic describe fault provided cg)) = static_tools cg
    \<and> fst (refresh_dynamic describe fault provided cg) \<in> {Inr (), Inl Cancelled}
    \<and> ((\<exists>tools. provided = Inr tools) \<or> (\<exists>ds. snd (refresh_dynamic describe fault provided cg) = cg\<lparr>cg_diagnostics := ds\<rparr>))"
proof (intro conjI)
  show "fst (refresh_dynamic describe fault provided cg) \<in> {Inr (), Inl Cancelled}"
    by (simp add: refresh_dynamic_def Let_def split: sum.splits prod.splits tool_error.splits)
  show "(\<exists>tools. provided = Inr tools) \<or> (\<exists>ds. snd (refresh_dynamic describe fault provided cg) = cg\<lparr>cg_diagnostics := ds\<rparr>)"
    by (cases rule: refresh_dynamic_cases[of describe fault provided cg]) (auto simp: is_ok_def)
  show "static_tools (snd (refresh_dynamic describe fault provided cg)) = static_tools cg"
  proof (cases rule: refresh_dynamic_cases[of describe fault provided cg])
    case (same ds)
    then show ?thesis by (simp add: static_tools_def)
  next
    case (replaced tools ts ds cg')
    let ?static = "filter (\<lambda>(n, t). n \<notin> cg_dynamic cg) (cg_tools cg)"
    obtain out where out: "by_name [] (static_tools cg @ ts) = Inr out"
      using replaced(3) by (auto simp: catalog_replace_def rbind_Inr_iff)
    have apart: "n \<notin> tool_name ` set ts" if "(n, t) \<in> set ?static" for n t
    proof
      assume "n \<in> tool_name ` set ts"
      moreover have "t \<in> set (static_tools cg)" using that by (force simp: static_tools_def)
      moreover have "n = tool_name t" using that catalog_ok_named[OF assms] by (auto simp: named_def list_all_iff)
      moreover have "distinct (map tool_name (static_tools cg @ ts))" 
        using by_name_Inr[OF out] distinct_map_fst_pairs by force
      ultimately show False by (auto simp: distinct_append)
    qed
    have pairs: "map (\<lambda>t. (tool_name t, t)) (static_tools cg) = ?static"
      using named_pairs[of ?static] catalog_ok_named[OF assms] by (auto simp: static_tools_def named_def list_all_iff)
    have "set (filter (\<lambda>(n, t). n \<notin> tool_name ` set ts) (cg_tools cg')) = set ?static"
    proof -
      have "set (cg_tools cg') = set ?static \<union> (\<lambda>t. (tool_name t, t)) ` set ts"
        using arg_cong[OF pairs, of set] by (simp add: catalog_replace_Inr(3)[OF replaced(3)] image_Un)
      then show ?thesis using apart by auto
    qed
    then have "filter (\<lambda>(n, t). n \<notin> tool_name ` set ts) (cg_tools cg') = ?static"
      using catalog_replace_Inr(1)[OF replaced(3)] assms
      by (intro sorted_lists_equal sorted_filter_names) (simp_all add: catalog_ok_def)
    then show ?thesis by (simp add: replaced(4) static_tools_def)
  qed
qed

section \<open>What the model is shown\<close>

lemma pick_ranked_picks:
  obtains picked where "pick_ranked cost limit budget ns selected used = selected @ picked" "set picked \<subseteq> set ns"
    "list_all (\<lambda>n. cost n \<noteq> None) picked" "distinct selected \<longrightarrow> distinct (selected @ picked)"
    "int (length (selected @ picked)) \<le> max limit (int (length selected))"
    "picked = [] \<or> used + sum_list (map (\<lambda>n. case cost n of None \<Rightarrow> 0 | Some tokens \<Rightarrow> tokens) picked) \<le> budget"
proof -
  have "\<exists>picked. pick_ranked cost limit budget ns selected used = selected @ picked \<and> set picked \<subseteq> set ns
    \<and> list_all (\<lambda>n. cost n \<noteq> None) picked \<and> (distinct selected \<longrightarrow> distinct (selected @ picked))
    \<and> int (length (selected @ picked)) \<le> max limit (int (length selected))
    \<and> (picked = [] \<or> used + sum_list (map (\<lambda>n. case cost n of None \<Rightarrow> 0 | Some tokens \<Rightarrow> tokens) picked) \<le> budget)"
  proof (induction ns arbitrary: selected used)
    case (Cons n ns)
    show ?case
    proof (cases "\<exists>tokens. \<not> limit \<le> int (length selected) \<and> cost n = Some tokens \<and> n \<notin> set selected \<and> used + tokens \<le> budget")
      case True
      then obtain tokens where t: "\<not> limit \<le> int (length selected)" "cost n = Some tokens" "n \<notin> set selected" "used + tokens \<le> budget"
        by blast
      from Cons[of "selected @ [n]" "used + tokens"] obtain picked where
        "pick_ranked cost limit budget ns (selected @ [n]) (used + tokens) = selected @ n # picked" "set picked \<subseteq> set ns"
        "list_all (\<lambda>n. cost n \<noteq> None) picked" "distinct (selected @ [n]) \<longrightarrow> distinct (selected @ n # picked)"
        "int (length (selected @ n # picked)) \<le> max limit (int (length (selected @ [n])))"
        "picked = [] \<or> used + tokens + sum_list (map (\<lambda>n. case cost n of None \<Rightarrow> 0 | Some tokens \<Rightarrow> tokens) picked) \<le> budget"
        by auto
      with t show ?thesis by (intro exI[of _ "n # picked"]) auto
    next
      case False
      with Cons[of selected used] show ?thesis
        by (cases "limit \<le> int (length selected)") (auto split: option.splits intro: exI[of _ "[]"])
    qed
  qed (auto intro: exI[of _ "[]"])
  with that show ?thesis by blast
qed

definition cost_of :: "bool \<Rightarrow> 'w catalog \<Rightarrow> string list \<Rightarrow> int" where
  "cost_of planning cg names = sum_list (map (\<lambda>n. case visible_cost planning cg n of None \<Rightarrow> 0 | Some tokens \<Rightarrow> tokens) names)"

definition base_names :: "bool \<Rightarrow> 'w catalog \<Rightarrow> string list" where
  "base_names planning cg = filter (\<lambda>n. n \<in> always_shown planning (cg_found cg)) (sort (remdups (map tool_name (advertised planning cg))))"

lemma visible_cost_name: "visible_cost planning cg n \<noteq> None \<Longrightarrow> n \<in> tool_name ` set (advertised planning cg)"
  by (auto simp: visible_cost_def find_Some_iff)

lemma selected_base: "selected_names query limit planning cg
    = pick_ranked (visible_cost planning cg) limit (cg_budget cg) (catalog_candidates query (max limit 1) False planning cg)
        (base_names planning cg) (cost_of planning cg (base_names planning cg))"
  by (simp add: selected_names_def base_names_def cost_of_def Let_def)

text \<open>C21: whatever the query, the tools chosen for a request are distinct and advertised in the current mode; the
  ones that are always shown and advertised come first; there are more than the limit, or more tokens than the
  budget, only when those alone are more.\<close>
theorem selection_is_bounded:
  "\<exists>picked. selected_names query limit planning cg = base_names planning cg @ picked
    \<and> distinct (selected_names query limit planning cg)
    \<and> set (selected_names query limit planning cg) \<subseteq> tool_name ` set (advertised planning cg)
    \<and> int (length (selected_names query limit planning cg)) \<le> max limit (int (length (base_names planning cg)))
    \<and> cost_of planning cg (selected_names query limit planning cg) \<le> max (cg_budget cg) (cost_of planning cg (base_names planning cg))"
proof -
  have base: "distinct (base_names planning cg)" "set (base_names planning cg) \<subseteq> tool_name ` set (advertised planning cg)"
    by (auto simp: base_names_def)
  obtain picked where p: "selected_names query limit planning cg = base_names planning cg @ picked"
    "list_all (\<lambda>n. visible_cost planning cg n \<noteq> None) picked"
    "distinct (base_names planning cg) \<longrightarrow> distinct (base_names planning cg @ picked)"
    "int (length (base_names planning cg @ picked)) \<le> max limit (int (length (base_names planning cg)))"
    "picked = [] \<or> cost_of planning cg (base_names planning cg) + cost_of planning cg picked \<le> cg_budget cg"
    unfolding selected_base
    by (rule pick_ranked_picks[of "visible_cost planning cg" limit "cg_budget cg" "catalog_candidates query (max limit 1) False planning cg"
      "base_names planning cg" "cost_of planning cg (base_names planning cg)", folded cost_of_def]) blast
  have "set picked \<subseteq> tool_name ` set (advertised planning cg)" using p(2) visible_cost_name by (force simp: list_all_iff)
  moreover have "cost_of planning cg (base_names planning cg @ picked) \<le> max (cg_budget cg) (cost_of planning cg (base_names planning cg))"
    using p(5) by (auto simp: cost_of_def)
  ultimately show ?thesis using p(1,3,4) base by (intro exI[of _ picked]) auto
qed

text \<open>C22: outside Plan Mode the catalog offers the model a tool that the planning boundary refuses exactly when it is
  the control tool \<open>ask_user\<close>: the catalog lists it, the boundary admits it only while a plan is active.\<close>
theorem advertised_tool_refused:
  assumes "\<not> plan_mode planning session_id s" "t \<in> set (normal_tools cg)"
  shows "fst (plan_pre_authorize planning session_id t args s) \<noteq> Inr None
    \<longleftrightarrow> tool_name t = ''ask_user'' \<and> tk_visibility (tl_contract t) = PV_CONTROL"
  using assms by (auto simp: plan_pre_authorize_def normal_tools_def control_allowed_def Let_def)

section \<open>Witnesses\<close>

definition ask_tool :: "unit tool" where
  "ask_tool = sample_tool ''ask_user'' PV_CONTROL (default_policy\<lparr>rp_context_mutation := True\<rparr>) (Inr (Outcome (success JNull)))"

definition sample_catalog :: "unit catalog" where
  "sample_catalog = \<lparr>cg_tools = [(''ask_user'', ask_tool), (''look'', sample_read)], cg_generation = 1, cg_found = {}, cg_provider = False,
     cg_dynamic = {}, cg_diagnostics = [], cg_budget = 8000\<rparr>"

lemma ask_tool_fields: "tool_name ask_tool = ''ask_user''" "tl_contract ask_tool = sample_contract ''ask_user'' PV_CONTROL"
  "tl_contract sample_read = sample_contract ''look'' PV_LOCAL_READ"
  by (simp_all add: ask_tool_def sample_read_def sample_tool_def tool_name_def sample_contract_def)

lemma sample_strict: "strict_ok (\<lambda>_. None) ask_tool = Inr ()" "strict_ok (\<lambda>_. None) sample_read = Inr ()"
proof -
  have "strict_ok (\<lambda>_. None) t = Inr ()" if "tl_contract t = sample_contract name v" for t :: "unit tool" and name v
  proof -
    have "reject_unsupported (JObj [(''type'', JStr ''object'')]) ''$'' = Inr ()" by code_simp
    with that show ?thesis by (simp add: strict_ok_def visible_tool_def sample_contract_def shown_schema_def strict_provider_schema_def
      check_schema_def dict_of_def Let_def)
  qed
  then show "strict_ok (\<lambda>_. None) ask_tool = Inr ()" "strict_ok (\<lambda>_. None) sample_read = Inr ()" using ask_tool_fields by blast+
qed

lemma sample_new_catalog: "new_catalog (\<lambda>_. None) [sample_read, ask_tool] 8000 = Inr sample_catalog"
  by (simp add: new_catalog_def sample_strict sample_catalog_def ask_tool_fields sample_fields)

theorem catalog_stays_consistent_witness:
  "catalog_ok (\<lambda>_. None) (snd (discover {''look''} sample_catalog)) \<and> cg_found (snd (discover {''look''} sample_catalog)) = {''look''}"
proof -
  have "catalog_reachable (\<lambda>_. None) (snd (discover {''look''} sample_catalog))"
    by (intro catalog_reachable.discovered catalog_reachable.created[OF sample_new_catalog])
  then have "catalog_ok (\<lambda>_. None) (snd (discover {''look''} sample_catalog))" by (rule catalog_stays_consistent)
  moreover have "catalog_names sample_catalog = {''ask_user'', ''look''}"
    by (simp add: catalog_names_def sample_catalog_def visible_tool_def ask_tool_fields sample_contract_def)
  ultimately show ?thesis by (simp add: discover_def Let_def sample_catalog_def)
qed

theorem refresh_keeps_static_tools_witness:
  "static_tools (snd (refresh_dynamic (\<lambda>_. (''E'', ''e'')) (\<lambda>_. None) (Inl (Other ''OSError'' ''down'' None)) (sample_catalog\<lparr>cg_provider := True\<rparr>)))
     = [ask_tool, sample_read]"
proof -
  have "catalog_ok (\<lambda>_. None) (sample_catalog\<lparr>cg_provider := True\<rparr>)"
    using new_catalog_ok[OF sample_new_catalog] by (rule same_tools_ok)
  from refresh_keeps_static_tools[OF this, of "\<lambda>_. (''E'', ''e'')" "Inl (Other ''OSError'' ''down'' None)"]
  show ?thesis by (simp add: static_tools_def sample_catalog_def)
qed

theorem advertised_tool_refused_witness:
  "tool_name ask_tool = ''ask_user'' \<and> fst (plan_pre_authorize True ''s1'' ask_tool [] (sample_surroundings sample_db)) \<noteq> Inr None"
proof -
  have "\<not> plan_mode True ''s1'' (sample_surroundings sample_db)"
  proof -
    have "\<not> planning_is_active ''s1'' sample_db" by code_simp
    then show ?thesis by (simp add: plan_mode_def sample_fields)
  qed
  moreover have "ask_tool \<in> set (normal_tools sample_catalog)"
    by (simp add: normal_tools_def shown_tools_def tools_in_def sample_catalog_def visible_tool_def ask_tool_fields sample_contract_def)
  ultimately show ?thesis using advertised_tool_refused[of True "''s1''" "sample_surroundings sample_db" ask_tool sample_catalog "[]"]
    by (simp add: ask_tool_fields sample_contract_def)
qed

end
