(* ===== verification/Spec2Isabelle.thy ===== *)
theory Spec2Isabelle
  imports Workflow_Service Permission_Safety Planning Tool_Pipeline Strict_Schema Transcript Tool_Catalog_Safety
begin

text \<open>
  A verification library for CapsLock's workspace workflow.
\<close>

end
